(* ===== verification/Prelude.thy ===== *)
theory Prelude
  imports Main "HOL-Library.Word" "HOL-Library.Char_ord" "HOL-Library.List_Lexorder"
    "HOL-Library.Sublist"
begin

text \<open>
  What every component of the development shares: the error values of the Go code, the
  state-and-error monad its handlers run in, and the parts of the Go standard library
  (\<open>strings\<close>, \<open>strconv\<close>, integer conversions) the handlers use.

  A Go string and a byte slice are both a list of bytes, here a list of \<^typ>\<open>char\<close>.
  \<open>strings.ToLower\<close> and \<open>strings.TrimSpace\<close> act on ASCII bytes only, as they do on ASCII
  input; the Unicode cases of the two functions are not modelled.
\<close>

type_synonym bytes = string
type_synonym u64 = "64 word"
type_synonym u32 = "32 word"

named_theorems act_simps \<open>evaluation rules of the handler monad\<close>
named_theorems act_splits \<open>how a successful handler run decomposes\<close>

section \<open>Errors\<close>

text \<open>
  \<open>Reg m c\<close> is an error the module \<open>m\<close> registers under code \<open>c\<close> (the \<open>types/errors.go\<close>
  files), \<open>SdkErr\<close> one of the errors of \<open>cosmos-sdk/types/errors\<close> by name, \<open>ErrMsg\<close> an
  \<open>errors.New\<close> or \<open>fmt.Errorf\<close> text, \<open>LibErr\<close> an error value a library call returned, and
  \<open>Wrap\<close> the result of \<open>errorsmod.Wrap\<close>, \<open>err.Wrapf\<close> or \<open>fmt.Errorf("...: %w", err)\<close>.
  \<open>Panic\<close> is a Go panic, which \<open>baseapp\<close> turns into a failed transaction.
\<close>

datatype go_error =
    Reg string nat
  | SdkErr string
  | ErrMsg string
  | LibErr string
  | Wrap string go_error
  | Panic

type_synonym 'a res = "go_error + 'a"

definition guardE :: "bool \<Rightarrow> go_error \<Rightarrow> unit res" where
  "guardE b e = (if b then Inr () else Inl e)"

definition ofOption :: "go_error \<Rightarrow> 'a option \<Rightarrow> 'a res" where
  "ofOption e x = (case x of None \<Rightarrow> Inl e | Some y \<Rightarrow> Inr y)"

definition rbind :: "'a res \<Rightarrow> ('a \<Rightarrow> 'b res) \<Rightarrow> 'b res" where
  "rbind m f = (case m of Inl e \<Rightarrow> Inl e | Inr x \<Rightarrow> f x)"

definition rwrap :: "string \<Rightarrow> 'a res \<Rightarrow> 'a res" where
  "rwrap msg m = (case m of Inl Panic \<Rightarrow> Inl Panic | Inl e \<Rightarrow> Inl (Wrap msg e) | Inr x \<Rightarrow> Inr x)"

lemma rbind_simps [simp]:
  "rbind (Inl e) f = Inl e"
  "rbind (Inr x) f = f x"
  by (simp_all add: rbind_def)

lemma rbind_Inr_iff [act_splits]: "rbind m f = Inr y \<longleftrightarrow> (\<exists>x. m = Inr x \<and> f x = Inr y)"
  by (cases m) simp_all

lemma guardE_Inr_iff [act_splits]: "guardE b e = Inr u \<longleftrightarrow> b"
  by (simp add: guardE_def)

lemma guardE_simps [simp]:
  "guardE True e = Inr ()"
  "guardE False e = Inl e"
  by (simp_all add: guardE_def)

lemma ofOption_Inr_iff [act_splits]: "ofOption e x = Inr y \<longleftrightarrow> x = Some y"
  by (cases x) (simp_all add: ofOption_def)

lemma ofOption_simps [simp]:
  "ofOption e (Some y) = Inr y"
  "ofOption e None = Inl e"
  by (simp_all add: ofOption_def)

lemma rwrap_Inr_iff [act_splits]: "rwrap msg m = Inr y \<longleftrightarrow> m = Inr y"
  by (cases m) (auto simp: rwrap_def split: go_error.splits)

lemma rwrap_Inr [simp]: "rwrap msg (Inr y) = Inr y"
  by (simp add: rwrap_def)

section \<open>Handlers: state and error\<close>

text \<open>
  A handler takes the state and returns its result together with the state it leaves. The
  state is returned on the error path too: what a failed handler wrote before it failed is
  undone only by the transaction that runs it.
\<close>

type_synonym ('s, 'a) act = "'s \<Rightarrow> 'a res \<times> 's"

definition return :: "'a \<Rightarrow> ('s, 'a) act" where
  "return x s = (Inr x, s)"

definition raise :: "go_error \<Rightarrow> ('s, 'a) act" where
  "raise e s = (Inl e, s)"

definition lift :: "'a res \<Rightarrow> ('s, 'a) act" where
  "lift r s = (r, s)"

definition gets :: "('s \<Rightarrow> 'a) \<Rightarrow> ('s, 'a) act" where
  "gets f s = (Inr (f s), s)"

definition modify :: "('s \<Rightarrow> 's) \<Rightarrow> ('s, unit) act" where
  "modify f s = (Inr (), f s)"

definition bnd :: "('s, 'a) act \<Rightarrow> ('a \<Rightarrow> ('s, 'b) act) \<Rightarrow> ('s, 'b) act" where
  "bnd m f s = (case m s of (Inl e, s') \<Rightarrow> (Inl e, s') | (Inr x, s') \<Rightarrow> f x s')"

definition andThen :: "('s, unit) act \<Rightarrow> ('s, 'b) act \<Rightarrow> ('s, 'b) act" where
  "andThen m n = bnd m (\<lambda>_. n)"

definition wrapA :: "string \<Rightarrow> ('s, 'a) act \<Rightarrow> ('s, 'a) act" where
  "wrapA msg m s = (case m s of (r, s') \<Rightarrow> (rwrap msg r, s'))"

definition whenA :: "bool \<Rightarrow> ('s, unit) act \<Rightarrow> ('s, unit) act" where
  "whenA b m = (if b then m else return ())"

text \<open>\<open>catchA\<close> is the code's \<open>if err != nil\<close> with a branch of its own; a panic is not caught.\<close>

definition catchA :: "('s, 'a) act \<Rightarrow> (go_error \<Rightarrow> ('s, 'b) act) \<Rightarrow> ('a \<Rightarrow> ('s, 'b) act) \<Rightarrow> ('s, 'b) act" where
  "catchA m h f s = (case m s of
     (Inl Panic, s') \<Rightarrow> (Inl Panic, s')
   | (Inl e, s') \<Rightarrow> h e s'
   | (Inr x, s') \<Rightarrow> f x s')"

text \<open>
  \<open>failWith e m\<close> reports its own error \<open>e\<close> when \<open>m\<close> fails; \<open>ignoreA m\<close> is \<open>_ = m\<close>, which drops
  the error of \<open>m\<close>.
\<close>

definition failWith :: "go_error \<Rightarrow> ('s, 'a) act \<Rightarrow> ('s, 'a) act" where
  "failWith e m = catchA m (\<lambda>_. raise e) return"

definition ignoreA :: "('s, 'a) act \<Rightarrow> ('s, unit) act" where
  "ignoreA m = catchA m (\<lambda>_. return ()) (\<lambda>_. return ())"

primrec forA :: "'a list \<Rightarrow> ('a \<Rightarrow> ('s, unit) act) \<Rightarrow> ('s, unit) act" where
  "forA [] f = return ()"
| "forA (x # xs) f = andThen (f x) (forA xs f)"

lemma act_eval [act_simps]:
  "return x s = (Inr x, s)"
  "raise e s = (Inl e, s)"
  "lift r s = (r, s)"
  "gets g s = (Inr (g s), s)"
  "modify h s = (Inr (), h s)"
  by (simp_all add: return_def raise_def lift_def gets_def modify_def)

lemma bnd_eval [act_simps]:
  "bnd (return x) f s = f x s"
  "bnd (raise e) f s = (Inl e, s)"
  "bnd (lift (Inr x)) f s = f x s"
  "bnd (lift (Inl e)) f s = (Inl e, s)"
  "bnd (gets g) f s = f (g s) s"
  "bnd (modify h) k s = k () (h s)"
  "andThen (modify h) m s = m (h s)"
  "andThen (return ()) m s = m s"
  "andThen (raise e) m s = (Inl e, s)"
  "whenA True n = n"
  "whenA False n = return ()"
  by (simp_all add: bnd_def andThen_def whenA_def act_eval)

lemma bnd_assoc [act_simps]: "bnd (bnd m f) g = bnd m (\<lambda>x. bnd (f x) g)"
  by (rule ext) (auto simp: bnd_def split: prod.splits sum.splits)

lemma bnd_Inr_iff [act_splits]:
  "bnd m f s = (Inr y, t) \<longleftrightarrow> (\<exists>x s'. m s = (Inr x, s') \<and> f x s' = (Inr y, t))"
  by (auto simp: bnd_def split: prod.splits sum.splits)

lemma andThen_Inr_iff [act_splits]:
  "andThen m n s = (Inr y, t) \<longleftrightarrow> (\<exists>s'. m s = (Inr (), s') \<and> n s' = (Inr y, t))"
  by (auto simp: andThen_def bnd_Inr_iff)

lemma wrapA_Inr_iff [act_splits]: "wrapA msg m s = (Inr y, t) \<longleftrightarrow> m s = (Inr y, t)"
  by (cases "m s") (simp add: wrapA_def rwrap_Inr_iff)

lemma whenA_Inr_iff [act_splits]:
  "whenA b m s = (Inr y, t) \<longleftrightarrow> (if b then m s = (Inr (), t) else t = s)"
  by (cases y) (auto simp: whenA_def return_def)

lemma catchA_Inr_iff:
  "catchA m h f s = (Inr y, t) \<longleftrightarrow>
     (\<exists>x s'. m s = (Inr x, s') \<and> f x s' = (Inr y, t)) \<or>
     (\<exists>e s'. m s = (Inl e, s') \<and> e \<noteq> Panic \<and> h e s' = (Inr y, t))"
  by (cases "m s"; cases "fst (m s)"; auto simp: catchA_def split: go_error.splits)

lemma failWith_Inr_iff [act_splits]: "failWith e m s = (Inr y, t) \<longleftrightarrow> m s = (Inr y, t)"
  by (auto simp: failWith_def catchA_Inr_iff return_def raise_def)

lemma act_Inr_iff [act_splits]:
  "return x s = (Inr y, t) \<longleftrightarrow> y = x \<and> t = s"
  "raise e s = (Inr y, t) \<longleftrightarrow> False"
  "lift r s = (Inr y, t) \<longleftrightarrow> r = Inr y \<and> t = s"
  "gets g s = (Inr y, t) \<longleftrightarrow> y = g s \<and> t = s"
  "modify h s = (Inr u, t) \<longleftrightarrow> t = h s"
  by (auto simp: act_eval)

lemma runs: "fst x = Inr y \<Longrightarrow> x = (Inr y, snd x)"
  by (cases x) simp

lemma succeeds: "\<not> isl (fst x) \<Longrightarrow> x = (Inr (projr (fst x)), snd x)"
  by (cases x; cases "fst x") simp_all

text \<open>A relation between the states before and after that every step respects.\<close>

definition keeps :: "('s \<Rightarrow> 'c) \<Rightarrow> ('s, 'a) act \<Rightarrow> bool" where
  "keeps f m \<longleftrightarrow> (\<forall>s. f (snd (m s)) = f s)"

named_theorems keeps_intros \<open>handlers that leave a part of the state alone\<close>

lemma keepsD: "keeps f m \<Longrightarrow> m s = (r, t) \<Longrightarrow> f t = f s"
  by (metis keeps_def snd_conv)

lemma keeps_basic [keeps_intros]:
  "keeps f (return x)"
  "keeps f (raise e)"
  "keeps f (lift r)"
  "keeps f (gets g)"
  by (simp_all add: keeps_def act_eval)

lemma keeps_bnd [keeps_intros]:
  assumes "keeps f m" and "\<And>x. keeps f (k x)"
  shows "keeps f (bnd m k)"
  using assms by (auto simp: keeps_def bnd_def split: prod.splits sum.splits) (metis snd_conv)+

lemma keeps_andThen [keeps_intros]: "keeps f m \<Longrightarrow> keeps f n \<Longrightarrow> keeps f (andThen m n)"
  unfolding andThen_def by (rule keeps_bnd)

lemma keeps_wrapA [keeps_intros]: "keeps f m \<Longrightarrow> keeps f (wrapA msg m)"
  by (auto simp: keeps_def wrapA_def split: prod.splits) (metis snd_conv)

lemma keeps_whenA [keeps_intros]: "(b \<Longrightarrow> keeps f m) \<Longrightarrow> keeps f (whenA b m)"
  by (simp add: whenA_def keeps_basic)

lemma keeps_if [keeps_intros]: "(b \<Longrightarrow> keeps f m) \<Longrightarrow> (\<not> b \<Longrightarrow> keeps f n) \<Longrightarrow> keeps f (if b then m else n)"
  by simp

lemma keeps_modify [keeps_intros]: "(\<And>s. f (h s) = f s) \<Longrightarrow> keeps f (modify h)"
  by (simp add: keeps_def act_eval)

lemma keeps_catchA [keeps_intros]:
  assumes "keeps f m" and "\<And>e. keeps f (h e)" and "\<And>x. keeps f (k x)"
  shows "keeps f (catchA m h k)"
  using assms
  by (auto simp: keeps_def catchA_def split: prod.splits sum.splits go_error.splits) (metis snd_conv)+

lemma keeps_failWith [keeps_intros]: "keeps f m \<Longrightarrow> keeps f (failWith e m)"
  unfolding failWith_def by (intro keeps_intros)

lemma keeps_ignoreA [keeps_intros]: "keeps f m \<Longrightarrow> keeps f (ignoreA m)"
  unfolding ignoreA_def by (intro keeps_intros)

lemma keeps_forA [keeps_intros]: "(\<And>x. keeps f (g x)) \<Longrightarrow> keeps f (forA xs g)"
  by (induction xs) (auto intro: keeps_intros)

text \<open>A condition on the state that a handler never breaks, whatever its result.\<close>

definition preserves :: "('s \<Rightarrow> bool) \<Rightarrow> ('s, 'a) act \<Rightarrow> bool" where
  "preserves Q m \<longleftrightarrow> (\<forall>s. Q s \<longrightarrow> Q (snd (m s)))"

named_theorems preserves_intros \<open>handlers that keep a condition on the state\<close>

lemma preservesD: "preserves Q m \<Longrightarrow> m s = (r, t) \<Longrightarrow> Q s \<Longrightarrow> Q t"
  by (metis preserves_def snd_conv)

lemma keeps_preserves: "keeps g m \<Longrightarrow> preserves (\<lambda>s. R (g s)) m"
  by (simp add: preserves_def keeps_def)

lemma preserves_basic [preserves_intros]:
  "preserves Q (return x)"
  "preserves Q (raise e)"
  "preserves Q (lift r)"
  "preserves Q (gets g)"
  by (simp_all add: preserves_def act_eval)

lemma preserves_modify [preserves_intros]: "(\<And>s. Q s \<Longrightarrow> Q (h s)) \<Longrightarrow> preserves Q (modify h)"
  by (simp add: preserves_def act_eval)

lemma preserves_bnd [preserves_intros]:
  assumes "preserves Q m" and "\<And>x. preserves Q (k x)"
  shows "preserves Q (bnd m k)"
  using assms by (auto simp: preserves_def bnd_def split: prod.splits sum.splits)

lemma preserves_andThen [preserves_intros]: "preserves Q m \<Longrightarrow> preserves Q n \<Longrightarrow> preserves Q (andThen m n)"
  unfolding andThen_def by (rule preserves_bnd)

lemma preserves_wrapA [preserves_intros]: "preserves Q m \<Longrightarrow> preserves Q (wrapA msg m)"
  by (auto simp: preserves_def wrapA_def split: prod.splits)

lemma preserves_whenA [preserves_intros]: "(b \<Longrightarrow> preserves Q m) \<Longrightarrow> preserves Q (whenA b m)"
  by (simp add: whenA_def preserves_basic)

lemma preserves_if [preserves_intros]:
  "(b \<Longrightarrow> preserves Q m) \<Longrightarrow> (\<not> b \<Longrightarrow> preserves Q n) \<Longrightarrow> preserves Q (if b then m else n)"
  by simp

lemma preserves_catchA [preserves_intros]:
  assumes "preserves Q m" and "\<And>e. preserves Q (h e)" and "\<And>x. preserves Q (k x)"
  shows "preserves Q (catchA m h k)"
  using assms
  by (auto simp: preserves_def catchA_def split: prod.splits sum.splits go_error.splits)

lemma preserves_failWith [preserves_intros]: "preserves Q m \<Longrightarrow> preserves Q (failWith e m)"
  unfolding failWith_def by (intro preserves_intros)

lemma preserves_ignoreA [preserves_intros]: "preserves Q m \<Longrightarrow> preserves Q (ignoreA m)"
  unfolding ignoreA_def by (intro preserves_intros)

lemma preserves_forA [preserves_intros]: "(\<And>x. preserves Q (g x)) \<Longrightarrow> preserves Q (forA xs g)"
  by (induction xs) (auto intro: preserves_intros)

section \<open>Strings of the Go standard library\<close>

definition HasPrefix :: "string \<Rightarrow> string \<Rightarrow> bool" where
  "HasPrefix s p \<longleftrightarrow> take (length p) s = p"

definition HasSuffix :: "string \<Rightarrow> string \<Rightarrow> bool" where
  "HasSuffix s p \<longleftrightarrow> length p \<le> length s \<and> drop (length s - length p) s = p"

fun Contains :: "string \<Rightarrow> string \<Rightarrow> bool" where
  "Contains [] sub \<longleftrightarrow> sub = []"
| "Contains (c # s) sub \<longleftrightarrow> HasPrefix (c # s) sub \<or> Contains s sub"

fun lowerChar :: "char \<Rightarrow> char" where
  "lowerChar (Char b0 b1 b2 b3 b4 b5 b6 b7) =
     (let n = of_char (Char b0 b1 b2 b3 b4 b5 b6 b7) :: nat
      in if 65 \<le> n \<and> n \<le> 90 then Char b0 b1 b2 b3 b4 True b6 b7
         else Char b0 b1 b2 b3 b4 b5 b6 b7)"

definition ToLower :: "string \<Rightarrow> string" where
  "ToLower s = map lowerChar s"

definition isSpace :: "char \<Rightarrow> bool" where
  "isSpace c \<longleftrightarrow> c \<in> {CHR 0x09, CHR 0x0A, CHR 0x0B, CHR 0x0C, CHR 0x0D, CHR '' ''}"

definition TrimSpace :: "string \<Rightarrow> string" where
  "TrimSpace s = rev (dropWhile isSpace (rev (dropWhile isSpace s)))"

fun SplitOn :: "char \<Rightarrow> string \<Rightarrow> string list" where
  "SplitOn c [] = [[]]"
| "SplitOn c (x # xs) =
     (if x = c then [] # SplitOn c xs
      else case SplitOn c xs of [] \<Rightarrow> [[x]] | p # ps \<Rightarrow> (x # p) # ps)"

text \<open>\<open>strings.SplitN(s, sep, 2)\<close>: at most two parts, the second one unsplit.\<close>

definition SplitN2 :: "char \<Rightarrow> string \<Rightarrow> string list" where
  "SplitN2 c s = (let p = takeWhile (\<lambda>x. x \<noteq> c) s
     in if length p < length s then [p, drop (Suc (length p)) s] else [p])"

lemma HasPrefix_iff: "HasPrefix s p \<longleftrightarrow> prefix p s"
  by (metis HasPrefix_def append_eq_conv_conj append_take_drop_id prefix_def)

lemma Contains_iff: "Contains s sub \<longleftrightarrow> (\<exists>p q. s = p @ sub @ q)"
proof (induction s)
  case Nil
  then show ?case by auto
next
  case (Cons c s)
  have "HasPrefix (c # s) sub \<longleftrightarrow> (\<exists>q. c # s = sub @ q)"
    by (auto simp: HasPrefix_iff prefix_def)
  moreover have "(\<exists>p q. c # s = p @ sub @ q) \<longleftrightarrow> (\<exists>q. c # s = sub @ q) \<or> (\<exists>p q. s = p @ sub @ q)"
    by (metis append_Cons append_Nil list.exhaust list.inject)
  ultimately show ?case using Cons.IH by simp
qed

lemma SplitOn_not_Nil [simp]: "SplitOn c s \<noteq> []"
  by (induction c s rule: SplitOn.induct) (auto split: list.splits)

lemma lowerChar_idem [simp]: "lowerChar (lowerChar c) = lowerChar c"
  by (cases c) (auto simp: Let_def of_char_def split: if_splits)

lemma ToLower_idem [simp]: "ToLower (ToLower s) = ToLower s"
  by (simp add: ToLower_def)

lemma ToLower_Nil [simp]: "ToLower s = [] \<longleftrightarrow> s = []"
  by (simp add: ToLower_def)

section \<open>Decimal text of a number\<close>

definition digitChar :: "nat \<Rightarrow> char" where
  "digitChar n = ''0123456789'' ! (n mod 10)"

fun fmtNat :: "nat \<Rightarrow> string" where
  "fmtNat n = (if n < 10 then [digitChar n] else fmtNat (n div 10) @ [digitChar n])"

declare fmtNat.simps [simp del]

text \<open>\<open>fmt.Sprintf("%03d", n)\<close>\<close>

definition fmtPad3 :: "nat \<Rightarrow> string" where
  "fmtPad3 n = replicate (3 - length (fmtNat n)) CHR ''0'' @ fmtNat n"

definition digitVal :: "char \<Rightarrow> nat" where
  "digitVal c = of_char c - 48"

definition isDigit :: "char \<Rightarrow> bool" where
  "isDigit c \<longleftrightarrow> c \<in> set ''0123456789''"

definition readNat :: "string \<Rightarrow> nat" where
  "readNat s = foldl (\<lambda>n c. 10 * n + digitVal c) 0 s"

lemma digitVal_digitChar: "digitVal (digitChar n) = n mod 10"
proof -
  have "digitVal (''0123456789'' ! m) = m" if "m < 10" for m
  proof -
    from that have "m \<in> {0, 1, 2, 3, 4, 5, 6, 7, 8, 9}" by auto
    then show ?thesis by (auto simp: digitVal_def)
  qed
  then show ?thesis by (simp add: digitChar_def)
qed

lemma isDigit_digitChar [simp]: "isDigit (digitChar n)"
proof -
  have "''0123456789'' ! (n mod 10) \<in> set ''0123456789''"
    by (rule nth_mem) simp
  then show ?thesis by (simp only: isDigit_def digitChar_def)
qed

lemma readNat_append: "readNat (s @ [c]) = 10 * readNat s + digitVal c"
  by (simp add: readNat_def)

lemma readNat_fmtNat [simp]: "readNat (fmtNat n) = n"
proof (induction n rule: fmtNat.induct)
  case (1 n)
  show ?case
  proof (cases "n < 10")
    case True
    then show ?thesis
      by (simp add: fmtNat.simps [of n] readNat_def digitVal_digitChar)
  next
    case False
    then have "readNat (fmtNat n) = 10 * (n div 10) + n mod 10"
      by (simp add: fmtNat.simps [of n] readNat_append digitVal_digitChar 1)
    then show ?thesis by simp
  qed
qed

lemma fmtNat_inject [simp]: "fmtNat m = fmtNat n \<longleftrightarrow> m = n"
  by (metis readNat_fmtNat)

lemma fmtNat_digits: "c \<in> set (fmtNat n) \<Longrightarrow> isDigit c"
proof (induction n rule: fmtNat.induct)
  case (1 n)
  then show ?case
    by (cases "n < 10") (auto simp: fmtNat.simps [of n])
qed

lemma readNat_zeros: "readNat (replicate k CHR ''0'' @ s) = readNat s"
proof (induction k)
  case 0
  then show ?case by simp
next
  case (Suc k)
  have "readNat (CHR ''0'' # t) = readNat t" for t
    by (simp add: readNat_def digitVal_def)
  with Suc show ?case by simp
qed

lemma fmtPad3_inject [simp]: "fmtPad3 m = fmtPad3 n \<longleftrightarrow> m = n"
  by (metis fmtPad3_def readNat_fmtNat readNat_zeros)

section \<open>Integer conversions\<close>

text \<open>\<open>int64(x)\<close> of an unsigned 64-bit value reinterprets its bits.\<close>

definition int64 :: "u64 \<Rightarrow> int" where
  "int64 w = sint w"

text \<open>The value an \<open>int64\<close> addition leaves: the sum wrapped to 64 bits.\<close>

definition addInt64 :: "int \<Rightarrow> int \<Rightarrow> int" where
  "addInt64 a b = signed_take_bit 63 (a + b)"

lemma int64_small:
  assumes "uint w < 2 ^ 63"
  shows "int64 w = uint w"
proof -
  have "- (2 ^ 63) \<le> uint w" by (rule order_trans [of _ 0]) simp_all
  with assms have "signed_take_bit 63 (uint w) = uint w"
    by (intro signed_take_bit_int_eq_self) simp_all
  then show ?thesis by (simp add: int64_def sint_uint)
qed

lemma int64_big:
  assumes "2 ^ 63 \<le> uint w"
  shows "int64 w = uint w - 2 ^ 64"
proof -
  have "uint w < 2 ^ 64" using uint_lt2p [of w] by simp
  then have "(uint w + 2 ^ 63 - 2 ^ 64) mod 2 ^ 64 = uint w + 2 ^ 63 - 2 ^ 64"
    using assms by (intro mod_pos_pos_trivial) simp_all
  moreover have "(uint w + 2 ^ 63 - 2 ^ 64) mod 2 ^ 64 = (uint w + 2 ^ 63) mod 2 ^ 64"
    by (rule minus_mod_self2)
  ultimately show ?thesis
    by (simp add: int64_def sint_uint signed_take_bit_eq_take_bit_shift take_bit_eq_mod)
qed

lemma unat64: "unat (w :: u64) < 2 ^ 64"
  using unsigned_less [of w] by simp

lemma addInt64_in_range:
  "- (2 ^ 63) \<le> a + b \<Longrightarrow> a + b < 2 ^ 63 \<Longrightarrow> addInt64 a b = a + b"
  by (simp add: addInt64_def signed_take_bit_int_eq_self)

section \<open>Events\<close>

text \<open>
  An event attribute keeps the value whose text the code puts in the attribute, under the
  constructor of the formatting it uses.
\<close>

record coin =
  Denom :: string
  Amount :: int

datatype attr =
    AStr string
  | ABool bool
  | ATime int
  | ADuration int
  | ADec "int option"
  | AInt int
  | ACoins "coin list"
  | ABytes bytes

record event =
  evType :: string
  evAttrs :: "(string \<times> attr) list"

definition mkEvent :: "string \<Rightarrow> (string \<times> attr) list \<Rightarrow> event" where
  "mkEvent t as = \<lparr>evType = t, evAttrs = as\<rparr>"

end
