(* ===== verification/Sdk.thy ===== *)
theory Sdk
  imports Prelude
begin

text \<open>
  The code of other repositories the program calls, as one record of parameters: the
  arithmetic and text form of \<open>cosmossdk.io/math\<close>, the coin constructors of
  \<open>cosmos-sdk/types\<close>, the bank, auth and IBC channel keepers, and the address codecs. Every
  definition of the model that calls one of them takes the record as its argument \<open>E\<close>; what
  the documentation of those packages promises is stated in the predicates \<open>dec_laws\<close>,
  \<open>coin_laws\<close> and \<open>bank_laws\<close>, which the properties that need it name as hypotheses.
  The state of those keepers is the type variable \<open>'b\<close>.

  A \<open>math.Int\<close> and a \<open>math.LegacyDec\<close> wrap a \<open>big.Int\<close>; both are an \<^typ>\<open>int\<close> here, a
  \<open>LegacyDec\<close> in units of \<open>10 ^ -18\<close>. Sums, differences, signs and comparisons of them are
  those of \<^typ>\<open>int\<close>; the operations that round, parse, print or can overflow are parameters.
  A \<open>LegacyDec\<close> that may be the zero value \<open>LegacyDec{}\<close> (a nil pointer) is an
  \<^typ>\<open>int option\<close>; calling a method on the zero value panics.
\<close>

type_synonym dec = int
type_synonym addr = bytes

section \<open>Decimal constants\<close>

definition decOne :: dec where
  "decOne = 10 ^ 18"

text \<open>\<open>LegacyNewDecWithPrec(i, prec)\<close>, and the value \<open>n / 10 ^ k\<close> of a decimal literal.\<close>

definition decWithPrec :: "int \<Rightarrow> nat \<Rightarrow> dec" where
  "decWithPrec i prec = i * 10 ^ (18 - prec)"

definition decFromInt :: "int \<Rightarrow> dec" where
  "decFromInt n = n * decOne"

definition decGet :: "dec option \<Rightarrow> dec res" where
  "decGet d = ofOption Panic d"

lemma decOne_pos [simp]: "0 < decOne"
  and decOne_nonzero [simp]: "decOne \<noteq> 0"
  by (simp_all add: decOne_def)

section \<open>Messages of other modules\<close>

text \<open>
  The transaction messages the program distinguishes by Go type; \<open>OtherMsg u\<close> is any other
  message, with the protobuf type it has. An entry of \<open>MsgExec\<close> is \<open>None\<close> when the packed
  value is not a message.
\<close>

datatype sdk_msg =
    MsgSend
  | MsgMultiSend
  | MsgStoreCode
  | MsgInstantiateContract
  | MsgExecuteContract bytes
  | MsgMigrateContract
  | MsgUpdateAdmin
  | MsgExec "sdk_msg option list"
  | OtherMsg string

section \<open>The parameters\<close>

record 'b sdk =
  dMul :: "dec \<Rightarrow> dec \<Rightarrow> dec option"
  dMulInt :: "dec \<Rightarrow> int \<Rightarrow> dec option"
  dQuo :: "dec \<Rightarrow> dec \<Rightarrow> dec option"
  dQuoInt :: "dec \<Rightarrow> int \<Rightarrow> dec option"
  dTruncateInt :: "dec \<Rightarrow> int option"
  dFromStr :: "string \<Rightarrow> dec option"
  dString :: "dec \<Rightarrow> string"
  decWire :: "dec option \<Rightarrow> dec option"
  intWire :: "int option \<Rightarrow> int option"
  floatText :: "string \<Rightarrow> string option"
  NewCoin :: "string \<Rightarrow> int \<Rightarrow> coin option"
  NewCoins :: "coin list \<Rightarrow> coin list option"
  AmountOf :: "coin list \<Rightarrow> string \<Rightarrow> int"
  CoinsIsZero :: "coin list \<Rightarrow> bool"
  ValidDenom :: "string \<Rightarrow> bool"
  MsgTypeURL :: "sdk_msg \<Rightarrow> string"
  StringToBytes :: "string \<Rightarrow> addr option"
  BytesToString :: "addr \<Rightarrow> string option"
  AccAddressFromBech32 :: "string \<Rightarrow> addr option"
  AccAddressString :: "addr \<Rightarrow> string"
  GetModuleAddress :: "string \<Rightarrow> addr"
  HasAccount :: "'b \<Rightarrow> addr \<Rightarrow> bool"
  AccountHasPubKey :: "'b \<Rightarrow> addr \<Rightarrow> bool"
  SpendableCoins :: "'b \<Rightarrow> addr \<Rightarrow> coin list"
  GetAllBalances :: "'b \<Rightarrow> addr \<Rightarrow> coin list"
  GetBalance :: "'b \<Rightarrow> addr \<Rightarrow> string \<Rightarrow> int"
  GetSupply :: "'b \<Rightarrow> string \<Rightarrow> int"
  SendCoins :: "'b \<Rightarrow> addr \<Rightarrow> addr \<Rightarrow> coin list \<Rightarrow> go_error option \<times> 'b"
  SendCoinsFromAccountToModule :: "'b \<Rightarrow> addr \<Rightarrow> string \<Rightarrow> coin list \<Rightarrow> go_error option \<times> 'b"
  SendCoinsFromModuleToModule :: "'b \<Rightarrow> string \<Rightarrow> string \<Rightarrow> coin list \<Rightarrow> go_error option \<times> 'b"
  SendCoinsFromModuleToAccount :: "'b \<Rightarrow> string \<Rightarrow> addr \<Rightarrow> coin list \<Rightarrow> go_error option \<times> 'b"
  MintCoins :: "'b \<Rightarrow> string \<Rightarrow> coin list \<Rightarrow> go_error option \<times> 'b"
  BurnCoins :: "'b \<Rightarrow> string \<Rightarrow> coin list \<Rightarrow> go_error option \<times> 'b"
  ConsumeGas :: "'b \<Rightarrow> u64 \<Rightarrow> string \<Rightarrow> go_error option \<times> 'b"
  ibcKeeperFn :: bool
  GetChannel :: "'b \<Rightarrow> string \<Rightarrow> string \<Rightarrow> string list option"
  GetNextSequenceSend :: "'b \<Rightarrow> string \<Rightarrow> string \<Rightarrow> u64 option"
  SendPacket :: "'b \<Rightarrow> string \<Rightarrow> string \<Rightarrow> u64 \<Rightarrow> bytes \<Rightarrow> (go_error + u64) \<times> 'b"

text \<open>
  \<open>Int.Uint64()\<close> panics outside the range of the type.
\<close>

definition intUint64 :: "int \<Rightarrow> u64 res" where
  "intUint64 n = (if 0 \<le> n \<and> n < 2 ^ 64 then Inr (of_int n) else Inl Panic)"

section \<open>What the packages document\<close>

definition truncDiv :: "int \<Rightarrow> int \<Rightarrow> int" where
  "truncDiv a b = sgn a * sgn b * (\<bar>a\<bar> div \<bar>b\<bar>)"

text \<open>
  \<open>LegacyDec\<close>: \<open>Mul\<close> rounds to the nearest multiple of \<open>10 ^ -18\<close>, \<open>Quo\<close> to a
  neighbouring one, \<open>MulInt\<close> is exact, \<open>QuoInt64\<close> and \<open>TruncateInt\<close> truncate toward zero, each where it does not overflow;
  results below \<open>2 ^ 256\<close> do not overflow. \<open>String\<close> prints what \<open>LegacyNewDecFromStr\<close> reads.
\<close>

definition dec_rounding :: "'b sdk \<Rightarrow> bool" where
  "dec_rounding E \<longleftrightarrow>
     (\<forall>a b r. dMul E a b = Some r \<longrightarrow> 2 * \<bar>r * decOne - a * b\<bar> \<le> decOne) \<and>
     (\<forall>a n r. dMulInt E a n = Some r \<longrightarrow> r = a * n) \<and>
     (\<forall>a b r. dQuo E a b = Some r \<longrightarrow> b \<noteq> 0 \<and> \<bar>r * b - a * decOne\<bar> < \<bar>b\<bar>) \<and>
     (\<forall>a n r. dQuoInt E a n = Some r \<longrightarrow> n \<noteq> 0 \<and> r = truncDiv a n) \<and>
     (\<forall>a r. dTruncateInt E a = Some r \<longrightarrow> r = truncDiv a decOne)"

definition dec_total :: "'b sdk \<Rightarrow> bool" where
  "dec_total E \<longleftrightarrow>
     (\<forall>a b. \<bar>a * b\<bar> < 2 ^ 256 \<longrightarrow> dMul E a b \<noteq> None) \<and>
     (\<forall>a n. \<bar>a * n\<bar> < 2 ^ 256 \<longrightarrow> dMulInt E a n \<noteq> None) \<and>
     (\<forall>a b. b \<noteq> 0 \<longrightarrow> \<bar>a * decOne\<bar> < 2 ^ 256 \<longrightarrow> dQuo E a b \<noteq> None) \<and>
     (\<forall>a n. n \<noteq> 0 \<longrightarrow> \<bar>a\<bar> < 2 ^ 256 \<longrightarrow> dQuoInt E a n \<noteq> None) \<and>
     (\<forall>a. \<bar>a\<bar> < 2 ^ 256 \<longrightarrow> dTruncateInt E a \<noteq> None)"

definition dec_text :: "'b sdk \<Rightarrow> bool" where
  "dec_text E \<longleftrightarrow> (\<forall>a. \<bar>a\<bar> < 2 ^ 256 \<longrightarrow> dFromStr E (dString E a) = Some a)"

definition dec_laws :: "'b sdk \<Rightarrow> bool" where
  "dec_laws E \<longleftrightarrow> dec_rounding E \<and> dec_total E \<and> dec_text E"

text \<open>
  \<open>NewCoin\<close> panics on a negative amount or an invalid denomination; \<open>NewCoins\<close> drops zero
  coins and panics on negative ones; \<open>AmountOf\<close> reads an amount back.
\<close>

definition coin_laws :: "'b sdk \<Rightarrow> bool" where
  "coin_laws E \<longleftrightarrow>
     (\<forall>d n. NewCoin E d n = (if ValidDenom E d \<and> 0 \<le> n then Some \<lparr>Denom = d, Amount = n\<rparr> else None)) \<and>
     (\<forall>c. ValidDenom E (Denom c) \<longrightarrow> 0 \<le> Amount c \<longrightarrow>
        NewCoins E [c] = Some (if Amount c = 0 then [] else [c])) \<and>
     (\<forall>c cs. NewCoins E [c] = Some cs \<longrightarrow> 0 \<le> Amount c \<and> cs = (if Amount c = 0 then [] else [c])) \<and>
     NewCoins E [] = Some [] \<and>
     (\<forall>d. AmountOf E [] d = 0) \<and>
     (\<forall>c d. AmountOf E [c] d = (if d = Denom c then Amount c else 0)) \<and>
     (\<forall>cs. CoinsIsZero E cs \<longleftrightarrow> (\<forall>c \<in> set cs. Amount c = 0))"

text \<open>
  The bank moves what it is told to move and nothing else, mints to and burns from a module
  account, and keeps the supply in step.
\<close>

definition moves :: "'b sdk \<Rightarrow> 'b \<Rightarrow> addr \<Rightarrow> addr \<Rightarrow> coin list \<Rightarrow> 'b \<Rightarrow> bool" where
  "moves E b f t cs b' \<longleftrightarrow>
     (\<forall>a d. GetBalance E b' a d = GetBalance E b a d
        - (if a = f then AmountOf E cs d else 0) + (if a = t then AmountOf E cs d else 0)) \<and>
     (\<forall>d. GetSupply E b' d = GetSupply E b d)"

definition bank_laws :: "'b sdk \<Rightarrow> bool" where
  "bank_laws E \<longleftrightarrow>
     (\<forall>b f t cs b'. SendCoins E b f t cs = (None, b') \<longrightarrow> moves E b f t cs b') \<and>
     (\<forall>b f m cs b'. SendCoinsFromAccountToModule E b f m cs = (None, b') \<longrightarrow>
        moves E b f (GetModuleAddress E m) cs b') \<and>
     (\<forall>b m m' cs b'. SendCoinsFromModuleToModule E b m m' cs = (None, b') \<longrightarrow>
        moves E b (GetModuleAddress E m) (GetModuleAddress E m') cs b') \<and>
     (\<forall>b m t cs b'. SendCoinsFromModuleToAccount E b m t cs = (None, b') \<longrightarrow>
        moves E b (GetModuleAddress E m) t cs b') \<and>
     (\<forall>b m cs b'. MintCoins E b m cs = (None, b') \<longrightarrow>
        (\<forall>a d. GetBalance E b' a d = GetBalance E b a d +
           (if a = GetModuleAddress E m then AmountOf E cs d else 0)) \<and>
        (\<forall>d. GetSupply E b' d = GetSupply E b d + AmountOf E cs d)) \<and>
     (\<forall>b m cs b'. BurnCoins E b m cs = (None, b') \<longrightarrow>
        (\<forall>a d. GetBalance E b' a d = GetBalance E b a d -
           (if a = GetModuleAddress E m then AmountOf E cs d else 0)) \<and>
        (\<forall>d. GetSupply E b' d = GetSupply E b d - AmountOf E cs d)) \<and>
     (\<forall>b g w b'. ConsumeGas E b g w = (None, b') \<longrightarrow>
        (\<forall>a d. GetBalance E b' a d = GetBalance E b a d) \<and> (\<forall>d. GetSupply E b' d = GetSupply E b d))"

text \<open>\<open>SendPacket\<close> returns the sequence \<open>GetNextSequenceSend\<close> announced and leaves balances alone.\<close>

definition channel_laws :: "'b sdk \<Rightarrow> bool" where
  "channel_laws E \<longleftrightarrow>
     (\<forall>b p c t d n b'. SendPacket E b p c t d = (Inr n, b') \<longrightarrow> GetNextSequenceSend E b p c = Some n)"

definition wire_laws :: "'b sdk \<Rightarrow> bool" where
  "wire_laws E \<longleftrightarrow> (\<forall>x. decWire E (Some x) = Some x) \<and> (\<forall>x. intWire E (Some x) = Some x)"

section \<open>Consequences\<close>

lemma truncDiv_nonneg: "0 \<le> a \<Longrightarrow> 0 < b \<Longrightarrow> truncDiv a b = a div b"
  by (cases "a = 0") (auto simp: truncDiv_def)

lemma dec_ops:
  assumes "dec_rounding E"
  shows dMulInt_eq: "dMulInt E a n = Some r \<Longrightarrow> r = a * n"
    and dTruncateInt_eq: "dTruncateInt E a = Some r \<Longrightarrow> r = truncDiv a decOne"
    and dQuoInt_eq: "dQuoInt E a n = Some r \<Longrightarrow> n \<noteq> 0 \<and> r = truncDiv a n"
    and dMul_near: "dMul E a b = Some r \<Longrightarrow> 2 * \<bar>r * decOne - a * b\<bar> \<le> decOne"
    and dQuo_near: "dQuo E a b = Some r \<Longrightarrow> b \<noteq> 0 \<and> \<bar>r * b - a * decOne\<bar> < \<bar>b\<bar>"
  using assms unfolding dec_rounding_def by blast+

lemma dec_defined:
  assumes "dec_laws E"
  shows dMulInt_ok: "\<bar>a * n\<bar> < 2 ^ 256 \<Longrightarrow> dMulInt E a n = Some (a * n)"
    and dTruncateInt_ok: "\<bar>a\<bar> < 2 ^ 256 \<Longrightarrow> dTruncateInt E a = Some (truncDiv a decOne)"
    and dQuoInt_ok: "n \<noteq> 0 \<Longrightarrow> \<bar>a\<bar> < 2 ^ 256 \<Longrightarrow> dQuoInt E a n = Some (truncDiv a n)"
proof -
  have R: "dec_rounding E" and T: "dec_total E" using assms by (auto simp: dec_laws_def)
  show "dMulInt E a n = Some (a * n)" if "\<bar>a * n\<bar> < 2 ^ 256"
    using T that dMulInt_eq [OF R] unfolding dec_total_def by (metis not_None_eq)
  show "dTruncateInt E a = Some (truncDiv a decOne)" if "\<bar>a\<bar> < 2 ^ 256"
    using T that dTruncateInt_eq [OF R] unfolding dec_total_def by (metis not_None_eq)
  show "dQuoInt E a n = Some (truncDiv a n)" if "n \<noteq> 0" "\<bar>a\<bar> < 2 ^ 256"
    using T that dQuoInt_eq [OF R] unfolding dec_total_def by (metis not_None_eq)
qed

lemma nearest_nonneg:
  fixes r D x :: int
  assumes "0 < D" "2 * \<bar>r * D - x\<bar> \<le> D" "0 \<le> x"
  shows "0 \<le> r"
proof (rule ccontr)
  assume "\<not> 0 \<le> r"
  then have "r * D \<le> (- 1) * D" using assms(1) by (intro mult_right_mono) simp_all
  then obtain t where t: "t = r * D" "t \<le> - D" by simp
  then have "\<bar>t - x\<bar> = x - t" using assms(1,3) by simp
  with assms t show False by simp
qed

lemma dMul_nonneg:
  assumes "dec_rounding E" "dMul E a b = Some r" "0 \<le> a" "0 \<le> b"
  shows "0 \<le> r"
  by (rule nearest_nonneg [OF decOne_pos dMul_near [OF assms(1,2)]]) (simp add: assms)

lemma dQuo_nonneg:
  assumes "dec_rounding E" "dQuo E a b = Some r" "0 \<le> a" "0 \<le> b"
  shows "0 \<le> r"
proof (rule ccontr)
  assume "\<not> 0 \<le> r"
  from dQuo_near [OF assms(1,2)] assms(4) have b: "0 < b" "\<bar>r * b - a * decOne\<bar> < b" by simp_all
  with \<open>\<not> 0 \<le> r\<close> have "r * b \<le> (- 1) * b" by (intro mult_right_mono) simp_all
  then obtain t where t: "t = r * b" "t \<le> - b" by simp
  moreover have "0 \<le> a * decOne" by (simp add: assms less_imp_le)
  ultimately have "\<bar>t - a * decOne\<bar> = a * decOne - t" using b(1) by simp
  with b t \<open>0 \<le> a * decOne\<close> show False by simp
qed

lemma coin_ops:
  assumes "coin_laws E"
  shows NewCoin_eq: "NewCoin E d n = (if ValidDenom E d \<and> 0 \<le> n then Some \<lparr>Denom = d, Amount = n\<rparr> else None)"
    and NewCoins_one: "ValidDenom E (Denom c) \<Longrightarrow> 0 \<le> Amount c \<Longrightarrow>
      NewCoins E [c] = Some (if Amount c = 0 then [] else [c])"
    and NewCoins_eq: "NewCoins E [c] = Some cs \<Longrightarrow> 0 \<le> Amount c \<and> cs = (if Amount c = 0 then [] else [c])"
    and NewCoins_Nil: "NewCoins E [] = Some []"
    and AmountOf_Nil: "AmountOf E [] d = 0"
    and AmountOf_one: "AmountOf E [c] d = (if d = Denom c then Amount c else 0)"
    and CoinsIsZero_eq: "CoinsIsZero E cs \<longleftrightarrow> (\<forall>c \<in> set cs. Amount c = 0)"
  using assms unfolding coin_laws_def by blast+

lemma NewCoins_amount:
  assumes "coin_laws E" "NewCoins E [c] = Some cs"
  shows "AmountOf E cs d = (if d = Denom c then Amount c else 0)"
  using NewCoins_eq [OF assms] AmountOf_Nil [OF assms(1)] AmountOf_one [OF assms(1)] by auto

lemma bank_ops:
  assumes "bank_laws E"
  shows SendCoins_moves: "SendCoins E b f t cs = (None, b') \<Longrightarrow> moves E b f t cs b'"
    and SendToModule_moves: "SendCoinsFromAccountToModule E b f m cs = (None, b') \<Longrightarrow>
      moves E b f (GetModuleAddress E m) cs b'"
    and SendModToMod_moves: "SendCoinsFromModuleToModule E b m m' cs = (None, b') \<Longrightarrow>
      moves E b (GetModuleAddress E m) (GetModuleAddress E m') cs b'"
    and SendFromModule_moves: "SendCoinsFromModuleToAccount E b m t cs = (None, b') \<Longrightarrow>
      moves E b (GetModuleAddress E m) t cs b'"
  using assms by (simp_all add: bank_laws_def)

lemma supply_ops:
  assumes "bank_laws E"
  shows MintCoins_balance: "MintCoins E b m cs = (None, b') \<Longrightarrow>
      GetBalance E b' a d = GetBalance E b a d + (if a = GetModuleAddress E m then AmountOf E cs d else 0)"
    and MintCoins_supply: "MintCoins E b m cs = (None, b') \<Longrightarrow> GetSupply E b' d = GetSupply E b d + AmountOf E cs d"
    and BurnCoins_balance: "BurnCoins E b m cs = (None, b') \<Longrightarrow>
      GetBalance E b' a d = GetBalance E b a d - (if a = GetModuleAddress E m then AmountOf E cs d else 0)"
    and BurnCoins_supply: "BurnCoins E b m cs = (None, b') \<Longrightarrow> GetSupply E b' d = GetSupply E b d - AmountOf E cs d"
    and ConsumeGas_balance: "ConsumeGas E b g w = (None, b') \<Longrightarrow> GetBalance E b' a d = GetBalance E b a d"
    and ConsumeGas_supply: "ConsumeGas E b g w = (None, b') \<Longrightarrow> GetSupply E b' d = GetSupply E b d"
  using assms by (simp_all add: bank_laws_def)

end
