(* ===== verification/FeesTypes.thy ===== *)
theory FeesTypes
  imports Sdk
begin

text \<open>
  The parameters of the fees module (\<open>x/fees/types\<close>): the fee table, the splits, the guard
  rails, their defaults and their validation. A \<open>LegacyDec\<close> field that was never set is
  \<^term>\<open>None\<close>; a nil slice and an empty one are both \<^term>\<open>[]\<close>.
\<close>

section \<open>Data\<close>

record FeeSplit =
  Treasury :: "dec option"
  RetailWalletShare :: "dec option"
  TokenDev :: "dec option"
  TokenCreator :: "dec option"

record FeeConfig =
  UsdAmount :: "dec option"
  Split :: FeeSplit

record FeeTableUSD =
  PosPayment :: FeeConfig
  TokenInteraction :: FeeConfig
  NativeTransfer :: FeeConfig
  DexNative :: FeeConfig
  DexUser :: FeeConfig
  Deploy :: FeeConfig
  Wizard :: FeeConfig

record OracleParams =
  BandRequestId :: u64
  TwapWindow :: int
  DeviationLimit :: "dec option"
  FallbackTtl :: int
  MaxPriceAge :: int

record GuardRails =
  MinGasPriceCsv :: "dec option"
  MaxGasPriceCsv :: "dec option"
  MaxGasWizard :: u64
  MaxGasDeploy :: u64

record MinGasPolicy =
  Enabled :: bool
  GlobalMinGasPrice :: "dec option"
  AllowPerTxOverride :: bool

record FeesParams =
  FeeTableUsd :: FeeTableUSD
  OracleParams :: OracleParams
  GuardRails :: GuardRails
  MinGasPolicy :: MinGasPolicy
  TreasuryWallet :: string
  RetailWallet :: string
  TokenDevWallet :: string
  TokenCreatorWallet :: string
  FeeMode :: string
  SystemMsgTypeUrls :: "string list"
  ExemptMsgTypeUrls :: "string list"
  ExemptAddresses :: "string list"

record PriceData =
  Price :: dec
  TwapPrice :: dec
  Timestamp :: int
  Window :: int
  Freshness :: int
  IsStale :: bool
  IsFallback :: bool

section \<open>Defaults\<close>

definition Minute :: int where
  "Minute = 60 * 10 ^ 9"

definition split_of :: "dec \<Rightarrow> dec \<Rightarrow> dec \<Rightarrow> dec \<Rightarrow> FeeSplit" where
  "split_of t r d c =
     \<lparr>Treasury = Some t, RetailWalletShare = Some r, TokenDev = Some d, TokenCreator = Some c\<rparr>"

definition config_of :: "dec \<Rightarrow> FeeSplit \<Rightarrow> FeeConfig" where
  "config_of u s = \<lparr>UsdAmount = Some u, Split = s\<rparr>"

definition DefaultFeeTable :: FeeTableUSD where
  "DefaultFeeTable = \<lparr>
     PosPayment = config_of (decWithPrec 15 2) (split_of (decWithPrec 5 1) (decWithPrec 5 1) 0 0),
     TokenInteraction = config_of (decFromInt 3) (split_of (decWithPrec 5 1) 0 (decWithPrec 5 1) 0),
     NativeTransfer = config_of (decFromInt 1) (split_of decOne 0 0 0),
     DexNative = config_of (decFromInt 1) (split_of decOne 0 0 0),
     DexUser = config_of (decFromInt 3) (split_of (decWithPrec 5 1) 0 0 (decWithPrec 5 1)),
     Deploy = config_of 0 (split_of 0 0 0 0),
     Wizard = config_of 0 (split_of 0 0 0 0)\<rparr>"

definition DefaultSystemMsgTypeUrls :: "string list" where
  "DefaultSystemMsgTypeUrls =
    [''/ibc.core.client.v1.MsgCreateClient'',
     ''/ibc.core.client.v1.MsgUpdateClient'',
     ''/ibc.core.connection.v1.MsgConnectionOpenInit'',
     ''/ibc.core.connection.v1.MsgConnectionOpenTry'',
     ''/ibc.core.connection.v1.MsgConnectionOpenAck'',
     ''/ibc.core.connection.v1.MsgConnectionOpenConfirm'',
     ''/ibc.core.channel.v1.MsgChannelOpenInit'',
     ''/ibc.core.channel.v1.MsgChannelOpenTry'',
     ''/ibc.core.channel.v1.MsgChannelOpenAck'',
     ''/ibc.core.channel.v1.MsgChannelOpenConfirm'',
     ''/ibc.core.channel.v1.MsgRecvPacket'',
     ''/ibc.core.channel.v1.MsgAcknowledgement'',
     ''/ibc.core.channel.v1.MsgTimeout'',
     ''/ibc.core.channel.v1.MsgTimeoutOnClose'',
     ''/ibc.applications.fee.v1.MsgPayPacketFee'',
     ''/ibc.applications.fee.v1.MsgPayPacketFeeAsync'',
     ''/ibc.applications.fee.v1.MsgRegisterPayee'',
     ''/ibc.applications.fee.v1.MsgRegisterCounterpartyPayee'',
     ''/ibc.applications.interchain_accounts.controller.v1.MsgRegisterInterchainAccount'',
     ''/ibc.applications.interchain_accounts.controller.v1.MsgSendTx'']"

definition DefaultParams :: FeesParams where
  "DefaultParams = \<lparr>
     FeeTableUsd = DefaultFeeTable,
     OracleParams = \<lparr>BandRequestId = 1, TwapWindow = 5 * Minute, DeviationLimit = Some (decWithPrec 5 2),
       FallbackTtl = 30 * Minute, MaxPriceAge = 10 * Minute\<rparr>,
     GuardRails = \<lparr>MinGasPriceCsv = Some (decWithPrec 1 6), MaxGasPriceCsv = Some (decFromInt 1),
       MaxGasWizard = 100000, MaxGasDeploy = 500000\<rparr>,
     MinGasPolicy = \<lparr>Enabled = True, GlobalMinGasPrice = Some (decWithPrec 1 6), AllowPerTxOverride = True\<rparr>,
     TreasuryWallet = ''csv1team00000000000000000000000000000000000'',
     RetailWallet = ''csv1retail000000000000000000000000000000000'',
     TokenDevWallet = ''csv1dev000000000000000000000000000000000000'',
     TokenCreatorWallet = ''csv1creator00000000000000000000000000000000'',
     FeeMode = ''hybrid'',
     SystemMsgTypeUrls = DefaultSystemMsgTypeUrls,
     ExemptMsgTypeUrls = [],
     ExemptAddresses = []\<rparr>"

text \<open>\<open>NewParams\<close>: the Go zero value.\<close>

definition zeroSplit :: FeeSplit where
  "zeroSplit = \<lparr>Treasury = None, RetailWalletShare = None, TokenDev = None, TokenCreator = None\<rparr>"

definition zeroConfig :: FeeConfig where
  "zeroConfig = \<lparr>UsdAmount = None, Split = zeroSplit\<rparr>"

definition NewParams :: FeesParams where
  "NewParams = \<lparr>
     FeeTableUsd = \<lparr>PosPayment = zeroConfig, TokenInteraction = zeroConfig, NativeTransfer = zeroConfig,
       DexNative = zeroConfig, DexUser = zeroConfig, Deploy = zeroConfig, Wizard = zeroConfig\<rparr>,
     OracleParams = \<lparr>BandRequestId = 0, TwapWindow = 0, DeviationLimit = None, FallbackTtl = 0, MaxPriceAge = 0\<rparr>,
     GuardRails = \<lparr>MinGasPriceCsv = None, MaxGasPriceCsv = None, MaxGasWizard = 0, MaxGasDeploy = 0\<rparr>,
     MinGasPolicy = \<lparr>Enabled = False, GlobalMinGasPrice = None, AllowPerTxOverride = False\<rparr>,
     TreasuryWallet = [], RetailWallet = [], TokenDevWallet = [], TokenCreatorWallet = [],
     FeeMode = [], SystemMsgTypeUrls = [], ExemptMsgTypeUrls = [], ExemptAddresses = []\<rparr>"

definition IsHybridEnabled :: "FeesParams \<Rightarrow> bool" where
  "IsHybridEnabled p \<longleftrightarrow> FeeMode p = ''hybrid''"

definition IsGasOnly :: "FeesParams \<Rightarrow> bool" where
  "IsGasOnly p \<longleftrightarrow> FeeMode p = ''gas_only''"

section \<open>Validation\<close>

definition orZero :: "dec option \<Rightarrow> dec" where
  "orZero d = (case d of None \<Rightarrow> 0 | Some x \<Rightarrow> x)"

definition validateFeeConfig :: "FeeConfig \<Rightarrow> unit res" where
  "validateFeeConfig config = (case UsdAmount config of
     None \<Rightarrow> Inr ()
   | Some usd \<Rightarrow>
       if usd < 0 then Inl (ErrMsg ''fee amount cannot be negative'')
       else let s = Split config;
                total = orZero (Treasury s) + orZero (RetailWalletShare s) + orZero (TokenDev s) + orZero (TokenCreator s)
            in if usd \<noteq> 0 \<and> total \<noteq> decOne then Inl (ErrMsg ''fee split percentages must sum to 1.0'')
               else Inr ())"

definition feeConfigs :: "FeeTableUSD \<Rightarrow> FeeConfig list" where
  "feeConfigs t = [PosPayment t, TokenInteraction t, NativeTransfer t, DexNative t, DexUser t, Deploy t, Wizard t]"

fun validateConfigs :: "FeeConfig list \<Rightarrow> unit res" where
  "validateConfigs [] = Inr ()"
| "validateConfigs (c # cs) = rbind (validateFeeConfig c) (\<lambda>_. validateConfigs cs)"

definition validateFeeTableUSD :: "FeesParams \<Rightarrow> unit res" where
  "validateFeeTableUSD p = validateConfigs (feeConfigs (FeeTableUsd p))"

definition validateOracleParams :: "FeesParams \<Rightarrow> unit res" where
  "validateOracleParams p = (let op = OracleParams p in
     if BandRequestId op = 0 then Inl (ErrMsg ''band request ID cannot be zero'')
     else if TwapWindow op \<le> 0 then Inl (ErrMsg ''TWAP window must be positive'')
     else rbind (decGet (DeviationLimit op)) (\<lambda>dev.
       if dev < 0 \<or> dev > decOne then Inl (ErrMsg ''deviation limit must be between 0 and 1'')
       else if FallbackTtl op \<le> 0 then Inl (ErrMsg ''fallback TTL must be positive'')
       else if MaxPriceAge op \<le> 0 then Inl (ErrMsg ''max price age must be positive'')
       else Inr ()))"

definition validateGuardRails :: "FeesParams \<Rightarrow> unit res" where
  "validateGuardRails p = (let g = GuardRails p in
     rbind (decGet (MinGasPriceCsv g)) (\<lambda>mn.
       if mn < 0 then Inl (ErrMsg ''min gas price cannot be negative'')
       else rbind (decGet (MaxGasPriceCsv g)) (\<lambda>mx.
         if mx < 0 then Inl (ErrMsg ''max gas price cannot be negative'')
         else if mn > mx then Inl (ErrMsg ''min gas price cannot be greater than max gas price'')
         else if MaxGasWizard g = 0 then Inl (ErrMsg ''max gas wizard must be positive'')
         else if MaxGasDeploy g = 0 then Inl (ErrMsg ''max gas deploy must be positive'')
         else Inr ())))"

definition validateMinGasPolicy :: "FeesParams \<Rightarrow> unit res" where
  "validateMinGasPolicy p = rbind (decGet (GlobalMinGasPrice (MinGasPolicy p))) (\<lambda>g.
     if g < 0 then Inl (ErrMsg ''global min gas price cannot be negative'') else Inr ())"

fun checkSystemUrls :: "string list \<Rightarrow> string list \<Rightarrow> (string list) res" where
  "checkSystemUrls seen [] = Inr seen"
| "checkSystemUrls seen (s # ss) =
     (if s = [] then checkSystemUrls seen ss
      else if s \<in> set seen then Inl (ErrMsg (''duplicate system_msg_type_url: '' @ s))
      else checkSystemUrls (s # seen) ss)"

fun checkExemptUrls :: "string list \<Rightarrow> string list \<Rightarrow> unit res" where
  "checkExemptUrls seen [] = Inr ()"
| "checkExemptUrls seen (s # ss) =
     (if s = [] then checkExemptUrls seen ss
      else if s \<in> set seen then Inl (ErrMsg (''type url appears in both system and exempt lists: '' @ s))
      else checkExemptUrls seen ss)"

definition validateHybridFields :: "FeesParams \<Rightarrow> unit res" where
  "validateHybridFields p =
     (if FeeMode p \<in> {'''', ''table'', ''hybrid'', ''gas_only''}
      then rbind (checkSystemUrls [] (SystemMsgTypeUrls p)) (\<lambda>seen. checkExemptUrls seen (ExemptMsgTypeUrls p))
      else Inl (ErrMsg (''invalid fee_mode: '' @ FeeMode p)))"

definition looksEmpty :: "FeesParams \<Rightarrow> bool res" where
  "looksEmpty p = (if FeeMode p = [] then
     rbind (decGet (UsdAmount (PosPayment (FeeTableUsd p)))) (\<lambda>usd.
       Inr (usd = 0 \<and> SystemMsgTypeUrls p = [] \<and> ExemptMsgTypeUrls p = []))
     else Inr False)"

definition feesValidate :: "FeesParams \<Rightarrow> unit res" where
  "feesValidate p = rbind (looksEmpty p) (\<lambda>e. if e then Inr () else
     rbind (validateFeeTableUSD p) (\<lambda>_.
     rbind (validateOracleParams p) (\<lambda>_.
     rbind (validateGuardRails p) (\<lambda>_.
     rbind (validateMinGasPolicy p) (\<lambda>_.
     validateHybridFields p)))))"

definition feesGenesisValidate :: "FeesParams \<Rightarrow> unit res" where
  "feesGenesisValidate p = (if p = NewParams then Inr () else feesValidate p)"

section \<open>Stored form\<close>

text \<open>What \<open>Params.Get\<close> reads back of the value \<open>Params.Set\<close> wrote: an unset decimal is marshalled.\<close>

definition wireSplit :: "'b sdk \<Rightarrow> FeeSplit \<Rightarrow> FeeSplit" where
  "wireSplit E s = \<lparr>Treasury = decWire E (Treasury s), RetailWalletShare = decWire E (RetailWalletShare s),
     TokenDev = decWire E (TokenDev s), TokenCreator = decWire E (TokenCreator s)\<rparr>"

definition wireConfig :: "'b sdk \<Rightarrow> FeeConfig \<Rightarrow> FeeConfig" where
  "wireConfig E c = \<lparr>UsdAmount = decWire E (UsdAmount c), Split = wireSplit E (Split c)\<rparr>"

definition wireTable :: "'b sdk \<Rightarrow> FeeTableUSD \<Rightarrow> FeeTableUSD" where
  "wireTable E t = \<lparr>PosPayment = wireConfig E (PosPayment t), TokenInteraction = wireConfig E (TokenInteraction t),
     NativeTransfer = wireConfig E (NativeTransfer t), DexNative = wireConfig E (DexNative t),
     DexUser = wireConfig E (DexUser t), Deploy = wireConfig E (Deploy t), Wizard = wireConfig E (Wizard t)\<rparr>"

definition wireParams :: "'b sdk \<Rightarrow> FeesParams \<Rightarrow> FeesParams" where
  "wireParams E p = p\<lparr>
     FeeTableUsd := wireTable E (FeeTableUsd p),
     OracleParams := (OracleParams p)\<lparr>DeviationLimit := decWire E (DeviationLimit (OracleParams p))\<rparr>,
     GuardRails := (GuardRails p)\<lparr>MinGasPriceCsv := decWire E (MinGasPriceCsv (GuardRails p)),
       MaxGasPriceCsv := decWire E (MaxGasPriceCsv (GuardRails p))\<rparr>,
     MinGasPolicy := (MinGasPolicy p)\<lparr>GlobalMinGasPrice := decWire E (GlobalMinGasPrice (MinGasPolicy p))\<rparr>\<rparr>"

section \<open>Lemmas\<close>

text \<open>A usable entry of the table: every decimal is set, the amount is not negative, and the
  shares add up to one where the fee is not free.\<close>

definition config_ok :: "FeeConfig \<Rightarrow> bool" where
  "config_ok c \<longleftrightarrow> (case UsdAmount c of None \<Rightarrow> True | Some u \<Rightarrow>
     0 \<le> u \<and> (u \<noteq> 0 \<longrightarrow> orZero (Treasury (Split c)) + orZero (RetailWalletShare (Split c))
       + orZero (TokenDev (Split c)) + orZero (TokenCreator (Split c)) = decOne))"

lemma validateFeeConfig_ok: "validateFeeConfig c = Inr () \<longleftrightarrow> config_ok c"
  by (auto simp: validateFeeConfig_def config_ok_def Let_def split: option.splits)

lemma validateConfigs_ok: "validateConfigs cs = Inr () \<longleftrightarrow> (\<forall>c \<in> set cs. config_ok c)"
  by (induction cs) (simp_all add: rbind_Inr_iff validateFeeConfig_ok)

lemma checkSystemUrls_ok:
  "checkSystemUrls seen ss = Inr seen' \<longleftrightarrow>
     distinct (filter (\<lambda>s. s \<noteq> []) ss) \<and> set (filter (\<lambda>s. s \<noteq> []) ss) \<inter> set seen = {} \<and>
     seen' = rev (filter (\<lambda>s. s \<noteq> []) ss) @ seen"
  by (induction ss arbitrary: seen) auto

lemma checkExemptUrls_ok:
  "checkExemptUrls seen ss = Inr () \<longleftrightarrow> set (filter (\<lambda>s. s \<noteq> []) ss) \<inter> set seen = {}"
  by (induction ss) auto

lemma decGet_Inr [simp]: "decGet d = Inr x \<longleftrightarrow> d = Some x"
  by (cases d) (simp_all add: decGet_def)

lemma decGet_Some [simp]: "decGet (Some x) = Inr x"
  by (simp add: decGet_def)

end
