(* ===== verification/KV.thy ===== *)
theory KV
  imports Prelude
begin

text \<open>
  The ordered key-value store behind \<open>corestore.KVStore\<close>: an association list in ascending key
  order, so that an iterator over a range is the part of the list in that range. Keys are byte
  strings, compared byte by byte.
\<close>

fun kvSet :: "string \<Rightarrow> 'v \<Rightarrow> (string \<times> 'v) list \<Rightarrow> (string \<times> 'v) list" where
  "kvSet k v [] = [(k, v)]"
| "kvSet k v ((k', v') # r) =
     (if k < k' then (k, v) # (k', v') # r
      else if k = k' then (k, v) # r
      else (k', v') # kvSet k v r)"

definition kvGet :: "(string \<times> 'v) list \<Rightarrow> string \<Rightarrow> 'v option" where
  "kvGet kv k = map_of kv k"

definition kvHas :: "(string \<times> 'v) list \<Rightarrow> string \<Rightarrow> bool" where
  "kvHas kv k \<longleftrightarrow> kvGet kv k \<noteq> None"

definition kvRange :: "(string \<times> 'v) list \<Rightarrow> string \<Rightarrow> string option \<Rightarrow> (string \<times> 'v) list" where
  "kvRange kv start stop = filter (\<lambda>(k, _). start \<le> k \<and> (case stop of None \<Rightarrow> True | Some e \<Rightarrow> k < e)) kv"

definition kv_sorted :: "(string \<times> 'v) list \<Rightarrow> bool" where
  "kv_sorted kv \<longleftrightarrow> sorted_wrt (<) (map fst kv)"

lemma kvGet_kvSet [simp]: "kvGet (kvSet k v kv) k' = (if k' = k then Some v else kvGet kv k')"
  unfolding kvGet_def by (induction kv) auto

lemma kvGet_Nil [simp]: "kvGet [] k = None"
  by (simp add: kvGet_def)

lemma kvSet_keys: "fst ` set (kvSet k v kv) = insert k (fst ` set kv)"
  by (induction k v kv rule: kvSet.induct) (simp_all add: insert_commute)

lemma kvSet_sorted: "kv_sorted kv \<Longrightarrow> kv_sorted (kvSet k v kv)"
proof (induction kv)
  case Nil
  then show ?case by (simp add: kv_sorted_def)
next
  case (Cons p kv)
  obtain k' v' where p: "p = (k', v')" by (cases p)
  have "\<forall>x \<in> fst ` set (kvSet k v kv). k' < x" if "k' < k"
    using that Cons.prems by (auto simp: kvSet_keys kv_sorted_def p)
  then show ?case using Cons by (auto simp: kv_sorted_def p)
qed

lemma kvGet_iff: "kv_sorted kv \<Longrightarrow> kvGet kv k = Some v \<longleftrightarrow> (k, v) \<in> set kv"
  unfolding kvGet_def kv_sorted_def
  by (rule map_of_eq_Some_iff) (simp add: strict_sorted_iff)

section \<open>The range of a prefix\<close>

definition succChar :: "char \<Rightarrow> char" where
  "succChar c = char_of ((of_char c :: nat) + 1)"

fun incEnd :: "string \<Rightarrow> string option" where
  "incEnd [] = None"
| "incEnd (c # cs) = (if c \<noteq> CHR 0xFF then Some (rev (succChar c # cs)) else incEnd cs)"

definition prefixRange :: "string \<Rightarrow> string \<times> string option" where
  "prefixRange p = (p, incEnd (rev p))"

lemma of_char_le_255: "of_char c \<le> (255 :: nat)"
proof -
  have "of_char c < (256 :: nat)" by simp
  then show ?thesis by linarith
qed

lemma of_char_FF: "of_char c = (255 :: nat) \<longleftrightarrow> c = CHR 0xFF"
proof -
  have "of_char (CHR 0xFF) = (255 :: nat)" by simp
  then show ?thesis by (metis of_char_eq_iff)
qed

lemma succChar_less: "c \<noteq> CHR 0xFF \<Longrightarrow> d < succChar c \<longleftrightarrow> d \<le> c"
proof -
  assume "c \<noteq> CHR 0xFF"
  with of_char_le_255 [of c] of_char_FF [of c] have "of_char c + 1 < (256 :: nat)" by linarith
  then have "of_char (succChar c) = (of_char c + 1 :: nat)" by (simp add: succChar_def)
  then show ?thesis by (auto simp: less_char_def less_eq_char_def)
qed

lemma FF_greatest: "d \<le> CHR 0xFF"
  using of_char_le_255 [of d] by (simp add: less_eq_char_def)

lemma range_last:
  assumes "c \<noteq> CHR 0xFF"
  shows "prefix (q @ [c]) k \<longleftrightarrow> q @ [c] \<le> k \<and> k < q @ [succChar c]"
proof (induction q arbitrary: k)
  case Nil
  show ?case
  proof (cases k)
    case (Cons d ds)
    then show ?thesis using succChar_less [OF assms, of d] by auto
  qed simp
next
  case (Cons a q)
  show ?case by (cases k) (auto simp: Cons.IH)
qed

lemma prefix_snoc_FF: "prefix (q @ [CHR 0xFF]) k \<longleftrightarrow> prefix q k \<and> q @ [CHR 0xFF] \<le> k"
proof (induction q arbitrary: k)
  case Nil
  show ?case using FF_greatest by (cases k) (auto simp: order.antisym)
next
  case (Cons a q)
  show ?case by (cases k) (auto simp: Cons.IH)
qed

lemma le_of_FF: "q @ [c] \<le> k \<Longrightarrow> q \<le> (k :: string)"
proof (induction q arbitrary: k)
  case Nil
  show ?case by simp
next
  case (Cons a q)
  then show ?case by (cases k) auto
qed

lemma prefixRange_exact:
  "prefix p k \<longleftrightarrow> fst (prefixRange p) \<le> k \<and>
     (case snd (prefixRange p) of None \<Rightarrow> True | Some e \<Rightarrow> k < e)"
proof (induction p rule: rev_induct)
  case Nil
  show ?case by (simp add: prefixRange_def)
next
  case (snoc c q)
  show ?case
  proof (cases "c = CHR 0xFF")
    case True
    have "prefix (q @ [c]) k \<longleftrightarrow> prefix q k \<and> q @ [c] \<le> k" unfolding True by (rule prefix_snoc_FF)
    with snoc.IH le_of_FF [of q c k] show ?thesis by (auto simp: prefixRange_def True)
  next
    case False
    then show ?thesis using range_last [OF False, of q k] by (simp add: prefixRange_def)
  qed
qed

lemma kvRange_prefix:
  "kvRange kv (fst (prefixRange p)) (snd (prefixRange p)) = filter (\<lambda>(k, _). HasPrefix k p) kv"
  unfolding kvRange_def by (rule filter_cong) (auto simp: HasPrefix_iff prefixRange_exact [of p])

end
