(* ===== verification/TokenTypes.thy ===== *)
theory TokenTypes
  imports Sdk KV
begin

text \<open>
  The data of the token module (\<open>x/token/types\<close>): parameters, token metadata, messages and their
  stateless validation. A stored value is one of the three forms the keeper writes: the JSON of a
  metadata record (kept here as the record, which \<open>json.Marshal\<close> and \<open>Unmarshal\<close> round-trip), a
  token identifier, or an eight-byte counter.
\<close>

record TokenParams =
  MaxTokensPerCreator :: u64
  ReservedSymbols :: "string list"
  CreationFeeAmount :: "int option"

record TokenMetadata =
  TokenID :: string
  Name :: string
  Symbol :: string
  Decimals :: u32
  MaxSupply :: int
  CurrentSupply :: int
  Mintable :: bool
  Creator :: addr
  POSCompatible :: bool
  IconURI :: string
  Description :: string
  CreatedAt :: int

datatype kvval = VMeta TokenMetadata | VStr string | VU64 u64

record MsgCreateToken =
  ctCreator :: string
  ctName :: string
  ctSymbol :: string
  ctDecimals :: u32
  ctInitialSupply :: u64
  ctMaxSupply :: u64
  ctMintable :: bool
  ctPosCompatible :: bool
  ctIconUri :: string
  ctDescription :: string

record MsgMint =
  mintCreator :: string
  mintTo :: string
  mintAmount :: u64
  mintTokenId :: string

record MsgBurn =
  burnCreator :: string
  burnTo :: string
  burnAmount :: u64
  burnTokenId :: string

definition tokErr :: "nat \<Rightarrow> go_error" where
  "tokErr n = Reg ''token'' n"

definition NewMsgCreateToken ::
  "string \<Rightarrow> string \<Rightarrow> string \<Rightarrow> u32 \<Rightarrow> u64 \<Rightarrow> u64 \<Rightarrow> bool \<Rightarrow> bool \<Rightarrow> string \<Rightarrow> string \<Rightarrow> MsgCreateToken" where
  "NewMsgCreateToken creator name symbol decimals initialSupply maxSupply mintable posCompatible iconUri description =
     \<lparr>ctCreator = creator, ctName = name, ctSymbol = symbol, ctDecimals = decimals,
      ctInitialSupply = initialSupply, ctMaxSupply = maxSupply, ctMintable = mintable,
      ctPosCompatible = posCompatible, ctIconUri = iconUri, ctDescription = description\<rparr>"

text \<open>\<open>NewMsgMint\<close> leaves the token identifier empty.\<close>

definition NewMsgMint :: "string \<Rightarrow> string \<Rightarrow> u64 \<Rightarrow> MsgMint" where
  "NewMsgMint creator to amount =
     \<lparr>mintCreator = creator, mintTo = to, mintAmount = amount, mintTokenId = []\<rparr>"

definition ValidateBasic :: "'b sdk \<Rightarrow> MsgCreateToken \<Rightarrow> unit res" where
  "ValidateBasic E msg =
     (if AccAddressFromBech32 E (ctCreator msg) = None then Inl (tokErr 1101)
      else if ctName msg = [] then Inl (tokErr 1102)
      else if ctSymbol msg = [] then Inl (tokErr 1103)
      else if ctDecimals msg > 18 then Inl (tokErr 1104)
      else if ctInitialSupply msg = 0 then Inl (tokErr 1105)
      else if ctMaxSupply msg = 0 then Inl (tokErr 1106)
      else if ctInitialSupply msg > ctMaxSupply msg then Inl (tokErr 1107)
      else if \<not> ctMintable msg \<and> ctInitialSupply msg \<noteq> ctMaxSupply msg then Inl (tokErr 1108)
      else Inr ())"

definition NewTokenMetadata ::
  "string \<Rightarrow> string \<Rightarrow> string \<Rightarrow> u32 \<Rightarrow> int \<Rightarrow> int \<Rightarrow> bool \<Rightarrow> addr \<Rightarrow> bool \<Rightarrow> string \<Rightarrow> string \<Rightarrow> int \<Rightarrow> TokenMetadata" where
  "NewTokenMetadata tokenID name symbol decimals maxSupply currentSupply mintable creator posCompatible iconURI description createdAt =
     \<lparr>TokenID = tokenID, Name = name, Symbol = symbol, Decimals = decimals, MaxSupply = maxSupply,
      CurrentSupply = currentSupply, Mintable = mintable, Creator = creator, POSCompatible = posCompatible,
      IconURI = iconURI, Description = description, CreatedAt = createdAt\<rparr>"

definition metaValidate :: "TokenMetadata \<Rightarrow> unit res" where
  "metaValidate tm =
     (if TokenID tm = [] then Inl (tokErr 1102)
      else if Name tm = [] then Inl (tokErr 1102)
      else if Symbol tm = [] then Inl (tokErr 1103)
      else if Decimals tm > 18 then Inl (tokErr 1104)
      else if MaxSupply tm = 0 then Inl (tokErr 1106)
      else if CurrentSupply tm > MaxSupply tm then Inl (tokErr 1107)
      else if Creator tm = [] then Inl (tokErr 1101)
      else Inr ())"

definition tokenNewParams :: TokenParams where
  "tokenNewParams = \<lparr>MaxTokensPerCreator = 10, ReservedSymbols = [''csv''], CreationFeeAmount = Some 0\<rparr>"

definition zeroTokenParams :: TokenParams where
  "zeroTokenParams = \<lparr>MaxTokensPerCreator = 0, ReservedSymbols = [], CreationFeeAmount = None\<rparr>"

definition tokenValidate :: "TokenParams \<Rightarrow> unit res" where
  "tokenValidate p =
     (if MaxTokensPerCreator p = 0 then Inl (tokErr 1106)
      else case CreationFeeAmount p of
        None \<Rightarrow> Inl Panic
      | Some a \<Rightarrow> if a < 0 then Inl (tokErr 1105) else Inr ())"

definition tokenGenesisValidate :: "TokenParams \<Rightarrow> unit res" where
  "tokenGenesisValidate p = (if p = zeroTokenParams then Inr () else tokenValidate p)"

definition wireTokenParams :: "'b sdk \<Rightarrow> TokenParams \<Rightarrow> TokenParams" where
  "wireTokenParams E p = p\<lparr>CreationFeeAmount := intWire E (CreationFeeAmount p)\<rparr>"

section \<open>Keys\<close>

definition metaKey :: "string \<Rightarrow> string" where
  "metaKey tokenID = ''tm_'' @ tokenID"

definition symbolKey :: "string \<Rightarrow> string" where
  "symbolKey symbol = ''si_'' @ symbol"

definition creatorKey :: "addr \<Rightarrow> string \<Rightarrow> string" where
  "creatorKey creator tokenID = ''ci_'' @ creator @ tokenID"

definition countKey :: "addr \<Rightarrow> string" where
  "countKey creator = ''cc_'' @ creator"

definition sequenceKey :: string where
  "sequenceKey = ''ts''"

lemmas key_defs = metaKey_def symbolKey_def creatorKey_def countKey_def sequenceKey_def

lemma keys_differ [simp]:
  "metaKey i \<noteq> symbolKey s" "metaKey i \<noteq> creatorKey c j" "metaKey i \<noteq> countKey c" "metaKey i \<noteq> sequenceKey"
  "symbolKey s \<noteq> metaKey i" "symbolKey s \<noteq> creatorKey c j" "symbolKey s \<noteq> countKey c" "symbolKey s \<noteq> sequenceKey"
  "creatorKey c j \<noteq> metaKey i" "creatorKey c j \<noteq> symbolKey s" "creatorKey c j \<noteq> countKey d" "creatorKey c j \<noteq> sequenceKey"
  "countKey c \<noteq> metaKey i" "countKey c \<noteq> symbolKey s" "countKey d \<noteq> creatorKey c j" "countKey c \<noteq> sequenceKey"
  "sequenceKey \<noteq> metaKey i" "sequenceKey \<noteq> symbolKey s" "sequenceKey \<noteq> creatorKey c j" "sequenceKey \<noteq> countKey c"
  by (simp_all add: key_defs)

lemma keys_inject [simp]:
  "metaKey i = metaKey j \<longleftrightarrow> i = j"
  "symbolKey s = symbolKey t \<longleftrightarrow> s = t"
  "countKey c = countKey d \<longleftrightarrow> c = d"
  "creatorKey c i = creatorKey c j \<longleftrightarrow> i = j"
  by (simp_all add: key_defs)

lemma ValidateBasic_ok:
  "ValidateBasic E msg = Inr () \<longleftrightarrow>
     AccAddressFromBech32 E (ctCreator msg) \<noteq> None \<and> ctName msg \<noteq> [] \<and> ctSymbol msg \<noteq> [] \<and>
     ctDecimals msg \<le> 18 \<and> 0 < ctInitialSupply msg \<and> ctInitialSupply msg \<le> ctMaxSupply msg \<and>
     (ctMintable msg \<or> ctInitialSupply msg = ctMaxSupply msg)"
  by (auto simp: ValidateBasic_def word_neq_0_conv not_less)

end
