(* ===== verification/ModuleTypes.thy ===== *)
theory ModuleTypes
  imports Sdk
begin

text \<open>
  The stored data of the smaller modules: the parameter records of \<open>x/treasury\<close>,
  \<open>x/conversionpool\<close>, \<open>x/registry\<close> and \<open>x/osmosisicq\<close> with their constructors, and the
  correlation entry \<open>x/icqcontroller\<close> keeps for a query in flight. The parameters of
  \<open>x/cosvian\<close>, \<open>x/icqcontroller\<close> and \<open>x/pricefeed\<close> have no fields and are \<^typ>\<open>unit\<close>.
\<close>

section \<open>Treasury, conversion pool, registry\<close>

record TreasuryParams =
  DistributionRatio :: string
  ValidatorRewardPercentage :: string
  DevRewardPercentage :: string

record ConversionParams =
  MaxConversionSupply :: string
  ConversionRate :: string
  MinPoolReserve :: string

record RegistryParams =
  PosCompatibleTokens :: string
  WalletCompatibleTokens :: string
  MinTokenStandard :: string

definition treasuryNewParams :: "string \<Rightarrow> string \<Rightarrow> string \<Rightarrow> TreasuryParams" where
  "treasuryNewParams distributionRatio validatorRewardPercentage devRewardPercentage =
     \<lparr>DistributionRatio = distributionRatio, ValidatorRewardPercentage = validatorRewardPercentage,
      DevRewardPercentage = devRewardPercentage\<rparr>"

definition treasuryDefaultParams :: TreasuryParams where
  "treasuryDefaultParams =
     treasuryNewParams ''distribution_ratio'' ''validator_reward_percentage'' ''dev_reward_percentage''"

definition validateDistributionRatio :: "string \<Rightarrow> unit res" where
  "validateDistributionRatio v = Inr ()"

definition validateValidatorRewardPercentage :: "string \<Rightarrow> unit res" where
  "validateValidatorRewardPercentage v = Inr ()"

definition validateDevRewardPercentage :: "string \<Rightarrow> unit res" where
  "validateDevRewardPercentage v = Inr ()"

definition treasuryValidate :: "TreasuryParams \<Rightarrow> unit res" where
  "treasuryValidate p =
     rbind (validateDistributionRatio (DistributionRatio p)) (\<lambda>_.
     rbind (validateValidatorRewardPercentage (ValidatorRewardPercentage p)) (\<lambda>_.
     validateDevRewardPercentage (DevRewardPercentage p)))"

definition conversionNewParams :: "string \<Rightarrow> string \<Rightarrow> string \<Rightarrow> ConversionParams" where
  "conversionNewParams maxConversionSupply conversionRate minPoolReserve =
     \<lparr>MaxConversionSupply = maxConversionSupply, ConversionRate = conversionRate, MinPoolReserve = minPoolReserve\<rparr>"

definition conversionDefaultParams :: ConversionParams where
  "conversionDefaultParams = conversionNewParams ''max_conversion_supply'' ''conversion_rate'' ''min_pool_reserve''"

definition validateMaxConversionSupply :: "string \<Rightarrow> unit res" where
  "validateMaxConversionSupply v = Inr ()"

definition validateConversionRate :: "string \<Rightarrow> unit res" where
  "validateConversionRate v = Inr ()"

definition validateMinPoolReserve :: "string \<Rightarrow> unit res" where
  "validateMinPoolReserve v = Inr ()"

definition conversionValidate :: "ConversionParams \<Rightarrow> unit res" where
  "conversionValidate p =
     rbind (validateMaxConversionSupply (MaxConversionSupply p)) (\<lambda>_.
     rbind (validateConversionRate (ConversionRate p)) (\<lambda>_.
     validateMinPoolReserve (MinPoolReserve p)))"

definition registryNewParams :: "string \<Rightarrow> string \<Rightarrow> string \<Rightarrow> RegistryParams" where
  "registryNewParams posCompatibleTokens walletCompatibleTokens minTokenStandard =
     \<lparr>PosCompatibleTokens = posCompatibleTokens, WalletCompatibleTokens = walletCompatibleTokens,
      MinTokenStandard = minTokenStandard\<rparr>"

definition registryDefaultParams :: RegistryParams where
  "registryDefaultParams = registryNewParams ''pos_compatible_tokens'' ''wallet_compatible_tokens'' ''min_token_standard''"

definition validatePosCompatibleTokens :: "string \<Rightarrow> unit res" where
  "validatePosCompatibleTokens v = Inr ()"

definition validateWalletCompatibleTokens :: "string \<Rightarrow> unit res" where
  "validateWalletCompatibleTokens v = Inr ()"

definition validateMinTokenStandard :: "string \<Rightarrow> unit res" where
  "validateMinTokenStandard v = Inr ()"

definition registryValidate :: "RegistryParams \<Rightarrow> unit res" where
  "registryValidate p =
     rbind (validatePosCompatibleTokens (PosCompatibleTokens p)) (\<lambda>_.
     rbind (validateWalletCompatibleTokens (WalletCompatibleTokens p)) (\<lambda>_.
     validateMinTokenStandard (MinTokenStandard p)))"

section \<open>Interchain price queries\<close>

record OsmoParams =
  ConnectionId :: string
  UpdateIntervalSeconds :: u64
  PoolId :: u64
  BaseDenom :: string
  QuoteDenom :: string
  UseTwap :: bool
  TwapWindowSeconds :: u64
  MinLiquidity :: string
  MaxDeviation :: string

definition osmoNewParams :: OsmoParams where
  "osmoNewParams = \<lparr>ConnectionId = ''connection-0'', UpdateIntervalSeconds = 30, PoolId = 1464,
     BaseDenom = ''uosmo'', QuoteDenom = ''ibc/PLACEHOLDER_HASH'', UseTwap = True, TwapWindowSeconds = 300,
     MinLiquidity = ''0'', MaxDeviation = ''0.5''\<rparr>"

definition zeroOsmoParams :: OsmoParams where
  "zeroOsmoParams = \<lparr>ConnectionId = [], UpdateIntervalSeconds = 0, PoolId = 0, BaseDenom = [], QuoteDenom = [],
     UseTwap = False, TwapWindowSeconds = 0, MinLiquidity = [], MaxDeviation = []\<rparr>"

definition osmoValidate :: "'b sdk \<Rightarrow> OsmoParams \<Rightarrow> unit res" where
  "osmoValidate E p =
     (if UseTwap p \<and> TwapWindowSeconds p = 0 then Inl (ErrMsg ''twap_window_seconds must be > 0 when use_twap is true'')
      else if TrimSpace (BaseDenom p) = [] then Inl (ErrMsg ''base_denom cannot be empty'')
      else if TrimSpace (QuoteDenom p) = [] then Inl (ErrMsg ''quote_denom cannot be empty'')
      else case dFromStr E (MinLiquidity p) of
        None \<Rightarrow> Inl (Wrap ''invalid min_liquidity'' (LibErr ''LegacyNewDecFromStr''))
      | Some _ \<Rightarrow> (case dFromStr E (MaxDeviation p) of
          None \<Rightarrow> Inl (Wrap ''invalid max_deviation'' (LibErr ''LegacyNewDecFromStr''))
        | Some dev \<Rightarrow> if dev < 0 then Inl (ErrMsg ''max_deviation cannot be negative'') else Inr ()))"

text \<open>The correlation entry of a query in flight; the code stores its JSON, which it reads back as written.\<close>

record pendingValue =
  pvStore :: string
  pvKeyB64 :: string
  pvConnection :: string

section \<open>Lemmas\<close>

text \<open>The validators of these three parameter records are placeholders: they accept every text.\<close>

lemma placeholder_validators [simp]:
  "treasuryValidate p = Inr ()" "conversionValidate q = Inr ()" "registryValidate r = Inr ()"
  by (simp_all add: treasuryValidate_def validateDistributionRatio_def validateValidatorRewardPercentage_def
    validateDevRewardPercentage_def conversionValidate_def validateMaxConversionSupply_def validateConversionRate_def
    validateMinPoolReserve_def registryValidate_def validatePosCompatibleTokens_def validateWalletCompatibleTokens_def
    validateMinTokenStandard_def)

lemma osmoValidate_ok:
  "osmoValidate E p = Inr () \<longleftrightarrow>
     (UseTwap p \<longrightarrow> TwapWindowSeconds p \<noteq> 0) \<and> TrimSpace (BaseDenom p) \<noteq> [] \<and> TrimSpace (QuoteDenom p) \<noteq> [] \<and>
     dFromStr E (MinLiquidity p) \<noteq> None \<and> (\<exists>dev. dFromStr E (MaxDeviation p) = Some dev \<and> 0 \<le> dev)"
  by (auto simp: osmoValidate_def split: option.splits)

end
