(* ===== verification/Chain.thy ===== *)
theory Chain
  imports FeesTypes TokenTypes ModuleTypes
begin

text \<open>
  The state the modules share. One record holds what the store of every module keeps (the
  \<open>collections\<close> items and maps of the keepers), the block's time and height, the events emitted so
  far, and in \<open>ext\<close> the state of the keepers of other repositories (bank, auth, gas meter, IBC
  channels). A \<open>collections.Item\<close> that was never set is \<^term>\<open>None\<close>; reading and writing the
  store does not fail otherwise. Times and durations are in nanoseconds.
\<close>

record 'b chain =
  ext :: 'b
  blockTime :: int
  blockHeight :: int
  events :: "event list"
  feesParams :: "FeesParams option"
  oracleParams :: "unit option"
  csvPrice :: "string \<rightharpoonup> string"
  tokenParams :: "TokenParams option"
  tokenKV :: "(string \<times> kvval) list"
  treasuryParams :: "TreasuryParams option"
  conversionParams :: "ConversionParams option"
  registryParams :: "RegistryParams option"
  cosvianParams :: "unit option"
  osmoParams :: "OsmoParams option"
  osmoLastUpdate :: "int option"
  osmoNextUpdate :: "int option"
  osmoLastResult :: "int option"
  osmoQueryIDs :: "string \<rightharpoonup> string"
  icqParams :: "unit option"
  icqPort :: "string option"
  icqActive :: "string \<rightharpoonup> string"
  icqPending :: "string \<rightharpoonup> pendingValue"
  feedParams :: "unit option"
  feedPort :: "string option"

definition initChain :: "'b \<Rightarrow> 'b chain" where
  "initChain b = \<lparr>ext = b, blockTime = 0, blockHeight = 1, events = [],
     feesParams = None, oracleParams = None, csvPrice = Map.empty,
     tokenParams = None, tokenKV = [], treasuryParams = None, conversionParams = None,
     registryParams = None, cosvianParams = None, osmoParams = None, osmoLastUpdate = None,
     osmoNextUpdate = None, osmoLastResult = None, osmoQueryIDs = Map.empty, icqParams = None,
     icqPort = None, icqActive = Map.empty, icqPending = Map.empty, feedParams = None, feedPort = None\<rparr>"

section \<open>Steps every handler uses\<close>

definition extern :: "('b \<Rightarrow> go_error option \<times> 'b) \<Rightarrow> ('b chain, unit) act" where
  "extern f s = (case f (ext s) of
     (None, b) \<Rightarrow> (Inr (), s\<lparr>ext := b\<rparr>)
   | (Some e, b) \<Rightarrow> (Inl e, s\<lparr>ext := b\<rparr>))"

definition emit :: "string \<Rightarrow> (string \<times> attr) list \<Rightarrow> ('b chain, unit) act" where
  "emit t as = modify (\<lambda>s. s\<lparr>events := events s @ [mkEvent t as]\<rparr>)"

text \<open>
  The check that opens every \<open>UpdateParams\<close> handler: the signer decodes to the module's authority.
\<close>

definition checkAuthority :: "'b sdk \<Rightarrow> string \<Rightarrow> addr \<Rightarrow> string \<Rightarrow> unit res" where
  "checkAuthority E module authority signer =
     (case StringToBytes E signer of
        None \<Rightarrow> Inl (Wrap ''invalid authority address'' (LibErr ''StringToBytes''))
      | Some a \<Rightarrow> if a = authority then Inr ()
          else Inl (Wrap ''invalid authority'' (Reg module 1100)))"

text \<open>\<open>NewKeeper\<close> panics when its authority has no text form.\<close>

definition requireAuthority :: "'b sdk \<Rightarrow> addr \<Rightarrow> unit res" where
  "requireAuthority E authority = (if BytesToString E authority = None then Inl Panic else Inr ())"

text \<open>A gRPC query rejects a nil request.\<close>

definition queryReq :: "'q option \<Rightarrow> 'q res" where
  "queryReq req = ofOption (ErrMsg ''InvalidArgument: invalid request'') req"

section \<open>Lemmas\<close>

lemma extern_Inr_iff [act_splits]:
  "extern f s = (Inr y, t) \<longleftrightarrow> (\<exists>b. f (ext s) = (None, b) \<and> t = s\<lparr>ext := b\<rparr>)"
  by (auto simp: extern_def split: prod.splits option.splits)

lemma emit_eval [act_simps]: "emit t as s = (Inr (), s\<lparr>events := events s @ [mkEvent t as]\<rparr>)"
  by (simp add: emit_def modify_def)

lemma emit_Inr_iff [act_splits]:
  "emit t as s = (Inr y, s') \<longleftrightarrow> s' = s\<lparr>events := events s @ [mkEvent t as]\<rparr>"
  by (auto simp: emit_eval)

lemma emit_bind [act_simps]:
  "bnd (emit t as) f s = f () (s\<lparr>events := events s @ [mkEvent t as]\<rparr>)"
  "andThen (emit t as) m s = m (s\<lparr>events := events s @ [mkEvent t as]\<rparr>)"
  by (simp_all add: bnd_def andThen_def emit_eval)


lemma keeps_extern [keeps_intros]: "(\<And>s b. g (s\<lparr>ext := b\<rparr>) = g s) \<Longrightarrow> keeps g (extern f)"
  by (auto simp: keeps_def extern_def split: prod.splits option.splits)

lemma keeps_emit [keeps_intros]: "(\<And>s as. g (s\<lparr>events := as\<rparr>) = g s) \<Longrightarrow> keeps g (emit t as)"
  unfolding emit_def by (rule keeps_modify) simp

lemma checkAuthority_Inr: "checkAuthority E m a signer = Inr u \<longleftrightarrow> StringToBytes E signer = Some a"
  by (auto simp: checkAuthority_def split: option.splits)

end
