(* ===== verification/RefSdk.thy ===== *)
theory RefSdk
  imports Sdk
begin

text \<open>
  One concrete instance of the parameters, \<open>ref_sdk\<close>: an in-memory ledger, decimals with
  banker's rounding, their text form with eighteen fractional digits, coins and addresses.
  \<open>ref_sdk_laws\<close> shows that it satisfies every law the properties assume of the packages, so
  those hypotheses are satisfiable together; the witnesses evaluate the model on it.
\<close>

section \<open>Decimals\<close>

definition rnd :: "int \<Rightarrow> int \<Rightarrow> int" where
  "rnd n d = (let q = n div d; r = n mod d in
     if 2 * r < d then q else if d < 2 * r then q + 1 else if even q then q else q + 1)"

definition roundDiv :: "int \<Rightarrow> int \<Rightarrow> int" where
  "roundDiv x y = sgn x * sgn y * rnd \<bar>x\<bar> \<bar>y\<bar>"

lemma rnd_near:
  assumes "0 < d"
  shows "2 * \<bar>rnd n d * d - n\<bar> \<le> d"
proof -
  define q r where "q = n div d" and "r = n mod d"
  have n: "n = q * d + r" and r: "0 \<le> r" "r < d" using assms by (simp_all add: q_def r_def)
  have "rnd n d = q \<and> 2 * r \<le> d \<or> rnd n d = q + 1 \<and> d \<le> 2 * r"
    by (auto simp: rnd_def Let_def q_def [symmetric] r_def [symmetric])
  then show ?thesis
  proof (elim disjE conjE)
    assume "rnd n d = q" "2 * r \<le> d"
    moreover have "q * d - n = - r" using n by simp
    ultimately show ?thesis using r by (simp only:)
  next
    assume "rnd n d = q + 1" "d \<le> 2 * r"
    moreover have "(q + 1) * d - n = d - r" using n by (simp add: algebra_simps)
    moreover have "\<bar>d - r\<bar> = d - r" using r by simp
    ultimately show ?thesis by (simp only:) simp
  qed
qed

lemma half_abs: "2 * \<bar>x\<bar> \<le> y \<Longrightarrow> 0 < y \<Longrightarrow> \<bar>x\<bar> < (y :: int)"
  by (cases "0 \<le> x") simp_all

lemma roundDiv_near:
  assumes "y \<noteq> 0"
  shows "2 * \<bar>roundDiv x y * y - x\<bar> \<le> \<bar>y\<bar>"
proof -
  have "roundDiv x y * y - x = sgn x * (rnd \<bar>x\<bar> \<bar>y\<bar> * (sgn y * y) - \<bar>x\<bar>)"
    by (simp add: roundDiv_def algebra_simps abs_mult_sgn mult_sgn_abs)
  also have "sgn y * y = \<bar>y\<bar>" by (simp add: abs_sgn mult.commute)
  finally have "\<bar>roundDiv x y * y - x\<bar> \<le> \<bar>(rnd (\<bar>x\<bar>) (\<bar>y\<bar>) * (\<bar>y\<bar>)) - (\<bar>x\<bar>)\<bar>"
    by (cases "x = 0") (auto simp: abs_mult abs_sgn_eq)
  with rnd_near [of "\<bar>y\<bar>" "\<bar>x\<bar>"] assms show ?thesis by simp
qed

lemma roundDiv_abs: "\<bar>roundDiv x y\<bar> \<le> \<bar>x\<bar>"
proof (cases "x = 0 \<or> y = 0")
  case True
  then show ?thesis by (auto simp: roundDiv_def)
next
  case False
  then have y: "1 \<le> \<bar>y\<bar>" and x: "1 \<le> \<bar>x\<bar>" by auto
  have "0 \<le> rnd \<bar>x\<bar> \<bar>y\<bar>" using y by (auto simp: rnd_def Let_def pos_imp_zdiv_nonneg_iff)
  moreover have "rnd \<bar>x\<bar> \<bar>y\<bar> \<le> \<bar>x\<bar>"
  proof (cases "\<bar>y\<bar> = 1")
    case True
    then show ?thesis by (simp add: rnd_def Let_def)
  next
    case False
    with y have "\<bar>x\<bar> div \<bar>y\<bar> \<le> \<bar>x\<bar> div 2" by (intro zdiv_mono2) auto
    moreover have "\<bar>x\<bar> div 2 + 1 \<le> \<bar>x\<bar> \<or> \<bar>x\<bar> = 1" using x by presburger
    moreover have "rnd 1 \<bar>y\<bar> \<le> 1" using False y
      by (auto simp: rnd_def Let_def div_pos_pos_trivial)
    moreover have "rnd \<bar>x\<bar> \<bar>y\<bar> \<le> \<bar>x\<bar> div \<bar>y\<bar> + 1" by (auto simp: rnd_def Let_def)
    ultimately show ?thesis by auto
  qed
  ultimately show ?thesis by (simp add: roundDiv_def abs_mult abs_sgn_eq)
qed

definition decBound :: "int \<Rightarrow> int option" where
  "decBound r = (if \<bar>r\<bar> < 2 ^ 315 then Some r else None)"

text \<open>The digits of an integer, and back; integers keep the evaluation of witnesses binary.\<close>

function fmtI :: "int \<Rightarrow> string" where
  "fmtI n = (if n < 10 then [digitChar (nat n)] else fmtI (n div 10) @ [digitChar (nat (n mod 10))])"
  by pat_completeness auto
termination by (relation "measure nat") auto

declare fmtI.simps [simp del]

definition readI :: "string \<Rightarrow> int" where
  "readI s = foldl (\<lambda>n c. 10 * n + int (digitVal c)) 0 s"

definition padI :: "string \<Rightarrow> string" where
  "padI s = replicate (18 - length s) CHR ''0'' @ s"

definition refString :: "dec \<Rightarrow> string" where
  "refString a = (if a < 0 then ''-'' else '''') @ fmtI (\<bar>a\<bar> div 10 ^ 18) @ ''.'' @ padI (fmtI (\<bar>a\<bar> mod 10 ^ 18))"

definition refDigits :: "string \<Rightarrow> int option" where
  "refDigits s = (let ip = takeWhile (\<lambda>c. c \<noteq> CHR ''.'') s; fp = drop (Suc (length ip)) s in
     if ip = [] \<or> length fp > 18 \<or> \<not> list_all isDigit (ip @ fp) \<or> (fp = [] \<and> length ip < length s) then None
     else Some (readI (ip @ fp @ replicate (18 - length fp) CHR ''0'')))"

definition refFromStr :: "string \<Rightarrow> dec option" where
  "refFromStr s = (case s of [] \<Rightarrow> None
     | c # t \<Rightarrow> if c = CHR ''-'' then map_option uminus (refDigits t) else refDigits s)"

lemma readI_eq: "readI s = int (readNat s)"
  by (induction s rule: rev_induct) (simp_all add: readI_def readNat_def)

lemma fmtI_eq: "fmtI (int n) = fmtNat n"
proof (induction n rule: fmtNat.induct)
  case (1 n)
  have "digitChar (nat (int n mod 10)) = digitChar n"
    by (simp add: digitChar_def nat_mod_distrib)
  moreover have "int n div 10 = int (n div 10)" by (simp add: zdiv_int)
  ultimately show ?case using 1 by (simp add: fmtI.simps [of "int n"] fmtNat.simps [of n])
qed

definition fmtPad18 :: "nat \<Rightarrow> string" where
  "fmtPad18 n = padI (fmtNat n)"

lemma refString_eq: "refString a = (if a < 0 then ''-'' else '''') @
    fmtNat (nat \<bar>a\<bar> div 10 ^ 18) @ ''.'' @ fmtPad18 (nat \<bar>a\<bar> mod 10 ^ 18)"
proof -
  have "\<bar>a\<bar> div 10 ^ 18 = int (nat \<bar>a\<bar> div 10 ^ 18)" "\<bar>a\<bar> mod 10 ^ 18 = int (nat \<bar>a\<bar> mod 10 ^ 18)"
    by (simp_all add: zdiv_int zmod_int)
  then show ?thesis by (simp only: refString_def fmtPad18_def fmtI_eq)
qed

lemma readNat_foldl: "foldl (\<lambda>n c. 10 * n + digitVal c) k s = k * 10 ^ length s + readNat s"
proof (induction s arbitrary: k rule: rev_induct)
  case Nil
  then show ?case by (simp add: readNat_def)
next
  case (snoc c s)
  have "foldl (\<lambda>n c. 10 * n + digitVal c) k (s @ [c]) =
    10 * (k * 10 ^ length s + readNat s) + digitVal c" by (simp add: snoc)
  also have "\<dots> = k * 10 ^ length (s @ [c]) + readNat (s @ [c])"
    by (simp add: readNat_append algebra_simps)
  finally show ?case .
qed

lemma readNat_app: "readNat (s @ t) = readNat s * 10 ^ length t + readNat t"
proof -
  have "readNat (s @ t) = foldl (\<lambda>n c. 10 * n + digitVal c) (readNat s) t" by (simp add: readNat_def)
  then show ?thesis by (simp add: readNat_foldl)
qed

lemma length_fmtNat: "0 < k \<Longrightarrow> n < 10 ^ k \<Longrightarrow> length (fmtNat n) \<le> k"
proof (induction n arbitrary: k rule: fmtNat.induct)
  case (1 n)
  show ?case
  proof (cases "n < 10")
    case True
    then show ?thesis using 1(2) by (simp add: fmtNat.simps [of n])
  next
    case False
    have k: "2 \<le> k"
    proof (rule ccontr)
      assume "\<not> 2 \<le> k"
      then have "k = 1" using 1(2) by simp
      then show False using 1(3) False by simp
    qed
    then have "n < 10 * 10 ^ (k - 1)" using 1(3) by (cases k) simp_all
    then have "n div 10 < 10 ^ (k - 1)" by (simp add: less_mult_imp_div_less mult.commute)
    with False k have "length (fmtNat (n div 10)) \<le> k - 1" by (intro 1(1)) simp_all
    then show ?thesis using False k by (simp add: fmtNat.simps [of n])
  qed
qed

lemma fmtPad18_facts:
  assumes "r < 10 ^ 18"
  shows "length (fmtPad18 r) = 18" "readNat (fmtPad18 r) = r" "list_all isDigit (fmtPad18 r)"
proof -
  have "length (fmtNat r) \<le> 18" using assms by (intro length_fmtNat) simp_all
  then show "length (fmtPad18 r) = 18" by (simp add: fmtPad18_def padI_def)
  show "readNat (fmtPad18 r) = r" by (simp add: fmtPad18_def padI_def readNat_zeros)
  have "isDigit CHR ''0''" by (simp add: isDigit_def)
  then show "list_all isDigit (fmtPad18 r)"
    by (auto simp: fmtPad18_def padI_def list_all_iff dest: fmtNat_digits)
qed

lemma fmtNat_not_Nil [simp]: "fmtNat n \<noteq> []"
  by (cases "n < 10") (simp_all add: fmtNat.simps [of n])

lemma refDigits_parts:
  assumes "r < 10 ^ 18"
  shows "refDigits (fmtNat q @ ''.'' @ fmtPad18 r) = Some (int (q * 10 ^ 18 + r))"
proof -
  note f = fmtPad18_facts [OF assms]
  have d: "c \<noteq> CHR ''.''" "isDigit c" if "c \<in> set (fmtNat q)" for c
    using fmtNat_digits [OF that] by (auto simp: isDigit_def)
  have t: "takeWhile (\<lambda>c. c \<noteq> CHR ''.'') (fmtNat q @ ''.'' @ fmtPad18 r) = fmtNat q"
    by (subst takeWhile_append2) (auto simp: d)
  have "list_all isDigit (fmtNat q)" by (simp add: list_all_iff d)
  moreover have "fmtPad18 r \<noteq> []" using f(1) by auto
  ultimately show ?thesis unfolding refDigits_def Let_def t using f
    by (simp add: readI_eq readNat_app)
qed

lemma refFromStr_refString: "refFromStr (refString a) = Some a"
proof -
  define n where "n = nat \<bar>a\<bar>"
  have d: "refDigits (fmtNat (n div 10 ^ 18) @ ''.'' @ fmtPad18 (n mod 10 ^ 18)) = Some (int n)"
    using refDigits_parts [of "n mod 10 ^ 18" "n div 10 ^ 18"] by simp
  show ?thesis
  proof (cases "a < 0")
    case True
    then show ?thesis using d by (simp add: refFromStr_def refString_eq n_def)
  next
    case False
    obtain c t where c: "fmtNat (n div 10 ^ 18) = c # t" by (cases "fmtNat (n div 10 ^ 18)") auto
    then have "isDigit c" by (intro fmtNat_digits [of _ "n div 10 ^ 18"]) simp
    then have "c \<noteq> CHR ''-''" by (auto simp: isDigit_def)
    with False d c show ?thesis by (simp add: refFromStr_def refString_eq n_def)
  qed
qed

section \<open>Coins\<close>

definition refValidDenom :: "string \<Rightarrow> bool" where
  "refValidDenom d \<longleftrightarrow> 3 \<le> length d \<and> length d \<le> 128 \<and>
     (let n = of_char (hd d) :: nat in (65 \<le> n \<and> n \<le> 90) \<or> (97 \<le> n \<and> n \<le> 122))"

definition refNewCoins :: "coin list \<Rightarrow> coin list option" where
  "refNewCoins cs = (let nz = filter (\<lambda>c. Amount c \<noteq> 0) cs in
     if list_all (\<lambda>c. refValidDenom (Denom c) \<and> 0 \<le> Amount c) nz \<and> distinct (map Denom nz)
     then Some (sort_key Denom nz) else None)"

definition refAmountOf :: "coin list \<Rightarrow> string \<Rightarrow> int" where
  "refAmountOf cs d = (case find (\<lambda>c. Denom c = d) cs of None \<Rightarrow> 0 | Some c \<Rightarrow> Amount c)"

section \<open>The ledger\<close>

text \<open>Tables are association lists of numbers, so that a ledger evaluates to a value.\<close>

definition getAt :: "('k \<times> int) list \<Rightarrow> 'k \<Rightarrow> int" where
  "getAt xs k = (case map_of xs k of None \<Rightarrow> 0 | Some n \<Rightarrow> n)"

fun putAt :: "'k \<Rightarrow> 'v \<Rightarrow> ('k \<times> 'v) list \<Rightarrow> ('k \<times> 'v) list" where
  "putAt k v [] = [(k, v)]"
| "putAt k v ((k', v') # r) = (if k = k' then (k, v) # r else (k', v') # putAt k v r)"

definition credits :: "(string \<Rightarrow> 'k) \<Rightarrow> coin list \<Rightarrow> int \<Rightarrow> ('k \<times> int) list \<Rightarrow> ('k \<times> int) list" where
  "credits f cs k xs = foldl (\<lambda>ys d. putAt (f d) (getAt ys (f d) + k * refAmountOf cs d) ys) xs (remdups (map Denom cs))"

record ledger =
  balances :: "((addr \<times> string) \<times> int) list"
  supplies :: "(string \<times> int) list"
  accounts :: "addr list"
  keyed :: "addr list"
  gasLeft :: int
  channels :: "(string \<times> string list) list"
  nextSeqs :: "(string \<times> u64) list"

definition emptyLedger :: ledger where
  "emptyLedger = \<lparr>balances = [], supplies = [], accounts = [], keyed = [], gasLeft = 10 ^ 18, channels = [], nextSeqs = []\<rparr>"

definition balOf :: "ledger \<Rightarrow> addr \<Rightarrow> string \<Rightarrow> int" where
  "balOf l a d = getAt (balances l) (a, d)"

definition supplyOf :: "ledger \<Rightarrow> string \<Rightarrow> int" where
  "supplyOf l d = getAt (supplies l) d"

text \<open>An account with a key and a balance.\<close>

definition fund :: "addr \<Rightarrow> string \<Rightarrow> int \<Rightarrow> ledger \<Rightarrow> ledger" where
  "fund a d n l = l\<lparr>balances := putAt (a, d) n (balances l), supplies := putAt d (supplyOf l d + n) (supplies l),
     accounts := a # accounts l, keyed := a # keyed l\<rparr>"

definition refMod :: "string \<Rightarrow> addr" where
  "refMod m = ''module/'' @ m"

definition refBalance :: "ledger \<Rightarrow> addr \<Rightarrow> coin list" where
  "refBalance l a = map (\<lambda>((x, d), n). \<lparr>Denom = d, Amount = n\<rparr>) (filter (\<lambda>((x, d), n). x = a \<and> n \<noteq> 0) (balances l))"

definition credit :: "addr \<Rightarrow> coin list \<Rightarrow> int \<Rightarrow> ledger \<Rightarrow> ledger" where
  "credit a cs k l = l\<lparr>balances := credits (Pair a) cs k (balances l)\<rparr>"

definition issue :: "coin list \<Rightarrow> int \<Rightarrow> ledger \<Rightarrow> ledger" where
  "issue cs k l = l\<lparr>supplies := credits (\<lambda>d. d) cs k (supplies l)\<rparr>"

definition covers :: "ledger \<Rightarrow> addr \<Rightarrow> coin list \<Rightarrow> bool" where
  "covers l a cs \<longleftrightarrow> list_all (\<lambda>c. refAmountOf cs (Denom c) \<le> balOf l a (Denom c)) cs"

definition refSend :: "ledger \<Rightarrow> addr \<Rightarrow> addr \<Rightarrow> coin list \<Rightarrow> go_error option \<times> ledger" where
  "refSend l f t cs = (if covers l f cs then (None, credit t cs 1 (credit f cs (-1) l))
     else (Some (SdkErr ''insufficient funds''), l))"

definition refMint :: "ledger \<Rightarrow> string \<Rightarrow> coin list \<Rightarrow> go_error option \<times> ledger" where
  "refMint l m cs = (None, issue cs 1 (credit (refMod m) cs 1 l))"

definition refBurn :: "ledger \<Rightarrow> string \<Rightarrow> coin list \<Rightarrow> go_error option \<times> ledger" where
  "refBurn l m cs = (if covers l (refMod m) cs then (None, issue cs (-1) (credit (refMod m) cs (-1) l))
     else (Some (SdkErr ''insufficient funds''), l))"

definition refGas :: "ledger \<Rightarrow> u64 \<Rightarrow> string \<Rightarrow> go_error option \<times> ledger" where
  "refGas l g d = (if uint g \<le> gasLeft l then (None, l\<lparr>gasLeft := gasLeft l - uint g\<rparr>) else (Some Panic, l))"

definition chanOf :: "ledger \<Rightarrow> string \<Rightarrow> string list option" where
  "chanOf l c = map_of (channels l) c"

definition nextSeq :: "ledger \<Rightarrow> string \<Rightarrow> u64" where
  "nextSeq l c = (case map_of (nextSeqs l) c of None \<Rightarrow> 1 | Some n \<Rightarrow> n)"

definition refPacket :: "ledger \<Rightarrow> string \<Rightarrow> string \<Rightarrow> u64 \<Rightarrow> bytes \<Rightarrow> (go_error + u64) \<times> ledger" where
  "refPacket l p c t d = (case chanOf l c of
     None \<Rightarrow> (Inl (SdkErr ''channel not found''), l)
   | Some _ \<Rightarrow> (Inr (nextSeq l c), l\<lparr>nextSeqs := putAt c (nextSeq l c + 1) (nextSeqs l)\<rparr>))"

lemma map_of_putAt [simp]: "map_of (putAt k v xs) = (map_of xs)(k \<mapsto> v)"
  by (induction k v xs rule: putAt.induct) (auto simp: fun_eq_iff)

lemma getAt_putAt [simp]: "getAt (putAt k v xs) k' = (if k' = k then v else getAt xs k')"
  by (simp add: getAt_def)

lemma refAmountOf_absent: "d \<notin> Denom ` set cs \<Longrightarrow> refAmountOf cs d = 0"
  unfolding refAmountOf_def by (induction cs) auto

lemma getAt_fold:
  assumes "inj f" "distinct ds"
  shows "getAt (foldl (\<lambda>ys d. putAt (f d) (getAt ys (f d) + k * g d) ys) xs ds) y =
    getAt xs y + (if y \<in> f ` set ds then k * g (the_inv f y) else 0)"
  using assms(2)
proof (induction ds arbitrary: xs)
  case (Cons d ds)
  then show ?case using assms(1) by (auto simp: the_inv_f_f inj_image_mem_iff)
qed simp

lemma getAt_credits:
  assumes "inj f"
  shows "getAt (credits f cs k xs) (f d) = getAt xs (f d) + k * refAmountOf cs d"
    and "y \<notin> range f \<Longrightarrow> getAt (credits f cs k xs) y = getAt xs y"
proof -
  note c = credits_def getAt_fold [OF assms distinct_remdups]
  show "getAt (credits f cs k xs) (f d) = getAt xs (f d) + k * refAmountOf cs d"
    using refAmountOf_absent [of d cs] assms by (auto simp: c the_inv_f_f inj_image_mem_iff)
  show "getAt (credits f cs k xs) y = getAt xs y" if "y \<notin> range f"
    using that by (auto simp: c)
qed

lemma balOf_credit: "balOf (credit a cs k l) b d = balOf l b d + (if b = a then k * refAmountOf cs d else 0)"
proof (cases "b = a")
  case True
  have "inj (Pair a :: string \<Rightarrow> _)" by (simp add: inj_def)
  from getAt_credits(1) [OF this] True show ?thesis by (simp add: balOf_def credit_def)
next
  case False
  have "inj (Pair a :: string \<Rightarrow> _)" by (simp add: inj_def)
  from getAt_credits(2) [OF this, of "(b, d)"] False show ?thesis by (auto simp: balOf_def credit_def)
qed

lemma supplyOf_issue: "supplyOf (issue cs k l) d = supplyOf l d + k * refAmountOf cs d"
  using getAt_credits(1) [of "\<lambda>d. d" cs k "supplies l" d] by (simp add: supplyOf_def issue_def)

lemma ledger_frame [simp]:
  "supplyOf (credit a cs k l) d = supplyOf l d" "balOf (issue cs k l) a d = balOf l a d"
  "balOf (l\<lparr>gasLeft := g\<rparr>) = balOf l" "supplyOf (l\<lparr>gasLeft := g\<rparr>) = supplyOf l"
  by (simp_all add: supplyOf_def balOf_def credit_def issue_def fun_eq_iff)

primrec refTypeURL :: "sdk_msg \<Rightarrow> string" where
  "refTypeURL MsgSend = ''/cosmos.bank.v1beta1.MsgSend''"
| "refTypeURL MsgMultiSend = ''/cosmos.bank.v1beta1.MsgMultiSend''"
| "refTypeURL MsgStoreCode = ''/cosmwasm.wasm.v1.MsgStoreCode''"
| "refTypeURL MsgInstantiateContract = ''/cosmwasm.wasm.v1.MsgInstantiateContract''"
| "refTypeURL (MsgExecuteContract m) = ''/cosmwasm.wasm.v1.MsgExecuteContract''"
| "refTypeURL MsgMigrateContract = ''/cosmwasm.wasm.v1.MsgMigrateContract''"
| "refTypeURL MsgUpdateAdmin = ''/cosmwasm.wasm.v1.MsgUpdateAdmin''"
| "refTypeURL (MsgExec ms) = ''/cosmos.authz.v1beta1.MsgExec''"
| "refTypeURL (OtherMsg u) = u"

definition ref_sdk :: "ledger sdk" where
  "ref_sdk = \<lparr>
     dMul = (\<lambda>a b. decBound (roundDiv (a * b) decOne)),
     dMulInt = (\<lambda>a n. decBound (a * n)),
     dQuo = (\<lambda>a b. if b = 0 then None else decBound (roundDiv (a * decOne) b)),
     dQuoInt = (\<lambda>a n. if n = 0 then None else Some (truncDiv a n)),
     dTruncateInt = (\<lambda>a. Some (truncDiv a decOne)),
     dFromStr = refFromStr,
     dString = refString,
     decWire = (\<lambda>x. Some (case x of None \<Rightarrow> 0 | Some d \<Rightarrow> d)),
     intWire = (\<lambda>x. Some (case x of None \<Rightarrow> 0 | Some d \<Rightarrow> d)),
     floatText = Some,
     NewCoin = (\<lambda>d n. if refValidDenom d \<and> 0 \<le> n then Some \<lparr>Denom = d, Amount = n\<rparr> else None),
     NewCoins = refNewCoins,
     AmountOf = refAmountOf,
     CoinsIsZero = list_all (\<lambda>c. Amount c = 0),
     ValidDenom = refValidDenom,
     MsgTypeURL = refTypeURL,
     StringToBytes = (\<lambda>s. if s = [] then None else Some s),
     BytesToString = Some,
     AccAddressFromBech32 = (\<lambda>s. if s = [] then None else Some s),
     AccAddressString = (\<lambda>a. a),
     GetModuleAddress = refMod,
     HasAccount = (\<lambda>l a. a \<in> set (accounts l)),
     AccountHasPubKey = (\<lambda>l a. a \<in> set (keyed l)),
     SpendableCoins = refBalance,
     GetAllBalances = refBalance,
     GetBalance = balOf,
     GetSupply = supplyOf,
     SendCoins = refSend,
     SendCoinsFromAccountToModule = (\<lambda>l f m. refSend l f (refMod m)),
     SendCoinsFromModuleToModule = (\<lambda>l m m'. refSend l (refMod m) (refMod m')),
     SendCoinsFromModuleToAccount = (\<lambda>l m t. refSend l (refMod m) t),
     MintCoins = refMint,
     BurnCoins = refBurn,
     ConsumeGas = refGas,
     ibcKeeperFn = True,
     GetChannel = (\<lambda>l p c. chanOf l c),
     GetNextSequenceSend = (\<lambda>l p c. if chanOf l c = None then None else Some (nextSeq l c)),
     SendPacket = refPacket\<rparr>"

section \<open>The laws hold\<close>

lemma decBound_Some: "decBound r = Some q \<Longrightarrow> q = r"
  by (simp add: decBound_def split: if_splits)

lemma decBound_ok: "\<bar>r\<bar> < 2 ^ 256 \<Longrightarrow> decBound r \<noteq> None"
proof -
  assume "\<bar>r\<bar> < 2 ^ 256"
  also have "(2 :: int) ^ 256 \<le> 2 ^ 315" by (intro power_increasing) simp_all
  finally show ?thesis by (simp add: decBound_def)
qed

lemma ref_dec_rounding: "dec_rounding ref_sdk"
proof -
  have "2 * \<bar>roundDiv (a * b) decOne * decOne - a * b\<bar> \<le> decOne" for a b
    using roundDiv_near [of decOne "a * b"] decOne_pos by (simp add: less_imp_neq [THEN not_sym])
  moreover have "\<bar>roundDiv (a * decOne) b * b - a * decOne\<bar> < \<bar>b\<bar>" if "b \<noteq> 0" for a b
  proof -
    have "2 * \<bar>roundDiv (a * decOne) b * b - a * decOne\<bar> \<le> \<bar>b\<bar>" by (rule roundDiv_near [OF that])
    then show ?thesis by (rule half_abs) (use that in simp)
  qed
  ultimately show ?thesis
    by (auto simp: dec_rounding_def ref_sdk_def dest!: decBound_Some split: if_splits)
qed

lemma ref_dec_total: "dec_total ref_sdk"
proof -
  have "decBound (roundDiv x y) \<noteq> None" if "\<bar>x\<bar> < 2 ^ 256" for x y
    using decBound_ok [of "roundDiv x y"] roundDiv_abs [of x y] that by linarith
  then show ?thesis using decBound_ok by (simp add: dec_total_def ref_sdk_def)
qed

lemma ref_dec_laws: "dec_laws ref_sdk"
  by (simp add: dec_laws_def ref_dec_rounding ref_dec_total)
     (simp add: dec_text_def ref_sdk_def refFromStr_refString)

lemma ref_coin_laws: "coin_laws ref_sdk"
  by (auto simp: coin_laws_def ref_sdk_def refNewCoins_def refAmountOf_def list_all_iff)

lemma refSend_moves:
  assumes "refSend l f t cs = (None, l')"
  shows "moves ref_sdk l f t cs l'"
proof -
  from assms have "l' = credit t cs 1 (credit f cs (-1) l)" by (simp add: refSend_def split: if_splits)
  then show ?thesis by (simp add: moves_def ref_sdk_def balOf_credit)
qed

lemma ref_bank_laws: "bank_laws ref_sdk"
proof -
  have s: "SendCoins ref_sdk = refSend"
    "SendCoinsFromAccountToModule ref_sdk l f m = refSend l f (refMod m)"
    "SendCoinsFromModuleToModule ref_sdk l m m' = refSend l (refMod m) (refMod m')"
    "SendCoinsFromModuleToAccount ref_sdk l m f = refSend l (refMod m) f"
    "GetModuleAddress ref_sdk = refMod" for l f m m'
    by (simp_all add: ref_sdk_def)
  have m: "MintCoins ref_sdk = refMint" "BurnCoins ref_sdk = refBurn" "ConsumeGas ref_sdk = refGas"
    "GetBalance ref_sdk = balOf" "GetSupply ref_sdk = supplyOf" "AmountOf ref_sdk = refAmountOf"
    by (simp_all add: ref_sdk_def)
  show ?thesis unfolding bank_laws_def s
    by (intro conjI allI impI; (rule refSend_moves, assumption)?)
       (auto simp: m refMint_def refBurn_def refGas_def balOf_credit supplyOf_issue split: if_splits)
qed

lemma ref_channel_laws: "channel_laws ref_sdk"
  by (auto simp: channel_laws_def ref_sdk_def refPacket_def split: option.splits)

lemma ref_wire_laws: "wire_laws ref_sdk"
  by (simp add: wire_laws_def ref_sdk_def)

lemmas ref_sdk_laws = ref_dec_laws ref_dec_rounding ref_coin_laws ref_bank_laws ref_channel_laws ref_wire_laws

end
