(* ===== verification/Governed.thy ===== *)
theory Governed
  imports Chain RefSdk
begin

text \<open>
  What every module's \<open>UpdateParams\<close> promises: only the module's authority changes its parameters, and
  only to valid ones. The locale states it; each module's theory interprets it on its own handler.
  \<open>runUpdates\<close> is a history of such messages, failed ones included.
\<close>

fun runUpdates :: "(string \<Rightarrow> 'p \<Rightarrow> ('s, unit) act) \<Rightarrow> (string \<times> 'p) list \<Rightarrow> 's \<Rightarrow> 's" where
  "runUpdates update [] s = s"
| "runUpdates update ((signer, p) # us) s = runUpdates update us (snd (update signer p s))"

locale governed_params =
  fixes update :: "string \<Rightarrow> 'p \<Rightarrow> ('b chain, unit) act"
    and current :: "'b chain \<Rightarrow> 'p option"
    and gov :: "string \<Rightarrow> bool"
    and valid :: "'p \<Rightarrow> bool"
    and wire :: "'p \<Rightarrow> 'p"
  assumes update_ok: "update signer p s = (Inr (), t) \<Longrightarrow>
      gov signer \<and> (current t = current s \<or> valid p \<and> current t = Some (wire p))"
    and update_err: "update signer p s = (Inl e, t) \<Longrightarrow> t = s"
begin

lemma update_step:
  "current (snd (update signer p s)) = current s \<or>
     gov signer \<and> valid p \<and> current (snd (update signer p s)) = Some (wire p)"
proof (cases "update signer p s")
  case (Pair r t)
  then show ?thesis using update_ok [of signer p s t] update_err [of signer p s _ t] by (cases r) auto
qed

text \<open>Whatever updates are tried, the parameters are the first ones or valid ones the authority sent.\<close>

lemma history:
  "current (runUpdates update us s) = current s \<or>
     (\<exists>(signer, p) \<in> set us. gov signer \<and> valid p \<and> current (runUpdates update us s) = Some (wire p))"
proof (induction us arbitrary: s)
  case Nil
  then show ?case by simp
next
  case (Cons u us)
  obtain signer p where u: "u = (signer, p)" by (cases u)
  from Cons.IH [of "snd (update signer p s)"] update_step [of signer p s] show ?case
    by (fastforce simp: u)
qed

lemma outsiders: "\<not> gov signer \<Longrightarrow> snd (update signer p s) = s"
  using update_ok [of signer p s] update_err [of signer p s]
  by (cases "update signer p s"; cases "fst (update signer p s)") auto

text \<open>A condition that every valid parameter value meets is never lost.\<close>

lemma stays:
  assumes "\<And>p. valid p \<Longrightarrow> Q (wire p)" "\<And>q. current s = Some q \<Longrightarrow> Q q"
    and "current (runUpdates update us s) = Some q"
  shows "Q q"
  using history [of us s] assms by auto

end

text \<open>
  Most modules keep nothing but their parameters in their genesis. What such a module promises beyond
  its updates: initialising stores the parameters, exporting returns the stored ones.
\<close>

locale genesis_params = governed_params update current gov valid wire
  for update :: "string \<Rightarrow> 'p \<Rightarrow> ('b chain, unit) act" and current gov valid wire +
  fixes init :: "'p \<Rightarrow> ('b chain, unit) act"
    and export :: "'b chain \<Rightarrow> 'p res"
  assumes init_returns: "fst (init p s) = Inr ()"
    and init_sets: "current (snd (init p s)) = Some (wire p)"
    and export_reads: "export s = Inr p \<longleftrightarrow> current s = Some p"
begin

lemma init_elim: "init p s = (r, t) \<Longrightarrow> r = Inr () \<and> current t = Some (wire p)"
  using init_returns [of p s] init_sets [of p s] by simp

lemma export_init: "export (snd (init p s)) = Inr (wire p)"
  by (simp add: export_reads init_sets)

text \<open>What a chain exports is what the authority last set, or what it began with.\<close>

lemma export_history:
  "export (runUpdates update us s) = Inr p \<Longrightarrow>
     current s = Some p \<or> (\<exists>(signer, q) \<in> set us. gov signer \<and> valid q \<and> p = wire q)"
  using history [of us s] by (fastforce simp: export_reads)

end

end
