(* ===== verification/Oracle.thy ===== *)
theory Oracle
  imports Governed
begin

text \<open>
  The oracle module (\<open>x/oracle\<close>): the stored CSV price, its text form, and the handlers that
  read and set it. The locale \<open>oracle_keeper\<close> states what the fees module relies on, through
  its \<open>types.OracleKeeper\<close> interface.
\<close>

section \<open>Keeper\<close>

definition oracleNewKeeper :: "'b sdk \<Rightarrow> addr \<Rightarrow> unit res" where
  "oracleNewKeeper E authority = requireAuthority E authority"

definition GetCSVPerUSD :: "'b sdk \<Rightarrow> 'b chain \<Rightarrow> dec" where
  "GetCSVPerUSD E s = (case csvPrice s ''CSV_USD'' of
     None \<Rightarrow> 0
   | Some priceStr \<Rightarrow> (case dFromStr E priceStr of None \<Rightarrow> 0 | Some price \<Rightarrow> price))"

definition SetCSVPerUSD :: "'b sdk \<Rightarrow> dec \<Rightarrow> ('b chain, unit) act" where
  "SetCSVPerUSD E price = modify (\<lambda>s. s\<lparr>csvPrice := (csvPrice s)(''CSV_USD'' \<mapsto> dString E price)\<rparr>)"

definition GetExchangeRate :: "'b sdk \<Rightarrow> 'b chain \<Rightarrow> string \<Rightarrow> dec res" where
  "GetExchangeRate E s symbol =
     (if symbol = ''CSV'' then
        let price = GetCSVPerUSD E s in
        if price = 0 then Inl (ErrMsg ''CSV price not available'') else Inr price
      else Inl (ErrMsg (''unsupported symbol: '' @ symbol)))"

section \<open>Messages, queries and genesis\<close>

record MsgSetPrice =
  spCreator :: string
  spDenom :: string
  spPrice :: string

text \<open>
  The response is \<^term>\<open>None\<close> where the handler returns a nil response with a nil error:
  \<open>errorsmod.Wrap\<close> of a nil error is nil, so a price that is not positive is not an error.
\<close>

definition SetPrice :: "'b sdk \<Rightarrow> MsgSetPrice \<Rightarrow> ('b chain, unit option) act" where
  "SetPrice E msg =
     (case StringToBytes E (spCreator msg) of
        None \<Rightarrow> raise (Wrap ''invalid creator address'' (LibErr ''StringToBytes''))
      | Some _ \<Rightarrow>
        if spDenom msg \<noteq> ''CSV'' \<and> spDenom msg \<noteq> ''ucsv'' then
          raise (Wrap ''unsupported denom'' (Reg ''oracle'' 1101))
        else (case dFromStr E (spPrice msg) of
          None \<Rightarrow> raise (Wrap ''invalid price format'' (LibErr ''LegacyNewDecFromStr''))
        | Some price \<Rightarrow>
            if price < 0 \<or> price = 0 then return None
            else bnd (wrapA ''failed to set price'' (SetCSVPerUSD E price)) (\<lambda>_.
                 bnd (emit ''PriceSet''
                   [(''creator'', AStr (spCreator msg)), (''symbol'', AStr ''CSV''),
                    (''price'', ADec (Some price))]) (\<lambda>_.
                 return (Some ())))))"

definition oracleValidate :: "unit \<Rightarrow> unit res" where
  "oracleValidate p = Inr ()"

definition oracleUpdateParams :: "'b sdk \<Rightarrow> addr \<Rightarrow> string \<Rightarrow> unit \<Rightarrow> ('b chain, unit) act" where
  "oracleUpdateParams E authority signer p =
     bnd (lift (checkAuthority E ''oracle'' authority signer)) (\<lambda>_.
     bnd (lift (oracleValidate p)) (\<lambda>_.
     modify (\<lambda>s. s\<lparr>oracleParams := Some p\<rparr>)))"

definition oracleQueryParams :: "unit option \<Rightarrow> ('b chain, unit) act" where
  "oracleQueryParams req = bnd (lift (queryReq req)) (\<lambda>_.
     gets (\<lambda>s. case oracleParams s of None \<Rightarrow> () | Some p \<Rightarrow> p))"

definition oracleInitGenesis :: "unit \<Rightarrow> ('b chain, unit) act" where
  "oracleInitGenesis p = modify (\<lambda>s. s\<lparr>oracleParams := Some p\<rparr>)"

definition oracleExportGenesis :: "'b chain \<Rightarrow> unit res" where
  "oracleExportGenesis s = ofOption (SdkErr ''collections: not found'') (oracleParams s)"

interpretation oracleGov: genesis_params "oracleUpdateParams E authority" oracleParams
  "\<lambda>signer. StringToBytes E signer = Some authority" "\<lambda>p. oracleValidate p = Inr ()" "\<lambda>p. p"
  "oracleInitGenesis" oracleExportGenesis
  for E :: "'b sdk" and authority
  by unfold_locales
    (auto simp: oracleUpdateParams_def oracleInitGenesis_def oracleExportGenesis_def ofOption_Inr_iff act_splits checkAuthority_Inr bnd_def lift_def modify_def split: sum.splits)

section \<open>What the fees module relies on\<close>

text \<open>
  \<open>rate\<close> is \<open>OracleKeeper.GetExchangeRate\<close>: a rate it reports is not zero, and it looks at
  nothing but the oracle's own price store.
\<close>

locale oracle_keeper =
  fixes rate :: "'b chain \<Rightarrow> string \<Rightarrow> dec res"
  assumes rate_nonzero: "rate s symb = Inr p \<Longrightarrow> p \<noteq> 0"
    and rate_no_panic: "rate s symb \<noteq> Inl Panic"
    and rate_frame: "csvPrice s' = csvPrice s \<Longrightarrow> rate s' symb = rate s symb"

interpretation oracleRate: oracle_keeper "GetExchangeRate E" for E :: "'b sdk"
  by unfold_locales
    (auto simp: GetExchangeRate_def Let_def GetCSVPerUSD_def split: if_splits option.splits)

text \<open>
  The price store itself, as the price feeds use it (\<open>SetCSVPerUSD\<close> and \<open>GetCSVPerUSD\<close>): writing
  succeeds, changes the price only, and what was written is read back where the text form of the
  price parses to it.
\<close>

locale price_store =
  fixes put :: "dec \<Rightarrow> ('b chain, unit) act"
    and get :: "'b chain \<Rightarrow> dec"
    and ok :: "dec \<Rightarrow> bool"
  assumes put_returns: "fst (put p s) = Inr ()"
    and get_put: "ok p \<Longrightarrow> get (snd (put p s)) = p"
    and put_frame: "\<exists>q. snd (put p s) = s\<lparr>csvPrice := q\<rparr>"
    and get_frame: "csvPrice s' = csvPrice s \<Longrightarrow> get s' = get s"
begin

lemma put_elim:
  assumes "put p s = (r, t)"
  shows "r = Inr ()" and "ok p \<Longrightarrow> get t = p" and "\<exists>q. t = s\<lparr>csvPrice := q\<rparr>"
  using put_returns [of p s] get_put [of p s] put_frame [of p s] assms by simp_all

lemma keeps_put: "(\<And>s p. g (s\<lparr>csvPrice := p\<rparr>) = g s) \<Longrightarrow> keeps g (put p)"
  unfolding keeps_def using put_frame by metis

lemma last_put_wins: "ok q \<Longrightarrow> get (snd (put q (snd (put p s)))) = q"
  by (rule get_put)

end

definition price_ok :: "'b sdk \<Rightarrow> dec \<Rightarrow> bool" where
  "price_ok E p \<longleftrightarrow> dFromStr E (dString E p) = Some p"

interpretation price: price_store "SetCSVPerUSD E" "GetCSVPerUSD E" "price_ok E" for E :: "'b sdk"
  by unfold_locales (auto simp: SetCSVPerUSD_def GetCSVPerUSD_def price_ok_def act_eval)

section \<open>Lemmas\<close>

lemma price_okI: "dec_text E \<Longrightarrow> \<bar>p\<bar> < 2 ^ 256 \<Longrightarrow> price_ok E p"
  by (simp add: price_ok_def dec_text_def)

lemma keeps_SetCSVPerUSD [keeps_intros]:
  "(\<And>s p. g (s\<lparr>csvPrice := p\<rparr>) = g s) \<Longrightarrow> keeps g (SetCSVPerUSD E p)"
  by (rule price.keeps_put)

text \<open>What a \<open>SetPrice\<close> that reports no error did: it stored a positive price, or nothing.\<close>

lemma SetPrice_cases:
  assumes "SetPrice E msg s = (Inr r, t)"
  obtains (stored) p where "r = Some ()" "dFromStr E (spPrice msg) = Some p" "0 < p"
      "csvPrice t = (csvPrice s)(''CSV_USD'' \<mapsto> dString E p)"
      "events t = events s @ [mkEvent ''PriceSet'' [(''creator'', AStr (spCreator msg)),
         (''symbol'', AStr ''CSV''), (''price'', ADec (Some p))]]"
  | (ignored) p where "r = None" "dFromStr E (spPrice msg) = Some p" "p \<le> 0" "t = s"
proof -
  from assms obtain a p where d: "StringToBytes E (spCreator msg) = Some a" "dFromStr E (spPrice msg) = Some p"
    by (auto simp: SetPrice_def act_splits split: option.splits if_splits)
  show thesis
  proof (cases "p \<le> 0")
    case True
    with assms d have "r = None" "t = s"
      by (auto simp: SetPrice_def act_splits split: if_splits)
    with True d show thesis by (intro ignored)
  next
    case False
    with assms d show thesis
      by (intro stored [of p]) (auto simp: SetPrice_def act_splits SetCSVPerUSD_def split: if_splits)
  qed
qed

section \<open>Properties\<close>

text \<open>
  A price that SetPrice stored is the exchange rate that the fees module then reads, and it
  is positive.
\<close>

theorem set_price_is_the_rate:
  assumes "dec_text E" "SetPrice E msg s = (Inr (Some ()), t)" "dFromStr E (spPrice msg) = Some p" "p < 2 ^ 256"
  shows "GetExchangeRate E t ''CSV'' = Inr p \<and> 0 < p"
  using assms(2)
proof (cases rule: SetPrice_cases)
  case (stored q)
  then have "q = p" "0 < p" using assms(3) by simp_all
  moreover from this have "price_ok E p" using assms(4) by (intro price_okI [OF assms(1)]) simp
  ultimately show ?thesis using stored(4) by (simp add: GetExchangeRate_def GetCSVPerUSD_def price_ok_def)
qed simp

definition priceMsg :: "string \<Rightarrow> MsgSetPrice" where
  "priceMsg p = \<lparr>spCreator = ''feeder'', spDenom = ''ucsv'', spPrice = p\<rparr>"

theorem set_price_is_the_rate_witness:
  "GetExchangeRate ref_sdk (snd (SetPrice ref_sdk (priceMsg ''0.25'') (initChain emptyLedger))) ''CSV'' = Inr (25 * 10 ^ 16)"
proof -
  have r: "fst (SetPrice ref_sdk (priceMsg ''0.25'') (initChain emptyLedger)) = Inr (Some ())" by code_simp
  have p: "dFromStr ref_sdk (spPrice (priceMsg ''0.25'')) = Some (25 * 10 ^ 16)" by code_simp
  have t: "dec_text ref_sdk" using ref_dec_laws by (simp add: dec_laws_def)
  show ?thesis using set_price_is_the_rate [OF t runs [OF r] p] by simp
qed

text \<open>A price that is not positive is accepted without an error and without an effect.\<close>

theorem bad_price_is_silently_accepted:
  assumes "StringToBytes E (spCreator msg) = Some a" "spDenom msg \<in> {''CSV'', ''ucsv''}"
    and "dFromStr E (spPrice msg) = Some p" "p \<le> 0"
  shows "SetPrice E msg s = (Inr None, s)"
  using assms by (auto simp: SetPrice_def act_simps)

theorem bad_price_is_silently_accepted_witness:
  "SetPrice ref_sdk (priceMsg ''-3.0'') (initChain emptyLedger) = (Inr None, initChain emptyLedger)"
proof -
  have a: "StringToBytes ref_sdk (spCreator (priceMsg ''-3.0'')) = Some ''feeder''" by code_simp
  have d: "spDenom (priceMsg ''-3.0'') \<in> {''CSV'', ''ucsv''}" by (simp add: priceMsg_def)
  have p: "dFromStr ref_sdk (spPrice (priceMsg ''-3.0'')) = Some (- 3 * 10 ^ 18)" by code_simp
  show ?thesis by (rule bad_price_is_silently_accepted [OF a d p]) simp
qed

end
