(* ===== verification/OracleAdapter.thy ===== *)
theory OracleAdapter
  imports Oracle
begin

text \<open>
  The price source of the fees module (\<open>x/fees/keeper/oracle_adapter.go\<close>, \<open>query_oracle_price.go\<close>).
  The argument \<open>rate\<close> is the \<open>OracleKeeper\<close> interface value the keeper holds; the application
  passes \<^term>\<open>GetExchangeRate E\<close>.
\<close>

type_synonym 'b rate = "'b chain \<Rightarrow> string \<Rightarrow> dec res"

definition emitOracleEvent :: "PriceData \<Rightarrow> ('b chain, unit) act" where
  "emitOracleEvent pd = emit ''oracle_used''
     [(''price'', ADec (Some (Price pd))), (''twap_price'', ADec (Some (TwapPrice pd))),
      (''timestamp'', ATime (Timestamp pd)), (''window'', ADuration (Window pd)),
      (''freshness'', ADuration (Freshness pd)), (''is_stale'', ABool (IsStale pd)),
      (''is_fallback'', ABool (IsFallback pd))]"

definition getFallbackPrice :: "('b chain, PriceData) act" where
  "getFallbackPrice =
     bnd (gets (\<lambda>s. \<lparr>Price = decOne, TwapPrice = decOne, Timestamp = blockTime s, Window = 0,
       Freshness = 0, IsStale = True, IsFallback = True\<rparr>)) (\<lambda>pd.
     bnd (emitOracleEvent pd) (\<lambda>_.
     return pd))"

definition paramsOrDefault :: "'b chain \<Rightarrow> FeesParams" where
  "paramsOrDefault s = (case feesParams s of None \<Rightarrow> DefaultParams | Some p \<Rightarrow> p)"

definition GetCSVUSDPrice :: "'b rate \<Rightarrow> ('b chain, PriceData) act" where
  "GetCSVUSDPrice rate =
     bnd (gets paramsOrDefault) (\<lambda>params.
     catchA (bnd (gets (\<lambda>s. rate s ''CSV'')) lift)
       (\<lambda>_. getFallbackPrice)
       (\<lambda>price. if price \<noteq> 0 then
          bnd (gets (\<lambda>s. \<lparr>Price = price, TwapPrice = price, Timestamp = blockTime s,
            Window = TwapWindow (OracleParams params), Freshness = 0, IsStale = False, IsFallback = False\<rparr>)) (\<lambda>pd.
          bnd (emitOracleEvent pd) (\<lambda>_.
          return pd))
        else getFallbackPrice))"

definition ConvertUSDToCSV :: "'b rate \<Rightarrow> 'b sdk \<Rightarrow> dec option \<Rightarrow> ('b chain, dec \<times> PriceData) act" where
  "ConvertUSDToCSV rate E usd =
     bnd (GetCSVUSDPrice rate) (\<lambda>pd.
     bnd (lift (decGet usd)) (\<lambda>u.
     bnd (lift (ofOption Panic (dMul E u (TwapPrice pd)))) (\<lambda>csv.
     return (csv, pd))))"

record OraclePrice =
  opPrice :: "dec option"
  opTimestamp :: int
  opRequestId :: u64

text \<open>\<open>now\<close> is the wall clock \<open>time.Since\<close> reads.\<close>

definition isPriceValid :: "int \<Rightarrow> OraclePrice \<Rightarrow> OracleParams \<Rightarrow> bool res" where
  "isPriceValid now price params =
     (if now - opTimestamp price > MaxPriceAge params then Inr False
      else rbind (decGet (opPrice price)) (\<lambda>p. Inr (\<not> (p = 0 \<or> p < 0))))"

definition OraclePriceQuery :: "'b rate \<Rightarrow> unit option \<Rightarrow> 'b chain \<Rightarrow> PriceData res" where
  "OraclePriceQuery rate req s =
     rbind (queryReq req) (\<lambda>_.
     case rate s ''CSV'' of
       Inl e \<Rightarrow> Inl (if e = Panic then Panic else ErrMsg ''Internal: failed to get CSV price from oracle'')
     | Inr price \<Rightarrow> Inr \<lparr>Price = price, TwapPrice = price, Timestamp = blockTime s, Window = 5 * Minute,
         Freshness = 0, IsStale = False, IsFallback = False\<rparr>)"

section \<open>Lemmas\<close>

text \<open>The price the adapter uses, as a function of the state: the oracle's, or one.\<close>

definition effectivePrice :: "'b rate \<Rightarrow> 'b chain \<Rightarrow> dec" where
  "effectivePrice rate s = (case rate s ''CSV'' of Inl _ \<Rightarrow> decOne | Inr p \<Rightarrow> if p = 0 then decOne else p)"

definition priceDataOf :: "'b rate \<Rightarrow> 'b chain \<Rightarrow> PriceData" where
  "priceDataOf rate s = (case rate s ''CSV'' of
     Inr p \<Rightarrow> if p = 0
       then \<lparr>Price = decOne, TwapPrice = decOne, Timestamp = blockTime s, Window = 0, Freshness = 0, IsStale = True, IsFallback = True\<rparr>
       else \<lparr>Price = p, TwapPrice = p, Timestamp = blockTime s, Window = TwapWindow (OracleParams (paramsOrDefault s)),
         Freshness = 0, IsStale = False, IsFallback = False\<rparr>
   | Inl _ \<Rightarrow> \<lparr>Price = decOne, TwapPrice = decOne, Timestamp = blockTime s, Window = 0, Freshness = 0, IsStale = True, IsFallback = True\<rparr>)"

lemma priceDataOf_price [simp]: "TwapPrice (priceDataOf rate s) = effectivePrice rate s"
  by (simp add: priceDataOf_def effectivePrice_def split: sum.splits)

definition oracleEvents :: "PriceData \<Rightarrow> event" where
  "oracleEvents pd = mkEvent ''oracle_used''
     [(''price'', ADec (Some (Price pd))), (''twap_price'', ADec (Some (TwapPrice pd))),
      (''timestamp'', ATime (Timestamp pd)), (''window'', ADuration (Window pd)),
      (''freshness'', ADuration (Freshness pd)), (''is_stale'', ABool (IsStale pd)),
      (''is_fallback'', ABool (IsFallback pd))]"

lemma GetCSVUSDPrice_eval:
  assumes "rate s ''CSV'' \<noteq> Inl Panic"
  shows "GetCSVUSDPrice rate s = (Inr (priceDataOf rate s),
    s\<lparr>events := events s @ [oracleEvents (priceDataOf rate s)]\<rparr>)"
proof (cases "rate s ''CSV''")
  case (Inl e)
  with assms have "e \<noteq> Panic" by simp
  with Inl show ?thesis
    by (auto simp: GetCSVUSDPrice_def act_simps catchA_def getFallbackPrice_def emitOracleEvent_def
      priceDataOf_def oracleEvents_def split: go_error.splits)
next
  case (Inr p)
  then show ?thesis
    by (auto simp: GetCSVUSDPrice_def act_simps catchA_def getFallbackPrice_def emitOracleEvent_def
      priceDataOf_def oracleEvents_def)
qed

context oracle_keeper
begin

lemma effectivePrice_nonzero: "effectivePrice rate s \<noteq> 0"
  using decOne_pos rate_nonzero [of s "''CSV''"]
  by (auto simp: effectivePrice_def split: sum.splits)

lemma ConvertUSDToCSV_eval:
  "ConvertUSDToCSV rate E (Some u) s =
     (case dMul E u (effectivePrice rate s) of
        None \<Rightarrow> (Inl Panic, s\<lparr>events := events s @ [oracleEvents (priceDataOf rate s)]\<rparr>)
      | Some csv \<Rightarrow> (Inr (csv, priceDataOf rate s),
          s\<lparr>events := events s @ [oracleEvents (priceDataOf rate s)]\<rparr>))"
  by (simp add: ConvertUSDToCSV_def bnd_def lift_def return_def GetCSVUSDPrice_eval [OF rate_no_panic]
    split: option.splits)

end

lemma keeps_GetCSVUSDPrice [keeps_intros]:
  "(\<And>s as. g (s\<lparr>events := as\<rparr>) = g s) \<Longrightarrow> keeps g (GetCSVUSDPrice rate)"
  unfolding GetCSVUSDPrice_def getFallbackPrice_def emitOracleEvent_def
  by (intro keeps_intros) auto

lemma keeps_ConvertUSDToCSV [keeps_intros]:
  "(\<And>s as. g (s\<lparr>events := as\<rparr>) = g s) \<Longrightarrow> keeps g (ConvertUSDToCSV rate E usd)"
  unfolding ConvertUSDToCSV_def by (intro keeps_intros) auto

end
