(* ===== verification/FeeCalculator.thy ===== *)
theory FeeCalculator
  imports OracleAdapter
begin

text \<open>
  The fee calculator (\<open>x/fees/keeper/fee_calculator.go\<close>): classification of a transaction, the
  estimate of its fee, the guard rails, and the comparison of the fee offered with the fee expected.
\<close>

section \<open>Categories\<close>

definition CategoryPOS :: string where "CategoryPOS = ''pos''"
definition CategoryTokenInteraction :: string where "CategoryTokenInteraction = ''token_interaction''"
definition CategoryNativeTransfer :: string where "CategoryNativeTransfer = ''native_transfer''"
definition CategoryDEXNative :: string where "CategoryDEXNative = ''dex_native''"
definition CategoryDEXUser :: string where "CategoryDEXUser = ''dex_user''"
definition CategoryDeploy :: string where "CategoryDeploy = ''deploy''"
definition CategoryWizard :: string where "CategoryWizard = ''wizard''"
definition CategoryDefault :: string where "CategoryDefault = ''default''"
definition CategorySystem :: string where "CategorySystem = ''system''"
definition CategoryMixed :: string where "CategoryMixed = ''mixed''"

lemmas category_defs = CategoryPOS_def CategoryTokenInteraction_def CategoryNativeTransfer_def
  CategoryDEXNative_def CategoryDEXUser_def CategoryDeploy_def CategoryWizard_def CategoryDefault_def
  CategorySystem_def CategoryMixed_def

record FeeEstimate =
  Category :: string
  USDAmount :: dec
  CSVAmount :: dec
  GasWanted :: u64
  GasPrice :: "dec option"
  IsFree :: bool
  EstPriceData :: "PriceData option"

section \<open>Classification\<close>

primrec expandMessages :: "nat \<Rightarrow> sdk_msg list \<Rightarrow> sdk_msg list" where
  "expandMessages 0 msgs = msgs"
| "expandMessages (Suc d) msgs = concat (map (\<lambda>m. case m of
       MsgExec inner \<Rightarrow> concat (map (\<lambda>a. case a of Some i \<Rightarrow> expandMessages d [i] | None \<Rightarrow> []) inner)
     | _ \<Rightarrow> [m]) msgs)"

definition isSystemMsg :: "'b sdk \<Rightarrow> FeesParams option \<Rightarrow> sdk_msg \<Rightarrow> bool" where
  "isSystemMsg E params msg = (let typeURL = MsgTypeURL E msg in
     if typeURL = ''/ibc.applications.transfer.v1.MsgTransfer'' then False
     else case params of
       Some p \<Rightarrow>
         if typeURL \<in> set (SystemMsgTypeUrls p) then True
         else if typeURL \<in> set (ExemptMsgTypeUrls p) then False
         else HasPrefix typeURL ''/ibc.core.''
     | None \<Rightarrow> HasPrefix typeURL ''/ibc.core.'')"

definition isTokenInteraction :: "bytes \<Rightarrow> bool" where
  "isTokenInteraction msg = list_ex (Contains (ToLower msg))
     [''transfer'', ''mint'', ''burn'', ''approve'', ''allowance'', ''balance'']"

definition isDEXInteraction :: "bytes \<Rightarrow> bool" where
  "isDEXInteraction msg = list_ex (Contains (ToLower msg))
     [''swap'', ''provide_liquidity'', ''withdraw_liquidity'', ''create_pair'']"

definition memoCategory :: "string \<Rightarrow> string option" where
  "memoCategory memo = (let memoLower = ToLower memo in
     if Contains memoLower ''pos'' \<or> Contains memoLower ''payment'' then Some CategoryPOS
     else if Contains memoLower ''dex'' then
       (if Contains memoLower ''native'' then Some CategoryDEXNative else Some CategoryDEXUser)
     else if Contains memoLower ''deploy'' then Some CategoryDeploy
     else if Contains memoLower ''wizard'' then Some CategoryWizard
     else None)"

fun classifyMsgs :: "sdk_msg list \<Rightarrow> string" where
  "classifyMsgs [] = CategoryNativeTransfer"
| "classifyMsgs (m # ms) = (case m of
     MsgSend \<Rightarrow> CategoryNativeTransfer
   | MsgMultiSend \<Rightarrow> CategoryNativeTransfer
   | MsgStoreCode \<Rightarrow> CategoryDeploy
   | MsgInstantiateContract \<Rightarrow> CategoryDeploy
   | MsgExecuteContract msg \<Rightarrow>
       if isTokenInteraction msg then CategoryTokenInteraction
       else if isDEXInteraction msg then CategoryDEXUser
       else CategoryTokenInteraction
   | MsgMigrateContract \<Rightarrow> CategoryTokenInteraction
   | MsgUpdateAdmin \<Rightarrow> CategoryTokenInteraction
   | _ \<Rightarrow> classifyMsgs ms)"

definition classifyTransaction :: "'b sdk \<Rightarrow> FeesParams option \<Rightarrow> sdk_msg list \<Rightarrow> string \<Rightarrow> string" where
  "classifyTransaction E params msgs memo = (case memoCategory memo of
     Some c \<Rightarrow> c
   | None \<Rightarrow>
       let allSystem = list_all (isSystemMsg E params) msgs;
           anySystem = list_ex (isSystemMsg E params) msgs;
           anyUser = list_ex (\<lambda>m. \<not> isSystemMsg E params m) msgs
       in if allSystem \<and> anySystem then CategorySystem
          else if anySystem \<and> anyUser then CategoryMixed
          else classifyMsgs msgs)"

section \<open>Estimation\<close>

definition getMaxGasForFreeCategory :: "string \<Rightarrow> GuardRails \<Rightarrow> u64" where
  "getMaxGasForFreeCategory category g =
     (if category = CategoryDeploy then MaxGasDeploy g
      else if category = CategoryWizard then MaxGasWizard g
      else 0)"

definition applyGuardRails :: "'b sdk \<Rightarrow> dec \<Rightarrow> u64 \<Rightarrow> GuardRails \<Rightarrow> dec res" where
  "applyGuardRails E csvAmount gasWanted g =
     (if gasWanted = 0 then Inr csvAmount
      else rbind (ofOption Panic (dQuoInt E csvAmount (int64 gasWanted))) (\<lambda>gasPrice.
        rbind (decGet (MinGasPriceCsv g)) (\<lambda>mn.
        rbind (if gasPrice < mn then ofOption Panic (dMulInt E mn (int64 gasWanted)) else Inr csvAmount) (\<lambda>csv1.
        rbind (decGet (MaxGasPriceCsv g)) (\<lambda>mx.
        if gasPrice > mx then ofOption Panic (dMulInt E mx (int64 gasWanted)) else Inr csv1)))))"

definition zeroEstimate :: "string \<Rightarrow> u64 \<Rightarrow> FeeEstimate" where
  "zeroEstimate category gasWanted = \<lparr>Category = category, USDAmount = 0, CSVAmount = 0,
     GasWanted = gasWanted, GasPrice = Some 0, IsFree = True, EstPriceData = None\<rparr>"

definition tableEntry :: "FeeTableUSD \<Rightarrow> string \<Rightarrow> FeeConfig" where
  "tableEntry t category =
     (if category = CategoryPOS then PosPayment t
      else if category = CategoryTokenInteraction then TokenInteraction t
      else if category = CategoryNativeTransfer then NativeTransfer t
      else if category = CategoryDEXNative then DexNative t
      else if category = CategoryDEXUser then DexUser t
      else if category = CategoryDeploy then Deploy t
      else if category = CategoryWizard then Wizard t
      else NativeTransfer t)"

definition EstimateFee ::
  "'b rate \<Rightarrow> 'b sdk \<Rightarrow> sdk_msg list \<Rightarrow> string \<Rightarrow> u64 \<Rightarrow> ('b chain, FeeEstimate) act" where
  "EstimateFee rate E msgs memo gasWanted =
     bnd (gets (\<lambda>s. classifyTransaction E (feesParams s) (expandMessages 4 msgs) memo)) (\<lambda>category.
     bnd (gets paramsOrDefault) (\<lambda>params.
     if category = CategorySystem then return (zeroEstimate category gasWanted)
     else let feeConfig = tableEntry (FeeTableUsd params) category in
       bnd (if category = CategoryDeploy \<or> category = CategoryWizard
            then lift (rbind (decGet (UsdAmount feeConfig)) (\<lambda>u. Inr (u = 0))) else return False) (\<lambda>isFree.
       if isFree then
         (if gasWanted > getMaxGasForFreeCategory category (GuardRails params)
          then raise (ErrMsg ''gas wanted exceeds free tier limit'')
          else return (zeroEstimate category gasWanted))
       else
         bnd (wrapA ''failed to convert USD to CSV'' (ConvertUSDToCSV rate E (UsdAmount feeConfig))) (\<lambda>(csv0, priceData).
         bnd (wrapA ''guard rails validation failed'' (lift (applyGuardRails E csv0 gasWanted (GuardRails params)))) (\<lambda>csvAmount.
         bnd (if gasWanted > 0 then lift (rbind (ofOption Panic (dQuoInt E csvAmount (int64 gasWanted))) (\<lambda>p. Inr (Some p)))
              else return None) (\<lambda>gasPrice.
         bnd (lift (decGet (UsdAmount feeConfig))) (\<lambda>usd.
         return \<lparr>Category = category, USDAmount = usd, CSVAmount = csvAmount, GasWanted = gasWanted,
           GasPrice = gasPrice, IsFree = False, EstPriceData = Some priceData\<rparr>)))))))"

section \<open>Expected fee\<close>

definition microUnits :: "'b sdk \<Rightarrow> dec \<Rightarrow> int res" where
  "microUnits E csv = rbind (ofOption Panic (dMulInt E csv 1000000)) (\<lambda>m. ofOption Panic (dTruncateInt E m))"

definition BuildFeeFromEstimate :: "'b sdk \<Rightarrow> FeeEstimate \<Rightarrow> string \<Rightarrow> coin list res" where
  "BuildFeeFromEstimate E estimate denom =
     (if IsFree estimate \<or> CSVAmount estimate = 0 then ofOption Panic (NewCoins E [])
      else
        rbind (ofOption Panic (dTruncateInt E (CSVAmount estimate))) (\<lambda>whole.
        rbind (if HasPrefix denom ''u'' then microUnits E (CSVAmount estimate) else Inr whole) (\<lambda>amount.
        rbind (ofOption Panic (NewCoin E denom (if amount = 0 then 1 else amount))) (\<lambda>c.
        ofOption Panic (NewCoins E [c])))))"

definition ValidateFeeAgainstEstimate ::
  "'b sdk \<Rightarrow> coin list \<Rightarrow> FeeEstimate \<Rightarrow> string \<Rightarrow> dec \<Rightarrow> unit res" where
  "ValidateFeeAgainstEstimate E providedFee estimate denom tolerance =
     rbind (BuildFeeFromEstimate E estimate denom) (\<lambda>expectedFee.
     if IsFree estimate then
       (if \<not> CoinsIsZero E providedFee then Inl (ErrMsg ''expected zero fee for free tier'') else Inr ())
     else if CoinsIsZero E providedFee \<and> \<not> CoinsIsZero E expectedFee then
       Inl (ErrMsg ''expected non-zero fee, got zero'')
     else
       let expectedAmount = AmountOf E expectedFee denom;
           providedAmount = AmountOf E providedFee denom
       in if expectedAmount = 0 then Inr ()
          else let diff = \<bar>providedAmount - expectedAmount\<bar> in
            rbind (rbind (ofOption Panic (dMulInt E tolerance expectedAmount)) (\<lambda>m. ofOption Panic (dTruncateInt E m))) (\<lambda>maxDiff.
            if diff > maxDiff then Inl (ErrMsg ''fee amount is outside tolerance range'') else Inr ()))"

section \<open>Unwrapping\<close>

text \<open>
  What unwrapping is for: \<open>leaves\<close> lists the messages inside nested \<open>MsgExec\<close>s in order, and
  \<open>execDepth\<close> counts the levels of nesting.
\<close>

primrec leaves :: "sdk_msg \<Rightarrow> sdk_msg list" where
  "leaves (MsgExec ms) = concat (map (case_option [] id) (map (map_option leaves) ms))"
| "leaves MsgSend = [MsgSend]"
| "leaves MsgMultiSend = [MsgMultiSend]"
| "leaves MsgStoreCode = [MsgStoreCode]"
| "leaves MsgInstantiateContract = [MsgInstantiateContract]"
| "leaves (MsgExecuteContract m) = [MsgExecuteContract m]"
| "leaves MsgMigrateContract = [MsgMigrateContract]"
| "leaves MsgUpdateAdmin = [MsgUpdateAdmin]"
| "leaves (OtherMsg u) = [OtherMsg u]"

primrec execDepth :: "sdk_msg \<Rightarrow> nat" where
  "execDepth (MsgExec ms) = Suc (foldr max (map (case_option 0 id) (map (map_option execDepth) ms)) 0)"
| "execDepth MsgSend = 0"
| "execDepth MsgMultiSend = 0"
| "execDepth MsgStoreCode = 0"
| "execDepth MsgInstantiateContract = 0"
| "execDepth (MsgExecuteContract m) = 0"
| "execDepth MsgMigrateContract = 0"
| "execDepth MsgUpdateAdmin = 0"
| "execDepth (OtherMsg u) = 0"

definition isExec :: "sdk_msg \<Rightarrow> bool" where
  "isExec m = (case m of MsgExec _ \<Rightarrow> True | _ \<Rightarrow> False)"

lemma foldr_max_ge: "x \<in> set xs \<Longrightarrow> x \<le> foldr max xs (0 :: nat)"
  by (induction xs) auto

lemma execDepth_inner: "Some m \<in> set ms \<Longrightarrow> execDepth m < execDepth (MsgExec ms)"
  by (force intro!: le_imp_less_Suc foldr_max_ge)

lemma leaves_flat:
  fixes m :: sdk_msg
  shows "list_all (\<lambda>x. \<not> isExec x) (leaves m)"
proof (induction m)
  case (MsgExec ms)
  then show ?case by (fastforce simp: list_all_iff split: option.splits)
qed (simp_all add: isExec_def)

lemma expandMessages_one: "execDepth m \<le> d \<Longrightarrow> expandMessages d [m] = leaves m"
proof (induction d arbitrary: m)
  case 0
  then show ?case by (cases m) simp_all
next
  case (Suc d)
  show ?case
  proof (cases m)
    case (MsgExec ms)
    have "expandMessages d [i] = leaves i" if "Some i \<in> set ms" for i
      using that execDepth_inner [OF that] Suc.prems MsgExec by (intro Suc.IH) simp
    then have "(case a of Some i \<Rightarrow> expandMessages d [i] | None \<Rightarrow> []) =
        (case_option [] id \<circ> map_option leaves) a" if "a \<in> set ms" for a
      using that by (cases a) auto
    then show ?thesis using MsgExec by (auto cong: map_cong)
  qed simp_all
qed

lemma expandMessages_append: "expandMessages d (xs @ ys) = expandMessages d xs @ expandMessages d ys"
  by (cases d) simp_all

lemma expandMessages_leaves:
  "list_all (\<lambda>m. execDepth m \<le> d) ms \<Longrightarrow> expandMessages d ms = concat (map leaves ms)"
proof (induction ms)
  case Nil
  then show ?case by (cases d) simp_all
next
  case (Cons m ms)
  then show ?case using expandMessages_append [of d "[m]" ms] by (simp add: expandMessages_one)
qed

section \<open>Guard rails\<close>

lemma truncDiv_mult: "0 < g \<Longrightarrow> truncDiv (m * g) g = m"
  by (auto simp: truncDiv_def abs_mult sgn_mult sgn_mult_abs)

text \<open>The price per gas of the amount that comes out is the price that went in, cut to the range.\<close>

definition clamp :: "int \<Rightarrow> int \<Rightarrow> int \<Rightarrow> int" where
  "clamp lo hi x = (if x < lo then lo else if x > hi then hi else x)"

lemma applyGuardRails_clamp:
  assumes "dec_laws E" and g: "0 < gas" "uint gas < 2 ^ 63"
    and b: "MinGasPriceCsv r = Some mn" "MaxGasPriceCsv r = Some mx" "mn \<le> mx"
    and s: "\<bar>mn\<bar> < 2 ^ 190" "\<bar>mx\<bar> < 2 ^ 190" "\<bar>csv\<bar> < 2 ^ 256"
  shows "applyGuardRails E csv gas r = Inr
    (if truncDiv csv (uint gas) < mn then mn * uint gas
     else if truncDiv csv (uint gas) > mx then mx * uint gas else csv)"
proof -
  have g0: "gas \<noteq> 0" "0 < uint gas" using g(1) by (auto simp: word_less_def)
  have i: "int64 gas = uint gas" using g(2) by (rule int64_small)
  have small: "\<bar>m * uint gas\<bar> < 2 ^ 256" if "\<bar>m\<bar> < 2 ^ 190" for m :: int
  proof -
    have "\<bar>m * uint gas\<bar> = \<bar>m\<bar> * uint gas" using g0 by (simp add: abs_mult)
    also have "\<dots> \<le> 2 ^ 190 * 2 ^ 63" using that g g0 by (intro mult_mono) simp_all
    also have "\<dots> < 2 ^ 256" by simp
    finally show ?thesis .
  qed
  have q: "dQuoInt E csv (int64 gas) = Some (truncDiv csv (uint gas))"
    using g0 s by (simp add: i dQuoInt_ok [OF assms(1)])
  have m: "dMulInt E mn (int64 gas) = Some (mn * uint gas)" "dMulInt E mx (int64 gas) = Some (mx * uint gas)"
    using small s by (simp_all add: i dMulInt_ok [OF assms(1)])
  show ?thesis using g0 b by (simp add: applyGuardRails_def q m)
qed

section \<open>Estimates\<close>

lemma classifyMsgs_not_system: "classifyMsgs ms \<noteq> CategorySystem"
  by (induction ms) (auto simp: category_defs split: sdk_msg.splits)

lemma memoCategory_not_system: "memoCategory memo \<noteq> Some CategorySystem"
  by (simp add: memoCategory_def Let_def category_defs)

lemma classify_system_iff:
  "classifyTransaction E params msgs memo = CategorySystem \<longleftrightarrow>
     memoCategory memo = None \<and> msgs \<noteq> [] \<and> list_all (isSystemMsg E params) msgs"
proof (cases "memoCategory memo")
  case None
  have "CategoryMixed \<noteq> CategorySystem" by (simp add: category_defs)
  with None classifyMsgs_not_system show ?thesis
    by (auto simp: classifyTransaction_def Let_def list_all_iff list_ex_iff)
next
  case (Some c)
  then show ?thesis using memoCategory_not_system [of memo] by (auto simp: classifyTransaction_def)
qed

lemma EstimateFee_system:
  "classifyTransaction E (feesParams s) (expandMessages 4 msgs) memo = CategorySystem \<Longrightarrow>
   EstimateFee rate E msgs memo gas s = (Inr (zeroEstimate CategorySystem gas), s)"
  by (simp add: EstimateFee_def act_simps del: expandMessages.simps)

lemma keeps_EstimateFee [keeps_intros]:
  "(\<And>s as. g (s\<lparr>events := as\<rparr>) = g s) \<Longrightarrow> keeps g (EstimateFee rate E msgs memo gas)"
  unfolding EstimateFee_def Let_def case_prod_unfold by (intro keeps_intros) auto

text \<open>A successful estimate, case by case.\<close>

lemma EstimateFee_cases:
  assumes "EstimateFee rate E msgs memo gas s = (Inr est, t)"
  obtains (system) "classifyTransaction E (feesParams s) (expandMessages 4 msgs) memo = CategorySystem"
      "est = zeroEstimate CategorySystem gas" "t = s"
  | (free) c where "c = classifyTransaction E (feesParams s) (expandMessages 4 msgs) memo"
      "c = CategoryDeploy \<or> c = CategoryWizard" "UsdAmount (tableEntry (FeeTableUsd (paramsOrDefault s)) c) = Some 0"
      "gas \<le> getMaxGasForFreeCategory c (GuardRails (paramsOrDefault s))" "est = zeroEstimate c gas" "t = s"
  | (charged) c usd csv0 pd csv where "c = classifyTransaction E (feesParams s) (expandMessages 4 msgs) memo"
      "c \<noteq> CategorySystem" "UsdAmount (tableEntry (FeeTableUsd (paramsOrDefault s)) c) = Some usd"
      "c = CategoryDeploy \<or> c = CategoryWizard \<Longrightarrow> usd \<noteq> 0"
      "ConvertUSDToCSV rate E (Some usd) s = (Inr (csv0, pd), t)"
      "applyGuardRails E csv0 gas (GuardRails (paramsOrDefault s)) = Inr csv"
      "Category est = c" "USDAmount est = usd" "CSVAmount est = csv" "GasWanted est = gas"
      "\<not> IsFree est" "EstPriceData est = Some pd"
proof -
  define c where "c = classifyTransaction E (feesParams s) (expandMessages 4 msgs) memo"
  define cfg where "cfg = tableEntry (FeeTableUsd (paramsOrDefault s)) c"
  show thesis
  proof (cases "c = CategorySystem")
    case True
    then show thesis using assms EstimateFee_system [of E s msgs memo rate gas]
      by (intro system) (simp_all add: c_def)
  next
    case False
    show thesis
    proof (cases "(c = CategoryDeploy \<or> c = CategoryWizard) \<and> UsdAmount cfg = Some 0")
      case True
      then show thesis using assms False
        by (intro free [of c])
          (auto simp: EstimateFee_def Let_def act_splits act_simps c_def [symmetric] cfg_def [symmetric] split: if_splits)
    next
      case nf: False
      from assms False nf obtain usd csv0 pd csv where
        "UsdAmount cfg = Some usd" "c = CategoryDeploy \<or> c = CategoryWizard \<Longrightarrow> usd \<noteq> 0"
        "ConvertUSDToCSV rate E (Some usd) s = (Inr (csv0, pd), t)"
        "applyGuardRails E csv0 gas (GuardRails (paramsOrDefault s)) = Inr csv"
        "Category est = c" "USDAmount est = usd" "CSVAmount est = csv" "GasWanted est = gas"
        "\<not> IsFree est" "EstPriceData est = Some pd"
        by (auto simp: EstimateFee_def Let_def act_splits act_simps c_def [symmetric] cfg_def [symmetric]
          split: if_splits prod.splits)
      with False show thesis by (intro charged [of c usd csv0 pd csv]) (auto simp: c_def cfg_def)
    qed
  qed
qed

end
