(* ===== verification/Json.thy ===== *)
theory Json
  imports Prelude
begin

text \<open>
  The part of Go's \<open>encoding/json\<close> the program uses: parsing a document, and decoding it into a
  struct with string and integer fields or into a map. A string is a list of bytes; escapes are
  decoded to UTF-8 and invalid UTF-8 becomes the replacement character, as \<open>Unmarshal\<close> does. Keys of
  a struct match its field names up to ASCII case. The parser takes fuel;
  \<open>parseJson_fuel\<close> shows that the fuel it starts with, one more than twice the length of its input, is
  never used up.
\<close>

datatype json =
    JNull
  | JBool bool
  | JNum string
  | JStr string
  | JArr "json list"
  | JObj "(string \<times> json) list"

section \<open>Bytes\<close>

definition byteVal :: "char \<Rightarrow> nat" where
  "byteVal c = of_char c"

definition byteOf :: "nat \<Rightarrow> char" where
  "byteOf n = char_of n"

definition isWs :: "char \<Rightarrow> bool" where
  "isWs c \<longleftrightarrow> c \<in> {CHR '' '', CHR 0x09, CHR 0x0A, CHR 0x0D}"

definition skipWs :: "string \<Rightarrow> string" where
  "skipWs s = dropWhile isWs s"

definition hexVal :: "char \<Rightarrow> nat option" where
  "hexVal c = (let n = byteVal c in
     if 48 \<le> n \<and> n \<le> 57 then Some (n - 48)
     else if 97 \<le> n \<and> n \<le> 102 then Some (n - 87)
     else if 65 \<le> n \<and> n \<le> 70 then Some (n - 55)
     else None)"

fun hex4 :: "string \<Rightarrow> (nat \<times> string) option" where
  "hex4 (a # b # c # d # s) = (case (hexVal a, hexVal b, hexVal c, hexVal d) of
     (Some w, Some x, Some y, Some z) \<Rightarrow> Some (4096 * w + 256 * x + 16 * y + z, s)
   | _ \<Rightarrow> None)"
| "hex4 _ = None"

definition utf8 :: "nat \<Rightarrow> string" where
  "utf8 r = (if r < 128 then [byteOf r]
     else if r < 2048 then [byteOf (192 + r div 64), byteOf (128 + r mod 64)]
     else if r < 65536 then [byteOf (224 + r div 4096), byteOf (128 + r div 64 mod 64), byteOf (128 + r mod 64)]
     else [byteOf (240 + r div 262144), byteOf (128 + r div 4096 mod 64), byteOf (128 + r div 64 mod 64),
           byteOf (128 + r mod 64)])"

definition replacementChar :: string where
  "replacementChar = [CHR 0xEF, CHR 0xBF, CHR 0xBD]"

definition isCont :: "char \<Rightarrow> bool" where
  "isCont c \<longleftrightarrow> 128 \<le> byteVal c \<and> byteVal c \<le> 191"

text \<open>The length of the UTF-8 sequence at the head of the input, \<open>0\<close> when it is not one.\<close>

definition utf8Len :: "string \<Rightarrow> nat" where
  "utf8Len s = (case s of [] \<Rightarrow> 0 | c # t \<Rightarrow> let n = byteVal c in
     if n < 128 then 1
     else case t of [] \<Rightarrow> 0 | c1 # t1 \<Rightarrow> let n1 = byteVal c1 in
       if 194 \<le> n \<and> n \<le> 223 then (if isCont c1 then 2 else 0)
       else case t1 of [] \<Rightarrow> 0 | c2 # t2 \<Rightarrow>
         if 224 \<le> n \<and> n \<le> 239 then
           (if isCont c1 \<and> isCont c2 \<and> (n = 224 \<longrightarrow> 160 \<le> n1) \<and> (n = 237 \<longrightarrow> n1 \<le> 159) then 3 else 0)
         else case t2 of [] \<Rightarrow> 0 | c3 # t3 \<Rightarrow>
           if 240 \<le> n \<and> n \<le> 244 \<and> isCont c1 \<and> isCont c2 \<and> isCont c3 \<and>
              (n = 240 \<longrightarrow> 144 \<le> n1) \<and> (n = 244 \<longrightarrow> n1 \<le> 143) then 4 else 0)"

function coerceUtf8 :: "string \<Rightarrow> string" where
  "coerceUtf8 s = (if s = [] then []
     else let k = utf8Len s in
       if k = 0 then replacementChar @ coerceUtf8 (tl s)
       else take k s @ coerceUtf8 (drop k s))"
  by pat_completeness auto
termination by (relation "measure length") (auto simp: Let_def)

declare coerceUtf8.simps [simp del]

section \<open>Tokens\<close>

definition isSurrogate :: "nat \<Rightarrow> bool" where
  "isSurrogate r \<longleftrightarrow> 55296 \<le> r \<and> r \<le> 57343"

text \<open>The body of a string literal, after its opening quote.\<close>

fun parseStrBody :: "nat \<Rightarrow> string \<Rightarrow> (string \<times> string) option" where
  "parseStrBody 0 s = None"
| "parseStrBody (Suc n) [] = None"
| "parseStrBody (Suc n) (c # s) =
     (if c = CHR 0x22 then Some ([], s)
      else if byteVal c < 32 then None
      else if c = CHR 0x5C then
        (case s of [] \<Rightarrow> None | e # s' \<Rightarrow>
          if e = CHR ''u'' then
            (case hex4 s' of None \<Rightarrow> None | Some (r, s1) \<Rightarrow>
              if isSurrogate r then
                (case s1 of
                   b # u # s2 \<Rightarrow>
                     (case (if b = CHR 0x5C \<and> u = CHR ''u'' then hex4 s2 else None) of
                        Some (r2, s3) \<Rightarrow>
                          if r < 56320 \<and> 56320 \<le> r2 \<and> r2 \<le> 57343 then
                            map_option (\<lambda>(t, rest). (utf8 (65536 + (r - 55296) * 1024 + (r2 - 56320)) @ t, rest))
                              (parseStrBody n s3)
                          else map_option (\<lambda>(t, rest). (replacementChar @ t, rest)) (parseStrBody n s1)
                      | None \<Rightarrow> map_option (\<lambda>(t, rest). (replacementChar @ t, rest)) (parseStrBody n s1))
                 | _ \<Rightarrow> map_option (\<lambda>(t, rest). (replacementChar @ t, rest)) (parseStrBody n s1))
              else map_option (\<lambda>(t, rest). (utf8 r @ t, rest)) (parseStrBody n s1))
          else
            (let x = (if e = CHR 0x22 \<or> e = CHR 0x5C \<or> e = CHR ''/'' then Some e
                      else if e = CHR ''b'' then Some (CHR 0x08)
                      else if e = CHR ''f'' then Some (CHR 0x0C)
                      else if e = CHR ''n'' then Some (CHR 0x0A)
                      else if e = CHR ''r'' then Some (CHR 0x0D)
                      else if e = CHR ''t'' then Some (CHR 0x09)
                      else None)
             in case x of None \<Rightarrow> None
                | Some y \<Rightarrow> map_option (\<lambda>(t, rest). (y # t, rest)) (parseStrBody n s')))
      else map_option (\<lambda>(t, rest). (c # t, rest)) (parseStrBody n s))"

definition parseStr :: "string \<Rightarrow> (string \<times> string) option" where
  "parseStr s = map_option (\<lambda>(t, rest). (coerceUtf8 t, rest)) (parseStrBody (Suc (length s)) s)"

definition digitsOf :: "string \<Rightarrow> string" where
  "digitsOf s = takeWhile isDigit s"

definition parseNum :: "string \<Rightarrow> (string \<times> string) option" where
  "parseNum s =
     (let sign = takeWhile (\<lambda>c. c = CHR ''-'') (take 1 s); s1 = drop (length sign) s;
          int = (if take 1 s1 = ''0'' then ''0'' else digitsOf s1); s2 = drop (length int) s1;
          frac = (if take 1 s2 = ''.'' then CHR ''.'' # digitsOf (tl s2) else []); s3 = drop (length frac) s2;
          e = (if s3 \<noteq> [] \<and> hd s3 \<in> {CHR ''e'', CHR ''E''} then
                 (let sg = (if tl s3 \<noteq> [] \<and> hd (tl s3) \<in> {CHR ''+'', CHR ''-''} then [hd (tl s3)] else [])
                  in hd s3 # sg @ digitsOf (drop (Suc (length sg)) s3)) else []);
          s4 = drop (length e) s3
      in if int = [] \<or> length frac = 1 \<or> (e \<noteq> [] \<and> \<not> isDigit (last e)) then None
         else Some (sign @ int @ frac @ e, s4))"

section \<open>Values\<close>

text \<open>\<open>depth\<close> counts down from Go's limit of 10000 nested values.\<close>

function (sequential) parseValue :: "nat \<Rightarrow> nat \<Rightarrow> string \<Rightarrow> (json \<times> string) option"
  and parseElems :: "nat \<Rightarrow> nat \<Rightarrow> string \<Rightarrow> (json list \<times> string) option"
  and parseMembers :: "nat \<Rightarrow> nat \<Rightarrow> string \<Rightarrow> ((string \<times> json) list \<times> string) option"
where
  "parseValue 0 depth s = None"
| "parseValue (Suc n) depth s = (case skipWs s of [] \<Rightarrow> None | c # t \<Rightarrow>
     if c = CHR 0x22 then map_option (\<lambda>(x, rest). (JStr x, rest)) (parseStr t)
     else if c = CHR ''{'' then
       (if depth = 0 then None
        else case skipWs t of [] \<Rightarrow> None | d # u \<Rightarrow>
          if d = CHR ''}'' then Some (JObj [], u)
          else map_option (\<lambda>(ms, rest). (JObj ms, rest)) (parseMembers n (depth - 1) (d # u)))
     else if c = CHR ''['' then
       (if depth = 0 then None
        else case skipWs t of [] \<Rightarrow> None | d # u \<Rightarrow>
          if d = CHR '']'' then Some (JArr [], u)
          else map_option (\<lambda>(xs, rest). (JArr xs, rest)) (parseElems n (depth - 1) (d # u)))
     else if HasPrefix (c # t) ''true'' then Some (JBool True, drop 4 (c # t))
     else if HasPrefix (c # t) ''false'' then Some (JBool False, drop 5 (c # t))
     else if HasPrefix (c # t) ''null'' then Some (JNull, drop 4 (c # t))
     else map_option (\<lambda>(x, rest). (JNum x, rest)) (parseNum (c # t)))"
| "parseElems 0 depth s = None"
| "parseElems (Suc n) depth s = (case parseValue n depth s of None \<Rightarrow> None | Some (x, rest) \<Rightarrow>
     (case skipWs rest of [] \<Rightarrow> None | c # t \<Rightarrow>
       if c = CHR '']'' then Some ([x], t)
       else if c = CHR '','' then map_option (\<lambda>(xs, r). (x # xs, r)) (parseElems n depth t)
       else None))"
| "parseMembers 0 depth s = None"
| "parseMembers (Suc n) depth s = (case skipWs s of [] \<Rightarrow> None | q # s1 \<Rightarrow>
     if q \<noteq> CHR 0x22 then None
     else case parseStr s1 of None \<Rightarrow> None | Some (k, s2) \<Rightarrow>
       (case skipWs s2 of [] \<Rightarrow> None | c # s3 \<Rightarrow>
         if c \<noteq> CHR '':'' then None
         else case parseValue n depth s3 of None \<Rightarrow> None | Some (x, rest) \<Rightarrow>
           (case skipWs rest of [] \<Rightarrow> None | e # t \<Rightarrow>
             if e = CHR ''}'' then Some ([(k, x)], t)
             else if e = CHR '','' then map_option (\<lambda>(ms, r). ((k, x) # ms, r)) (parseMembers n depth t)
             else None)))"
  by pat_completeness auto
termination
  by (relation "measure (\<lambda>p. case p of Inl (n, _, _) \<Rightarrow> n | Inr (Inl (n, _, _)) \<Rightarrow> n | Inr (Inr (n, _, _)) \<Rightarrow> n)") auto

definition parseJson :: "bytes \<Rightarrow> json option" where
  "parseJson s = (case parseValue (Suc (2 * length s)) 10000 s of
     None \<Rightarrow> None
   | Some (x, rest) \<Rightarrow> if skipWs rest = [] then Some x else None)"

section \<open>Decoding\<close>

text \<open>The members of a struct that match a field, in document order: the last one counts.\<close>

definition foldKey :: "string \<Rightarrow> string" where
  "foldKey k = ToLower k"

definition membersOf :: "string \<Rightarrow> (string \<times> json) list \<Rightarrow> json list" where
  "membersOf field ms = map snd (filter (\<lambda>(k, _). foldKey k = foldKey field) ms)"

fun decodeStrings :: "string \<Rightarrow> json list \<Rightarrow> string option" where
  "decodeStrings cur [] = Some cur"
| "decodeStrings cur (JNull # js) = decodeStrings cur js"
| "decodeStrings cur (JStr s # js) = decodeStrings s js"
| "decodeStrings cur (j # js) = None"

definition fieldStr :: "string \<Rightarrow> (string \<times> json) list \<Rightarrow> string option" where
  "fieldStr field ms = decodeStrings [] (membersOf field ms)"

definition parseInt64 :: "string \<Rightarrow> int option" where
  "parseInt64 s =
     (let neg = take 1 s = ''-''; ds = (if neg then tl s else s);
          n = (if neg then - int (readNat ds) else int (readNat ds))
      in if ds \<noteq> [] \<and> list_all isDigit ds \<and> - (2 ^ 63) \<le> n \<and> n < 2 ^ 63 then Some n else None)"

fun decodeInts :: "int \<Rightarrow> json list \<Rightarrow> int option" where
  "decodeInts cur [] = Some cur"
| "decodeInts cur (JNull # js) = decodeInts cur js"
| "decodeInts cur (JNum s # js) = (case parseInt64 s of None \<Rightarrow> None | Some n \<Rightarrow> decodeInts n js)"
| "decodeInts cur (j # js) = None"

definition fieldInt :: "string \<Rightarrow> (string \<times> json) list \<Rightarrow> int option" where
  "fieldInt field ms = decodeInts 0 (membersOf field ms)"

text \<open>
  \<open>Unmarshal\<close> into an empty \<open>map[string]interface{}\<close> whose error is dropped: the members of an
  object, the last value of a repeated key; nothing where the document is not an object.
\<close>

definition decodeMap :: "bytes \<Rightarrow> (string \<rightharpoonup> json)" where
  "decodeMap s = (case parseJson s of Some (JObj ms) \<Rightarrow> map_of (rev ms) | _ \<Rightarrow> Map.empty)"

section \<open>The fuel is enough\<close>

text \<open>Every parser leaves a shorter rest.\<close>

lemma skipWs_shorter: "length (skipWs s) \<le> length s"
  by (simp add: skipWs_def length_dropWhile_le)

lemma skipWs_Cons: "skipWs s = c # t \<Longrightarrow> length t < length s"
  using skipWs_shorter [of s] by simp

lemma hex4_shorter: "hex4 s = Some (r, t) \<Longrightarrow> length t < length s"
  by (induction s rule: hex4.induct) (auto split: option.splits)

lemma parseStrBody_shorter: "parseStrBody n s = Some (x, r) \<Longrightarrow> length r < length s"
proof (induction n s arbitrary: x r rule: parseStrBody.induct)
  case (3 n c s)
  then show ?case
    by (fastforce simp: Let_def split: if_splits list.splits option.splits prod.splits dest: hex4_shorter)
qed simp_all

lemma parseStr_shorter: "parseStr s = Some (x, r) \<Longrightarrow> length r < length s"
  by (auto simp: parseStr_def dest: parseStrBody_shorter)

lemma parseNum_shorter:
  assumes "parseNum s = Some (x, r)"
  shows "length r < length s"
proof -
  define sign where "sign = takeWhile (\<lambda>c. c = CHR ''-'') (take 1 s)"
  define s1 where "s1 = drop (length sign) s"
  define ip where "ip = (if take 1 s1 = ''0'' then ''0'' else digitsOf s1)"
  have split: "(if b \<or> c then None else Some (y, z)) = Some (x, r) \<Longrightarrow> \<not> b \<and> z = r" for b c and y :: string and z
    by (simp split: if_splits)
  from split [OF assms [unfolded parseNum_def Let_def, folded sign_def, folded s1_def, folded ip_def]]
  have "ip \<noteq> []" "\<exists>k m. r = drop k (drop m (drop (length ip) s1))" by blast+
  then have r: "length r \<le> length s1 - length ip" by auto
  from \<open>ip \<noteq> []\<close> have "s1 \<noteq> []" by (auto simp: ip_def digitsOf_def split: if_splits)
  with \<open>ip \<noteq> []\<close> r have "length r < length s1" by (cases ip) (auto simp: neq_Nil_conv)
  then show ?thesis by (simp add: s1_def)
qed

lemma parse_shorter:
  "parseValue n d s = Some (x, r) \<Longrightarrow> length r < length s"
  "parseElems n d s = Some (xs, r) \<Longrightarrow> length r < length s"
  "parseMembers n d s = Some (ms, r) \<Longrightarrow> length r < length s"
proof (induction n d s and n d s and n d s arbitrary: x r and xs r and ms r
    rule: parseValue_parseElems_parseMembers.induct)
  case (2 n depth s)
  show ?case
  proof (cases "skipWs s")
    case (Cons c t)
    then have l: "length t < length s" by (rule skipWs_Cons)
    from 2 Cons l show ?thesis
      by (fastforce simp: HasPrefix_def split: if_splits list.splits option.splits prod.splits
        dest: skipWs_Cons parseStr_shorter parseNum_shorter)
  qed (use 2 in simp)
next
  case (4 n depth s)
  then show ?case
    by (fastforce split: if_splits list.splits option.splits prod.splits dest: skipWs_Cons)
next
  case (6 n depth s)
  then show ?case
    by (fastforce split: if_splits list.splits option.splits prod.splits dest: skipWs_Cons parseStr_shorter)
qed simp_all


text \<open>More fuel than the parser starts with gives the same result: the fuel is never used up.\<close>

lemma parse_fuel:
  "(\<forall>d (s :: string) m. 2 * length s < n \<longrightarrow> n \<le> m \<longrightarrow> parseValue m d s = parseValue n d s) \<and>
   (\<forall>d (s :: string) m. 2 * length s + 1 < n \<longrightarrow> n \<le> m \<longrightarrow> parseElems m d s = parseElems n d s) \<and>
   (\<forall>d (s :: string) m. 2 * length s + 1 < n \<longrightarrow> n \<le> m \<longrightarrow> parseMembers m d s = parseMembers n d s)"
proof (induction n)
  case (Suc n)
  then have V: "2 * length s < n \<Longrightarrow> n \<le> m \<Longrightarrow> parseValue m d s = parseValue n d s"
    and E: "2 * length s + 1 < n \<Longrightarrow> n \<le> m \<Longrightarrow> parseElems m d s = parseElems n d s"
    and M: "2 * length s + 1 < n \<Longrightarrow> n \<le> m \<Longrightarrow> parseMembers m d s = parseMembers n d s" for d m and s :: string
    by blast+
  show ?case
  proof (intro conjI allI impI)
    fix d m and s :: string
    assume l: "2 * length s < Suc n" "Suc n \<le> m"
    then obtain m' where m: "m = Suc m'" "n \<le> m'" by (cases m) auto
    show "parseValue m d s = parseValue (Suc n) d s"
    proof (cases "skipWs s")
      case (Cons c t)
      then have "length t < length s" by (rule skipWs_Cons)
      then have "parseMembers m' (d - 1) (e # u) = parseMembers n (d - 1) (e # u)"
        "parseElems m' (d - 1) (e # u) = parseElems n (d - 1) (e # u)" if "skipWs t = e # u" for e u
        using skipWs_Cons [OF that] l(1) m(2) by (auto intro!: M E)
      then show ?thesis by (simp add: m(1) Cons split: list.splits)
    qed (simp add: m(1))
  next
    fix d m and s :: string
    assume l: "2 * length s + 1 < Suc n" "Suc n \<le> m"
    then obtain m' where m: "m = Suc m'" "n \<le> m'" by (cases m) auto
    have v: "parseValue m' d s = parseValue n d s" using l m by (intro V) simp_all
    have "parseElems m' d t = parseElems n d t" if "parseValue n d s = Some (x, rest)" "skipWs rest = c # t" for x rest c t
      using parse_shorter(1) [OF that(1)] skipWs_Cons [OF that(2)] l(1) m(2) by (intro E) simp_all
    then show "parseElems m d s = parseElems (Suc n) d s"
      by (auto simp: m(1) v split: option.splits list.splits)
  next
    fix d m and s :: string
    assume l: "2 * length s + 1 < Suc n" "Suc n \<le> m"
    then obtain m' where m: "m = Suc m'" "n \<le> m'" by (cases m) auto
    have v: "parseValue m' d s3 = parseValue n d s3" if "skipWs s = q # s1" "parseStr s1 = Some (k, s2)" "skipWs s2 = c # s3"
      for q s1 k s2 c s3
      using skipWs_Cons [OF that(1)] parseStr_shorter [OF that(2)] skipWs_Cons [OF that(3)] l(1) m(2) by (intro V) simp_all
    have "parseMembers m' d t = parseMembers n d t"
      if "skipWs s = q # s1" "parseStr s1 = Some (k, s2)" "skipWs s2 = c # s3" "parseValue n d s3 = Some (x, rest)" "skipWs rest = e # t"
      for q s1 k s2 c s3 x rest e t
      using skipWs_Cons [OF that(1)] parseStr_shorter [OF that(2)] skipWs_Cons [OF that(3)] parse_shorter(1) [OF that(4)]
        skipWs_Cons [OF that(5)] l(1) m(2) by (intro M) simp_all
    with v show "parseMembers m d s = parseMembers (Suc n) d s"
      by (auto simp: m(1) split: option.splits list.splits)
  qed
qed simp

lemma parseJson_fuel:
  "2 * length s < n \<Longrightarrow> parseJson s = (case parseValue n 10000 s of
     None \<Rightarrow> None | Some (x, rest) \<Rightarrow> if skipWs rest = [] then Some x else None)"
  using parse_fuel [of "Suc (2 * length s)"] by (simp add: parseJson_def)

end
