(* ===== verification/FeeDistribution.thy ===== *)
theory FeeDistribution
  imports FeeCalculator Json
begin

text \<open>
  The fees keeper (\<open>x/fees/keeper/keeper.go\<close>): the fee of a type, and the distribution of a
  collected fee coin over the treasury, the retail wallet, the token developer and the token
  creator, from an account or from a module account. A recipient is \<^term>\<open>None\<close> where the code
  has a nil address.
\<close>

section \<open>Keeper\<close>

definition feesNewKeeper :: "'b sdk \<Rightarrow> addr \<Rightarrow> unit res" where
  "feesNewKeeper E authority = requireAuthority E authority"

definition GetFeeByType :: "'b chain \<Rightarrow> string \<Rightarrow> dec option" where
  "GetFeeByType s feeType = (case feesParams s of
     None \<Rightarrow> Some 0
   | Some params \<Rightarrow> let t = FeeTableUsd params in
       if feeType = ''pos_payment'' then UsdAmount (PosPayment t)
       else if feeType = ''token_interaction'' then UsdAmount (TokenInteraction t)
       else if feeType = ''native_transfer'' then UsdAmount (NativeTransfer t)
       else if feeType \<in> {''dex_swap_native'', ''dex_native''} then UsdAmount (DexNative t)
       else if feeType \<in> {''dex_swap_user'', ''dex_user''} then UsdAmount (DexUser t)
       else if feeType \<in> {''token_creation'', ''contract_deploy''} then UsdAmount (Deploy t)
       else UsdAmount (NativeTransfer t))"

definition feeTypeConfig :: "FeeTableUSD \<Rightarrow> string \<Rightarrow> FeeConfig" where
  "feeTypeConfig t feeType =
     (if feeType = ''pos_payment'' then PosPayment t
      else if feeType = ''token_interaction'' then TokenInteraction t
      else if feeType = ''native_transfer'' then NativeTransfer t
      else if feeType \<in> {''dex_swap_native'', ''dex_native''} then DexNative t
      else if feeType \<in> {''dex_swap_user'', ''dex_user''} then DexUser t
      else if feeType \<in> {''token_creation'', ''contract_deploy''} then Deploy t
      else NativeTransfer t)"

definition moduleFeeTypeConfig :: "FeeTableUSD \<Rightarrow> string \<Rightarrow> FeeConfig" where
  "moduleFeeTypeConfig t feeType =
     (if feeType = ''pos_payment'' then PosPayment t
      else if feeType = ''token_interaction'' then TokenInteraction t
      else if feeType = ''native_transfer'' then NativeTransfer t
      else if feeType \<in> {''dex_swap_native'', ''dex_native''} then DexNative t
      else if feeType \<in> {''dex_swap_user'', ''dex_user''} then DexUser t
      else if feeType \<in> {''token_creation'', ''contract_deploy'', ''deploy''} then Deploy t
      else NativeTransfer t)"

section \<open>Shares and recipients\<close>

record shares =
  toTreasury :: int
  toRetail :: int
  toDev :: int
  toCreator :: int

definition sharesTotal :: "shares \<Rightarrow> int" where
  "sharesTotal sh = toTreasury sh + toRetail sh + toDev sh + toCreator sh"

definition shareOf :: "'b sdk \<Rightarrow> dec option \<Rightarrow> int \<Rightarrow> int res" where
  "shareOf E share amount = rbind (decGet share) (\<lambda>d.
     rbind (ofOption Panic (dMulInt E d amount)) (\<lambda>m. ofOption Panic (dTruncateInt E m)))"

definition splitShares :: "'b sdk \<Rightarrow> FeeSplit \<Rightarrow> int \<Rightarrow> shares res" where
  "splitShares E sp amount =
     rbind (shareOf E (Treasury sp) amount) (\<lambda>t.
     rbind (shareOf E (RetailWalletShare sp) amount) (\<lambda>r.
     rbind (shareOf E (TokenDev sp) amount) (\<lambda>d.
     rbind (shareOf E (TokenCreator sp) amount) (\<lambda>c.
     let total = t + r + d + c;
         t' = (if total > amount then amount - r - d - c else t)
     in Inr \<lparr>toTreasury = t', toRetail = r, toDev = d, toCreator = c\<rparr>))))"

record recipients =
  retailAddr :: "addr option"
  devAddr :: "addr option"
  creatorAddr :: "addr option"

definition metaAddr :: "'b sdk \<Rightarrow> (string \<rightharpoonup> json) \<Rightarrow> string \<Rightarrow> addr option" where
  "metaAddr E metadata key = (case metadata key of
     Some (JStr v) \<Rightarrow> if v \<noteq> [] then StringToBytes E v else None
   | _ \<Rightarrow> None)"

definition walletAddr :: "'b sdk \<Rightarrow> string \<Rightarrow> addr option" where
  "walletAddr E w = (if w \<noteq> [] then StringToBytes E w else None)"

definition orElse :: "'a option \<Rightarrow> 'a option \<Rightarrow> 'a option" where
  "orElse x y = (case x of None \<Rightarrow> y | Some _ \<Rightarrow> x)"

definition resolveRecipients :: "'b sdk \<Rightarrow> FeesParams \<Rightarrow> (string \<rightharpoonup> json) \<Rightarrow> recipients" where
  "resolveRecipients E params metadata =
     (let retail = metaAddr E metadata ''retail_address'';
          creator0 = metaAddr E metadata ''creator_address'';
          dev0 = metaAddr E metadata ''dev_address'';
          creator = orElse creator0 dev0;
          dev = orElse dev0 creator
      in \<lparr>retailAddr = orElse retail (walletAddr E (RetailWallet params)),
          devAddr = orElse dev (walletAddr E (TokenDevWallet params)),
          creatorAddr = orElse creator (walletAddr E (TokenCreatorWallet params))\<rparr>)"

definition noAddr :: "addr option \<Rightarrow> bool" where
  "noAddr a \<longleftrightarrow> a = None \<or> a = Some []"

definition remapShares :: "recipients \<Rightarrow> shares \<Rightarrow> shares" where
  "remapShares rc sh =
     (let noR = noAddr (retailAddr rc); noD = noAddr (devAddr rc); noC = noAddr (creatorAddr rc);
          remap = (if noR then toRetail sh else 0) + (if noD then toDev sh else 0) + (if noC then toCreator sh else 0)
      in \<lparr>toTreasury = (if remap \<noteq> 0 then toTreasury sh + remap else toTreasury sh),
          toRetail = (if noR then 0 else toRetail sh),
          toDev = (if noD then 0 else toDev sh),
          toCreator = (if noC then 0 else toCreator sh)\<rparr>)"

section \<open>Payment\<close>

definition feeCoins :: "'b sdk \<Rightarrow> string \<Rightarrow> int \<Rightarrow> coin list res" where
  "feeCoins E denom amount = rbind (ofOption Panic (NewCoin E denom amount)) (\<lambda>c.
     ofOption Panic (NewCoins E [c]))"

definition payTreasury :: "'b sdk \<Rightarrow> ('b \<Rightarrow> coin list \<Rightarrow> go_error option \<times> 'b) \<Rightarrow> string \<Rightarrow> int \<Rightarrow> ('b chain, unit) act" where
  "payTreasury E send denom amount = whenA (amount \<noteq> 0)
     (bnd (lift (feeCoins E denom amount)) (\<lambda>cs.
      wrapA ''failed to send fees to treasury'' (extern (\<lambda>b. send b cs))))"

definition payAccount ::
  "'b sdk \<Rightarrow> ('b \<Rightarrow> addr \<Rightarrow> coin list \<Rightarrow> go_error option \<times> 'b) \<Rightarrow> string \<Rightarrow> string \<Rightarrow> int \<Rightarrow> addr option \<Rightarrow> ('b chain, unit) act" where
  "payAccount E send msg denom amount a = whenA (amount \<noteq> 0 \<and> \<not> noAddr a)
     (bnd (lift (feeCoins E denom amount)) (\<lambda>cs.
      wrapA msg (extern (\<lambda>b. send b (the a) cs))))"

definition payShares ::
  "'b sdk \<Rightarrow> ('b \<Rightarrow> coin list \<Rightarrow> go_error option \<times> 'b) \<Rightarrow> ('b \<Rightarrow> addr \<Rightarrow> coin list \<Rightarrow> go_error option \<times> 'b) \<Rightarrow>
   string \<Rightarrow> recipients \<Rightarrow> shares \<Rightarrow> ('b chain, unit) act" where
  "payShares E sendT sendA denom rc sh =
     andThen (payTreasury E sendT denom (toTreasury sh))
    (andThen (payAccount E sendA ''failed to send fees to retail wallet'' denom (toRetail sh) (retailAddr rc))
    (andThen (payAccount E sendA ''failed to send fees to token developer'' denom (toDev sh) (devAddr rc))
    (payAccount E sendA ''failed to send fees to token creator'' denom (toCreator sh) (creatorAddr rc))))"

definition DistributeFee :: "'b sdk \<Rightarrow> addr \<Rightarrow> string \<Rightarrow> coin \<Rightarrow> (string \<rightharpoonup> json) \<Rightarrow> ('b chain, unit) act" where
  "DistributeFee E sender feeType feeCoin metadata =
     bnd (gets feesParams) (\<lambda>ps. case ps of
       None \<Rightarrow> raise (Wrap ''failed to get params'' (SdkErr ''collections: not found''))
     | Some params \<Rightarrow>
         bnd (lift (splitShares E (Split (feeTypeConfig (FeeTableUsd params) feeType)) (Amount feeCoin))) (\<lambda>sh.
         let rc = resolveRecipients E params metadata in
         payShares E (\<lambda>b. SendCoinsFromAccountToModule E b sender ''treasury'') (\<lambda>b. SendCoins E b sender)
           (Denom feeCoin) rc (remapShares rc sh)))"

definition DistributeFeeFromModule ::
  "'b sdk \<Rightarrow> string \<Rightarrow> string \<Rightarrow> coin \<Rightarrow> (string \<rightharpoonup> json) \<Rightarrow> ('b chain, unit) act" where
  "DistributeFeeFromModule E moduleName feeType feeCoin metadata =
     bnd (gets feesParams) (\<lambda>ps. case ps of
       None \<Rightarrow> raise (Wrap ''failed to get params'' (SdkErr ''collections: not found''))
     | Some params \<Rightarrow>
         bnd (lift (splitShares E (Split (moduleFeeTypeConfig (FeeTableUsd params) feeType)) (Amount feeCoin))) (\<lambda>sh.
         let rc = resolveRecipients E params metadata in
         payShares E (\<lambda>b. SendCoinsFromModuleToModule E b moduleName ''treasury'')
           (\<lambda>b. SendCoinsFromModuleToAccount E b moduleName)
           (Denom feeCoin) rc (remapShares rc sh)))"

section \<open>What a distribution promises\<close>

text \<open>
  The specification: each share is the amount times its part, rounded down, and the share of a
  recipient nobody named goes to the treasury. \<open>split_ok\<close> describes the entries \<open>Validate\<close> is meant
  to admit, with the signs it does not check.
\<close>

definition split_ok :: "FeeSplit \<Rightarrow> bool" where
  "split_ok sp \<longleftrightarrow> (case (Treasury sp, RetailWalletShare sp, TokenDev sp, TokenCreator sp) of
     (Some t, Some r, Some d, Some c) \<Rightarrow> 0 \<le> t \<and> 0 \<le> r \<and> 0 \<le> d \<and> 0 \<le> c \<and> t + r + d + c = decOne
   | _ \<Rightarrow> False)"

definition part :: "dec option \<Rightarrow> int \<Rightarrow> int" where
  "part share amount = orZero share * amount div decOne"

definition promised :: "FeeSplit \<Rightarrow> recipients \<Rightarrow> int \<Rightarrow> shares" where
  "promised sp rc amount =
     \<lparr>toTreasury = part (Treasury sp) amount
        + (if noAddr (retailAddr rc) then part (RetailWalletShare sp) amount else 0)
        + (if noAddr (devAddr rc) then part (TokenDev sp) amount else 0)
        + (if noAddr (creatorAddr rc) then part (TokenCreator sp) amount else 0),
      toRetail = (if noAddr (retailAddr rc) then 0 else part (RetailWalletShare sp) amount),
      toDev = (if noAddr (devAddr rc) then 0 else part (TokenDev sp) amount),
      toCreator = (if noAddr (creatorAddr rc) then 0 else part (TokenCreator sp) amount)\<rparr>"

definition creditOf :: "addr \<Rightarrow> recipients \<Rightarrow> shares \<Rightarrow> addr \<Rightarrow> int" where
  "creditOf treasury rc sh a =
     (if a = treasury then toTreasury sh else 0)
     + (if retailAddr rc = Some a then toRetail sh else 0)
     + (if devAddr rc = Some a then toDev sh else 0)
     + (if creatorAddr rc = Some a then toCreator sh else 0)"

text \<open>\<open>paid\<close>: the payer lost all the shares, every recipient got its own, nothing else moved.\<close>

definition paid :: "'b sdk \<Rightarrow> addr \<Rightarrow> string \<Rightarrow> recipients \<Rightarrow> shares \<Rightarrow> 'b \<Rightarrow> 'b \<Rightarrow> bool" where
  "paid E payer denom rc sh b b' \<longleftrightarrow>
     (\<forall>a d. GetBalance E b' a d = GetBalance E b a d +
        (if d = denom then creditOf (GetModuleAddress E ''treasury'') rc sh a - (if a = payer then sharesTotal sh else 0)
         else 0)) \<and>
     (\<forall>d. GetSupply E b' d = GetSupply E b d)"

lemma floor_parts:
  fixes t r d c n D :: int
  assumes D: "0 < D" and sum: "t + r + d + c = D"
  shows "n - 3 \<le> t * n div D + r * n div D + d * n div D + c * n div D"
    and "t * n div D + r * n div D + d * n div D + c * n div D \<le> n"
proof -
  define S where "S = t * n div D + r * n div D + d * n div D + c * n div D"
  have m: "x div D * D = x - x mod D" "0 \<le> x mod D" "x mod D < D" for x
    using D by (simp_all add: minus_mod_eq_div_mult)
  have "S * D = (t * n - t * n mod D) + (r * n - r * n mod D) + (d * n - d * n mod D) + (c * n - c * n mod D)"
    by (simp only: S_def distrib_right m)
  also have "\<dots> = n * D - (t * n mod D + r * n mod D + d * n mod D + c * n mod D)"
    unfolding sum [symmetric] by (simp add: algebra_simps)
  finally have e: "S * D = n * D - (t * n mod D + r * n mod D + d * n mod D + c * n mod D)" .
  have "S * D \<le> n * D" using e m(2) [of "t * n"] m(2) [of "r * n"] m(2) [of "d * n"] m(2) [of "c * n"] by linarith
  then show "S \<le> n" using D by simp
  have "n * D - 4 * D < S * D"
    using e m(3) [of "t * n"] m(3) [of "r * n"] m(3) [of "d * n"] m(3) [of "c * n"] by linarith
  then have "(n - 4) * D < S * D" by (simp add: left_diff_distrib)
  then show "n - 3 \<le> S" using D by simp
qed

lemma promised_total:
  assumes "split_ok sp"
  shows "amount - 3 \<le> sharesTotal (promised sp rc amount)" "sharesTotal (promised sp rc amount) \<le> amount"
proof -
  from assms obtain t r d c where sp: "Treasury sp = Some t" "RetailWalletShare sp = Some r"
      "TokenDev sp = Some d" "TokenCreator sp = Some c" and s: "t + r + d + c = decOne"
    by (auto simp: split_ok_def split: option.splits)
  have "sharesTotal (promised sp rc amount) =
      t * amount div decOne + r * amount div decOne + d * amount div decOne + c * amount div decOne"
    by (simp add: sharesTotal_def promised_def part_def orZero_def sp)
  with floor_parts [OF decOne_pos s] show "amount - 3 \<le> sharesTotal (promised sp rc amount)"
    "sharesTotal (promised sp rc amount) \<le> amount" by simp_all
qed

lemma shareOf_part:
  assumes "dec_rounding E" "shareOf E (Some x) n = Inr r" "0 \<le> x" "0 \<le> n"
  shows "r = part (Some x) n"
  using assms dMulInt_eq [OF assms(1)] dTruncateInt_eq [OF assms(1)]
  by (fastforce simp: shareOf_def rbind_Inr_iff ofOption_Inr_iff part_def orZero_def truncDiv_nonneg)

lemma part_nonneg: "0 \<le> x \<Longrightarrow> 0 \<le> n \<Longrightarrow> 0 \<le> part (Some x) n"
  by (simp add: part_def orZero_def pos_imp_zdiv_nonneg_iff)

lemma splitShares_promised:
  assumes E: "dec_rounding E" and sp: "split_ok sp" and n: "0 \<le> amount"
    and r: "splitShares E sp amount = Inr sh"
  shows "remapShares rc sh = promised sp rc amount"
    and split_shares_nonneg: "0 \<le> toTreasury sh \<and> 0 \<le> toRetail sh \<and> 0 \<le> toDev sh \<and> 0 \<le> toCreator sh"
proof -
  from sp obtain t r d c where sp': "Treasury sp = Some t" "RetailWalletShare sp = Some r"
      "TokenDev sp = Some d" "TokenCreator sp = Some c" "0 \<le> t" "0 \<le> r" "0 \<le> d" "0 \<le> c"
      and s: "t + r + d + c = decOne"
    by (auto simp: split_ok_def split: option.splits)
  have le: "\<not> part (Some t) amount + part (Some r) amount + part (Some d) amount + part (Some c) amount > amount"
    using floor_parts(2) [OF decOne_pos s, of amount] by (simp add: part_def orZero_def)
  have sh: "sh = \<lparr>toTreasury = part (Some t) amount, toRetail = part (Some r) amount,
      toDev = part (Some d) amount, toCreator = part (Some c) amount\<rparr>"
    using r le n sp' by (auto simp: splitShares_def Let_def rbind_Inr_iff dest!: shareOf_part [OF E])
  then show "remapShares rc sh = promised sp rc amount"
    by (auto simp: remapShares_def promised_def Let_def sp')
  show "0 \<le> toTreasury sh \<and> 0 \<le> toRetail sh \<and> 0 \<le> toDev sh \<and> 0 \<le> toCreator sh"
    using sp' n by (simp add: sh part_nonneg)
qed

section \<open>Payments\<close>

lemma feeCoins_amount:
  assumes "coin_laws E" "feeCoins E denom n = Inr cs"
  shows "AmountOf E cs d = (if d = denom then n else 0)"
  using assms(2) NewCoins_one [OF assms(1)] AmountOf_Nil [OF assms(1)] AmountOf_one [OF assms(1)]
  by (auto simp: feeCoins_def rbind_Inr_iff ofOption_Inr_iff NewCoin_eq [OF assms(1)] split: if_splits)

definition movedBy :: "'b sdk \<Rightarrow> addr \<Rightarrow> addr option \<Rightarrow> string \<Rightarrow> int \<Rightarrow> 'b \<Rightarrow> 'b \<Rightarrow> bool" where
  "movedBy E f t denom n b b' \<longleftrightarrow>
     (\<forall>a d. GetBalance E b' a d = GetBalance E b a d + (if d = denom
        then (if t = Some a then n else 0) - (if a = f then n else 0) else 0)) \<and>
     (\<forall>d. GetSupply E b' d = GetSupply E b d)"

lemma moves_movedBy:
  assumes "coin_laws E" "feeCoins E denom n = Inr cs" "moves E b f t cs b'"
  shows "movedBy E f (Some t) denom n b b'"
  using assms(3) by (auto simp: movedBy_def moves_def feeCoins_amount [OF assms(1,2)])

lemma payTreasury_moved:
  assumes "coin_laws E" "payTreasury E send denom n s = (Inr (), t)"
    and "\<And>b cs b'. send b cs = (None, b') \<Longrightarrow> moves E b f a cs b'"
  shows "movedBy E f (Some a) denom n (ext s) (ext t)"
  using assms(2) moves_movedBy [OF assms(1) _ assms(3)]
  by (auto simp: payTreasury_def act_splits movedBy_def split: if_splits)

lemma payAccount_moved:
  assumes "coin_laws E" "payAccount E send msg denom n a s = (Inr (), t)" "noAddr a \<Longrightarrow> n = 0"
    and "\<And>b x cs b'. send b x cs = (None, b') \<Longrightarrow> moves E b f x cs b'"
  shows "movedBy E f a denom n (ext s) (ext t)"
proof (cases "n = 0")
  case True
  then show ?thesis using assms(2) by (auto simp: payAccount_def act_splits movedBy_def split: if_splits)
next
  case False
  with assms(3) obtain x where x: "a = Some x" "\<not> noAddr a" by (cases a) (auto simp: noAddr_def)
  with assms(2) False obtain cs b' where "feeCoins E denom n = Inr cs" "send (ext s) x cs = (None, b')"
      "t = s\<lparr>ext := b'\<rparr>"
    by (auto simp: payAccount_def act_splits)
  then show ?thesis using moves_movedBy [OF assms(1) _ assms(4)] x(1) by auto
qed

lemma payShares_paid:
  assumes E: "coin_laws E" and r: "payShares E sendT sendA denom rc sh s = (Inr (), t)"
    and T: "\<And>b cs b'. sendT b cs = (None, b') \<Longrightarrow> moves E b f (GetModuleAddress E ''treasury'') cs b'"
    and A: "\<And>b x cs b'. sendA b x cs = (None, b') \<Longrightarrow> moves E b f x cs b'"
    and z: "noAddr (retailAddr rc) \<Longrightarrow> toRetail sh = 0" "noAddr (devAddr rc) \<Longrightarrow> toDev sh = 0"
      "noAddr (creatorAddr rc) \<Longrightarrow> toCreator sh = 0"
  shows "paid E f denom rc sh (ext s) (ext t)"
proof -
  from r obtain s1 s2 s3 where
    p1: "payTreasury E sendT denom (toTreasury sh) s = (Inr (), s1)" and
    p2: "payAccount E sendA ''failed to send fees to retail wallet'' denom (toRetail sh) (retailAddr rc) s1 = (Inr (), s2)" and
    p3: "payAccount E sendA ''failed to send fees to token developer'' denom (toDev sh) (devAddr rc) s2 = (Inr (), s3)" and
    p4: "payAccount E sendA ''failed to send fees to token creator'' denom (toCreator sh) (creatorAddr rc) s3 = (Inr (), t)"
    by (auto simp: payShares_def andThen_Inr_iff)
  note payTreasury_moved [OF E p1 T] payAccount_moved [OF E p2 z(1) A] payAccount_moved [OF E p3 z(2) A]
    payAccount_moved [OF E p4 z(3) A]
  then show ?thesis
    by (simp add: movedBy_def paid_def creditOf_def sharesTotal_def)
qed

lemma keeps_payShares [keeps_intros]:
  "(\<And>s b. g (s\<lparr>ext := b\<rparr>) = g s) \<Longrightarrow> keeps g (payShares E sendT sendA denom rc sh)"
  unfolding payShares_def payTreasury_def payAccount_def by (intro keeps_intros) auto

lemma keeps_DistributeFee [keeps_intros]:
  "(\<And>s b. g (s\<lparr>ext := b\<rparr>) = g s) \<Longrightarrow> keeps g (DistributeFee E sender ty c md)"
  unfolding DistributeFee_def Let_def
  by (intro keeps_bnd keeps_basic) (auto split: option.splits intro!: keeps_intros)

lemma keeps_DistributeFeeFromModule [keeps_intros]:
  "(\<And>s b. g (s\<lparr>ext := b\<rparr>) = g s) \<Longrightarrow> keeps g (DistributeFeeFromModule E m ty c md)"
  unfolding DistributeFeeFromModule_def Let_def
  by (intro keeps_bnd keeps_basic) (auto split: option.splits intro!: keeps_intros)

lemma promised_zero:
  "noAddr (retailAddr rc) \<Longrightarrow> toRetail (promised sp rc n) = 0"
  "noAddr (devAddr rc) \<Longrightarrow> toDev (promised sp rc n) = 0"
  "noAddr (creatorAddr rc) \<Longrightarrow> toCreator (promised sp rc n) = 0"
  by (simp_all add: promised_def)

lemma DistributeFee_paid:
  assumes E: "dec_rounding E" "coin_laws E" "bank_laws E"
    and p: "feesParams s = Some p" "split_ok (Split (feeTypeConfig (FeeTableUsd p) feeType))" "0 \<le> Amount c"
    and r: "DistributeFee E sender feeType c md s = (Inr (), t)"
  shows "paid E sender (Denom c) (resolveRecipients E p md)
     (promised (Split (feeTypeConfig (FeeTableUsd p) feeType)) (resolveRecipients E p md) (Amount c)) (ext s) (ext t)"
proof -
  let ?rc = "resolveRecipients E p md" and ?sp = "Split (feeTypeConfig (FeeTableUsd p) feeType)"
  from r p(1) obtain sh where sh: "splitShares E ?sp (Amount c) = Inr sh" and
    pay: "payShares E (\<lambda>b. SendCoinsFromAccountToModule E b sender ''treasury'') (\<lambda>b. SendCoins E b sender)
      (Denom c) ?rc (remapShares ?rc sh) s = (Inr (), t)"
    by (auto simp: DistributeFee_def act_splits Let_def)
  note pay' = pay [unfolded splitShares_promised(1) [OF E(1) p(2,3) sh]]
  show ?thesis
    by (rule payShares_paid [OF E(2) pay']) (simp_all add: SendCoins_moves [OF E(3)] SendToModule_moves [OF E(3)] promised_zero)
qed

lemma DistributeFeeFromModule_paid:
  assumes E: "dec_rounding E" "coin_laws E" "bank_laws E"
    and p: "feesParams s = Some p" "split_ok (Split (moduleFeeTypeConfig (FeeTableUsd p) feeType))" "0 \<le> Amount c"
    and r: "DistributeFeeFromModule E m feeType c md s = (Inr (), t)"
  shows "paid E (GetModuleAddress E m) (Denom c) (resolveRecipients E p md)
     (promised (Split (moduleFeeTypeConfig (FeeTableUsd p) feeType)) (resolveRecipients E p md) (Amount c)) (ext s) (ext t)"
proof -
  let ?rc = "resolveRecipients E p md" and ?sp = "Split (moduleFeeTypeConfig (FeeTableUsd p) feeType)"
  from r p(1) obtain sh where sh: "splitShares E ?sp (Amount c) = Inr sh" and
    pay: "payShares E (\<lambda>b. SendCoinsFromModuleToModule E b m ''treasury'') (\<lambda>b. SendCoinsFromModuleToAccount E b m)
      (Denom c) ?rc (remapShares ?rc sh) s = (Inr (), t)"
    by (auto simp: DistributeFeeFromModule_def act_splits Let_def)
  note pay' = pay [unfolded splitShares_promised(1) [OF E(1) p(2,3) sh]]
  show ?thesis
    by (rule payShares_paid [OF E(2) pay']) (simp_all add: SendModToMod_moves [OF E(3)] SendFromModule_moves [OF E(3)] promised_zero)
qed

end
