(* ===== verification/Treasury.thy ===== *)
theory Treasury
  imports Governed FeeDistribution
begin

text \<open>
  The treasury module (\<open>x/treasury/keeper\<close>): locking the retail half of a point-of-sale fee,
  releasing locked rewards, distributing a point-of-sale fee. The code's storage of the locked
  rewards is a placeholder that stores and returns nothing, and is modelled as such.
\<close>

record LockedReward =
  lrRecipient :: string
  lrAmount :: coin
  lrLockTime :: int
  lrUnlockTime :: int
  lrFeeType :: string
  lrIsUnlocked :: bool

definition Hour :: int where
  "Hour = 3600 * 10 ^ 9"

definition sixMonths :: int where
  "sixMonths = Hour * 24 * 30 * 6"

definition treasuryNewKeeper :: "'b sdk \<Rightarrow> addr \<Rightarrow> unit res" where
  "treasuryNewKeeper E authority = requireAuthority E authority"

definition treasuryModuleAddress :: "'b sdk \<Rightarrow> string \<Rightarrow> addr" where
  "treasuryModuleAddress E moduleName = GetModuleAddress E moduleName"

section \<open>Storage placeholders\<close>

definition storeLockedReward :: "LockedReward \<Rightarrow> ('b chain, unit) act" where
  "storeLockedReward reward = return ()"

definition updateLockedReward :: "LockedReward \<Rightarrow> ('b chain, unit) act" where
  "updateLockedReward reward = return ()"

definition getAllLockedRewards :: "('b chain, LockedReward list) act" where
  "getAllLockedRewards = return []"

definition GetLockedRewardsByRecipient :: "addr \<Rightarrow> ('b chain, LockedReward list) act" where
  "GetLockedRewardsByRecipient recipient = return []"

definition GetTotalLockedRewards :: "'b sdk \<Rightarrow> 'b chain \<Rightarrow> coin list" where
  "GetTotalLockedRewards E s = GetAllBalances E (ext s) (treasuryModuleAddress E ''locked_rewards'')"

section \<open>Locking and releasing\<close>

definition oneCoin :: "'b sdk \<Rightarrow> coin \<Rightarrow> coin list res" where
  "oneCoin E c = ofOption Panic (NewCoins E [c])"

definition lockedRewardOf :: "'b sdk \<Rightarrow> 'b chain \<Rightarrow> addr \<Rightarrow> coin \<Rightarrow> LockedReward" where
  "lockedRewardOf E s recipient amount =
     \<lparr>lrRecipient = AccAddressString E recipient, lrAmount = amount, lrLockTime = blockTime s,
      lrUnlockTime = blockTime s + sixMonths, lrFeeType = ''pos_payment'', lrIsUnlocked = False\<rparr>"

definition LockRetailWalletReward :: "'b sdk \<Rightarrow> addr \<Rightarrow> coin \<Rightarrow> ('b chain, unit) act" where
  "LockRetailWalletReward E recipient amount =
     bnd (gets (\<lambda>s. lockedRewardOf E s recipient amount)) (\<lambda>reward.
     bnd (failWith (Wrap ''failed to store locked reward'' (SdkErr ''ErrInvalidRequest''))
       (storeLockedReward reward)) (\<lambda>_.
     bnd (lift (oneCoin E amount)) (\<lambda>cs.
     bnd (failWith (Wrap ''failed to lock reward'' (SdkErr ''ErrInsufficientFunds''))
       (extern (\<lambda>b. SendCoins E b recipient (treasuryModuleAddress E ''locked_rewards'') cs))) (\<lambda>_.
     emit ''retail_reward_locked''
       [(''recipient'', AStr (AccAddressString E recipient)), (''amount'', ACoins [amount]),
        (''unlock_time'', ATime (lrUnlockTime reward))]))))"

definition unlockReward :: "'b sdk \<Rightarrow> addr \<Rightarrow> int \<Rightarrow> LockedReward \<Rightarrow> ('b chain, unit) act" where
  "unlockReward E lockedRewardsAddr currentTime reward =
     (if lrIsUnlocked reward \<or> currentTime < lrUnlockTime reward then return ()
      else case AccAddressFromBech32 E (lrRecipient reward) of
        None \<Rightarrow> return ()
      | Some recipientAddr \<Rightarrow>
         bnd (lift (oneCoin E (lrAmount reward))) (\<lambda>cs.
         catchA (extern (\<lambda>b. SendCoins E b lockedRewardsAddr recipientAddr cs)) (\<lambda>_. return ()) (\<lambda>_.
         catchA (updateLockedReward (reward\<lparr>lrIsUnlocked := True\<rparr>)) (\<lambda>_. return ()) (\<lambda>_.
         emit ''retail_reward_unlocked''
           [(''recipient'', AStr (lrRecipient reward)), (''amount'', ACoins [lrAmount reward]),
            (''unlock_time'', ATime (lrUnlockTime reward))]))))"

definition ProcessUnlockedRewards :: "'b sdk \<Rightarrow> ('b chain, unit) act" where
  "ProcessUnlockedRewards E =
     bnd getAllLockedRewards (\<lambda>lockedRewards.
     bnd (gets blockTime) (\<lambda>currentTime.
     forA lockedRewards (unlockReward E (treasuryModuleAddress E ''locked_rewards'') currentTime)))"

definition DistributePOSPaymentReward :: "'b sdk \<Rightarrow> coin \<Rightarrow> addr \<Rightarrow> ('b chain, unit) act" where
  "DistributePOSPaymentReward E totalFee retailWallet =
     (let halfAmount = truncDiv (Amount totalFee) 2 in
     bnd (lift (ofOption Panic (NewCoin E (Denom totalFee) halfAmount))) (\<lambda>treasuryAmount.
     bnd (lift (ofOption Panic (NewCoin E (Denom totalFee) halfAmount))) (\<lambda>retailAmount.
     bnd (lift (oneCoin E treasuryAmount)) (\<lambda>cs.
     bnd (failWith (Wrap ''failed to send to treasury'' (SdkErr ''ErrInsufficientFunds''))
       (extern (\<lambda>b. SendCoins E b (treasuryModuleAddress E ''treasury'') (treasuryModuleAddress E ''treasury'') cs))) (\<lambda>_.
     bnd (LockRetailWalletReward E retailWallet retailAmount) (\<lambda>_.
     emit ''pos_payment_fee_distributed''
       [(''total_fee'', ACoins [totalFee]), (''treasury_amount'', ACoins [treasuryAmount]),
        (''retail_locked_amount'', ACoins [retailAmount]),
        (''retail_wallet'', AStr (AccAddressString E retailWallet))]))))))"

section \<open>Parameters and genesis\<close>

definition treasuryUpdateParams :: "'b sdk \<Rightarrow> addr \<Rightarrow> string \<Rightarrow> TreasuryParams \<Rightarrow> ('b chain, unit) act" where
  "treasuryUpdateParams E authority signer p =
     bnd (lift (checkAuthority E ''treasury'' authority signer)) (\<lambda>_.
     bnd (lift (treasuryValidate p)) (\<lambda>_.
     modify (\<lambda>s. s\<lparr>treasuryParams := Some p\<rparr>)))"

definition zeroTreasuryParams :: TreasuryParams where
  "zeroTreasuryParams = treasuryNewParams [] [] []"

definition treasuryQueryParams :: "unit option \<Rightarrow> ('b chain, TreasuryParams) act" where
  "treasuryQueryParams req = bnd (lift (queryReq req)) (\<lambda>_.
     gets (\<lambda>s. case treasuryParams s of None \<Rightarrow> zeroTreasuryParams | Some p \<Rightarrow> p))"

definition treasuryGenesisValidate :: "TreasuryParams \<Rightarrow> unit res" where
  "treasuryGenesisValidate p = treasuryValidate p"

definition treasuryInitGenesis :: "TreasuryParams \<Rightarrow> ('b chain, unit) act" where
  "treasuryInitGenesis p = modify (\<lambda>s. s\<lparr>treasuryParams := Some p\<rparr>)"

definition treasuryExportGenesis :: "'b chain \<Rightarrow> TreasuryParams res" where
  "treasuryExportGenesis s = ofOption (SdkErr ''collections: not found'') (treasuryParams s)"

interpretation treasuryGov: genesis_params "treasuryUpdateParams E authority" treasuryParams
  "\<lambda>signer. StringToBytes E signer = Some authority" "\<lambda>p. treasuryValidate p = Inr ()" "\<lambda>p. p"
  "treasuryInitGenesis" treasuryExportGenesis
  for E :: "'b sdk" and authority
  by unfold_locales
    (auto simp: treasuryUpdateParams_def treasuryInitGenesis_def treasuryExportGenesis_def ofOption_Inr_iff act_splits checkAuthority_Inr bnd_def lift_def modify_def split: sum.splits)

section \<open>Lemmas\<close>

lemma Lock_cases:
  assumes E: "coin_laws E" "bank_laws E" and r: "LockRetailWalletReward E recipient amount s = (Inr (), t)"
  shows "movedBy E recipient (Some (GetModuleAddress E ''locked_rewards'')) (Denom amount) (Amount amount) (ext s) (ext t)"
    and "0 \<le> Amount amount"
    and "events t = events s @ [mkEvent ''retail_reward_locked''
       [(''recipient'', AStr (AccAddressString E recipient)), (''amount'', ACoins [amount]),
        (''unlock_time'', ATime (blockTime s + sixMonths))]]"
proof -
  from r obtain cs b where c: "NewCoins E [amount] = Some cs" and
    b: "SendCoins E (ext s) recipient (GetModuleAddress E ''locked_rewards'') cs = (None, b)" and
    t: "t = s\<lparr>ext := b, events := events s @ [mkEvent ''retail_reward_locked''
       [(''recipient'', AStr (AccAddressString E recipient)), (''amount'', ACoins [amount]),
        (''unlock_time'', ATime (blockTime s + sixMonths))]]\<rparr>"
    by (auto simp: LockRetailWalletReward_def act_splits oneCoin_def treasuryModuleAddress_def lockedRewardOf_def
      storeLockedReward_def)
  show "events t = events s @ [mkEvent ''retail_reward_locked''
       [(''recipient'', AStr (AccAddressString E recipient)), (''amount'', ACoins [amount]),
        (''unlock_time'', ATime (blockTime s + sixMonths))]]"
    by (simp add: t)
  show "0 \<le> Amount amount" using NewCoins_eq [OF E(1) c] by simp
  show "movedBy E recipient (Some (GetModuleAddress E ''locked_rewards'')) (Denom amount) (Amount amount) (ext s) (ext t)"
    using SendCoins_moves [OF E(2) b] t by (simp add: moves_def movedBy_def NewCoins_amount [OF E(1) c])
qed

lemma ProcessUnlockedRewards_eval: "ProcessUnlockedRewards E s = (Inr (), s)"
  by (simp add: ProcessUnlockedRewards_def getAllLockedRewards_def act_simps)

lemma Distribute_cases:
  assumes E: "coin_laws E" "bank_laws E" and r: "DistributePOSPaymentReward E totalFee retailWallet s = (Inr (), t)"
  shows "movedBy E retailWallet (Some (GetModuleAddress E ''locked_rewards'')) (Denom totalFee)
      (truncDiv (Amount totalFee) 2) (ext s) (ext t)" (is "movedBy E _ _ ?d ?h _ _")
    and "0 \<le> truncDiv (Amount totalFee) 2"
proof -
  from r obtain c cs b s2 where c: "NewCoin E ?d ?h = Some c" and
    b: "SendCoins E (ext s) (GetModuleAddress E ''treasury'') (GetModuleAddress E ''treasury'') cs = (None, b)" and
    l: "LockRetailWalletReward E retailWallet c (s\<lparr>ext := b\<rparr>) = (Inr (), s2)" and t: "ext t = ext s2"
    by (fastforce simp: DistributePOSPaymentReward_def act_splits oneCoin_def treasuryModuleAddress_def Let_def)
  have same: "GetBalance E b a x = GetBalance E (ext s) a x" "GetSupply E b x = GetSupply E (ext s) x" for a x
    using SendCoins_moves [OF E(2) b] by (simp_all add: moves_def)
  have "c = \<lparr>Denom = ?d, Amount = ?h\<rparr>" using c by (simp add: NewCoin_eq [OF E(1)] split: if_splits)
  with Lock_cases [OF E l] show "movedBy E retailWallet (Some (GetModuleAddress E ''locked_rewards'')) ?d ?h (ext s) (ext t)"
    "0 \<le> ?h"
    by (simp_all add: movedBy_def same t)
qed

section \<open>The treasury over time\<close>

text \<open>A step of the module: one of its operations succeeds, or time passes.\<close>

inductive treasuryStep :: "'b sdk \<Rightarrow> 'b chain \<Rightarrow> 'b chain \<Rightarrow> bool" for E where
  lock: "LockRetailWalletReward E recipient amount s = (Inr (), t) \<Longrightarrow> treasuryStep E s t"
| release: "ProcessUnlockedRewards E s = (Inr (), t) \<Longrightarrow> treasuryStep E s t"
| pos: "DistributePOSPaymentReward E totalFee retailWallet s = (Inr (), t) \<Longrightarrow> treasuryStep E s t"
| wait: "0 \<le> dt \<Longrightarrow> treasuryStep E s (s\<lparr>blockTime := blockTime s + dt\<rparr>)"

inductive_cases treasuryStep_cases: "treasuryStep E s t"

lemma movedBy_grows:
  "movedBy E f (Some a) denom n b b' \<Longrightarrow> 0 \<le> n \<Longrightarrow>
     GetBalance E b a d \<le> GetBalance E b' a d \<and> GetSupply E b' d = GetSupply E b d"
  by (simp add: movedBy_def)

lemma treasuryStep_grows:
  assumes "coin_laws E" "bank_laws E" "treasuryStep E s t"
  shows "GetBalance E (ext s) (GetModuleAddress E ''locked_rewards'') d \<le> GetBalance E (ext t) (GetModuleAddress E ''locked_rewards'') d \<and>
    GetSupply E (ext t) d = GetSupply E (ext s) d"
  using assms(3)
proof (elim treasuryStep_cases)
  fix recipient amount
  assume "LockRetailWalletReward E recipient amount s = (Inr (), t)"
  then show ?thesis using movedBy_grows [OF Lock_cases(1,2) [OF assms(1,2)]] by simp
next
  fix totalFee retailWallet
  assume "DistributePOSPaymentReward E totalFee retailWallet s = (Inr (), t)"
  then show ?thesis using movedBy_grows [OF Distribute_cases [OF assms(1,2)]] by simp
qed (simp_all add: ProcessUnlockedRewards_eval)

section \<open>Properties\<close>

text \<open>Locking a reward moves it to the locked rewards account and announces its unlock time.\<close>

theorem retail_reward_is_locked:
  assumes "coin_laws E" "bank_laws E" "LockRetailWalletReward E recipient amount s = (Inr (), t)"
  shows "movedBy E recipient (Some (GetModuleAddress E ''locked_rewards'')) (Denom amount) (Amount amount) (ext s) (ext t) \<and>
    events t = events s @ [mkEvent ''retail_reward_locked''
      [(''recipient'', AStr (AccAddressString E recipient)), (''amount'', ACoins [amount]),
       (''unlock_time'', ATime (blockTime s + sixMonths))]]"
  using Lock_cases(1,3) [OF assms] by simp

definition tre :: "ledger chain" where
  "tre = initChain (fund ''shop'' ''ucsv'' 900 emptyLedger)"

definition paidIn :: "ledger chain" where
  "paidIn = initChain (fund (refMod ''treasury'') ''ucsv'' 100 (fund ''shop'' ''ucsv'' 900 emptyLedger))"

definition fee7 :: coin where
  "fee7 = \<lparr>Denom = ''ucsv'', Amount = 7\<rparr>"

theorem retail_reward_is_locked_witness:
  "movedBy ref_sdk ''shop'' (Some (GetModuleAddress ref_sdk ''locked_rewards'')) (Denom fee7) (Amount fee7) (ext tre)
     (ext (snd (LockRetailWalletReward ref_sdk ''shop'' fee7 tre))) \<and>
   events (snd (LockRetailWalletReward ref_sdk ''shop'' fee7 tre)) = events tre @ [mkEvent ''retail_reward_locked''
      [(''recipient'', AStr (AccAddressString ref_sdk ''shop'')), (''amount'', ACoins [fee7]),
       (''unlock_time'', ATime (blockTime tre + sixMonths))]]"
proof -
  have r: "fst (LockRetailWalletReward ref_sdk ''shop'' fee7 tre) = Inr ()" by code_simp
  show ?thesis by (rule retail_reward_is_locked [OF ref_coin_laws ref_bank_laws runs [OF r]])
qed

text \<open>
  C35. No sequence of treasury operations and no passing of time ever lowers the balance of the
  locked rewards account: a locked reward is never paid out.
\<close>

theorem locked_rewards_are_never_released:
  assumes "coin_laws E" "bank_laws E" "(treasuryStep E)\<^sup>*\<^sup>* s t"
  shows "GetBalance E (ext s) (GetModuleAddress E ''locked_rewards'') d \<le>
    GetBalance E (ext t) (GetModuleAddress E ''locked_rewards'') d"
  using assms(3)
proof induction
  case (step t u)
  then show ?case using treasuryStep_grows [OF assms(1,2), of t u d] by simp
qed simp

theorem locked_rewards_are_never_released_witness:
  "GetBalance ref_sdk (ext tre) (refMod ''locked_rewards'') ''ucsv'' \<le>
   GetBalance ref_sdk (ext ((snd (LockRetailWalletReward ref_sdk ''shop'' fee7 tre))\<lparr>blockTime := 2 * sixMonths\<rparr>))
     (refMod ''locked_rewards'') ''ucsv''"
proof -
  let ?u = "snd (LockRetailWalletReward ref_sdk ''shop'' fee7 tre)"
  have r: "fst (LockRetailWalletReward ref_sdk ''shop'' fee7 tre) = Inr ()" by code_simp
  have "treasuryStep ref_sdk tre ?u" by (rule treasuryStep.lock [OF runs [OF r]])
  moreover have b: "blockTime ?u = 0" by code_simp
  have "treasuryStep ref_sdk ?u (?u\<lparr>blockTime := 2 * sixMonths\<rparr>)"
    using treasuryStep.wait [of "2 * sixMonths" ref_sdk ?u] by (simp add: b sixMonths_def Hour_def)
  ultimately have "(treasuryStep ref_sdk)\<^sup>*\<^sup>* tre (?u\<lparr>blockTime := 2 * sixMonths\<rparr>)" by simp
  from locked_rewards_are_never_released [OF ref_coin_laws ref_bank_laws this, of "''ucsv''"]
  show ?thesis by (simp add: ref_sdk_def)
qed

text \<open>
  Distributing a POS payment reward moves half of the fee, rounded down, from the retail
  wallet itself to the locked rewards account, and changes no other balance.
\<close>

theorem pos_reward_comes_from_the_wallet:
  assumes "coin_laws E" "bank_laws E" "0 \<le> Amount totalFee"
    and "DistributePOSPaymentReward E totalFee retailWallet s = (Inr (), t)"
  shows "GetBalance E (ext t) a d = GetBalance E (ext s) a d + (if d = Denom totalFee then
      (if a = GetModuleAddress E ''locked_rewards'' then Amount totalFee div 2 else 0) -
      (if a = retailWallet then Amount totalFee div 2 else 0) else 0)"
proof -
  have "truncDiv (Amount totalFee) 2 = Amount totalFee div 2" using assms(3) by (simp add: truncDiv_nonneg)
  then show ?thesis using Distribute_cases [OF assms(1,2,4)] by (simp add: movedBy_def)
qed

theorem pos_reward_comes_from_the_wallet_witness:
  "GetBalance ref_sdk (ext (snd (DistributePOSPaymentReward ref_sdk fee7 ''shop'' paidIn))) ''shop'' ''ucsv'' = 897"
proof -
  have r: "fst (DistributePOSPaymentReward ref_sdk fee7 ''shop'' paidIn) = Inr ()" by code_simp
  have b: "GetBalance ref_sdk (ext paidIn) ''shop'' ''ucsv'' = 900" by code_simp
  have n: "GetModuleAddress ref_sdk ''locked_rewards'' \<noteq> ''shop''" by (simp add: ref_sdk_def refMod_def)
  show ?thesis
    using pos_reward_comes_from_the_wallet [OF ref_coin_laws ref_bank_laws _ runs [OF r], of "''shop''" "''ucsv''"] n
    by (simp add: b fee7_def)
qed

end
