(* ===== verification/ParamModules.thy ===== *)
theory ParamModules
  imports Governed
begin

text \<open>
  The three modules that only keep parameters: \<open>x/conversionpool\<close>, \<open>x/registry\<close> and \<open>x/cosvian\<close>
  (their keepers have no other operation). A query of parameters that were never set returns the
  zero value.
\<close>

section \<open>conversionpool\<close>

definition zeroConversionParams :: ConversionParams where
  "zeroConversionParams = conversionNewParams [] [] []"

definition conversionNewKeeper :: "'b sdk \<Rightarrow> addr \<Rightarrow> unit res" where
  "conversionNewKeeper E authority = requireAuthority E authority"

definition conversionUpdateParams :: "'b sdk \<Rightarrow> addr \<Rightarrow> string \<Rightarrow> ConversionParams \<Rightarrow> ('b chain, unit) act" where
  "conversionUpdateParams E authority signer p =
     bnd (lift (checkAuthority E ''conversionpool'' authority signer)) (\<lambda>_.
     bnd (lift (conversionValidate p)) (\<lambda>_.
     modify (\<lambda>s. s\<lparr>conversionParams := Some p\<rparr>)))"

definition conversionQueryParams :: "unit option \<Rightarrow> ('b chain, ConversionParams) act" where
  "conversionQueryParams req = bnd (lift (queryReq req)) (\<lambda>_.
     gets (\<lambda>s. case conversionParams s of None \<Rightarrow> zeroConversionParams | Some p \<Rightarrow> p))"

definition conversionGenesisValidate :: "ConversionParams \<Rightarrow> unit res" where
  "conversionGenesisValidate p = conversionValidate p"

definition conversionInitGenesis :: "ConversionParams \<Rightarrow> ('b chain, unit) act" where
  "conversionInitGenesis p = modify (\<lambda>s. s\<lparr>conversionParams := Some p\<rparr>)"

definition conversionExportGenesis :: "'b chain \<Rightarrow> ConversionParams res" where
  "conversionExportGenesis s = ofOption (SdkErr ''collections: not found'') (conversionParams s)"

interpretation conversionGov: genesis_params "conversionUpdateParams E authority" conversionParams
  "\<lambda>signer. StringToBytes E signer = Some authority" "\<lambda>p. conversionValidate p = Inr ()" "\<lambda>p. p"
  "conversionInitGenesis" conversionExportGenesis
  for E :: "'b sdk" and authority
  by unfold_locales
    (auto simp: conversionUpdateParams_def conversionInitGenesis_def conversionExportGenesis_def ofOption_Inr_iff act_splits checkAuthority_Inr bnd_def lift_def modify_def split: sum.splits)

section \<open>registry\<close>

definition zeroRegistryParams :: RegistryParams where
  "zeroRegistryParams = registryNewParams [] [] []"

definition registryNewKeeper :: "'b sdk \<Rightarrow> addr \<Rightarrow> unit res" where
  "registryNewKeeper E authority = requireAuthority E authority"

definition registryUpdateParams :: "'b sdk \<Rightarrow> addr \<Rightarrow> string \<Rightarrow> RegistryParams \<Rightarrow> ('b chain, unit) act" where
  "registryUpdateParams E authority signer p =
     bnd (lift (checkAuthority E ''registry'' authority signer)) (\<lambda>_.
     bnd (lift (registryValidate p)) (\<lambda>_.
     modify (\<lambda>s. s\<lparr>registryParams := Some p\<rparr>)))"

definition registryQueryParams :: "unit option \<Rightarrow> ('b chain, RegistryParams) act" where
  "registryQueryParams req = bnd (lift (queryReq req)) (\<lambda>_.
     gets (\<lambda>s. case registryParams s of None \<Rightarrow> zeroRegistryParams | Some p \<Rightarrow> p))"

definition registryGenesisValidate :: "RegistryParams \<Rightarrow> unit res" where
  "registryGenesisValidate p = registryValidate p"

definition registryInitGenesis :: "RegistryParams \<Rightarrow> ('b chain, unit) act" where
  "registryInitGenesis p = modify (\<lambda>s. s\<lparr>registryParams := Some p\<rparr>)"

definition registryExportGenesis :: "'b chain \<Rightarrow> RegistryParams res" where
  "registryExportGenesis s = ofOption (SdkErr ''collections: not found'') (registryParams s)"

interpretation registryGov: genesis_params "registryUpdateParams E authority" registryParams
  "\<lambda>signer. StringToBytes E signer = Some authority" "\<lambda>p. registryValidate p = Inr ()" "\<lambda>p. p"
  "registryInitGenesis" registryExportGenesis
  for E :: "'b sdk" and authority
  by unfold_locales
    (auto simp: registryUpdateParams_def registryInitGenesis_def registryExportGenesis_def ofOption_Inr_iff act_splits checkAuthority_Inr bnd_def lift_def modify_def split: sum.splits)

section \<open>cosvian\<close>

definition cosvianValidate :: "unit \<Rightarrow> unit res" where
  "cosvianValidate p = Inr ()"

definition cosvianNewKeeper :: "'b sdk \<Rightarrow> addr \<Rightarrow> unit res" where
  "cosvianNewKeeper E authority = requireAuthority E authority"

definition cosvianUpdateParams :: "'b sdk \<Rightarrow> addr \<Rightarrow> string \<Rightarrow> unit \<Rightarrow> ('b chain, unit) act" where
  "cosvianUpdateParams E authority signer p =
     bnd (lift (checkAuthority E ''cosvian'' authority signer)) (\<lambda>_.
     bnd (lift (cosvianValidate p)) (\<lambda>_.
     modify (\<lambda>s. s\<lparr>cosvianParams := Some p\<rparr>)))"

definition cosvianQueryParams :: "unit option \<Rightarrow> ('b chain, unit) act" where
  "cosvianQueryParams req = bnd (lift (queryReq req)) (\<lambda>_.
     gets (\<lambda>s. case cosvianParams s of None \<Rightarrow> () | Some p \<Rightarrow> p))"

definition cosvianGenesisValidate :: "unit \<Rightarrow> unit res" where
  "cosvianGenesisValidate p = cosvianValidate p"

definition cosvianInitGenesis :: "unit \<Rightarrow> ('b chain, unit) act" where
  "cosvianInitGenesis p = modify (\<lambda>s. s\<lparr>cosvianParams := Some p\<rparr>)"

definition cosvianExportGenesis :: "'b chain \<Rightarrow> unit res" where
  "cosvianExportGenesis s = ofOption (SdkErr ''collections: not found'') (cosvianParams s)"

interpretation cosvianGov: genesis_params "cosvianUpdateParams E authority" cosvianParams
  "\<lambda>signer. StringToBytes E signer = Some authority" "\<lambda>p. cosvianValidate p = Inr ()" "\<lambda>p. p"
  "cosvianInitGenesis" cosvianExportGenesis
  for E :: "'b sdk" and authority
  by unfold_locales
    (auto simp: cosvianUpdateParams_def cosvianInitGenesis_def cosvianExportGenesis_def ofOption_Inr_iff act_splits checkAuthority_Inr bnd_def lift_def modify_def split: sum.splits)

end
