(* ===== verification/Osmosis.thy ===== *)
theory Osmosis
  imports Oracle Json
begin

text \<open>
  The interchain price query module (\<open>x/osmosisicq\<close>): scheduling of the queries, decoding of their
  results, the guards a price has to pass before it reaches the oracle's store, parameters and
  status. The module sees the oracle as \<open>types.OracleKeeper\<close> and the query client as
  \<open>types.ICQClient\<close>; both are values of the model, the client being absent when it is nil.
\<close>

section \<open>Interfaces\<close>

record 'b price_keeper =
  pkSet :: "dec \<Rightarrow> ('b chain, unit) act"
  pkGet :: "'b chain \<Rightarrow> dec"

definition oracleKeeper :: "'b sdk \<Rightarrow> 'b price_keeper" where
  "oracleKeeper E = \<lparr>pkSet = SetCSVPerUSD E, pkGet = GetCSVPerUSD E\<rparr>"

type_synonym 'b icq_client = "string \<Rightarrow> string \<Rightarrow> bytes \<Rightarrow> ('b chain, string) act"

definition osmoNewKeeper :: "'b sdk \<Rightarrow> addr \<Rightarrow> unit res" where
  "osmoNewKeeper E authority = requireAuthority E authority"

definition getOsmoParams :: "('b chain, OsmoParams) act" where
  "getOsmoParams = bnd (gets osmoParams) (\<lambda>ps. lift (ofOption (SdkErr ''collections: not found'') ps))"

text \<open>\<open>BlockTime().Unix()\<close>\<close>

definition unixTime :: "'b chain \<Rightarrow> int" where
  "unixTime s = blockTime s div 10 ^ 9"

section \<open>Query keys\<close>

record QueryKey =
  qkStore :: string
  qkKey :: bytes

definition BuildGammPoolKey :: "u64 \<Rightarrow> QueryKey" where
  "BuildGammPoolKey poolID = \<lparr>qkStore = ''gamm'', qkKey = ''pool/'' @ fmtNat (unat poolID)\<rparr>"

definition BuildTwapToNowKey :: "string \<Rightarrow> string \<Rightarrow> u64 \<Rightarrow> QueryKey" where
  "BuildTwapToNowKey baseDenom quoteDenom windowSeconds =
     \<lparr>qkStore = ''twap'', qkKey = ''twap/'' @ baseDenom @ ''/'' @ quoteDenom @ ''/'' @ fmtNat (unat windowSeconds)\<rparr>"

definition stubTwapKey :: "string \<Rightarrow> string \<Rightarrow> u64 \<Rightarrow> u64 \<Rightarrow> string \<times> bytes" where
  "stubTwapKey base quote poolID window =
     (let tk = BuildTwapToNowKey base quote window in (qkStore tk, qkKey tk))"

definition stubGammPoolKey :: "u64 \<Rightarrow> string \<times> bytes" where
  "stubGammPoolKey poolID = (let pk = BuildGammPoolKey poolID in (qkStore pk, qkKey pk))"

section \<open>Scheduling\<close>

definition registerQuery :: "'b icq_client \<Rightarrow> string \<Rightarrow> string \<Rightarrow> string \<times> bytes \<Rightarrow> ('b chain, unit) act" where
  "registerQuery client connectionId name sk = (case sk of (store, key) \<Rightarrow>
     if key \<noteq> [] then
       catchA (client connectionId store key) (\<lambda>_. return ())
         (\<lambda>qid. modify (\<lambda>s. s\<lparr>osmoQueryIDs := (osmoQueryIDs s)(name \<mapsto> qid)\<rparr>))
     else return ())"

definition registerQueries :: "'b icq_client \<Rightarrow> OsmoParams \<Rightarrow> ('b chain, unit) act" where
  "registerQueries client params =
     (if UseTwap params then
        bnd (registerQuery client (ConnectionId params) ''twap''
              (stubTwapKey (BaseDenom params) (QuoteDenom params) (PoolId params) (TwapWindowSeconds params))) (\<lambda>_.
        registerQuery client (ConnectionId params) ''spot'' (stubGammPoolKey (PoolId params)))
      else registerQuery client (ConnectionId params) ''spot'' (stubGammPoolKey (PoolId params)))"

definition notDue :: "'b chain \<Rightarrow> u64 \<Rightarrow> bool" where
  "notDue s interval = (case osmoNextUpdate s of
     Some next \<Rightarrow> unixTime s < next
   | None \<Rightarrow> (case osmoLastUpdate s of
       Some lastTime \<Rightarrow> unixTime s < addInt64 lastTime (int64 interval)
     | None \<Rightarrow> False))"

definition markScheduled :: "int \<Rightarrow> u64 \<Rightarrow> ('b chain, unit) act" where
  "markScheduled now interval =
     modify (\<lambda>s. s\<lparr>osmoLastUpdate := Some now, osmoNextUpdate := Some (addInt64 now (int64 interval))\<rparr>)"

definition ScheduleQueriesIfDue :: "'b icq_client option \<Rightarrow> ('b chain, unit) act" where
  "ScheduleQueriesIfDue icqClient =
     bnd getOsmoParams (\<lambda>params.
     let interval = UpdateIntervalSeconds params in
     if interval = 0 then return ()
     else
       bnd (gets (\<lambda>s. (unixTime s, notDue s interval))) (\<lambda>(now, wait).
       if wait then return ()
       else
         bnd (case icqClient of
             None \<Rightarrow> return ()
           | Some client \<Rightarrow> whenA (ConnectionId params \<noteq> []) (registerQueries client params)) (\<lambda>_.
         bnd (emit ''osmosisicq_register''
           [(''connection_id'', AStr (ConnectionId params)), (''pool_id'', AInt (uint (PoolId params))),
            (''base_denom'', AStr (BaseDenom params)), (''quote_denom'', AStr (QuoteDenom params)),
            (''use_twap'', ABool (UseTwap params)), (''twap_window_seconds'', AInt (uint (TwapWindowSeconds params)))]) (\<lambda>_.
         bnd (markScheduled now interval) (\<lambda>_.
         emit ''osmosisicq_schedule'' [(''time'', ATime (now * 10 ^ 9))])))))"

text \<open>
  The module's \<open>BeginBlock\<close>: the schedule, its error dropped. A context that is not an
  \<open>sdk.Context\<close> is left alone.
\<close>

definition osmoBeginBlock :: "'b icq_client option \<Rightarrow> bool \<Rightarrow> ('b chain, unit) act" where
  "osmoBeginBlock icqClient isSdkContext =
     bnd (whenA isSdkContext (ignoreA (ScheduleQueriesIfDue icqClient))) (\<lambda>_. return ())"

section \<open>Guards\<close>

text \<open>The deviation test: \<^term>\<open>True\<close> when the price is to be dropped, with the deviation.\<close>

definition deviates :: "'b sdk \<Rightarrow> dec \<Rightarrow> dec \<Rightarrow> dec \<Rightarrow> (bool \<times> dec) res" where
  "deviates E price lgp maxDev =
     (if lgp \<noteq> 0 \<and> maxDev > 0 then
        rbind (ofOption Panic (dQuo E \<bar>price - lgp\<bar> lgp)) (\<lambda>dev. Inr (dev > maxDev, dev))
      else Inr (False, 0))"

definition ValidateAndPersistPrice :: "'b sdk \<Rightarrow> 'b price_keeper \<Rightarrow> dec \<Rightarrow> dec \<Rightarrow> ('b chain, unit) act" where
  "ValidateAndPersistPrice E ok price liquidity0 =
     bnd getOsmoParams (\<lambda>params.
     bnd (lift (ofOption (LibErr ''LegacyNewDecFromStr'') (dFromStr E (MinLiquidity params)))) (\<lambda>minLiq.
     let liquidity = (if liquidity0 < 0 then 0 else liquidity0) in
     if liquidity < minLiq then
       emit ''osmosisicq_price_dropped''
         [(''reason'', AStr ''low_liquidity''), (''price'', ADec (Some price)), (''liquidity'', ADec (Some liquidity))]
     else
       bnd (lift (ofOption (LibErr ''LegacyNewDecFromStr'') (dFromStr E (MaxDeviation params)))) (\<lambda>maxDev.
       bnd (gets (pkGet ok)) (\<lambda>lgp.
       bnd (lift (deviates E price lgp maxDev)) (\<lambda>(drop, dev).
       if drop then
         emit ''osmosisicq_price_dropped''
           [(''reason'', AStr ''deviation''), (''price'', ADec (Some price)), (''lgp'', ADec (Some lgp)),
            (''deviation'', ADec (Some dev))]
       else
         bnd (pkSet ok price) (\<lambda>_.
         bnd (modify (\<lambda>s. s\<lparr>osmoLastResult := Some (unixTime s)\<rparr>)) (\<lambda>_.
         emit ''osmosisicq_price_updated''
           [(''price'', ADec (Some price)), (''liquidity'', ADec (Some liquidity))])))))))"

definition normalizeToCSVPerUSD :: "'b sdk \<Rightarrow> 'b chain \<Rightarrow> dec \<Rightarrow> dec res" where
  "normalizeToCSVPerUSD E s priceQuotePerBase = (case osmoParams s of
     None \<Rightarrow> Inr priceQuotePerBase
   | Some params \<Rightarrow>
       let base = BaseDenom params; quote = QuoteDenom params in
       if base = ''ucsv'' \<and> quote = ''uusdc'' then
         (if priceQuotePerBase = 0 then Inr 0 else ofOption Panic (dQuo E decOne priceQuotePerBase))
       else Inr priceQuotePerBase)"

definition HandleTwapResult :: "'b sdk \<Rightarrow> 'b price_keeper \<Rightarrow> dec \<Rightarrow> dec \<Rightarrow> ('b chain, unit) act" where
  "HandleTwapResult E ok priceQuotePerBase liquidity =
     bnd (gets (\<lambda>s. normalizeToCSVPerUSD E s priceQuotePerBase)) (\<lambda>r.
     bnd (lift r) (\<lambda>csvPerUSD.
     ValidateAndPersistPrice E ok csvPerUSD liquidity))"

definition HandleSpotResult :: "'b sdk \<Rightarrow> 'b price_keeper \<Rightarrow> dec \<Rightarrow> dec \<Rightarrow> ('b chain, unit) act" where
  "HandleSpotResult E ok priceQuotePerBase liquidity =
     bnd (gets (\<lambda>s. normalizeToCSVPerUSD E s priceQuotePerBase)) (\<lambda>r.
     bnd (lift r) (\<lambda>csvPerUSD.
     ValidateAndPersistPrice E ok csvPerUSD liquidity))"

section \<open>Results\<close>

text \<open>\<open>json.Unmarshal\<close> into the struct of two strings, \<^term>\<open>None\<close> on error.\<close>

definition unmarshalPl :: "bytes \<Rightarrow> (string \<times> string) option" where
  "unmarshalPl b = (case parseJson b of
     Some JNull \<Rightarrow> Some ([], [])
   | Some (JObj ms) \<Rightarrow> (case (fieldStr ''price'' ms, fieldStr ''liquidity'' ms) of
       (Some p, Some l) \<Rightarrow> Some (p, l)
     | _ \<Rightarrow> None)
   | _ \<Rightarrow> None)"

definition twoDecs :: "'b sdk \<Rightarrow> string \<Rightarrow> string \<Rightarrow> (dec \<times> dec) res" where
  "twoDecs E p l =
     rbind (ofOption (LibErr ''LegacyNewDecFromStr'') (dFromStr E p)) (\<lambda>price.
     rbind (ofOption (LibErr ''LegacyNewDecFromStr'') (dFromStr E l)) (\<lambda>liquidity.
     Inr (price, liquidity)))"

definition decodePriceLiquidity :: "'b sdk \<Rightarrow> bytes \<Rightarrow> (dec \<times> dec) res" where
  "decodePriceLiquidity E b =
     (let fallback = (case SplitOn CHR ''|'' b of
            [p, l] \<Rightarrow> twoDecs E (TrimSpace p) (TrimSpace l)
          | _ \<Rightarrow> Inl (ErrMsg ''unsupported stub encoding''))
      in case unmarshalPl b of
        Some (p, l) \<Rightarrow> if p \<noteq> [] \<or> l \<noteq> [] then twoDecs E p l else fallback
      | None \<Rightarrow> fallback)"

definition stubDecodeTwap :: "'b sdk \<Rightarrow> bytes \<Rightarrow> bytes \<Rightarrow> string \<Rightarrow> string \<Rightarrow> (dec \<times> dec) res" where
  "stubDecodeTwap E key val base quote = decodePriceLiquidity E val"

definition stubDecodeSpot :: "'b sdk \<Rightarrow> bytes \<Rightarrow> bytes \<Rightarrow> string \<Rightarrow> string \<Rightarrow> (dec \<times> dec) res" where
  "stubDecodeSpot E key val base quote = decodePriceLiquidity E val"

definition OnKVResult :: "'b sdk \<Rightarrow> 'b price_keeper \<Rightarrow> string \<Rightarrow> bytes \<Rightarrow> bytes \<Rightarrow> ('b chain, unit) act" where
  "OnKVResult E ok store key val =
     (if val = [] then raise (ErrMsg ''empty ICQ value'')
      else if store = ''twap'' then
        bnd getOsmoParams (\<lambda>p.
        bnd (wrapA ''decode twap'' (lift (stubDecodeTwap E key val (BaseDenom p) (QuoteDenom p)))) (\<lambda>(price, liquidity).
        HandleTwapResult E ok price liquidity))
      else if store = ''gamm'' then
        bnd getOsmoParams (\<lambda>p.
        bnd (wrapA ''decode gamm'' (lift (stubDecodeSpot E key val (BaseDenom p) (QuoteDenom p)))) (\<lambda>(price, liquidity).
        HandleSpotResult E ok price liquidity))
      else return ())"

text \<open>Two helpers the module offers for pool prices; the zero price stands for an empty pool.\<close>

definition SpotPrice :: "'b sdk \<Rightarrow> int \<Rightarrow> int \<Rightarrow> dec res" where
  "SpotPrice E quoteReserve baseReserve =
     (if baseReserve \<le> 0 then Inr 0
      else ofOption Panic (dQuo E (decFromInt quoteReserve) (decFromInt baseReserve)))"

definition TwoHopPrice :: "'b sdk \<Rightarrow> dec \<Rightarrow> dec \<Rightarrow> dec res" where
  "TwoHopPrice E pab pbc = ofOption Panic (dMul E pab pbc)"

section \<open>Messages, queries and genesis\<close>

definition osmoUpdateParams :: "'b sdk \<Rightarrow> addr \<Rightarrow> string \<Rightarrow> OsmoParams \<Rightarrow> ('b chain, unit) act" where
  "osmoUpdateParams E authority signer p =
     bnd (lift (checkAuthority E ''osmosisicq'' authority signer)) (\<lambda>_.
     bnd (lift (osmoValidate E p)) (\<lambda>_.
     bnd (modify (\<lambda>s. s\<lparr>osmoParams := Some p\<rparr>)) (\<lambda>_.
     emit ''osmosisicq_update_params''
       [(''authority'', AStr signer), (''connection_id'', AStr (ConnectionId p)), (''pool_id'', AInt (uint (PoolId p))),
        (''base_denom'', AStr (BaseDenom p)), (''quote_denom'', AStr (QuoteDenom p)), (''use_twap'', ABool (UseTwap p)),
        (''twap_window_seconds'', AInt (uint (TwapWindowSeconds p))),
        (''update_interval_seconds'', AInt (uint (UpdateIntervalSeconds p)))])))"

text \<open>The legacy message's stateless check and signers.\<close>

definition osmoMsgValidateBasic :: "string option \<Rightarrow> unit res" where
  "osmoMsgValidateBasic m = (case m of
     None \<Rightarrow> Inl (Wrap ''nil MsgUpdateParams'' (SdkErr ''ErrInvalidRequest''))
   | Some authority \<Rightarrow> if authority = [] then Inl (Wrap ''missing authority'' (SdkErr ''ErrUnauthorized'')) else Inr ())"

definition osmoMsgGetSigners :: "'b sdk \<Rightarrow> string \<Rightarrow> addr list" where
  "osmoMsgGetSigners E authority = (case AccAddressFromBech32 E authority of None \<Rightarrow> [] | Some a \<Rightarrow> [a])"

definition osmoQueryParams :: "unit option \<Rightarrow> ('b chain, OsmoParams) act" where
  "osmoQueryParams req = bnd (lift (queryReq req)) (\<lambda>_.
     gets (\<lambda>s. case osmoParams s of None \<Rightarrow> zeroOsmoParams | Some p \<Rightarrow> p))"

record StatusResponse =
  srLastUpdate :: int
  srNextUpdate :: int
  srLastResultTime :: int
  srQueries :: "(string \<times> string) list"

definition orInt :: "int option \<Rightarrow> int" where
  "orInt x = (case x of None \<Rightarrow> 0 | Some n \<Rightarrow> n)"

definition osmoStatus :: "'b chain \<Rightarrow> StatusResponse" where
  "osmoStatus s = \<lparr>srLastUpdate = orInt (osmoLastUpdate s), srNextUpdate = orInt (osmoNextUpdate s),
     srLastResultTime = orInt (osmoLastResult s),
     srQueries = (case osmoQueryIDs s ''twap'' of None \<Rightarrow> [] | Some q \<Rightarrow> [(''twap'', q)]) @
       (case osmoQueryIDs s ''spot'' of None \<Rightarrow> [] | Some q \<Rightarrow> [(''spot'', q)])\<rparr>"

definition osmoGenesisValidate :: "'b sdk \<Rightarrow> OsmoParams \<Rightarrow> unit res" where
  "osmoGenesisValidate E p = osmoValidate E p"

definition osmoInitGenesis :: "OsmoParams \<Rightarrow> ('b chain, unit) act" where
  "osmoInitGenesis p = modify (\<lambda>s. s\<lparr>osmoParams := Some p\<rparr>)"

definition osmoExportGenesis :: "'b chain \<Rightarrow> OsmoParams res" where
  "osmoExportGenesis s = ofOption (SdkErr ''collections: not found'') (osmoParams s)"

interpretation osmoGov: genesis_params "osmoUpdateParams E authority" osmoParams
  "\<lambda>signer. StringToBytes E signer = Some authority" "\<lambda>p. osmoValidate E p = Inr ()" "\<lambda>p. p"
  "osmoInitGenesis" osmoExportGenesis
  for E :: "'b sdk" and authority
  by unfold_locales
    (auto simp: osmoUpdateParams_def osmoInitGenesis_def osmoExportGenesis_def ofOption_Inr_iff act_splits checkAuthority_Inr bnd_def lift_def modify_def emit_eval split: sum.splits)

end
