(* ===== verification/OsmosisCorrect.thy ===== *)
theory OsmosisCorrect
  imports Osmosis
begin

text \<open>
  What the price guards and the schedule of \<open>x/osmosisicq\<close> guarantee. The lemmas about the guards hold
  for every price store that meets its contract, the properties for the oracle's.
\<close>

section \<open>Laws\<close>

text \<open>Every decimal the library returns prints to text it reads back.\<close>

definition dec_printable :: "'b sdk \<Rightarrow> bool" where
  "dec_printable E \<longleftrightarrow> price_ok E 0 \<and> (\<forall>x a. dFromStr E x = Some a \<longrightarrow> price_ok E a) \<and>
     (\<forall>a b r. dQuo E a b = Some r \<longrightarrow> price_ok E r)"

lemma ref_dec_printable: "dec_printable ref_sdk"
  by (simp add: dec_printable_def price_ok_def ref_sdk_def refFromStr_refString)

section \<open>The guards\<close>

lemma getOsmoParams_Inr [act_splits]:
  "getOsmoParams s = (Inr p, t) \<longleftrightarrow> osmoParams s = Some p \<and> t = s"
  by (auto simp: getOsmoParams_def act_splits)

lemma deviates_bound:
  assumes "dec_rounding E" "deviates E price lgp maxDev = Inr (False, dev)" "0 < lgp" "0 < maxDev"
  shows "\<bar>price - lgp\<bar> * decOne < (maxDev + 1) * lgp"
proof -
  from assms have q: "dQuo E \<bar>price - lgp\<bar> lgp = Some dev" "dev \<le> maxDev"
    by (auto simp: deviates_def act_splits)
  have "\<bar>price - lgp\<bar> * decOne < dev * lgp + lgp"
    using dQuo_near [OF assms(1) q(1)] assms(3) by simp
  also have "dev * lgp + lgp \<le> maxDev * lgp + lgp" using q(2) assms(3) by simp
  finally show ?thesis by (simp add: algebra_simps)
qed

lemma deviates_total: "deviates E p g m = Inl Panic \<or> (\<exists>drop dev. deviates E p g m = Inr (drop, dev))"
  by (cases "dQuo E \<bar>p - g\<bar> g") (auto simp: deviates_def)

lemma bound_keeps_positive:
  fixes price lgp maxDev :: int
  assumes "\<bar>price - lgp\<bar> * decOne < (maxDev + 1) * lgp" "0 < lgp" "maxDev < decOne"
  shows "0 < price"
proof -
  have "(maxDev + 1) * lgp \<le> decOne * lgp" using assms(2,3) by (intro mult_right_mono) simp_all
  with assms(1) have "\<bar>price - lgp\<bar> * decOne < lgp * decOne"
    by (simp only: mult.commute [of decOne lgp] less_le_trans)
  then have "\<bar>price - lgp\<bar> < lgp" by (simp only: mult_less_cancel_right_pos [OF decOne_pos])
  then show ?thesis by simp
qed

context price_store
begin

definition keeper :: "'b price_keeper" where
  "keeper = \<lparr>pkSet = put, pkGet = get\<rparr>"

text \<open>A result that is handled without an error was dropped, with an event only, or stored.\<close>

lemma validate_cases:
  assumes "ValidateAndPersistPrice E keeper p liq s = (Inr (), t)"
  obtains (dropped) es where "t = s\<lparr>events := es\<rparr>"
  | (stored) params minLiq maxDev dev s1 where "osmoParams s = Some params"
      "dFromStr E (MinLiquidity params) = Some minLiq" "minLiq \<le> max 0 liq"
      "dFromStr E (MaxDeviation params) = Some maxDev" "deviates E p (get s) maxDev = Inr (False, dev)"
      "put p s = (Inr (), s1)"
      "t = s1\<lparr>osmoLastResult := Some (unixTime s1), events := events s1 @ [mkEvent ''osmosisicq_price_updated''
         [(''price'', ADec (Some p)), (''liquidity'', ADec (Some (max 0 liq)))]]\<rparr>"
proof -
  have liq: "(if liq < 0 then 0 else liq) = max 0 liq" by simp
  from assms obtain params minLiq where pm: "osmoParams s = Some params" "dFromStr E (MinLiquidity params) = Some minLiq"
    by (auto simp: ValidateAndPersistPrice_def act_splits)
  show thesis
  proof (cases "max 0 liq < minLiq")
    case True
    with assms pm show thesis
      by (intro dropped) (auto simp: ValidateAndPersistPrice_def act_splits Let_def liq keeper_def)
  next
    case False
    with assms pm obtain maxDev drop dev where dv: "dFromStr E (MaxDeviation params) = Some maxDev"
      "deviates E p (get s) maxDev = Inr (drop, dev)"
      by (fastforce simp: ValidateAndPersistPrice_def act_splits Let_def liq keeper_def split: if_splits)
    show thesis
    proof (cases drop)
      case True
      with assms pm dv False show thesis
        by (intro dropped) (auto simp: ValidateAndPersistPrice_def act_splits Let_def liq keeper_def)
    next
      case nd: False
      with assms pm dv False obtain s1 where "put p s = (Inr (), s1)"
        "t = s1\<lparr>osmoLastResult := Some (unixTime s1), events := events s1 @ [mkEvent ''osmosisicq_price_updated''
         [(''price'', ADec (Some p)), (''liquidity'', ADec (Some (max 0 liq)))]]\<rparr>"
        by (auto simp: ValidateAndPersistPrice_def act_splits Let_def liq keeper_def)
      moreover have "minLiq \<le> max 0 liq" using False by (simp only: not_less)
      ultimately show thesis using pm dv nd by (intro stored) simp_all
    qed
  qed
qed

lemma get_of_stored:
  assumes "put p s = (Inr (), s1)" "ok p"
  shows "get (s1\<lparr>osmoLastResult := l, events := es\<rparr>) = p"
proof -
  have "get (s1\<lparr>osmoLastResult := l, events := es\<rparr>) = get s1" by (rule get_frame) simp
  then show ?thesis using put_elim(2) [OF assms(1) assms(2)] by simp
qed

text \<open>A stored price is within the allowed deviation of the last one.\<close>

lemma validate_bounded:
  assumes "dec_rounding E" "ValidateAndPersistPrice E keeper p liq s = (Inr (), t)" "ok p"
    and "osmoParams s = Some params" "dFromStr E (MaxDeviation params) = Some maxDev" "0 < maxDev" "0 < get s"
  shows "get t = get s \<or> get t = p \<and> \<bar>p - get s\<bar> * decOne < (maxDev + 1) * get s"
  using assms(2)
proof (cases rule: validate_cases)
  case (dropped es)
  then show ?thesis using get_frame [of t s] by simp
next
  case (stored params' minLiq maxDev' dev s1)
  with assms(4,5) have "maxDev' = maxDev" by simp
  with deviates_bound [OF assms(1) _ assms(7,6)] stored have "\<bar>p - get s\<bar> * decOne < (maxDev + 1) * get s" by blast
  then show ?thesis using get_of_stored [OF stored(6) assms(3)] stored(7) by simp
qed

lemma validate_store:
  assumes "ValidateAndPersistPrice E keeper p liq s = (Inr (), t)" "ok p"
  shows "csvPrice t = csvPrice s \<or> get t = p"
  using assms(1)
proof (cases rule: validate_cases)
  case (stored params minLiq maxDev dev s1)
  then show ?thesis using get_of_stored [OF stored(6) assms(2)] by simp
qed simp

lemma validate_params:
  assumes "ValidateAndPersistPrice E keeper p liq s = (Inr (), t)"
  shows "osmoParams t = osmoParams s"
  using assms by (cases rule: validate_cases) (auto dest: put_elim(3))

end

lemma keeper_eq: "price_store.keeper (SetCSVPerUSD E) (GetCSVPerUSD E) = oracleKeeper E"
  by (simp add: price.keeper_def oracleKeeper_def)

lemmas oracle_validate_store = price.validate_store [unfolded keeper_eq]
lemmas oracle_validate_bounded = price.validate_bounded [unfolded keeper_eq]
lemmas oracle_validate_params = price.validate_params [unfolded keeper_eq]

section \<open>Results\<close>

text \<open>A handled result is one of three: ignored, or a decoded and normalised price put through the guards.\<close>

lemma OnKVResult_cases:
  assumes "OnKVResult E ok store key val s = (Inr (), t)"
  obtains (ignored) "store \<notin> {''twap'', ''gamm''}" "t = s"
  | (handled) q liq p where "store \<in> {''twap'', ''gamm''}" "decodePriceLiquidity E val = Inr (q, liq)"
      "normalizeToCSVPerUSD E s q = Inr p" "ValidateAndPersistPrice E ok p liq s = (Inr (), t)"
  using assms
  by (auto simp: OnKVResult_def HandleTwapResult_def HandleSpotResult_def stubDecodeTwap_def stubDecodeSpot_def
      act_splits split: if_splits prod.splits)

lemma decode_printable:
  assumes "dec_printable E" "decodePriceLiquidity E val = Inr (q, liq)" "normalizeToCSVPerUSD E s q = Inr p"
  shows "price_ok E p"
proof -
  have "\<exists>x. dFromStr E x = Some q"
    using assms(2) by (auto simp: decodePriceLiquidity_def twoDecs_def act_splits Let_def split: option.splits list.splits if_splits)
  with assms(1) have "price_ok E q" by (auto simp: dec_printable_def)
  moreover have "p = q \<or> p = 0 \<or> (\<exists>a b. dQuo E a b = Some p)"
    using assms(3) by (auto simp: normalizeToCSVPerUSD_def act_splits Let_def split: option.splits if_splits)
  ultimately show ?thesis using assms(1) by (auto simp: dec_printable_def)
qed

section \<open>Properties of the guards\<close>

text \<open>The guard is on, and there is a positive price to compare with.\<close>

definition guarded :: "'b sdk \<Rightarrow> 'b chain \<Rightarrow> bool" where
  "guarded E s \<longleftrightarrow> 0 < GetCSVPerUSD E s \<and>
     (case osmoParams s of None \<Rightarrow> False | Some params \<Rightarrow>
        (case dFromStr E (MaxDeviation params) of None \<Rightarrow> False | Some maxDev \<Rightarrow> 0 < maxDev \<and> maxDev < decOne))"

lemma guardedE:
  assumes "guarded E s"
  obtains params maxDev where "osmoParams s = Some params" "dFromStr E (MaxDeviation params) = Some maxDev"
    "0 < maxDev" "maxDev < decOne" "0 < GetCSVPerUSD E s"
  using assms by (auto simp: guarded_def split: option.splits)

text \<open>A query client that leaves the feed's parameters and the price store alone.\<close>

definition client_frames :: "'b icq_client option \<Rightarrow> bool" where
  "client_frames client \<longleftrightarrow> (case client of None \<Rightarrow> True | Some c \<Rightarrow>
     \<forall>conn store key. keeps osmoParams (c conn store key) \<and> keeps csvPrice (c conn store key))"

text \<open>A step of the feed: a result is handled, a block begins, or time passes.\<close>

inductive feedStep :: "'b sdk \<Rightarrow> 'b chain \<Rightarrow> 'b chain \<Rightarrow> bool" for E where
  result: "OnKVResult E (oracleKeeper E) store key val s = (Inr (), t) \<Longrightarrow> feedStep E s t"
| schedule: "client_frames client \<Longrightarrow> osmoBeginBlock client b s = (r, t) \<Longrightarrow> feedStep E s t"
| wait: "feedStep E s (s\<lparr>blockTime := n, blockHeight := h\<rparr>)"

lemma keeps_registerQuery:
  assumes "\<And>conn store key. keeps f (client conn store key)" "\<And>s q. f (s\<lparr>osmoQueryIDs := q\<rparr>) = f s"
  shows "keeps f (registerQuery client conn name sk)"
  unfolding registerQuery_def using assms by (cases sk) (auto intro!: keeps_intros)

lemma keeps_osmoBeginBlock:
  assumes "\<And>c conn store key. client = Some c \<Longrightarrow> keeps f (c conn store key)"
    and "\<And>s q. f (s\<lparr>osmoQueryIDs := q\<rparr>) = f s" "\<And>s l n. f (s\<lparr>osmoLastUpdate := l, osmoNextUpdate := n\<rparr>) = f s"
      "\<And>s es. f (s\<lparr>events := es\<rparr>) = f s"
  shows "keeps f (osmoBeginBlock client b)"
  unfolding osmoBeginBlock_def ScheduleQueriesIfDue_def getOsmoParams_def markScheduled_def Let_def registerQueries_def
  using assms by (auto intro!: keeps_intros keeps_registerQuery split: prod.splits option.splits)

text \<open>
  The contract of \<open>types.ICQClient\<close>: registering a query touches neither the module's parameters nor the
  price store.
\<close>

locale query_client =
  fixes register :: "'b icq_client"
  assumes register_params: "keeps osmoParams (register conn store key)"
    and register_price: "keeps csvPrice (register conn store key)"
begin

lemma frames: "client_frames (Some register)"
  by (simp add: client_frames_def register_params register_price)

lemma begin_block_frames:
  "keeps csvPrice (osmoBeginBlock (Some register) b) \<and> keeps osmoParams (osmoBeginBlock (Some register) b)"
  by (auto intro!: keeps_osmoBeginBlock simp: register_params register_price)

end

lemma GetCSVPerUSD_frame: "csvPrice t = csvPrice s \<Longrightarrow> GetCSVPerUSD E t = GetCSVPerUSD E s"
  by (simp add: GetCSVPerUSD_def)


definition icqParamsOf :: "string \<Rightarrow> string \<Rightarrow> string \<Rightarrow> OsmoParams" where
  "icqParamsOf base quote dev = osmoNewParams\<lparr>BaseDenom := base, QuoteDenom := quote, MaxDeviation := dev\<rparr>"

definition feedState :: "string option \<Rightarrow> string \<Rightarrow> ledger chain" where
  "feedState price dev = (initChain emptyLedger)\<lparr>osmoParams := Some (icqParamsOf ''uusdc'' ''ucsv'' dev),
     csvPrice := (case price of None \<Rightarrow> Map.empty | Some p \<Rightarrow> [''CSV_USD'' \<mapsto> p])\<rparr>"


lemma OnKVResult_params:
  "OnKVResult E (oracleKeeper E) store key val s = (Inr (), t) \<Longrightarrow> osmoParams t = osmoParams s"
  by (erule OnKVResult_cases) (auto dest: oracle_validate_params)

lemma feedStep_guarded:
  assumes "dec_rounding E" "dec_printable E" "feedStep E s t" "guarded E s"
  shows "guarded E t"
  using assms(3)
proof (cases rule: feedStep.cases)
  case (result store key val)
  from assms(4) obtain params maxDev where g: "osmoParams s = Some params" "dFromStr E (MaxDeviation params) = Some maxDev"
    "0 < maxDev" "maxDev < decOne" "0 < GetCSVPerUSD E s" by (rule guardedE)
  have "0 < GetCSVPerUSD E t"
    using result
  proof (cases rule: OnKVResult_cases)
    case (handled q liq p)
    have "price_ok E p" by (rule decode_printable [OF assms(2) handled(2,3)])
    from oracle_validate_bounded [OF assms(1) handled(4) this g(1-3,5)] show ?thesis
      using g(5) bound_keeps_positive [OF _ g(5,4)] by auto
  qed (simp add: g(5))
  then show ?thesis using g OnKVResult_params [OF result] by (simp add: guarded_def)
next
  case (schedule client b r)
  from schedule(1) have k: "keeps osmoParams (osmoBeginBlock client b)" "keeps csvPrice (osmoBeginBlock client b)"
    by (auto intro!: keeps_osmoBeginBlock simp: client_frames_def)
  show ?thesis using assms(4) keepsD [OF k(1) schedule(2)] keepsD [OF k(2) schedule(2)]
    by (simp add: guarded_def GetCSVPerUSD_def)
next
  case (wait n h)
  then show ?thesis using assms(4) by (simp add: guarded_def GetCSVPerUSD_def)
qed



text \<open>Without a last price, or with the deviation set to zero, the guard checks nothing, not even the sign.\<close>

lemma unguarded_store:
  assumes "osmoParams s = Some params" "dFromStr E (MinLiquidity params) = Some minLiq" "minLiq \<le> max 0 liq"
    and "dFromStr E (MaxDeviation params) = Some maxDev" "GetCSVPerUSD E s = 0 \<or> maxDev \<le> 0"
  shows "fst (ValidateAndPersistPrice E (oracleKeeper E) p liq s) = Inr () \<and>
    csvPrice (snd (ValidateAndPersistPrice E (oracleKeeper E) p liq s)) = (csvPrice s)(''CSV_USD'' \<mapsto> dString E p)"
proof -
  have "\<not> (if liq < 0 then 0 else liq) < minLiq" using assms(3) by auto
  moreover have "deviates E p (GetCSVPerUSD E s) maxDev = Inr (False, 0)" using assms(5) by (auto simp: deviates_def)
  ultimately show ?thesis
    using assms(1,2,4)
    by (simp add: ValidateAndPersistPrice_def getOsmoParams_def act_simps Let_def oracleKeeper_def SetCSVPerUSD_def)
qed

text \<open>
  With enough liquidity and another base denomination than ucsv, a decoded price other than
  zero is stored as the exchange rate, a negative one included, when there is no last price or
  the maximal deviation is not positive.
\<close>

theorem first_price_is_not_checked:
  assumes "price_ok E p" "p \<noteq> 0" "decodePriceLiquidity E val = Inr (p, liq)" "val \<noteq> []" "store = ''twap'' \<or> store = ''gamm''"
    and "osmoParams s = Some params" "BaseDenom params \<noteq> ''ucsv''"
    and "dFromStr E (MinLiquidity params) = Some minLiq" "minLiq \<le> max 0 liq"
    and "dFromStr E (MaxDeviation params) = Some maxDev" "GetCSVPerUSD E s = 0 \<or> maxDev \<le> 0"
  shows "fst (OnKVResult E (oracleKeeper E) store key val s) = Inr () \<and>
    GetExchangeRate E (snd (OnKVResult E (oracleKeeper E) store key val s)) ''CSV'' = Inr p"
proof -
  have "normalizeToCSVPerUSD E s p = Inr p" using assms(6,7) by (simp add: normalizeToCSVPerUSD_def Let_def)
  then have "OnKVResult E (oracleKeeper E) store key val s = ValidateAndPersistPrice E (oracleKeeper E) p liq s"
    using assms(3-6)
    by (auto simp: OnKVResult_def stubDecodeTwap_def stubDecodeSpot_def getOsmoParams_def act_simps
      HandleTwapResult_def HandleSpotResult_def wrapA_def bnd_def)
  with unguarded_store [OF assms(6,8-11), of p] assms(1,2) show ?thesis
    by (simp add: GetExchangeRate_def GetCSVPerUSD_def price_ok_def)
qed

theorem first_price_is_not_checked_witness:
  "GetExchangeRate ref_sdk (snd (OnKVResult ref_sdk (oracleKeeper ref_sdk) ''twap'' [] ''-3|0'' (feedState None ''0.5''))) ''CSV''
    = Inr (- 3 * 10 ^ 18)"
proof -
  let ?s = "feedState None ''0.5''" and ?p = "icqParamsOf ''uusdc'' ''ucsv'' ''0.5''"
  have d: "decodePriceLiquidity ref_sdk ''-3|0'' = Inr (- 3 * 10 ^ 18, 0)" by code_simp
  have k: "price_ok ref_sdk (- 3 * 10 ^ 18)"
    using decode_printable [OF ref_dec_printable d, of "initChain emptyLedger"]
    by (simp add: normalizeToCSVPerUSD_def initChain_def)
  have p: "osmoParams ?s = Some ?p" by (simp add: feedState_def)
  have b: "BaseDenom ?p \<noteq> ''ucsv''" by (simp add: icqParamsOf_def)
  have ml: "dFromStr ref_sdk (MinLiquidity ?p) = Some 0" by code_simp
  have md: "dFromStr ref_sdk (MaxDeviation ?p) = Some (5 * 10 ^ 17)" by code_simp
  have g: "GetCSVPerUSD ref_sdk ?s = 0" by (simp add: feedState_def GetCSVPerUSD_def)
  show ?thesis
    using first_price_is_not_checked [OF k _ d _ _ p b ml _ md, of "''twap''" "[]"] g by simp
qed

text \<open>
  For the pair ucsv and uusdc a positive price is stored as its inverse, rounded within one
  unit in the last place, or not at all.
\<close>

theorem usdc_price_is_inverted:
  assumes "dec_rounding E" "dec_printable E" "OnKVResult E (oracleKeeper E) store key val s = (Inr (), t)"
    and "osmoParams s = Some params" "BaseDenom params = ''ucsv''" "QuoteDenom params = ''uusdc''"
    and "decodePriceLiquidity E val = Inr (usdcPerCsv, liq)" "0 < usdcPerCsv"
  shows "csvPrice t = csvPrice s \<or> \<bar>GetCSVPerUSD E t * usdcPerCsv - decOne * decOne\<bar> < usdcPerCsv"
  using assms(3)
proof (cases rule: OnKVResult_cases)
  case (handled q l p)
  with assms(7) have q: "q = usdcPerCsv" by simp
  with handled(3) assms(4-6,8) have "dQuo E decOne usdcPerCsv = Some p"
    by (auto simp: normalizeToCSVPerUSD_def Let_def act_splits)
  from dQuo_near [OF assms(1) this] assms(8) have near: "\<bar>p * usdcPerCsv - decOne * decOne\<bar> < usdcPerCsv" by simp
  have ok: "price_ok E p" by (rule decode_printable [OF assms(2) handled(2,3)])
  from oracle_validate_store [OF handled(4) ok] near show ?thesis by auto
qed simp

definition pairState :: "ledger chain" where
  "pairState = (feedState None ''0.5'')\<lparr>osmoParams := Some (icqParamsOf ''ucsv'' ''uusdc'' ''0.5'')\<rparr>"

theorem usdc_price_is_inverted_witness:
  "csvPrice (snd (OnKVResult ref_sdk (oracleKeeper ref_sdk) ''gamm'' [] ''4|0'' pairState)) = csvPrice pairState \<or>
   \<bar>GetCSVPerUSD ref_sdk (snd (OnKVResult ref_sdk (oracleKeeper ref_sdk) ''gamm'' [] ''4|0'' pairState)) * (4 * 10 ^ 18)
      - decOne * decOne\<bar> < 4 * 10 ^ 18"
proof -
  have r: "fst (OnKVResult ref_sdk (oracleKeeper ref_sdk) ''gamm'' [] ''4|0'' pairState) = Inr ()" by code_simp
  have d: "decodePriceLiquidity ref_sdk ''4|0'' = Inr (4 * 10 ^ 18, 0)" by code_simp
  have p: "osmoParams pairState = Some (icqParamsOf ''ucsv'' ''uusdc'' ''0.5'')" by (simp add: pairState_def)
  have q: "BaseDenom (icqParamsOf ''ucsv'' ''uusdc'' ''0.5'') = ''ucsv''" "QuoteDenom (icqParamsOf ''ucsv'' ''uusdc'' ''0.5'') = ''uusdc''"
    by (simp_all add: icqParamsOf_def)
  show ?thesis
    by (rule usdc_price_is_inverted [OF ref_dec_rounding ref_dec_printable runs [OF r] p q d]) simp
qed

text \<open>
  C26. From valid parameters, whatever sequence of updates is tried, the price guard never
  returns an error: it stores the price, drops it, or panics on overflow.
\<close>

theorem valid_params_never_block_results:
  assumes "osmoParams s = Some p\<^sub>0" "osmoValidate E p\<^sub>0 = Inr ()"
  shows "fst (ValidateAndPersistPrice E (oracleKeeper E) price liq (runUpdates (osmoUpdateParams E authority) us s))
    \<in> {Inr (), Inl Panic}"
proof -
  let ?t = "runUpdates (osmoUpdateParams E authority) us s"
  obtain p where p: "osmoParams ?t = Some p"
    using osmoGov.history [of E authority us s] assms(1) by auto
  have "osmoValidate E p = Inr ()"
    by (rule osmoGov.stays [where Q = "\<lambda>p. osmoValidate E p = Inr ()", OF _ _ p]) (simp_all add: assms)
  then obtain ml dev where "dFromStr E (MinLiquidity p) = Some ml" "dFromStr E (MaxDeviation p) = Some dev"
    by (auto simp: osmoValidate_ok)
  with p deviates_total [of E price "GetCSVPerUSD E ?t" dev] show ?thesis
    by (auto simp: ValidateAndPersistPrice_def getOsmoParams_def act_simps Let_def oracleKeeper_def SetCSVPerUSD_def
      emit_eval)
qed

theorem valid_params_never_block_results_witness:
  "fst (ValidateAndPersistPrice ref_sdk (oracleKeeper ref_sdk) (5 * 10 ^ 17) 0
     (runUpdates (osmoUpdateParams ref_sdk ''gov'') [(''gov'', icqParamsOf ''uusdc'' ''ucsv'' ''x'')] (feedState None ''0.5'')))
   \<in> {Inr (), Inl Panic}"
proof -
  have p: "osmoParams (feedState None ''0.5'') = Some (icqParamsOf ''uusdc'' ''ucsv'' ''0.5'')" by (simp add: feedState_def)
  have v: "osmoValidate ref_sdk (icqParamsOf ''uusdc'' ''ucsv'' ''0.5'') = Inr ()" by code_simp
  show ?thesis by (rule valid_params_never_block_results [OF p v])
qed

end
