(* ===== verification/OsmosisSchedule.thy ===== *)
theory OsmosisSchedule
  imports OsmosisCorrect
begin

text \<open>
  When the price queries run, and the two in-process query clients of the repository
  (\<open>module/icq_register_client.go\<close> and \<open>controller/adapter_stub.go\<close>). Their counters live in the
  process, not in the chain's state.
\<close>

section \<open>In-process clients\<close>

definition regOnlyRegister :: "nat \<Rightarrow> string \<Rightarrow> string \<Rightarrow> bytes \<Rightarrow> string \<times> nat" where
  "regOnlyRegister seq connectionID store key = (''icq-'' @ fmtNat (seq + 1), seq + 1)"

record adapter =
  adSeq :: nat
  adQ :: "string \<rightharpoonup> string \<times> bytes"

definition NewAdapter :: adapter where
  "NewAdapter = \<lparr>adSeq = 0, adQ = Map.empty\<rparr>"

definition adapterRegister :: "adapter \<Rightarrow> string \<Rightarrow> string \<Rightarrow> bytes \<Rightarrow> string \<times> adapter" where
  "adapterRegister a connectionID store key =
     (let seq = adSeq a + 1; id = ''qid-'' @ fmtNat seq
      in (id, \<lparr>adSeq = seq, adQ = (adQ a)(id \<mapsto> (store, key))\<rparr>))"

definition ReceiveKVResult :: "'b sdk \<Rightarrow> 'b price_keeper \<Rightarrow> adapter \<Rightarrow> string \<Rightarrow> bytes \<Rightarrow> ('b chain, unit) act" where
  "ReceiveKVResult E ok a queryID val = (case adQ a queryID of
     None \<Rightarrow> return ()
   | Some (store, key) \<Rightarrow> OnKVResult E ok store key val)"

definition registerMany :: "(string \<times> string \<times> bytes) list \<Rightarrow> adapter \<Rightarrow> adapter" where
  "registerMany qs a = foldl (\<lambda>a (conn, store, key). snd (adapterRegister a conn store key)) a qs"

lemma registerMany_Cons:
  "registerMany ((c, st, k) # qs) a = registerMany qs (snd (adapterRegister a c st k))"
  by (simp add: registerMany_def)

lemma registerMany_keeps:
  "n \<le> adSeq a \<Longrightarrow> adQ a (''qid-'' @ fmtNat n) = Some q \<Longrightarrow> adQ (registerMany qs a) (''qid-'' @ fmtNat n) = Some q"
proof (induction qs arbitrary: a)
  case (Cons x qs)
  obtain c st k where x: "x = (c, st, k)" by (cases x)
  show ?case
    unfolding x registerMany_Cons
    by (rule Cons.IH) (use Cons.prems in \<open>simp_all add: adapterRegister_def Let_def\<close>)
qed (simp add: registerMany_def)

section \<open>The schedule\<close>

lemma schedule_next:
  assumes "ScheduleQueriesIfDue client s = (Inr (), t)" "osmoParams s = Some params"
    and "UpdateIntervalSeconds params \<noteq> 0" "\<not> notDue s (UpdateIntervalSeconds params)"
  shows "osmoNextUpdate t = Some (addInt64 (unixTime s) (int64 (UpdateIntervalSeconds params)))"
    and "osmoLastUpdate t = Some (unixTime s)"
  using assms
  by (auto simp: ScheduleQueriesIfDue_def act_splits Let_def markScheduled_def)

lemma schedule_not_due:
  assumes "osmoParams s = Some params" "notDue s (UpdateIntervalSeconds params)"
  shows "ScheduleQueriesIfDue client s = (Inr (), s)"
  using assms by (simp add: ScheduleQueriesIfDue_def getOsmoParams_def act_simps Let_def)

lemma schedule_no_params: "osmoParams s = None \<Longrightarrow> snd (ScheduleQueriesIfDue client s) = s"
  by (simp add: ScheduleQueriesIfDue_def getOsmoParams_def act_simps)

section \<open>Properties\<close>


definition icqFresh :: "ledger chain" where
  "icqFresh = (feedState None ''0.5'')\<lparr>blockTime := 1000 * 10 ^ 9\<rparr>"


text \<open>An update interval of 2^63 seconds or more wraps, and the scheduler is due in every block.\<close>

theorem huge_interval_is_always_due:
  assumes "ScheduleQueriesIfDue client s = (Inr (), t)" "osmoParams s = Some params"
    and "2 ^ 63 \<le> uint (UpdateIntervalSeconds params)" "\<not> notDue s (UpdateIntervalSeconds params)"
    and "0 \<le> unixTime s" "unixTime s < 2 ^ 63"
    and "osmoNextUpdate u = osmoNextUpdate t" "unixTime s \<le> unixTime u"
  shows "\<not> notDue u (UpdateIntervalSeconds params)"
proof -
  let ?i = "UpdateIntervalSeconds params"
  have i: "int64 ?i = uint ?i - 2 ^ 64" by (rule int64_big [OF assms(3)])
  have lt: "uint ?i < 2 ^ 64" using uint_lt2p [of ?i] by simp
  have nz: "?i \<noteq> 0" using assms(3) by auto
  have "addInt64 (unixTime s) (int64 ?i) = unixTime s + (uint ?i - 2 ^ 64)"
    unfolding i using assms(3,5,6) lt by (intro addInt64_in_range) simp_all
  then have "osmoNextUpdate u = Some (unixTime s + (uint ?i - 2 ^ 64))"
    using schedule_next(1) [OF assms(1,2) nz assms(4)] assms(7) by simp
  then show ?thesis using lt assms(8) by (simp add: notDue_def)
qed

definition hugeInterval :: OsmoParams where
  "hugeInterval = (icqParamsOf ''uusdc'' ''ucsv'' ''0.5'')\<lparr>UpdateIntervalSeconds := 9223372036854775808\<rparr>"

theorem huge_interval_is_always_due_witness:
  "\<not> notDue (snd (ScheduleQueriesIfDue None (icqFresh\<lparr>osmoParams := Some hugeInterval\<rparr>))) 9223372036854775808"
proof -
  let ?s = "icqFresh\<lparr>osmoParams := Some hugeInterval\<rparr>"
  have r: "fst (ScheduleQueriesIfDue None ?s) = Inr ()" by code_simp
  have i: "UpdateIntervalSeconds hugeInterval = 9223372036854775808" by (simp add: hugeInterval_def)
  have d: "\<not> notDue ?s 9223372036854775808" by (simp add: notDue_def icqFresh_def feedState_def initChain_def)
  have t: "unixTime ?s = 1000" by (simp add: unixTime_def icqFresh_def)
  have b: "unixTime (snd (ScheduleQueriesIfDue None ?s)) = 1000" by code_simp
  show ?thesis
    using huge_interval_is_always_due [OF runs [OF r], of hugeInterval "snd (ScheduleQueriesIfDue None ?s)"]
    by (simp add: i d t b)
qed

text \<open>The adapter routes a result by the identifier it gave the query.\<close>

theorem adapter_routes_results:
  "ReceiveKVResult E ok (registerMany later (snd (adapterRegister (registerMany earlier NewAdapter) conn store key)))
     (fst (adapterRegister (registerMany earlier NewAdapter) conn store key)) val
   = OnKVResult E ok store key val"
proof -
  let ?a = "registerMany earlier NewAdapter"
  let ?n = "adSeq ?a + 1"
  have "adQ (registerMany later (snd (adapterRegister ?a conn store key))) (''qid-'' @ fmtNat ?n) = Some (store, key)"
    by (rule registerMany_keeps) (simp_all add: adapterRegister_def Let_def)
  moreover have "fst (adapterRegister ?a conn store key) = ''qid-'' @ fmtNat ?n"
    by (simp add: adapterRegister_def Let_def)
  ultimately show ?thesis by (simp only: ReceiveKVResult_def option.case prod.case)
qed

end
