(* ===== verification/FeeAnte.thy ===== *)
theory FeeAnte
  imports FeeDistribution
begin

text \<open>
  The fee handlers that run before a transaction (\<open>x/fees/keeper/ante_handler.go\<close>): the check of
  the offered fee against the table, and the decorator that collects and distributes it.

  The values the first handler puts in the Go context for the second are a record of their own,
  \<open>ante_ctx\<close>; the handler called next is an argument, as in the code. A transaction that is no
  \<open>sdk.FeeTx\<close> has \<open>isFeeTx\<close> false, one without \<open>GetMemo\<close> has the memo \<^term>\<open>None\<close>.
\<close>

record FeeMetadata =
  mdCategory :: string
  mdUserAgent :: string
  mdAppVersion :: string
  mdTxHash :: string
  mdTimestamp :: int

record ante_ctx =
  ctxEstimate :: "FeeEstimate option"
  ctxMetadata :: "FeeMetadata option"

record tx =
  isFeeTx :: bool
  txMsgs :: "sdk_msg list"
  txMemo :: "string option"
  txFee :: "coin list"
  txGas :: u64
  txFeePayer :: addr
  txFeeGranter :: "addr option"

type_synonym 'b ante = "ante_ctx \<Rightarrow> tx \<Rightarrow> bool \<Rightarrow> ('b chain, ante_ctx) act"

section \<open>Metadata\<close>

definition noMetadata :: FeeMetadata where
  "noMetadata = \<lparr>mdCategory = [], mdUserAgent = [], mdAppVersion = [], mdTxHash = [], mdTimestamp = 0\<rparr>"

definition decodeFeeMetadata :: "bytes \<Rightarrow> FeeMetadata option" where
  "decodeFeeMetadata s = (case parseJson s of
     Some JNull \<Rightarrow> Some noMetadata
   | Some (JObj ms) \<Rightarrow>
       (case (fieldStr ''category'' ms, fieldStr ''user_agent'' ms, fieldStr ''app_version'' ms,
              fieldStr ''tx_hash'' ms, fieldInt ''timestamp'' ms) of
          (Some c, Some u, Some v, Some h, Some t) \<Rightarrow>
            Some \<lparr>mdCategory = c, mdUserAgent = u, mdAppVersion = v, mdTxHash = h, mdTimestamp = t\<rparr>
        | _ \<Rightarrow> None)
   | _ \<Rightarrow> None)"

definition applyPair :: "FeeMetadata \<Rightarrow> string \<Rightarrow> FeeMetadata" where
  "applyPair md pair = (case SplitN2 CHR ''='' pair of
     [k, v] \<Rightarrow> (let key = TrimSpace (ToLower k); val = TrimSpace v in
       if key \<in> {''category'', ''cat''} then md\<lparr>mdCategory := val\<rparr>
       else if key \<in> {''user_agent'', ''ua''} then md\<lparr>mdUserAgent := val\<rparr>
       else if key \<in> {''app_version'', ''version''} then md\<lparr>mdAppVersion := val\<rparr>
       else if key \<in> {''tx_hash'', ''hash''} then md\<lparr>mdTxHash := val\<rparr>
       else md)
   | _ \<Rightarrow> md)"

definition parseFeeMetadata :: "string \<Rightarrow> FeeMetadata res" where
  "parseFeeMetadata memo =
     (if memo = [] then Inr noMetadata
      else if HasPrefix memo ''{'' \<and> HasSuffix memo ''}'' then
        (case decodeFeeMetadata memo of None \<Rightarrow> Inr noMetadata | Some md \<Rightarrow> Inr md)
      else Inr (foldl applyPair noMetadata (SplitOn CHR '';'' memo)))"

section \<open>The fee check\<close>

definition emitFeeChargedEvent :: "FeeEstimate \<Rightarrow> coin list \<Rightarrow> FeeMetadata \<Rightarrow> ('b chain, unit) act" where
  "emitFeeChargedEvent est providedFee md = emit ''fee_charged''
     ([(''category'', AStr (Category est)), (''usd_amount'', ADec (Some (USDAmount est))),
       (''csv_amount'', ADec (Some (CSVAmount est))), (''fee_type'', AStr (Category est)),
       (''gas_wanted'', AInt (uint (GasWanted est))), (''gas_price'', ADec (GasPrice est)),
       (''provided_fee'', ACoins providedFee), (''is_free'', ABool (IsFree est)),
       (''system_exempt'', ABool (Category est = CategorySystem))] @
      (if mdUserAgent md \<noteq> [] then [(''user_agent'', AStr (mdUserAgent md))] else []) @
      (if mdAppVersion md \<noteq> [] then [(''app_version'', AStr (mdAppVersion md))] else []) @
      (if mdTxHash md \<noteq> [] then [(''tx_hash'', AStr (mdTxHash md))] else []) @
      (case EstPriceData est of None \<Rightarrow> [] | Some pd \<Rightarrow>
        [(''oracle_price'', ADec (Some (Price pd))), (''oracle_twap_price'', ADec (Some (TwapPrice pd))),
         (''oracle_is_stale'', ABool (IsStale pd)), (''oracle_is_fallback'', ABool (IsFallback pd))]))"

definition checkFee :: "'b sdk \<Rightarrow> FeesParams \<Rightarrow> coin list \<Rightarrow> FeeEstimate \<Rightarrow> unit res" where
  "checkFee E params providedFee est =
     (let csvDenom = ''ucsv''; tolerance = decWithPrec 5 2;
          validate = ValidateFeeAgainstEstimate E providedFee est csvDenom tolerance
      in if IsGasOnly params then Inr ()
         else if IsHybridEnabled params then
           (if Category est \<noteq> CategorySystem
            then rwrap ''insufficient fee: fee validation failed (hybrid)'' validate else Inr ())
         else rwrap ''insufficient fee: fee validation failed'' validate)"

definition FeeAnteHandle :: "'b rate \<Rightarrow> 'b sdk \<Rightarrow> ante_ctx \<Rightarrow> tx \<Rightarrow> bool \<Rightarrow> 'b ante \<Rightarrow> ('b chain, ante_ctx) act" where
  "FeeAnteHandle rate E ctx tx simulate next =
     (if simulate then next ctx tx simulate
      else bnd (gets feesParams) (\<lambda>ps. case ps of
        None \<Rightarrow> next ctx tx simulate
      | Some params \<Rightarrow>
          if \<not> isFeeTx tx then raise (Wrap ''Tx must be a FeeTx'' (SdkErr ''ErrTxDecode''))
          else let memo = (case txMemo tx of None \<Rightarrow> [] | Some m \<Rightarrow> m) in
          bnd (wrapA ''invalid request: invalid transaction metadata'' (lift (parseFeeMetadata memo))) (\<lambda>feeMetadata.
          bnd (wrapA ''invalid request: fee estimation failed''
                (EstimateFee rate E (txMsgs tx) memo (txGas tx))) (\<lambda>estimate.
          bnd (lift (checkFee E params (txFee tx) estimate)) (\<lambda>_.
          if Category estimate = CategorySystem then next ctx tx simulate
          else if IsFree estimate \<and>
                  txGas tx > getMaxGasForFreeCategory (Category estimate) (GuardRails params) then
            raise (Wrap ''gas wanted exceeds free tier limit'' (SdkErr ''ErrOutOfGas''))
          else bnd (emitFeeChargedEvent estimate (txFee tx) feeMetadata) (\<lambda>_.
            next (ctx\<lparr>ctxEstimate := Some estimate, ctxMetadata := Some feeMetadata\<rparr>) tx simulate))))))"

section \<open>Deduction and distribution\<close>

definition deductFees :: "'b sdk \<Rightarrow> tx \<Rightarrow> coin list \<Rightarrow> ('b chain, unit) act" where
  "deductFees E tx fee =
     (let from = (case txFeeGranter tx of None \<Rightarrow> txFeePayer tx | Some g \<Rightarrow> g) in
      bnd (gets (\<lambda>s. HasAccount E (ext s) from)) (\<lambda>known.
      if \<not> known then raise (Wrap ''fee payer address does not exist'' (SdkErr ''ErrUnknownAddress''))
      else wrapA ''insufficient funds: failed to deduct fees''
        (extern (\<lambda>b. SendCoinsFromAccountToModule E b from ''fees'' fee))))"

definition distributeFees :: "'b sdk \<Rightarrow> ante_ctx \<Rightarrow> coin list \<Rightarrow> ('b chain, unit) act" where
  "distributeFees E ctx fee =
     (let feeType = (case ctxEstimate ctx of None \<Rightarrow> ''native_transfer'' | Some est \<Rightarrow> Category est) in
      forA fee (\<lambda>c. DistributeFeeFromModule E ''fees'' feeType c Map.empty))"

definition DeductFeeHandle :: "'b sdk \<Rightarrow> ante_ctx \<Rightarrow> tx \<Rightarrow> bool \<Rightarrow> 'b ante \<Rightarrow> ('b chain, ante_ctx) act" where
  "DeductFeeHandle E ctx tx simulate next =
     (if \<not> isFeeTx tx then raise (Wrap ''Tx must be a FeeTx'' (SdkErr ''ErrTxDecode''))
      else bnd (if \<not> simulate \<and> \<not> CoinsIsZero E (txFee tx)
                then bnd (deductFees E tx (txFee tx)) (\<lambda>_. distributeFees E ctx (txFee tx))
                else return ()) (\<lambda>_.
           next ctx tx simulate))"

section \<open>Lemmas\<close>

lemma keeps_emitFeeChargedEvent [keeps_intros]:
  "(\<And>s as. g (s\<lparr>events := as\<rparr>) = g s) \<Longrightarrow> keeps g (emitFeeChargedEvent est fee md)"
  unfolding emitFeeChargedEvent_def by (rule keeps_emit)

lemma keeps_deductFees [keeps_intros]:
  "(\<And>s b. g (s\<lparr>ext := b\<rparr>) = g s) \<Longrightarrow> keeps g (deductFees E tx fee)"
  unfolding deductFees_def Let_def by (intro keeps_intros) auto

lemma keeps_distributeFees [keeps_intros]:
  "(\<And>s b. g (s\<lparr>ext := b\<rparr>) = g s) \<Longrightarrow> keeps g (distributeFees E ctx fee)"
  unfolding distributeFees_def Let_def by (intro keeps_intros) auto

text \<open>The free-tier check after the estimate repeats the one inside it.\<close>

lemma free_estimate_in_limit:
  assumes "EstimateFee rate E msgs memo gas s = (Inr est, t)" "IsFree est" "Category est \<noteq> CategorySystem"
    "feesParams s = Some params"
  shows "gas \<le> getMaxGasForFreeCategory (Category est) (GuardRails params)"
  using assms(1)
proof (cases rule: EstimateFee_cases)
  case system
  with assms(3) show ?thesis by (simp add: zeroEstimate_def)
next
  case (free c)
  with assms(4) show ?thesis by (simp add: zeroEstimate_def paramsOrDefault_def)
next
  case (charged c usd csv0 pd csv)
  with assms(2) show ?thesis by simp
qed

text \<open>What a fee that passes the comparison satisfies.\<close>

lemma ValidateFee_charged:
  assumes "ValidateFeeAgainstEstimate E fee est denom tol = Inr ()" "\<not> IsFree est"
    and e: "BuildFeeFromEstimate E est denom = Inr ex" "AmountOf E ex denom \<noteq> 0"
    and E: "dec_rounding E"
  shows "\<bar>AmountOf E fee denom - AmountOf E ex denom\<bar> \<le> truncDiv (tol * AmountOf E ex denom) decOne"
proof -
  from assms(1,2) e obtain m r where "dMulInt E tol (AmountOf E ex denom) = Some m" "dTruncateInt E m = Some r"
    "\<bar>AmountOf E fee denom - AmountOf E ex denom\<bar> \<le> r"
    by (auto simp: ValidateFeeAgainstEstimate_def Let_def rbind_Inr_iff ofOption_Inr_iff split: if_splits)
  with dMulInt_eq [OF E] dTruncateInt_eq [OF E] show ?thesis by metis
qed

text \<open>The amount a charged estimate asks for: at least one unit, else the truncated price.\<close>

definition dueUnits :: "dec \<Rightarrow> int" where
  "dueUnits csv = (let n = truncDiv (csv * 1000000) decOne in if n = 0 then 1 else n)"

lemma BuildFee_due:
  assumes "dec_rounding E" "coin_laws E" "BuildFeeFromEstimate E est ''ucsv'' = Inr ex"
    and c: "\<not> IsFree est" "CSVAmount est \<noteq> 0"
  shows "AmountOf E ex ''ucsv'' = dueUnits (CSVAmount est)"
proof -
  have u: "HasPrefix ''ucsv'' ''u''" by (simp add: HasPrefix_def)
  from assms(3) c obtain m n k where
    "dMulInt E (CSVAmount est) 1000000 = Some m" "dTruncateInt E m = Some n"
    "NewCoin E ''ucsv'' (if n = 0 then 1 else n) = Some k" "NewCoins E [k] = Some ex"
    by (auto simp: BuildFeeFromEstimate_def u microUnits_def rbind_Inr_iff ofOption_Inr_iff)
  moreover from this have "n = truncDiv (CSVAmount est * 1000000) decOne"
    using dMulInt_eq [OF assms(1)] dTruncateInt_eq [OF assms(1)] by metis
  ultimately show ?thesis
    using NewCoins_one [OF assms(2), of k] AmountOf_one [OF assms(2)]
    by (auto simp: dueUnits_def Let_def NewCoin_eq [OF assms(2)] split: if_splits)
qed

lemma dueUnits_nonzero: "dueUnits csv \<noteq> 0"
  by (simp add: dueUnits_def Let_def)

lemma FeeAnteHandle_cases:
  assumes "FeeAnteHandle rate E ctx tx False nxt s = (Inr ctx', t)" "feesParams s = Some p"
  obtains (system) est s1 where "EstimateFee rate E (txMsgs tx) (case txMemo tx of None \<Rightarrow> [] | Some m \<Rightarrow> m) (txGas tx) s = (Inr est, s1)"
      "checkFee E p (txFee tx) est = Inr ()" "Category est = CategorySystem" "nxt ctx tx False s1 = (Inr ctx', t)"
  | (charged) est md s1 s2 where "EstimateFee rate E (txMsgs tx) (case txMemo tx of None \<Rightarrow> [] | Some m \<Rightarrow> m) (txGas tx) s = (Inr est, s1)"
      "checkFee E p (txFee tx) est = Inr ()" "Category est \<noteq> CategorySystem"
      "IsFree est \<Longrightarrow> txGas tx \<le> getMaxGasForFreeCategory (Category est) (GuardRails p)"
      "emitFeeChargedEvent est (txFee tx) md s1 = (Inr (), s2)"
      "nxt (ctx\<lparr>ctxEstimate := Some est, ctxMetadata := Some md\<rparr>) tx False s2 = (Inr ctx', t)"
proof -
  let ?memo = "case txMemo tx of None \<Rightarrow> [] | Some m \<Rightarrow> m"
  define tail where "tail md est = (if Category est = CategorySystem then nxt ctx tx False
          else if IsFree est \<and> txGas tx > getMaxGasForFreeCategory (Category est) (GuardRails p) then
            raise (Wrap ''gas wanted exceeds free tier limit'' (SdkErr ''ErrOutOfGas''))
          else bnd (emitFeeChargedEvent est (txFee tx) md) (\<lambda>_.
            nxt (ctx\<lparr>ctxEstimate := Some est, ctxMetadata := Some md\<rparr>) tx False))" for md est
  have "FeeAnteHandle rate E ctx tx False nxt s = (if \<not> isFeeTx tx
      then (Inl (Wrap ''Tx must be a FeeTx'' (SdkErr ''ErrTxDecode'')), s)
      else bnd (wrapA ''invalid request: invalid transaction metadata'' (lift (parseFeeMetadata ?memo))) (\<lambda>md.
        bnd (wrapA ''invalid request: fee estimation failed''
          (EstimateFee rate E (txMsgs tx) ?memo (txGas tx))) (\<lambda>est.
        bnd (lift (checkFee E p (txFee tx) est)) (\<lambda>_. tail md est))) s)"
    using assms(2) by (simp add: FeeAnteHandle_def Let_def act_simps tail_def)
  with assms(1) obtain md est s1 where
    e: "EstimateFee rate E (txMsgs tx) ?memo (txGas tx) s = (Inr est, s1)" "checkFee E p (txFee tx) est = Inr ()" and
    n: "tail md est s1 = (Inr ctx', t)"
    by (auto simp: act_splits split: if_splits)
  show thesis
  proof (cases "Category est = CategorySystem")
    case True
    with e n show thesis by (intro system) (simp_all add: tail_def)
  next
    case False
    with n obtain s2 where "IsFree est \<Longrightarrow> txGas tx \<le> getMaxGasForFreeCategory (Category est) (GuardRails p)"
      "emitFeeChargedEvent est (txFee tx) md s1 = (Inr (), s2)"
      "nxt (ctx\<lparr>ctxEstimate := Some est, ctxMetadata := Some md\<rparr>) tx False s2 = (Inr ctx', t)"
      by (auto simp: tail_def act_splits split: if_splits)
    with e False show thesis by (intro charged)
  qed
qed

end
