(* ===== verification/ChargeFee.thy ===== *)
theory ChargeFee
  imports FeeAnte
begin

text \<open>
  The messages, queries and genesis of the fees module: \<open>ChargeFee\<close>, \<open>UpdateParams\<close>, the
  parameter query, and the genesis hooks (\<open>x/fees/keeper\<close>, \<open>x/fees/module\<close>).
\<close>

record MsgChargeFee =
  cfCreator :: string
  cfCategory :: string
  cfAmount :: string
  cfMetadata :: bytes

record MsgChargeFeeResponse =
  GasUsed :: int
  FeeCharged :: int

definition chargeEntry :: "FeeTableUSD \<Rightarrow> string \<Rightarrow> FeeConfig option" where
  "chargeEntry t category =
     (if category = ''pos_payment'' then Some (PosPayment t)
      else if category = ''token_interaction'' then Some (TokenInteraction t)
      else if category = ''native_transfer'' then Some (NativeTransfer t)
      else if category = ''dex_native'' then Some (DexNative t)
      else if category = ''dex_user'' then Some (DexUser t)
      else if category = ''deploy'' then Some (Deploy t)
      else if category = ''wizard'' then Some (Wizard t)
      else None)"

definition ChargeFee :: "'b rate \<Rightarrow> 'b sdk \<Rightarrow> MsgChargeFee \<Rightarrow> ('b chain, MsgChargeFeeResponse) act" where
  "ChargeFee rate E msg =
     bnd (lift (ofOption (Wrap ''invalid creator address'' (LibErr ''StringToBytes'')) (StringToBytes E (cfCreator msg)))) (\<lambda>creator.
     bnd (gets feesParams) (\<lambda>ps.
     bnd (lift (ofOption (Wrap ''failed to get fee parameters'' (SdkErr ''collections: not found'')) ps)) (\<lambda>params.
     bnd (lift (ofOption (Wrap ''fee category not found'' (SdkErr ''ErrInvalidRequest''))
           (chargeEntry (FeeTableUsd params) (cfCategory msg)))) (\<lambda>feeEntry.
     if cfCategory msg = ''deploy'' \<or> cfCategory msg = ''wizard'' then return \<lparr>GasUsed = 0, FeeCharged = 0\<rparr>
     else
       bnd (wrapA ''failed to convert USD to CSV'' (ConvertUSDToCSV rate E (UsdAmount feeEntry))) (\<lambda>(csvAmount, _).
       bnd (lift (microUnits E csvAmount)) (\<lambda>feeucsv.
       bnd (gets (\<lambda>s. AmountOf E (SpendableCoins E (ext s) creator) ''ucsv'')) (\<lambda>ucsvBalance.
       if ucsvBalance < feeucsv then
         raise (Wrap ''insufficient balance'' (SdkErr ''ErrInsufficientFunds''))
       else
         let md = (if cfMetadata msg \<noteq> [] then decodeMap (cfMetadata msg) else Map.empty) in
         bnd (lift (ofOption Panic (NewCoin E ''ucsv'' feeucsv))) (\<lambda>feeCoin.
         bnd (wrapA ''fee distribution failed'' (DistributeFee E creator (cfCategory msg) feeCoin md)) (\<lambda>_.
         bnd (lift (intUint64 feeucsv)) (\<lambda>gas.
         bnd (extern (\<lambda>b. ConsumeGas E b gas ''fee charge'')) (\<lambda>_.
         bnd (lift (feeCoins E ''ucsv'' feeucsv)) (\<lambda>provided.
         bnd (emit ''fee_charged''
           [(''category'', AStr (cfCategory msg)), (''fee_type'', AStr (cfCategory msg)),
            (''usd_amount'', ADec (UsdAmount feeEntry)), (''csv_amount'', ADec (Some csvAmount)),
            (''provided_fee'', ACoins provided), (''system_exempt'', AStr ''false'')]) (\<lambda>_.
         return \<lparr>GasUsed = feeucsv, FeeCharged = feeucsv\<rparr>)))))))))))))"

definition feesUpdateParams :: "'b sdk \<Rightarrow> addr \<Rightarrow> string \<Rightarrow> FeesParams \<Rightarrow> ('b chain, unit) act" where
  "feesUpdateParams E authority signer p =
     bnd (lift (checkAuthority E ''fees'' authority signer)) (\<lambda>_.
     bnd (lift (feesValidate p)) (\<lambda>_.
     modify (\<lambda>s. s\<lparr>feesParams := Some (wireParams E p)\<rparr>)))"

definition feesQueryParams :: "unit option \<Rightarrow> ('b chain, FeesParams) act" where
  "feesQueryParams req = bnd (lift (queryReq req)) (\<lambda>_.
     gets (\<lambda>s. case feesParams s of None \<Rightarrow> NewParams | Some p \<Rightarrow> p))"

definition feesInitGenesis :: "'b sdk \<Rightarrow> FeesParams \<Rightarrow> ('b chain, unit) act" where
  "feesInitGenesis E p = modify (\<lambda>s. s\<lparr>feesParams := Some (wireParams E p)\<rparr>)"

definition feesExportGenesis :: "'b chain \<Rightarrow> FeesParams res" where
  "feesExportGenesis s = ofOption (SdkErr ''collections: not found'') (feesParams s)"

section \<open>Lemmas\<close>

text \<open>A charge that succeeded in a category that is not free.\<close>

lemma ChargeFee_cases:
  assumes "ChargeFee rate E msg s = (Inr r, t)" "cfCategory msg \<noteq> ''deploy''" "cfCategory msg \<noteq> ''wizard''"
  obtains p creator entry csv pd s1 s2 n where
    "feesParams s = Some p" "StringToBytes E (cfCreator msg) = Some creator"
    "chargeEntry (FeeTableUsd p) (cfCategory msg) = Some entry"
    "ConvertUSDToCSV rate E (UsdAmount entry) s = (Inr (csv, pd), s1)" "microUnits E csv = Inr n"
    "n \<le> AmountOf E (SpendableCoins E (ext s1) creator) ''ucsv''"
    "NewCoin E ''ucsv'' n \<noteq> None"
    "DistributeFee E creator (cfCategory msg) (the (NewCoin E ''ucsv'' n))
       (if cfMetadata msg \<noteq> [] then decodeMap (cfMetadata msg) else Map.empty) s1 = (Inr (), s2)"
    "0 \<le> n" "n < 2 ^ 64" "r = \<lparr>GasUsed = n, FeeCharged = n\<rparr>"
    "\<exists>b. ConsumeGas E (ext s2) (of_int n) ''fee charge'' = (None, b) \<and> ext t = b"
  using assms
  by (auto simp: ChargeFee_def act_splits Let_def intUint64_def split: if_splits prod.splits)

lemma feesUpdateParams_Inr:
  "feesUpdateParams E authority signer p s = (Inr u, t) \<longleftrightarrow>
     StringToBytes E signer = Some authority \<and> feesValidate p = Inr () \<and>
     t = s\<lparr>feesParams := Some (wireParams E p)\<rparr>"
  by (auto simp: feesUpdateParams_def act_splits checkAuthority_Inr)

interpretation feesGov: genesis_params "feesUpdateParams E authority" feesParams
  "\<lambda>signer. StringToBytes E signer = Some authority" "\<lambda>p. feesValidate p = Inr ()" "wireParams E"
  "feesInitGenesis E" feesExportGenesis
  for E :: "'b sdk" and authority
  by unfold_locales
    (auto simp: feesUpdateParams_def feesInitGenesis_def feesExportGenesis_def ofOption_Inr_iff act_splits checkAuthority_Inr bnd_def lift_def modify_def split: sum.splits)

end
