(* ===== verification/Token.thy ===== *)
theory Token
  imports ChargeFee
begin

text \<open>
  The token module's keeper and messages (\<open>x/token/keeper\<close>): creation of a token with its
  indexes, counters and first supply, minting, burning, and the charging helpers, which use the
  fees module through its \<open>FeesKeeper\<close> interface. That interface is a record of functions here;
  \<open>feesKeeper\<close> is the value the application wires, the fees keeper itself.
\<close>

section \<open>The fees keeper, as this module sees it\<close>

record 'b fees_keeper =
  fkConvert :: "dec option \<Rightarrow> ('b chain, dec \<times> PriceData) act"
  fkFeeByType :: "'b chain \<Rightarrow> string \<Rightarrow> dec option"
  fkDistribute :: "addr \<Rightarrow> string \<Rightarrow> coin \<Rightarrow> (string \<rightharpoonup> json) \<Rightarrow> ('b chain, unit) act"

definition feesKeeper :: "'b rate \<Rightarrow> 'b sdk \<Rightarrow> 'b fees_keeper" where
  "feesKeeper rate E = \<lparr>fkConvert = ConvertUSDToCSV rate E, fkFeeByType = GetFeeByType, fkDistribute = DistributeFee E\<rparr>"

section \<open>Store access\<close>

definition tokenNewKeeper :: "'b sdk \<Rightarrow> addr \<Rightarrow> unit res" where
  "tokenNewKeeper E authority = requireAuthority E authority"

definition putKV :: "string \<Rightarrow> kvval \<Rightarrow> ('b chain, unit) act" where
  "putKV k v = modify (\<lambda>s. s\<lparr>tokenKV := kvSet k v (tokenKV s)\<rparr>)"

definition loadMeta :: "(string \<times> kvval) list \<Rightarrow> string \<Rightarrow> TokenMetadata res" where
  "loadMeta kv tokenID = (case kvGet kv (metaKey tokenID) of
     None \<Rightarrow> Inl (tokErr 1112)
   | Some (VMeta m) \<Rightarrow> Inr m
   | Some _ \<Rightarrow> Inl (LibErr ''json.Unmarshal''))"

definition GetTokenMetadata :: "'b chain \<Rightarrow> string \<Rightarrow> TokenMetadata res" where
  "GetTokenMetadata s tokenID = loadMeta (tokenKV s) tokenID"

definition GetTokenCreator :: "'b chain \<Rightarrow> string \<Rightarrow> addr res" where
  "GetTokenCreator s tokenID = rbind (GetTokenMetadata s tokenID) (\<lambda>m. Inr (Creator m))"

definition GetTokenCreatorBySymbol :: "'b chain \<Rightarrow> string \<Rightarrow> addr res" where
  "GetTokenCreatorBySymbol s symbol = (case kvGet (tokenKV s) (symbolKey (ToLower symbol)) of
     None \<Rightarrow> Inl (tokErr 1112)
   | Some (VStr tokenID) \<Rightarrow> rbind (GetTokenMetadata s tokenID) (\<lambda>m. Inr (Creator m))
   | Some _ \<Rightarrow> Inl (tokErr 1112))"

definition counterAt :: "(string \<times> kvval) list \<Rightarrow> string \<Rightarrow> u64 option" where
  "counterAt kv k = (case kvGet kv k of Some (VU64 n) \<Rightarrow> Some n | _ \<Rightarrow> None)"

section \<open>Creation\<close>

definition validateSymbolUniqueness :: "'b chain \<Rightarrow> string \<Rightarrow> unit res" where
  "validateSymbolUniqueness s symbol =
     guardE (\<not> kvHas (tokenKV s) (symbolKey (ToLower symbol))) (tokErr 1109)"

definition validateCreatorLimits :: "'b chain \<Rightarrow> addr \<Rightarrow> u64 \<Rightarrow> unit res" where
  "validateCreatorLimits s creator maxTokens =
     (let currentCount = (case counterAt (tokenKV s) (countKey creator) of None \<Rightarrow> 0 | Some n \<Rightarrow> n)
      in if currentCount \<ge> maxTokens then Inl (tokErr 1111) else Inr ())"

definition getNextTokenSequence :: "('b chain, u64) act" where
  "getNextTokenSequence =
     bnd (gets (\<lambda>s. case counterAt (tokenKV s) sequenceKey of None \<Rightarrow> 1 | Some n \<Rightarrow> n + 1)) (\<lambda>sequence.
     bnd (putKV sequenceKey (VU64 sequence)) (\<lambda>_.
     return sequence))"

definition tokenIDOf :: "u64 \<Rightarrow> string" where
  "tokenIDOf sequence = ''token_'' @ fmtPad3 (unat sequence)"

definition generateTokenID :: "('b chain, string) act" where
  "generateTokenID = bnd getNextTokenSequence (\<lambda>sequence. return (tokenIDOf sequence))"

definition storeTokenMetadata :: "string \<Rightarrow> string \<Rightarrow> addr \<Rightarrow> TokenMetadata \<Rightarrow> ('b chain, unit) act" where
  "storeTokenMetadata tokenID lowerSymbol creator metadata =
     andThen (putKV (metaKey tokenID) (VMeta metadata))
    (andThen (putKV (symbolKey lowerSymbol) (VStr tokenID))
    (andThen (putKV (creatorKey creator tokenID) (VStr tokenID))
    (bnd (gets (\<lambda>s. case counterAt (tokenKV s) (countKey creator) of None \<Rightarrow> 1 | Some n \<Rightarrow> n + 1)) (\<lambda>count.
     putKV (countKey creator) (VU64 count)))))"

definition tokenDenom :: "string \<Rightarrow> string" where
  "tokenDenom symbol = ''u'' @ ToLower symbol"

definition supplyCoins :: "'b sdk \<Rightarrow> string \<Rightarrow> u64 \<Rightarrow> coin list res" where
  "supplyCoins E denom amount = rbind (ofOption Panic (NewCoin E denom (uint amount))) (\<lambda>c.
     ofOption Panic (NewCoins E [c]))"

definition mintInitialSupply :: "'b sdk \<Rightarrow> addr \<Rightarrow> u64 \<Rightarrow> string \<Rightarrow> ('b chain, unit) act" where
  "mintInitialSupply E creator amount symbol =
     bnd (lift (supplyCoins E (tokenDenom symbol) amount)) (\<lambda>cs.
     andThen (extern (\<lambda>b. MintCoins E b ''token'' cs))
       (extern (\<lambda>b. SendCoinsFromModuleToAccount E b ''token'' creator cs)))"

definition isReserved :: "string list \<Rightarrow> string \<Rightarrow> bool" where
  "isReserved reserved lowerSymbol = list_ex (\<lambda>r. lowerSymbol = ToLower r) reserved"

definition metadataOf :: "'b chain \<Rightarrow> MsgCreateToken \<Rightarrow> addr \<Rightarrow> string \<Rightarrow> TokenMetadata" where
  "metadataOf s msg creator tokenID =
     NewTokenMetadata tokenID (ctName msg) (ctSymbol msg) (ctDecimals msg) (uint (ctMaxSupply msg))
       (uint (ctInitialSupply msg)) (ctMintable msg) creator (ctPosCompatible msg) (ctIconUri msg)
       (ctDescription msg) (blockTime s)"

definition CreateToken :: "'b sdk \<Rightarrow> MsgCreateToken \<Rightarrow> ('b chain, unit) act" where
  "CreateToken E msg =
     bnd (lift (ValidateBasic E msg)) (\<lambda>_.
     bnd (lift (ofOption (Wrap ''invalid creator address'' (LibErr ''StringToBytes'')) (StringToBytes E (ctCreator msg)))) (\<lambda>creator.
     bnd (gets tokenParams) (\<lambda>ps.
     bnd (lift (ofOption (Wrap ''failed to get module params'' (SdkErr ''collections: not found'')) ps)) (\<lambda>params.
     let lowerSymbol = ToLower (ctSymbol msg) in
     if isReserved (ReservedSymbols params) lowerSymbol then raise (tokErr 1110)
     else
       bnd (gets (\<lambda>s. validateSymbolUniqueness s lowerSymbol)) (\<lambda>u. bnd (lift u) (\<lambda>_.
       bnd (gets (\<lambda>s. validateCreatorLimits s creator (MaxTokensPerCreator params))) (\<lambda>l. bnd (lift l) (\<lambda>_.
       bnd (wrapA ''failed to generate token ID'' generateTokenID) (\<lambda>tokenID.
       bnd (gets (\<lambda>s. metadataOf s msg creator tokenID)) (\<lambda>metadata.
       bnd (wrapA ''failed to store token metadata'' (storeTokenMetadata tokenID lowerSymbol creator metadata)) (\<lambda>_.
       bnd (whenA (ctInitialSupply msg > 0)
             (wrapA ''failed to mint initial supply'' (mintInitialSupply E creator (ctInitialSupply msg) (ctSymbol msg)))) (\<lambda>_.
       emit ''token_created''
         [(''token_id'', AStr tokenID), (''creator'', AStr (ctCreator msg)), (''symbol'', AStr (ctSymbol msg)),
          (''initial_supply'', AInt (uint (ctInitialSupply msg)))]))))))))))))"

section \<open>Supply\<close>

definition Mint :: "'b sdk \<Rightarrow> MsgMint \<Rightarrow> ('b chain, unit) act" where
  "Mint E msg =
     bnd (lift (ofOption (Wrap ''invalid authority address'' (LibErr ''StringToBytes'')) (StringToBytes E (mintCreator msg)))) (\<lambda>_.
     bnd (lift (ofOption (LibErr ''AccAddressFromBech32'') (AccAddressFromBech32 E (mintTo msg)))) (\<lambda>to.
     bnd (gets (\<lambda>s. GetTokenMetadata s (mintTokenId msg))) (\<lambda>r.
     bnd (wrapA ''failed to get token metadata'' (lift r)) (\<lambda>tokenMeta.
     if \<not> Mintable tokenMeta then raise (Wrap ''token is not mintable'' (tokErr 1113))
     else
       bnd (lift (supplyCoins E (tokenDenom (Symbol tokenMeta)) (mintAmount msg))) (\<lambda>cs.
       andThen (extern (\<lambda>b. MintCoins E b ''token'' cs))
         (extern (\<lambda>b. SendCoinsFromModuleToAccount E b ''token'' to cs)))))))"

definition Burn :: "'b sdk \<Rightarrow> MsgBurn \<Rightarrow> ('b chain, unit) act" where
  "Burn E msg =
     bnd (lift (ofOption (Wrap ''invalid sender address'' (LibErr ''AccAddressFromBech32'')) (AccAddressFromBech32 E (burnCreator msg)))) (\<lambda>from.
     bnd (gets (\<lambda>s. GetTokenMetadata s (burnTokenId msg))) (\<lambda>r.
     bnd (wrapA ''failed to get token metadata'' (lift r)) (\<lambda>tokenMeta.
     bnd (lift (supplyCoins E (tokenDenom (Symbol tokenMeta)) (burnAmount msg))) (\<lambda>cs.
     andThen (extern (\<lambda>b. SendCoinsFromAccountToModule E b from ''token'' cs))
       (extern (\<lambda>b. BurnCoins E b ''token'' cs))))))"

definition tokenUpdateParams :: "'b sdk \<Rightarrow> addr \<Rightarrow> string \<Rightarrow> TokenParams \<Rightarrow> ('b chain, unit) act" where
  "tokenUpdateParams E authority signer p =
     bnd (lift (checkAuthority E ''token'' authority signer)) (\<lambda>_.
     if p \<noteq> zeroTokenParams then
       bnd (lift (tokenValidate p)) (\<lambda>_. modify (\<lambda>s. s\<lparr>tokenParams := Some (wireTokenParams E p)\<rparr>))
     else return ())"

definition tokenQueryParams :: "unit option \<Rightarrow> ('b chain, TokenParams) act" where
  "tokenQueryParams req = bnd (lift (queryReq req)) (\<lambda>_.
     gets (\<lambda>s. case tokenParams s of None \<Rightarrow> zeroTokenParams | Some p \<Rightarrow> p))"

definition tokenInitGenesis :: "'b sdk \<Rightarrow> TokenParams \<Rightarrow> ('b chain, unit) act" where
  "tokenInitGenesis E p = modify (\<lambda>s. s\<lparr>tokenParams := Some (wireTokenParams E p)\<rparr>)"

definition tokenExportGenesis :: "'b chain \<Rightarrow> TokenParams res" where
  "tokenExportGenesis s = ofOption (SdkErr ''collections: not found'') (tokenParams s)"

interpretation tokenGov: genesis_params "tokenUpdateParams E authority" tokenParams
  "\<lambda>signer. StringToBytes E signer = Some authority" "\<lambda>p. tokenValidate p = Inr ()" "wireTokenParams E"
  "tokenInitGenesis E" tokenExportGenesis
  for E :: "'b sdk" and authority
  by unfold_locales
    (auto simp: tokenUpdateParams_def tokenInitGenesis_def tokenExportGenesis_def ofOption_Inr_iff act_splits checkAuthority_Inr bnd_def lift_def modify_def return_def
      split: sum.splits if_splits)

section \<open>Charging through the fees module\<close>

definition ucsvCoin :: "'b sdk \<Rightarrow> dec \<Rightarrow> coin res" where
  "ucsvCoin E csv = rbind (microUnits E csv) (\<lambda>n. ofOption Panic (NewCoin E ''ucsv'' n))"

definition requireBalance :: "'b sdk \<Rightarrow> addr \<Rightarrow> int \<Rightarrow> ('b chain, unit) act" where
  "requireBalance E sender n =
     bnd (gets (\<lambda>s. AmountOf E (SpendableCoins E (ext s) sender) ''ucsv'')) (\<lambda>available.
     if available < n then raise (Wrap ''insufficient funds'' (Reg ''token'' 2002)) else return ())"

definition ChargeAndSplitFee :: "'b sdk \<Rightarrow> 'b fees_keeper \<Rightarrow> addr \<Rightarrow> dec option \<Rightarrow> ('b chain, unit) act" where
  "ChargeAndSplitFee E fk sender usd =
     bnd (wrapA ''failed to convert USD to CSV'' (fkConvert fk usd)) (\<lambda>(feeCSV, _).
     bnd (lift (ucsvCoin E feeCSV)) (\<lambda>feeCoin.
     bnd (requireBalance E sender (Amount feeCoin)) (\<lambda>_.
     let split = truncDiv (Amount feeCoin) 2 in
     bnd (lift (ofOption Panic (NewCoin E ''ucsv'' split))) (\<lambda>toTreasury.
     bnd (lift (ofOption Panic (NewCoin E ''ucsv'' (Amount feeCoin - split)))) (\<lambda>toInfra.
     bnd (lift (ofOption Panic (NewCoins E [toTreasury]))) (\<lambda>treasuryCoins.
     bnd (wrapA ''failed to send fee to treasury''
           (extern (\<lambda>b. SendCoinsFromAccountToModule E b sender ''treasury'' treasuryCoins))) (\<lambda>_.
     bnd (lift (ofOption Panic (NewCoins E [toInfra]))) (\<lambda>infraCoins.
     wrapA ''failed to send fee to infrastructure''
       (extern (\<lambda>b. SendCoinsFromAccountToModule E b sender ''infrastructure'' infraCoins))))))))))"

definition GetFeeInucsv :: "'b sdk \<Rightarrow> 'b fees_keeper \<Rightarrow> dec option \<Rightarrow> ('b chain, coin) act" where
  "GetFeeInucsv E fk usd =
     bnd (wrapA ''failed to convert USD to CSV'' (fkConvert fk usd)) (\<lambda>(feeCSV, _).
     lift (ucsvCoin E feeCSV))"

definition tokenGetFeeByType :: "'b fees_keeper \<Rightarrow> 'b chain \<Rightarrow> string \<Rightarrow> dec option" where
  "tokenGetFeeByType fk s feeType = fkFeeByType fk s feeType"

definition ChargeAndDistributeFeeByType ::
  "'b sdk \<Rightarrow> 'b fees_keeper \<Rightarrow> addr \<Rightarrow> string \<Rightarrow> (string \<rightharpoonup> json) \<Rightarrow> ('b chain, unit) act" where
  "ChargeAndDistributeFeeByType E fk sender feeType metadata =
     bnd (gets (\<lambda>s. tokenGetFeeByType fk s feeType)) (\<lambda>feeUSD.
     bnd (lift (decGet feeUSD)) (\<lambda>u.
     if u = 0 then return ()
     else
       bnd (wrapA ''failed to convert USD to CSV'' (fkConvert fk feeUSD)) (\<lambda>(feeCSV, _).
       bnd (lift (ucsvCoin E feeCSV)) (\<lambda>feeCoin.
       bnd (requireBalance E sender (Amount feeCoin)) (\<lambda>_.
       fkDistribute fk sender feeType feeCoin metadata)))))"

section \<open>What this module relies on\<close>

text \<open>
  The contract of \<open>FeesKeeper\<close>: converting a price moves no coins and touches no store, and a
  distribution changes nothing but the ledger.
\<close>

locale fees_contract =
  fixes convert :: "dec option \<Rightarrow> ('b chain, dec \<times> PriceData) act"
    and distribute :: "addr \<Rightarrow> string \<Rightarrow> coin \<Rightarrow> (string \<rightharpoonup> json) \<Rightarrow> ('b chain, unit) act"
  assumes convert_frame: "convert usd s = (r, t) \<Longrightarrow> \<exists>es. t = s\<lparr>events := es\<rparr>"
    and distribute_frame: "distribute a ty c md s = (r', t') \<Longrightarrow> \<exists>b. t' = s\<lparr>ext := b\<rparr>"
begin

lemma convert_ext: "convert usd s = (r, t) \<Longrightarrow> ext t = ext s \<and> tokenKV t = tokenKV s \<and> feesParams t = feesParams s"
  using convert_frame by fastforce

lemma distribute_store: "distribute a ty c md s = (r', t) \<Longrightarrow> tokenKV t = tokenKV s \<and> feesParams t = feesParams s"
  using distribute_frame by fastforce

text \<open>A split charge: the sender pays the fee, half of it rounded down to the treasury.\<close>

lemma split_charge:
  assumes E: "dec_rounding E" "coin_laws E" "bank_laws E"
    and r: "ChargeAndSplitFee E \<lparr>fkConvert = convert, fkFeeByType = ft, fkDistribute = distribute\<rparr> sender usd s = (Inr (), t)"
  shows "\<exists>csv pd s1 n b1. convert usd s = (Inr (csv, pd), s1) \<and> microUnits E csv = Inr n \<and> 0 \<le> n \<and>
    movedBy E sender (Some (GetModuleAddress E ''treasury'')) ''ucsv'' (n div 2) (ext s) b1 \<and>
    movedBy E sender (Some (GetModuleAddress E ''infrastructure'')) ''ucsv'' (n - n div 2) b1 (ext t)"
proof -
  from r obtain csv pd s1 n c cT cI csT csI b1 where
    cv: "convert usd s = (Inr (csv, pd), s1)" and n: "microUnits E csv = Inr n" "NewCoin E ''ucsv'' n = Some c" and
    sp: "NewCoin E ''ucsv'' (truncDiv (Amount c) 2) = Some cT"
      "NewCoin E ''ucsv'' (Amount c - truncDiv (Amount c) 2) = Some cI" and
    cs: "NewCoins E [cT] = Some csT" "NewCoins E [cI] = Some csI" and
    b: "SendCoinsFromAccountToModule E (ext s1) sender ''treasury'' csT = (None, b1)"
      "SendCoinsFromAccountToModule E b1 sender ''infrastructure'' csI = (None, ext t)"
    by (auto simp: ChargeAndSplitFee_def requireBalance_def ucsvCoin_def act_splits Let_def split: prod.splits if_splits)
  have nn: "0 \<le> n" "Amount c = n" using n(2) by (auto simp: NewCoin_eq [OF E(2)] split: if_splits)
  have h: "truncDiv (Amount c) 2 = n div 2" using nn by (simp add: truncDiv_nonneg)
  have fT: "feeCoins E ''ucsv'' (n div 2) = Inr csT" and fI: "feeCoins E ''ucsv'' (n - n div 2) = Inr csI"
    using sp cs by (simp_all add: h [unfolded nn(2)] nn(2) feeCoins_def)
  have "ext s1 = ext s" using convert_ext [OF cv] by simp
  then show ?thesis
    using cv n(1) nn(1) moves_movedBy [OF E(2) fT SendToModule_moves [OF E(3) b(1)]]
      moves_movedBy [OF E(2) fI SendToModule_moves [OF E(3) b(2)]] by auto
qed

end

lemma frame_all:
  assumes "keeps (\<lambda>s. s\<lparr>ext := b\<rparr>) m" "m s = (r, t)"
  shows "t = s\<lparr>ext := ext t\<rparr>"
proof -
  have "t\<lparr>ext := b\<rparr> = s\<lparr>ext := b\<rparr>" using keepsD [OF assms(1), of s r t] assms(2) by simp
  then have "(t\<lparr>ext := b\<rparr>)\<lparr>ext := ext t\<rparr> = (s\<lparr>ext := b\<rparr>)\<lparr>ext := ext t\<rparr>" by simp
  then show ?thesis by simp
qed

lemma frame_events:
  assumes "keeps (\<lambda>s. s\<lparr>events := []\<rparr>) m" "m s = (r, t)"
  shows "t = s\<lparr>events := events t\<rparr>"
proof -
  have "t\<lparr>events := []\<rparr> = s\<lparr>events := []\<rparr>" using keepsD [OF assms(1), of s r t] assms(2) by simp
  then have "(t\<lparr>events := []\<rparr>)\<lparr>events := events t\<rparr> = (s\<lparr>events := []\<rparr>)\<lparr>events := events t\<rparr>" by simp
  then show ?thesis by simp
qed

interpretation fees: fees_contract "ConvertUSDToCSV rate E" "DistributeFee E" for rate :: "'b rate" and E :: "'b sdk"
proof unfold_locales
  show "\<exists>es. t = s\<lparr>events := es\<rparr>" if "ConvertUSDToCSV rate E usd s = (r, t)" for usd s r t
    using frame_events [OF keeps_ConvertUSDToCSV that] by auto
  show "\<exists>b. t' = s\<lparr>ext := b\<rparr>" if "DistributeFee E a ty c md s = (r', t')" for a ty c md s r' t'
    using frame_all [OF keeps_DistributeFee that] by auto
qed

end
