(* ===== verification/TokenQuery.thy ===== *)
theory TokenQuery
  imports Token
begin

text \<open>
  The queries of the token module (\<open>x/token/keeper/query.go\<close>). A response keeps an amount or a
  time as the value whose text the code returns.
\<close>

record TokenInfo =
  tiTokenId :: string
  tiName :: string
  tiSymbol :: string
  tiDecimals :: u32
  tiMaxSupply :: int
  tiCurrentSupply :: int
  tiMintable :: bool
  tiPosCompatible :: bool
  tiCreator :: string
  tiIconUri :: string
  tiDescription :: string
  tiDenom :: string
  tiCreatedAt :: int

record PageRequest =
  prKey :: bytes
  prLimit :: u64
  prOffset :: u64

definition tokenInfo :: "'b sdk \<Rightarrow> TokenMetadata \<Rightarrow> TokenInfo" where
  "tokenInfo E meta = \<lparr>tiTokenId = TokenID meta, tiName = Name meta, tiSymbol = Symbol meta,
     tiDecimals = Decimals meta, tiMaxSupply = MaxSupply meta, tiCurrentSupply = CurrentSupply meta,
     tiMintable = Mintable meta, tiPosCompatible = POSCompatible meta,
     tiCreator = (case BytesToString E (Creator meta) of None \<Rightarrow> [] | Some c \<Rightarrow> c),
     tiIconUri = IconURI meta, tiDescription = Description meta, tiDenom = tokenDenom (Symbol meta),
     tiCreatedAt = CreatedAt meta\<rparr>"

definition badRequest :: "string \<Rightarrow> go_error" where
  "badRequest msg = Wrap msg (SdkErr ''ErrInvalidRequest'')"

definition TokenById :: "'b sdk \<Rightarrow> string option \<Rightarrow> 'b chain \<Rightarrow> TokenInfo res" where
  "TokenById E req s = (case req of
     None \<Rightarrow> Inl (badRequest ''token_id required'')
   | Some tokenId \<Rightarrow>
      if tokenId = [] then Inl (badRequest ''token_id required'')
      else (case kvGet (tokenKV s) (metaKey tokenId) of
        None \<Rightarrow> Inl (Wrap ''not found'' (tokErr 1112))
      | Some (VMeta meta) \<Rightarrow> Inr (tokenInfo E meta)
      | Some _ \<Rightarrow> Inl (Wrap ''unmarshal'' (LibErr ''json.Unmarshal''))))"

definition TokenBySymbol :: "'b sdk \<Rightarrow> string option \<Rightarrow> 'b chain \<Rightarrow> TokenInfo res" where
  "TokenBySymbol E req s = (case req of
     None \<Rightarrow> Inl (badRequest ''symbol required'')
   | Some symb \<Rightarrow>
      if symb = [] then Inl (badRequest ''symbol required'')
      else (case kvGet (tokenKV s) (symbolKey (ToLower symb)) of
        None \<Rightarrow> Inl (Wrap ''symbol not found'' (tokErr 1112))
      | Some (VStr idBz) \<Rightarrow>
         (case kvGet (tokenKV s) (metaKey idBz) of
            None \<Rightarrow> Inl (Wrap ''metadata missing'' (tokErr 1112))
          | Some (VMeta meta) \<Rightarrow> Inr (tokenInfo E meta)
          | Some _ \<Rightarrow> Inl (Wrap ''unmarshal'' (LibErr ''json.Unmarshal'')))
      | Some _ \<Rightarrow> Inl (Wrap ''metadata missing'' (tokErr 1112))))"

text \<open>The two listings: what was listed, and the key the iterator stopped at.\<close>

fun creatorLoop :: "'b sdk \<Rightarrow> 'b chain \<Rightarrow> string \<Rightarrow> u64 \<Rightarrow> u64 \<Rightarrow> (string \<times> kvval) list \<Rightarrow> u64 \<Rightarrow> TokenInfo list
    \<Rightarrow> (TokenInfo list \<times> string option) res" where
  "creatorLoop E s creatorPrefix limit offset [] count acc = Inr (acc, None)"
| "creatorLoop E s creatorPrefix limit offset ((k, v) # it) count acc =
     (if \<not> HasPrefix k creatorPrefix then Inr (acc, Some k)
      else if count < offset then creatorLoop E s creatorPrefix limit offset it (count + 1) acc
      else if limit > 0 \<and> of_nat (length acc) \<ge> limit then Inr (acc, Some k)
      else (case TokenById E (Some (drop (length creatorPrefix) k)) s of
        Inl e \<Rightarrow> Inl e
      | Inr r \<Rightarrow> creatorLoop E s creatorPrefix limit offset it count (acc @ [r])))"

definition pageOf :: "PageRequest option \<Rightarrow> u64 \<times> u64" where
  "pageOf p = (case p of None \<Rightarrow> (0, 0) | Some q \<Rightarrow> (prLimit q, prOffset q))"

definition TokensByCreator ::
  "'b sdk \<Rightarrow> (string \<times> PageRequest option) option \<Rightarrow> 'b chain \<Rightarrow> (TokenInfo list \<times> string option) res" where
  "TokensByCreator E req s = (case req of
     None \<Rightarrow> Inl (badRequest ''creator required'')
   | Some (creator, pagination) \<Rightarrow>
      if creator = [] then Inl (badRequest ''creator required'')
      else (case StringToBytes E creator of
        None \<Rightarrow> Inl (Wrap ''invalid creator'' (LibErr ''StringToBytes''))
      | Some a \<Rightarrow>
          let creatorPrefix = ''ci_'' @ a;
              (start, stop) = prefixRange creatorPrefix;
              (limit, offset) = pageOf pagination
          in creatorLoop E s creatorPrefix limit offset (kvRange (tokenKV s) start stop) 0 []))"

fun allLoop :: "'b sdk \<Rightarrow> u64 \<Rightarrow> u64 \<Rightarrow> (string \<times> kvval) list \<Rightarrow> u64 \<Rightarrow> TokenInfo list
    \<Rightarrow> (TokenInfo list \<times> string option) res" where
  "allLoop E limit offset [] count acc = Inr (acc, None)"
| "allLoop E limit offset ((k, v) # it) count acc =
     (if \<not> HasPrefix k ''tm_'' then Inr (acc, Some k)
      else if count < offset then allLoop E limit offset it (count + 1) acc
      else if limit > 0 \<and> of_nat (length acc) \<ge> limit then Inr (acc, Some k)
      else (case v of
        VMeta meta \<Rightarrow> allLoop E limit offset it count (acc @ [tokenInfo E meta])
      | _ \<Rightarrow> Inl (Wrap ''unmarshal'' (LibErr ''json.Unmarshal''))))"

definition AllTokens ::
  "'b sdk \<Rightarrow> PageRequest option option \<Rightarrow> 'b chain \<Rightarrow> (TokenInfo list \<times> string option) res" where
  "AllTokens E req s = (case req of
     None \<Rightarrow> Inl (badRequest ''request required'')
   | Some pagination \<Rightarrow>
      let (start, stop) = prefixRange ''tm_'';
          (limit, offset) = pageOf pagination
      in allLoop E limit offset (kvRange (tokenKV s) start stop) 0 [])"

definition TokenSupply :: "'b sdk \<Rightarrow> string option \<Rightarrow> 'b chain \<Rightarrow> (string \<times> int) res" where
  "TokenSupply E req s = (case req of
     None \<Rightarrow> Inl (badRequest ''denom required'')
   | Some denom \<Rightarrow> if denom = [] then Inl (badRequest ''denom required'')
       else Inr (denom, GetSupply E (ext s) denom))"

definition TokenBalance :: "'b sdk \<Rightarrow> (string \<times> string) option \<Rightarrow> 'b chain \<Rightarrow> (string \<times> string \<times> int) res" where
  "TokenBalance E req s = (case req of
     None \<Rightarrow> Inl (badRequest ''address & denom required'')
   | Some (address, denom) \<Rightarrow>
       if address = [] \<or> denom = [] then Inl (badRequest ''address & denom required'')
       else (case StringToBytes E address of
         None \<Rightarrow> Inl (Wrap ''invalid address'' (LibErr ''StringToBytes''))
       | Some a \<Rightarrow> Inr (address, denom, GetBalance E (ext s) a denom)))"

section \<open>Paging\<close>

text \<open>A listing is a window on the list of what there is: skip \<open>offset\<close>, show \<open>limit\<close>.\<close>

definition window :: "u64 \<Rightarrow> u64 \<Rightarrow> 'a list \<Rightarrow> 'a list" where
  "window limit offset xs = (let ys = drop (unat offset) xs in if limit = 0 then ys else take (unat limit) ys)"

definition isMeta :: "kvval \<Rightarrow> bool" where
  "isMeta v = (case v of VMeta _ \<Rightarrow> True | _ \<Rightarrow> False)"

definition metaOf :: "kvval \<Rightarrow> TokenMetadata" where
  "metaOf v = (case v of VMeta m \<Rightarrow> m)"

lemma unat_add_one: "unat (c :: u64) + 1 < 2 ^ 64 \<Longrightarrow> unat (c + 1) = unat c + 1"
  by (subst unat_add_lem [THEN iffD1]) simp_all

lemma of_nat_le_iff: "n < 2 ^ 64 \<Longrightarrow> (l :: u64) \<le> of_nat n \<longleftrightarrow> unat l \<le> n"
  by (simp add: word_le_nat_alt unat_of_nat)

text \<open>The key an iterator stopped at, when something was left.\<close>

definition restKey :: "(string \<times> 'v) list \<Rightarrow> string option" where
  "restKey it = (case it of [] \<Rightarrow> None | (k, _) # _ \<Rightarrow> Some k)"

definition pastWindow :: "u64 \<Rightarrow> u64 \<Rightarrow> 'a list \<Rightarrow> 'a list" where
  "pastWindow limit offset xs = (if limit = 0 then [] else drop (unat limit) (drop (unat offset) xs))"

lemma allLoop_take:
  assumes "\<forall>(k, v) \<in> set it. HasPrefix k ''tm_'' \<and> isMeta v" "length acc + length it < 2 ^ 64" "offset \<le> count"
  shows "allLoop E limit offset it count acc =
    Inr (acc @ map (tokenInfo E \<circ> metaOf \<circ> snd) (if limit = 0 then it else take (unat limit - length acc) it),
      restKey (if limit = 0 then [] else drop (unat limit - length acc) it))"
  using assms
proof (induction it arbitrary: acc)
  case Nil
  then show ?case by (simp add: restKey_def)
next
  case (Cons p it)
  obtain k v where p: "p = (k, v)" by (cases p)
  from Cons.prems(1) p obtain m where v: "v = VMeta m" and k: "HasPrefix k ''tm_''"
    by (cases v) (auto simp: isMeta_def)
  have len: "limit > 0 \<and> of_nat (length acc) \<ge> limit \<longleftrightarrow> limit \<noteq> 0 \<and> unat limit \<le> length acc"
    using Cons.prems(2) by (simp add: of_nat_le_iff word_neq_0_conv)
  have nc: "\<not> count < offset" using Cons.prems(3) by (simp add: not_less)
  show ?case
  proof (cases "limit \<noteq> 0 \<and> unat limit \<le> length acc")
    case True
    then show ?thesis using nc len by (simp add: p k restKey_def)
  next
    case False
    have "allLoop E limit offset it count (acc @ [tokenInfo E m]) =
        Inr ((acc @ [tokenInfo E m]) @ map (tokenInfo E \<circ> metaOf \<circ> snd)
          (if limit = 0 then it else take (unat limit - length (acc @ [tokenInfo E m])) it),
        restKey (if limit = 0 then [] else drop (unat limit - length (acc @ [tokenInfo E m])) it))"
      using Cons.IH [of "acc @ [tokenInfo E m]"] Cons.prems by auto
    moreover have "unat limit - length acc = Suc (unat limit - Suc (length acc))" if "limit \<noteq> 0"
      using False that by simp
    ultimately show ?thesis using nc False len by (simp add: p k v metaOf_def restKey_def)
  qed
qed

lemma allLoop_window:
  assumes "\<forall>(k, v) \<in> set it. HasPrefix k ''tm_'' \<and> isMeta v" "unat count + length it < 2 ^ 64" "count \<le> offset"
  shows "allLoop E limit offset it count [] =
    Inr (map (tokenInfo E \<circ> metaOf \<circ> snd) (window limit (offset - count) it), restKey (pastWindow limit (offset - count) it))"
  using assms
proof (induction it arbitrary: count)
  case Nil
  then show ?case by (simp add: window_def pastWindow_def restKey_def)
next
  case (Cons p it)
  obtain k v where p: "p = (k, v)" by (cases p)
  from Cons.prems(1) p have k: "HasPrefix k ''tm_''" by auto
  show ?case
  proof (cases "count < offset")
    case True
    then have lt: "unat count < unat offset" by (simp add: word_less_nat_alt)
    have u: "unat (count + 1) = unat count + 1" using Cons.prems(2) by (intro unat_add_one) simp
    have le: "count + 1 \<le> offset" using lt u by (simp add: word_le_nat_alt)
    have "allLoop E limit offset it (count + 1) [] =
      Inr (map (tokenInfo E \<circ> metaOf \<circ> snd) (window limit (offset - (count + 1)) it),
        restKey (pastWindow limit (offset - (count + 1)) it))"
      using Cons.IH [of "count + 1"] Cons.prems u le by auto
    moreover have "unat (offset - count) = Suc (unat (offset - (count + 1)))"
      using lt u le by (simp add: unat_sub word_le_nat_alt)
    ultimately show ?thesis using True by (simp add: p k window_def pastWindow_def)
  next
    case False
    with Cons.prems(3) have e: "offset = count" by simp
    have "length (p # it) < 2 ^ 64" using Cons.prems(2) by simp
    with allLoop_take [of "p # it" "[]" offset count E limit] Cons.prems(1) e show ?thesis
      by (auto simp: window_def pastWindow_def)
  qed
qed

end
