(* ===== verification/TokenCorrect.thy ===== *)
theory TokenCorrect
  imports TokenQuery
begin

text \<open>
  The invariant of the token store and the properties of the token module: every token is
  indexed by symbol and creator, identifiers are unique, the counter of a creator is the number
  of its tokens, the native denomination is never minted, and the queries return what the
  invariant describes.
\<close>

section \<open>The invariant\<close>

definition seqOf :: "(string \<times> kvval) list \<Rightarrow> u64" where
  "seqOf kv = (case counterAt kv sequenceKey of None \<Rightarrow> 0 | Some n \<Rightarrow> n)"

definition countOf :: "(string \<times> kvval) list \<Rightarrow> addr \<Rightarrow> u64" where
  "countOf kv c = (case counterAt kv (countKey c) of None \<Rightarrow> 0 | Some n \<Rightarrow> n)"

definition ownedBy :: "addr \<Rightarrow> string \<times> kvval \<Rightarrow> bool" where
  "ownedBy c p \<longleftrightarrow> (case snd p of VMeta m \<Rightarrow> Creator m = c | _ \<Rightarrow> False)"

definition created :: "(string \<times> kvval) list \<Rightarrow> addr \<Rightarrow> nat" where
  "created kv c = length (filter (ownedBy c) kv)"

definition indexed :: "(string \<times> kvval) list \<Rightarrow> string \<Rightarrow> TokenMetadata \<Rightarrow> bool" where
  "indexed kv i m \<longleftrightarrow> TokenID m = i \<and> (\<exists>n. i = tokenIDOf n \<and> n \<le> seqOf kv) \<and>
     kvGet kv (symbolKey (ToLower (Symbol m))) = Some (VStr i) \<and>
     kvGet kv (creatorKey (Creator m) i) = Some (VStr i)"

definition metas_ok :: "(string \<times> kvval) list \<Rightarrow> bool" where
  "metas_ok kv \<longleftrightarrow> (\<forall>i v. kvGet kv (metaKey i) = Some v \<longrightarrow> (\<exists>m. v = VMeta m \<and> indexed kv i m))"

definition symbols_ok :: "(string \<times> kvval) list \<Rightarrow> bool" where
  "symbols_ok kv \<longleftrightarrow> (\<forall>y v. kvGet kv (symbolKey y) = Some v \<longrightarrow>
     (\<exists>i m. v = VStr i \<and> kvGet kv (metaKey i) = Some (VMeta m) \<and> ToLower (Symbol m) = y))"

definition counts_ok :: "(string \<times> kvval) list \<Rightarrow> bool" where
  "counts_ok kv \<longleftrightarrow> (\<forall>c. created kv c = unat (countOf kv c)) \<and>
     (\<forall>k m. kvGet kv k = Some (VMeta m) \<longrightarrow> (\<exists>i. k = metaKey i))"

definition token_inv :: "(string \<times> kvval) list \<Rightarrow> bool" where
  "token_inv kv \<longleftrightarrow> kv_sorted kv \<and> metas_ok kv \<and> symbols_ok kv \<and> counts_ok kv"

lemma token_inv_Nil: "token_inv []"
  by (simp add: token_inv_def kv_sorted_def metas_ok_def symbols_ok_def counts_ok_def created_def countOf_def counterAt_def)

lemma tokenIDOf_inject [simp]: "tokenIDOf m = tokenIDOf n \<longleftrightarrow> m = n"
  by (simp add: tokenIDOf_def word_unat_eq_iff)

lemma owned_new:
  "kvGet kv k = None \<Longrightarrow> length (filter P (kvSet k v kv)) = length (filter P kv) + (if P (k, v) then 1 else 0)"
  unfolding kvGet_def by (induction k v kv rule: kvSet.induct) (auto split: if_splits)

lemma owned_same:
  assumes "\<And>v0. kvGet kv k = Some v0 \<Longrightarrow> \<not> P (k, v0)" "\<not> P (k, v)"
  shows "length (filter P (kvSet k v kv)) = length (filter P kv)"
  using assms unfolding kvGet_def by (induction k v kv rule: kvSet.induct) (auto split: if_splits)

section \<open>A successful creation\<close>

text \<open>The store after the writes of one creation.\<close>

definition createdKV :: "(string \<times> kvval) list \<Rightarrow> string \<Rightarrow> TokenMetadata \<Rightarrow> (string \<times> kvval) list" where
  "createdKV kv i m =
     (let kv1 = kvSet sequenceKey (VU64 (seqOf kv + 1)) kv;
          kv4 = kvSet (creatorKey (Creator m) i) (VStr i)
                  (kvSet (symbolKey (ToLower (Symbol m))) (VStr i) (kvSet (metaKey i) (VMeta m) kv1))
      in kvSet (countKey (Creator m)) (VU64 (countOf kv (Creator m) + 1)) kv4)"

lemma createdKV_get:
  "kvGet (createdKV kv i m) (metaKey j) = (if j = i then Some (VMeta m) else kvGet kv (metaKey j))"
  "kvGet (createdKV kv i m) (symbolKey y) = (if y = ToLower (Symbol m) then Some (VStr i) else kvGet kv (symbolKey y))"
  "kvGet (createdKV kv i m) (creatorKey c j) = (if creatorKey c j = creatorKey (Creator m) i then Some (VStr i) else kvGet kv (creatorKey c j))"
  "seqOf (createdKV kv i m) = seqOf kv + 1"
  "countOf (createdKV kv i m) c = (if c = Creator m then countOf kv c + 1 else countOf kv c)"
  by (simp_all add: createdKV_def Let_def seqOf_def countOf_def counterAt_def)

lemma next_counters:
  "(case counterAt kv sequenceKey of None \<Rightarrow> 1 | Some n \<Rightarrow> n + 1) = seqOf kv + 1"
  "(case counterAt kv (countKey c) of None \<Rightarrow> 1 | Some n \<Rightarrow> n + 1) = countOf kv c + 1"
  by (simp_all add: seqOf_def countOf_def split: option.splits)

lemma generateTokenID_eval:
  "generateTokenID s = (Inr (tokenIDOf (seqOf (tokenKV s) + 1)),
     s\<lparr>tokenKV := kvSet sequenceKey (VU64 (seqOf (tokenKV s) + 1)) (tokenKV s)\<rparr>)"
  by (simp add: generateTokenID_def getNextTokenSequence_def putKV_def bnd_def gets_def modify_def return_def next_counters)

lemma storeTokenMetadata_eval:
  "storeTokenMetadata i y c m s = (Inr (), s\<lparr>tokenKV :=
     kvSet (countKey c) (VU64 (countOf (tokenKV s) c + 1))
       (kvSet (creatorKey c i) (VStr i) (kvSet (symbolKey y) (VStr i) (kvSet (metaKey i) (VMeta m) (tokenKV s))))\<rparr>)"
  by (simp add: storeTokenMetadata_def putKV_def andThen_def bnd_def gets_def modify_def next_counters)
    (simp add: countOf_def counterAt_def)

lemma CreateToken_cases:
  assumes "CreateToken E msg s = (Inr u, t)"
  obtains creator params i m cs b1 where
    "ValidateBasic E msg = Inr ()" "StringToBytes E (ctCreator msg) = Some creator" "tokenParams s = Some params"
    "\<not> isReserved (ReservedSymbols params) (ToLower (ctSymbol msg))"
    "kvGet (tokenKV s) (symbolKey (ToLower (ctSymbol msg))) = None"
    "countOf (tokenKV s) creator < MaxTokensPerCreator params"
    "i = tokenIDOf (seqOf (tokenKV s) + 1)" "m = metadataOf s msg creator i"
    "tokenKV t = createdKV (tokenKV s) i m" "tokenParams t = tokenParams s"
    "supplyCoins E (tokenDenom (ctSymbol msg)) (ctInitialSupply msg) = Inr cs"
    "MintCoins E (ext s) ''token'' cs = (None, b1)"
    "SendCoinsFromModuleToAccount E b1 ''token'' creator cs = (None, ext t)"
proof -
  from assms obtain creator params where
    c: "ValidateBasic E msg = Inr ()" "StringToBytes E (ctCreator msg) = Some creator" "tokenParams s = Some params"
      "\<not> isReserved (ReservedSymbols params) (ToLower (ctSymbol msg))"
      "validateSymbolUniqueness s (ToLower (ctSymbol msg)) = Inr ()"
      "validateCreatorLimits s creator (MaxTokensPerCreator params) = Inr ()"
    by (auto simp: CreateToken_def act_splits Let_def split: if_splits)
  have i: "ctInitialSupply msg > 0" using c(1) by (simp add: ValidateBasic_ok)
  let ?i = "tokenIDOf (seqOf (tokenKV s) + 1)"
  let ?m = "metadataOf s msg creator ?i"
  have m: "Creator ?m = creator" "Symbol ?m = ctSymbol msg"
    by (simp_all add: metadataOf_def NewTokenMetadata_def)
  from assms c i obtain cs b1 b2 where
    x: "supplyCoins E (tokenDenom (ctSymbol msg)) (ctInitialSupply msg) = Inr cs"
      "MintCoins E (ext s) ''token'' cs = (None, b1)"
      "SendCoinsFromModuleToAccount E b1 ''token'' creator cs = (None, b2)" and
    t: "ext t = b2" "tokenParams t = tokenParams s" "tokenKV t = createdKV (tokenKV s) ?i ?m"
    by (auto simp: CreateToken_def act_splits Let_def generateTokenID_eval storeTokenMetadata_eval wrapA_Inr_iff
      mintInitialSupply_def metadataOf_def NewTokenMetadata_def createdKV_def countOf_def counterAt_def)
  show thesis
    using c x t by (intro that [of creator params ?i ?m cs b1])
      (auto simp: validateSymbolUniqueness_def guardE_Inr_iff kvHas_def validateCreatorLimits_def Let_def countOf_def not_le split: if_splits)
qed

section \<open>The invariant is kept\<close>

lemma u64_succ: "q + 1 \<noteq> 0 \<Longrightarrow> unat (q + 1) = unat q + 1" for q :: u64
  using unatSuc [of q] by (simp add: add.commute)

lemma fresh_id:
  assumes "metas_ok kv" "seqOf kv + 1 \<noteq> 0"
  shows "kvGet kv (metaKey (tokenIDOf (seqOf kv + 1))) = None"
proof (rule ccontr)
  assume "kvGet kv (metaKey (tokenIDOf (seqOf kv + 1))) \<noteq> None"
  with assms(1) obtain n where "tokenIDOf (seqOf kv + 1) = tokenIDOf n" "n \<le> seqOf kv"
    by (fastforce simp: metas_ok_def indexed_def)
  then have "unat (seqOf kv + 1) \<le> unat (seqOf kv)" by (simp add: word_le_nat_alt)
  then show False using u64_succ [OF assms(2)] by simp
qed

lemma seq_grows: "(n :: u64) \<le> q \<Longrightarrow> q + 1 \<noteq> 0 \<Longrightarrow> n \<le> q + 1"
  by (simp add: word_le_nat_alt u64_succ)

text \<open>A key of the creator index names its token: no identifier is the end of another.\<close>

lemma tokenID_head: "\<exists>r. tokenIDOf n = CHR ''t'' # r \<and> CHR ''t'' \<notin> set r"
proof -
  have "CHR ''t'' \<notin> set (fmtPad3 (unat n))"
  proof
    assume "CHR ''t'' \<in> set (fmtPad3 (unat n))"
    then have "CHR ''t'' \<in> set (fmtNat (unat n))" by (auto simp: fmtPad3_def)
    then show False using fmtNat_digits by (force simp: isDigit_def)
  qed
  then show ?thesis by (simp add: tokenIDOf_def)
qed

lemma no_suffix: "us @ tokenIDOf m = tokenIDOf n \<Longrightarrow> us = []"
  using tokenID_head [of m] tokenID_head [of n] by (cases us) auto

lemma creatorKey_inject: "creatorKey c (tokenIDOf m) = creatorKey d (tokenIDOf n) \<longleftrightarrow> c = d \<and> m = n"
proof
  assume "creatorKey c (tokenIDOf m) = creatorKey d (tokenIDOf n)"
  then have "c @ tokenIDOf m = d @ tokenIDOf n" by (simp add: creatorKey_def)
  then obtain us where "c = d @ us \<and> us @ tokenIDOf m = tokenIDOf n \<or> c @ us = d \<and> tokenIDOf m = us @ tokenIDOf n"
    by (auto simp: append_eq_append_conv2)
  then show "c = d \<and> m = n" using no_suffix [of us m n] no_suffix [of us n m] by auto
qed simp

lemma createdKV_count:
  assumes "counts_ok kv" "kvGet kv (metaKey i) = None" "unat (countOf kv (Creator m)) + 1 < 2 ^ 64"
  shows "created (createdKV kv i m) c = unat (countOf (createdKV kv i m) c)"
proof -
  let ?P = "ownedBy c"
  have nm: "\<not> ?P (k, v0)" if "kvGet kv k = Some v0" "\<And>j. k \<noteq> metaKey j" for k v0
    using that assms(1) by (cases v0) (auto simp: ownedBy_def counts_ok_def)
  have "created (createdKV kv i m) c = length (filter ?P (kvSet (metaKey i) (VMeta m) (kvSet sequenceKey (VU64 (seqOf kv + 1)) kv)))"
    unfolding createdKV_def created_def Let_def
    by (subst owned_same, (auto simp: ownedBy_def)[2], use nm in \<open>auto simp: ownedBy_def split: if_splits\<close>)+
  also have "\<dots> = length (filter ?P (kvSet sequenceKey (VU64 (seqOf kv + 1)) kv)) + (if Creator m = c then 1 else 0)"
    using assms(2) by (subst owned_new) (auto simp: ownedBy_def)
  also have "length (filter ?P (kvSet sequenceKey (VU64 (seqOf kv + 1)) kv)) = created kv c"
    unfolding created_def using nm [of sequenceKey] by (intro owned_same) (auto simp: ownedBy_def)
  also have "created kv c = unat (countOf kv c)" using assms(1) by (simp add: counts_ok_def)
  finally show ?thesis using unat_add_one [OF assms(3)] by (auto simp: createdKV_get)
qed

lemma createdKV_metas:
  assumes ok: "metas_ok kv" and q: "seqOf kv + 1 \<noteq> 0" and i: "i = tokenIDOf (seqOf kv + 1)" "TokenID m = i"
    and y: "kvGet kv (symbolKey (ToLower (Symbol m))) = None"
  shows "metas_ok (createdKV kv i m)"
  unfolding metas_ok_def
proof (intro allI impI)
  fix j v
  assume g: "kvGet (createdKV kv i m) (metaKey j) = Some v"
  show "\<exists>m'. v = VMeta m' \<and> indexed (createdKV kv i m) j m'"
  proof (cases "j = i")
    case True
    then show ?thesis using g i by (auto simp: createdKV_get indexed_def)
  next
    case False
    with g ok obtain m' where m': "v = VMeta m'" "indexed kv j m'"
      by (auto simp: createdKV_get metas_ok_def)
    then obtain n where n: "j = tokenIDOf n" "n \<le> seqOf kv" by (auto simp: indexed_def)
    have "ToLower (Symbol m') \<noteq> ToLower (Symbol m)" using y m'(2) by (auto simp: indexed_def)
    moreover have "creatorKey (Creator m') j \<noteq> creatorKey (Creator m) i"
      using False by (simp add: n i(1) creatorKey_inject)
    moreover have "n \<le> seqOf kv + 1" by (rule seq_grows [OF n(2) q])
    ultimately show ?thesis using m' n(1) unfolding indexed_def createdKV_get by auto
  qed
qed

lemma createdKV_symbols:
  assumes ok: "symbols_ok kv" and new: "kvGet kv (metaKey i) = None"
  shows "symbols_ok (createdKV kv i m)"
  unfolding symbols_ok_def
proof (intro allI impI)
  fix z v
  assume g: "kvGet (createdKV kv i m) (symbolKey z) = Some v"
  show "\<exists>j m'. v = VStr j \<and> kvGet (createdKV kv i m) (metaKey j) = Some (VMeta m') \<and> ToLower (Symbol m') = z"
  proof (cases "z = ToLower (Symbol m)")
    case True
    then show ?thesis using g by (auto simp: createdKV_get)
  next
    case False
    with g have "kvGet kv (symbolKey z) = Some v" by (simp add: createdKV_get)
    with ok obtain j m' where j: "v = VStr j" "kvGet kv (metaKey j) = Some (VMeta m')" "ToLower (Symbol m') = z"
      unfolding symbols_ok_def by blast
    then have "j \<noteq> i" using new by auto
    with j show ?thesis by (auto simp: createdKV_get)
  qed
qed

lemma createdKV_inv:
  assumes inv: "token_inv kv" and q: "seqOf kv + 1 \<noteq> 0" and i: "i = tokenIDOf (seqOf kv + 1)" "TokenID m = i"
    and y: "kvGet kv (symbolKey (ToLower (Symbol m))) = None" and c: "unat (countOf kv (Creator m)) + 1 < 2 ^ 64"
  shows "token_inv (createdKV kv i m)"
proof -
  have inv': "kv_sorted kv" "metas_ok kv" "symbols_ok kv" "counts_ok kv" using inv by (simp_all add: token_inv_def)
  have new: "kvGet kv (metaKey i) = None" unfolding i(1) by (rule fresh_id [OF inv'(2) q])
  have "kv_sorted (createdKV kv i m)" by (simp add: createdKV_def Let_def kvSet_sorted inv'(1))
  moreover have "\<exists>j. k = metaKey j" if "kvGet (createdKV kv i m) k = Some (VMeta m')" for k m'
    using that inv'(4) by (auto simp: createdKV_def Let_def counts_ok_def split: if_splits)
  ultimately show ?thesis
    using createdKV_metas [OF inv'(2) q i y] createdKV_symbols [OF inv'(3) new] createdKV_count [OF inv'(4) new c]
    by (auto simp: token_inv_def counts_ok_def)
qed

lemma CreateToken_inv:
  assumes r: "CreateToken E msg s = (Inr u, t)" and inv: "token_inv (tokenKV s)" and q: "seqOf (tokenKV s) + 1 \<noteq> 0"
  shows "token_inv (tokenKV t)"
  using r
proof (cases rule: CreateToken_cases)
  case (1 creator params i m cs b1)
  have m: "TokenID m = i" "Creator m = creator" "Symbol m = ctSymbol msg"
    by (simp_all add: 1(8) metadataOf_def NewTokenMetadata_def)
  have "unat (countOf (tokenKV s) creator) < unat (MaxTokensPerCreator params)"
    using 1(6) by (simp add: word_less_nat_alt)
  with unat64 [of "MaxTokensPerCreator params"] have "unat (countOf (tokenKV s) (Creator m)) + 1 < 2 ^ 64"
    by (simp add: m)
  then show ?thesis unfolding 1(9) using 1(5) by (intro createdKV_inv [OF inv q 1(7) m(1)]) (simp add: m)
qed

section \<open>Running messages\<close>

text \<open>
  A block runs messages one after the other; what a failed message wrote is rolled back with its
  transaction.
\<close>

datatype token_msg = TCreate MsgCreateToken | TMint MsgMint | TBurn MsgBurn

fun runToken :: "'b sdk \<Rightarrow> token_msg \<Rightarrow> ('b chain, unit) act" where
  "runToken E (TCreate m) = CreateToken E m"
| "runToken E (TMint m) = Mint E m"
| "runToken E (TBurn m) = Burn E m"

definition deliver :: "'b sdk \<Rightarrow> 'b chain \<Rightarrow> token_msg \<Rightarrow> 'b chain" where
  "deliver E s m = (case runToken E m s of (Inl _, _) \<Rightarrow> s | (Inr _, t) \<Rightarrow> t)"

lemma deliver_cases:
  obtains (rejected) "deliver E s m = s" | (ran) u where "runToken E m s = (Inr u, deliver E s m)"
  by (cases "runToken E m s"; cases "fst (runToken E m s)") (auto simp: deliver_def)

lemma Mint_cases:
  assumes "Mint E msg s = (Inr u, t)"
  obtains to meta cs b1 where
    "AccAddressFromBech32 E (mintTo msg) = Some to" "GetTokenMetadata s (mintTokenId msg) = Inr meta" "Mintable meta"
    "supplyCoins E (tokenDenom (Symbol meta)) (mintAmount msg) = Inr cs"
    "MintCoins E (ext s) ''token'' cs = (None, b1)" "SendCoinsFromModuleToAccount E b1 ''token'' to cs = (None, ext t)"
    "t = s\<lparr>ext := ext t\<rparr>"
  using assms by (auto simp: Mint_def act_splits split: if_splits)

lemma Burn_cases:
  assumes "Burn E msg s = (Inr u, t)"
  obtains sender meta cs b1 where
    "AccAddressFromBech32 E (burnCreator msg) = Some sender" "GetTokenMetadata s (burnTokenId msg) = Inr meta"
    "supplyCoins E (tokenDenom (Symbol meta)) (burnAmount msg) = Inr cs"
    "SendCoinsFromAccountToModule E (ext s) sender ''token'' cs = (None, b1)" "BurnCoins E b1 ''token'' cs = (None, ext t)"
    "t = s\<lparr>ext := ext t\<rparr>"
  using assms by (auto simp: Burn_def act_splits split: if_splits)

lemma runToken_store:
  assumes "runToken E m s = (Inr u, t)" "\<forall>c. m \<noteq> TCreate c"
  shows "tokenKV t = tokenKV s \<and> tokenParams t = tokenParams s"
proof (cases m)
  case (TMint c)
  with assms(1) have "Mint E c s = (Inr u, t)" by simp
  then obtain b where "t = s\<lparr>ext := b\<rparr>" by (cases rule: Mint_cases)
  then show ?thesis by simp
next
  case (TBurn c)
  with assms(1) have "Burn E c s = (Inr u, t)" by simp
  then obtain b where "t = s\<lparr>ext := b\<rparr>" by (cases rule: Burn_cases)
  then show ?thesis by simp
qed (use assms(2) in simp)

lemma deliver_params [simp]: "tokenParams (deliver E s m) = tokenParams s"
proof (cases rule: deliver_cases [of E s m])
  case (ran u)
  show ?thesis
  proof (cases m)
    case (TCreate c)
    with ran have "CreateToken E c s = (Inr u, deliver E s m)" by simp
    then show ?thesis by (cases rule: CreateToken_cases) simp
  qed (use runToken_store [OF ran] in simp_all)
qed simp

lemma deliver_inv:
  assumes "token_inv (tokenKV s)" "unat (seqOf (tokenKV s)) \<le> n" "n + 1 < 2 ^ 64"
  shows "token_inv (tokenKV (deliver E s m)) \<and> unat (seqOf (tokenKV (deliver E s m))) \<le> n + 1"
proof (cases rule: deliver_cases [of E s m])
  case rejected
  then show ?thesis using assms by simp
next
  case (ran u)
  show ?thesis
  proof (cases m)
    case (TCreate c)
    with ran have r: "CreateToken E c s = (Inr u, deliver E s m)" by simp
    have "unat (seqOf (tokenKV s)) + 1 < 2 ^ 64" using assms(2,3) by simp
    then have u: "unat (seqOf (tokenKV s) + 1) = unat (seqOf (tokenKV s)) + 1" by (rule unat_add_one)
    then have "seqOf (tokenKV s) + 1 \<noteq> 0" by (metis add_is_0 unat_0 zero_neq_one)
    note inv = CreateToken_inv [OF r assms(1) this]
    from r have "seqOf (tokenKV (deliver E s m)) = seqOf (tokenKV s) + 1"
      by (cases rule: CreateToken_cases) (simp add: createdKV_get)
    with u inv assms(2) show ?thesis by simp
  qed (use runToken_store [OF ran] assms in simp_all)
qed

lemma deliver_all_inv:
  assumes "token_inv (tokenKV s)" "unat (seqOf (tokenKV s)) + length ms < 2 ^ 64"
  shows "token_inv (tokenKV (foldl (deliver E) s ms))"
  using assms
proof (induction ms arbitrary: s)
  case (Cons m ms)
  have "token_inv (tokenKV (deliver E s m)) \<and> unat (seqOf (tokenKV (deliver E s m))) \<le> unat (seqOf (tokenKV s)) + 1"
    using Cons.prems by (intro deliver_inv) simp_all
  then show ?case using Cons.IH [of "deliver E s m"] Cons.prems by simp
qed simp

section \<open>Effect on balances\<close>

text \<open>What the two bank calls of a mint or a burn add up to.\<close>

definition minted :: "'b sdk \<Rightarrow> addr \<Rightarrow> string \<Rightarrow> int \<Rightarrow> 'b \<Rightarrow> 'b \<Rightarrow> bool" where
  "minted E to denom n b b' \<longleftrightarrow>
     (\<forall>a d. GetBalance E b' a d = GetBalance E b a d + (if a = to \<and> d = denom then n else 0)) \<and>
     (\<forall>d. GetSupply E b' d = GetSupply E b d + (if d = denom then n else 0))"

lemma supplyCoins_amount:
  assumes "coin_laws E" "supplyCoins E denom n = Inr cs"
  shows "AmountOf E cs d = (if d = denom then uint n else 0)"
  using assms(2) NewCoins_one [OF assms(1)] AmountOf_Nil [OF assms(1)] AmountOf_one [OF assms(1)]
  by (auto simp: supplyCoins_def rbind_Inr_iff ofOption_Inr_iff NewCoin_eq [OF assms(1)] split: if_splits)

lemma mint_and_send:
  assumes E: "coin_laws E" "bank_laws E" and cs: "supplyCoins E denom n = Inr cs"
    and m: "MintCoins E b ''token'' cs = (None, b1)" "SendCoinsFromModuleToAccount E b1 ''token'' to cs = (None, b2)"
  shows "minted E to denom (uint n) b b2"
  using SendFromModule_moves [OF E(2) m(2)]
  by (simp add: minted_def moves_def supplyCoins_amount [OF E(1) cs] MintCoins_balance [OF E(2) m(1)]
    MintCoins_supply [OF E(2) m(1)])

lemma send_and_burn:
  assumes E: "coin_laws E" "bank_laws E" and cs: "supplyCoins E denom n = Inr cs"
    and m: "SendCoinsFromAccountToModule E b sender ''token'' cs = (None, b1)" "BurnCoins E b1 ''token'' cs = (None, b2)"
  shows "minted E sender denom (- uint n) b b2"
  using SendToModule_moves [OF E(2) m(1)]
  by (simp add: minted_def moves_def supplyCoins_amount [OF E(1) cs] BurnCoins_balance [OF E(2) m(2)]
    BurnCoins_supply [OF E(2) m(2)])

section \<open>The native denomination\<close>

definition reserves_csv :: "'b chain \<Rightarrow> bool" where
  "reserves_csv s \<longleftrightarrow> (\<forall>p. tokenParams s = Some p \<longrightarrow> isReserved (ReservedSymbols p) ''csv'')"

definition no_csv :: "(string \<times> kvval) list \<Rightarrow> bool" where
  "no_csv kv \<longleftrightarrow> (\<forall>i m. kvGet kv (metaKey i) = Some (VMeta m) \<longrightarrow> ToLower (Symbol m) \<noteq> ''csv'')"

lemma meta_not_csv:
  assumes "no_csv (tokenKV s)" "GetTokenMetadata s i = Inr meta"
  shows "tokenDenom (Symbol meta) \<noteq> ''ucsv''"
  using assms by (auto simp: no_csv_def GetTokenMetadata_def loadMeta_def tokenDenom_def split: option.splits kvval.splits)

lemma deliver_no_csv:
  assumes E: "coin_laws E" "bank_laws E" and s: "reserves_csv s" "no_csv (tokenKV s)"
  shows "no_csv (tokenKV (deliver E s m)) \<and> GetSupply E (ext (deliver E s m)) ''ucsv'' = GetSupply E (ext s) ''ucsv''"
proof (cases rule: deliver_cases [of E s m])
  case rejected
  then show ?thesis using s by simp
next
  case (ran u)
  show ?thesis
  proof (cases m)
    case (TCreate c)
    with ran have "CreateToken E c s = (Inr u, deliver E s m)" by simp
    then show ?thesis
    proof (cases rule: CreateToken_cases)
      case (1 creator params i meta cs b1)
      have sy: "Symbol meta = ctSymbol c" by (simp add: 1(8) metadataOf_def NewTokenMetadata_def)
      have ne: "ToLower (ctSymbol c) \<noteq> ''csv''" using 1(3,4) s(1) by (auto simp: reserves_csv_def)
      from mint_and_send [OF E 1(11-13)] ne show ?thesis
        using s(2) sy by (auto simp: 1(9) no_csv_def createdKV_get minted_def tokenDenom_def)
    qed
  next
    case (TMint c)
    with ran have "Mint E c s = (Inr u, deliver E s m)" by simp
    then show ?thesis
    proof (cases rule: Mint_cases)
      case (1 to meta cs b1)
      with mint_and_send [OF E 1(4-6)] meta_not_csv [OF s(2) 1(2)] s(2) runToken_store [OF ran] TMint
      show ?thesis by (simp add: minted_def)
    qed
  next
    case (TBurn c)
    with ran have "Burn E c s = (Inr u, deliver E s m)" by simp
    then show ?thesis
    proof (cases rule: Burn_cases)
      case (1 sender meta cs b1)
      with send_and_burn [OF E 1(3-5)] meta_not_csv [OF s(2) 1(2)] s(2) runToken_store [OF ran] TBurn
      show ?thesis by (simp add: minted_def)
    qed
  qed
qed

section \<open>Properties\<close>

definition tokenState :: "ledger chain" where
  "tokenState = (initChain emptyLedger)\<lparr>tokenParams := Some tokenNewParams\<rparr>"

definition goldMsg :: MsgCreateToken where
  "goldMsg = NewMsgCreateToken ''alice'' ''Gold'' ''GLD'' 6 100 100 False False [] []"

definition silverMsg :: MsgCreateToken where
  "silverMsg = NewMsgCreateToken ''alice'' ''Silver'' ''SLV'' 6 50 100 True False [] []"

definition minedState :: "ledger chain" where
  "minedState = foldl (deliver ref_sdk) tokenState [TCreate goldMsg, TCreate silverMsg]"

text \<open>
  C4. After any sequence of token messages on an empty store, every stored token is found under
  its own identifier, under its symbol in lower case and under its creator, no other token has
  its symbol, and the creator counters count the tokens of each creator.
\<close>

theorem token_store_consistent:
  assumes "tokenKV s = []" "length ms < 2 ^ 64" "kv = tokenKV (foldl (deliver E) s ms)"
    and "loadMeta kv i = Inr m"
  shows "TokenID m = i \<and> kvGet kv (symbolKey (ToLower (Symbol m))) = Some (VStr i) \<and>
    kvGet kv (creatorKey (Creator m) i) = Some (VStr i) \<and>
    (\<forall>j m'. loadMeta kv j = Inr m' \<and> ToLower (Symbol m') = ToLower (Symbol m) \<longrightarrow> j = i) \<and>
    (\<forall>c. created kv c = unat (countOf kv c))"
proof -
  have "unat (seqOf (tokenKV s)) = 0" by (simp add: assms(1) seqOf_def counterAt_def)
  then have inv: "token_inv kv" unfolding assms(3) using assms(1,2) token_inv_Nil by (intro deliver_all_inv) simp_all
  have meta: "indexed kv j m'" if "loadMeta kv j = Inr m'" for j m'
    using that inv by (auto simp: loadMeta_def token_inv_def metas_ok_def split: option.splits kvval.splits)
  have uniq: "j = i" if "loadMeta kv j = Inr m'" "ToLower (Symbol m') = ToLower (Symbol m)" for j m'
    using meta [OF that(1)] meta [OF assms(4)] that(2) by (simp add: indexed_def)
  show ?thesis using meta [OF assms(4)] uniq inv by (auto simp: indexed_def token_inv_def counts_ok_def)
qed

theorem token_store_consistent_witness:
  "\<exists>m. loadMeta (tokenKV minedState) ''token_002'' = Inr m \<and>
     kvGet (tokenKV minedState) (symbolKey (ToLower (Symbol m))) = Some (VStr ''token_002'')"
proof -
  have l: "\<not> isl (loadMeta (tokenKV minedState) ''token_002'')" by code_simp
  then obtain m where m: "loadMeta (tokenKV minedState) ''token_002'' = Inr m"
    by (cases "loadMeta (tokenKV minedState) ''token_002''") auto
  have "tokenKV tokenState = []" by (simp add: tokenState_def initChain_def)
  from token_store_consistent [OF this _ _ m, where E = ref_sdk and ms = "[TCreate goldMsg, TCreate silverMsg]"]
  show ?thesis using m by (simp add: minedState_def)
qed

text \<open>
  C22. A CreateToken that succeeds counted one more token of its creator, within the limit of
  the parameters, did not take a reserved symbol, and kept the store invariant.
\<close>

theorem creation_respects_the_limits:
  assumes r: "CreateToken E msg s = (Inr u, t)" and inv: "token_inv (tokenKV s)" "seqOf (tokenKV s) + 1 \<noteq> 0"
  shows "\<exists>creator params. StringToBytes E (ctCreator msg) = Some creator \<and> tokenParams s = Some params \<and>
    created (tokenKV t) creator = created (tokenKV s) creator + 1 \<and>
    created (tokenKV t) creator \<le> unat (MaxTokensPerCreator params) \<and>
    \<not> isReserved (ReservedSymbols params) (ToLower (ctSymbol msg)) \<and> token_inv (tokenKV t)"
  using r
proof (cases rule: CreateToken_cases)
  case (1 creator params i m cs b1)
  note inv' = CreateToken_inv [OF r inv]
  have c: "created (tokenKV s) creator = unat (countOf (tokenKV s) creator)"
    "created (tokenKV t) creator = unat (countOf (tokenKV t) creator)"
    using inv(1) inv' by (simp_all add: token_inv_def counts_ok_def)
  have lt: "unat (countOf (tokenKV s) creator) < unat (MaxTokensPerCreator params)"
    using 1(6) by (simp add: word_less_nat_alt)
  with unat64 [of "MaxTokensPerCreator params"]
  have "unat (countOf (tokenKV s) creator + 1) = unat (countOf (tokenKV s) creator) + 1" by (intro unat_add_one) simp
  moreover have "countOf (tokenKV t) creator = countOf (tokenKV s) creator + 1"
    by (simp add: 1(8,9) createdKV_get metadataOf_def NewTokenMetadata_def)
  ultimately show ?thesis using c lt 1(2-4) inv' by simp
qed

theorem creation_respects_the_limits_witness:
  "created (tokenKV (snd (CreateToken ref_sdk goldMsg tokenState))) ''alice'' = 1"
proof -
  have r: "fst (CreateToken ref_sdk goldMsg tokenState) = Inr ()" by code_simp
  have kv: "tokenKV tokenState = []" by (simp add: tokenState_def initChain_def)
  have i: "token_inv (tokenKV tokenState)" "seqOf (tokenKV tokenState) + 1 \<noteq> 0"
    by (simp_all add: kv token_inv_Nil) (simp add: seqOf_def counterAt_def)
  have a: "StringToBytes ref_sdk (ctCreator goldMsg) = Some ''alice''" by code_simp
  show ?thesis using creation_respects_the_limits [OF runs [OF r] i] a by (auto simp: kv created_def)
qed

text \<open>
  C21. A CreateToken that succeeds minted its initial supply in its denomination to the creator,
  and stored the token under the next identifier with that supply, within its maximum.
\<close>

theorem creation_mints_to_the_creator:
  assumes E: "coin_laws E" "bank_laws E" and r: "CreateToken E msg s = (Inr u, t)"
  shows "\<exists>creator. StringToBytes E (ctCreator msg) = Some creator \<and>
    minted E creator (tokenDenom (ctSymbol msg)) (uint (ctInitialSupply msg)) (ext s) (ext t) \<and>
    (\<exists>m. loadMeta (tokenKV t) (tokenIDOf (seqOf (tokenKV s) + 1)) = Inr m \<and> Creator m = creator \<and>
       Symbol m = ctSymbol msg \<and> CurrentSupply m = uint (ctInitialSupply msg) \<and> CurrentSupply m \<le> MaxSupply m)"
  using r
proof (cases rule: CreateToken_cases)
  case (1 creator params i m cs b1)
  have "ctInitialSupply msg \<le> ctMaxSupply msg" using 1(1) by (simp add: ValidateBasic_ok)
  moreover have "loadMeta (tokenKV t) i = Inr m" by (simp add: 1(9) loadMeta_def createdKV_get)
  ultimately show ?thesis using mint_and_send [OF E 1(11-13)] 1(2,7,8)
    by (auto simp: metadataOf_def NewTokenMetadata_def word_le_def)
qed

theorem creation_mints_to_the_creator_witness:
  "\<exists>creator. minted ref_sdk creator (tokenDenom (ctSymbol goldMsg)) (uint (ctInitialSupply goldMsg))
     (ext tokenState) (ext (snd (CreateToken ref_sdk goldMsg tokenState)))"
proof -
  have r: "fst (CreateToken ref_sdk goldMsg tokenState) = Inr ()" by code_simp
  show ?thesis using creation_mints_to_the_creator [OF ref_coin_laws ref_bank_laws runs [OF r]] by blast
qed

text \<open>
  C20. A Mint or Burn that succeeds mints to the receiver or burns from the sender exactly the
  amount of the message in the denomination of the token, a mint only of a mintable token, and
  leaves the token store as it was.
\<close>

theorem mint_and_burn_keep_books:
  assumes E: "coin_laws E" "bank_laws E" and r: "runToken E m s = (Inr u, t)" and m: "m = TMint mm \<or> m = TBurn bm"
  shows "tokenKV t = tokenKV s \<and>
    (m = TMint mm \<longrightarrow> (\<exists>to meta. AccAddressFromBech32 E (mintTo mm) = Some to \<and>
       GetTokenMetadata s (mintTokenId mm) = Inr meta \<and> Mintable meta \<and>
       minted E to (tokenDenom (Symbol meta)) (uint (mintAmount mm)) (ext s) (ext t))) \<and>
    (m = TBurn bm \<longrightarrow> (\<exists>holder meta. AccAddressFromBech32 E (burnCreator bm) = Some holder \<and>
       GetTokenMetadata s (burnTokenId bm) = Inr meta \<and>
       minted E holder (tokenDenom (Symbol meta)) (- uint (burnAmount bm)) (ext s) (ext t)))"
proof -
  have kv: "tokenKV t = tokenKV s" using runToken_store [OF r] m by auto
  have mint: "\<exists>to meta. AccAddressFromBech32 E (mintTo mm) = Some to \<and>
       GetTokenMetadata s (mintTokenId mm) = Inr meta \<and> Mintable meta \<and>
       minted E to (tokenDenom (Symbol meta)) (uint (mintAmount mm)) (ext s) (ext t)" if "m = TMint mm"
  proof -
    from r that have "Mint E mm s = (Inr u, t)" by simp
    then show ?thesis
    proof (cases rule: Mint_cases)
      case (1 to meta cs b1)
      then show ?thesis using mint_and_send [OF E 1(4-6)] by blast
    qed
  qed
  have burn: "\<exists>holder meta. AccAddressFromBech32 E (burnCreator bm) = Some holder \<and>
       GetTokenMetadata s (burnTokenId bm) = Inr meta \<and>
       minted E holder (tokenDenom (Symbol meta)) (- uint (burnAmount bm)) (ext s) (ext t)" if "m = TBurn bm"
  proof -
    from r that have "Burn E bm s = (Inr u, t)" by simp
    then show ?thesis
    proof (cases rule: Burn_cases)
      case (1 holder meta cs b1)
      then show ?thesis using send_and_burn [OF E 1(3-5)] by blast
    qed
  qed
  show ?thesis using kv mint burn by blast
qed

definition silverMint :: MsgMint where
  "silverMint = \<lparr>mintCreator = ''mallory'', mintTo = ''mallory'', mintAmount = 1000, mintTokenId = ''token_002''\<rparr>"

theorem mint_and_burn_keep_books_witness:
  "tokenKV (snd (runToken ref_sdk (TMint silverMint) minedState)) = tokenKV minedState"
proof -
  have r: "fst (runToken ref_sdk (TMint silverMint) minedState) = Inr ()" by code_simp
  show ?thesis
    using mint_and_burn_keep_books [OF ref_coin_laws ref_bank_laws runs [OF r], of silverMint undefined] by blast
qed


text \<open>
  An iteration over the range of a prefix visits exactly the keys that start with the
  prefix, in order.
\<close>

theorem prefix_scan_is_exact:
  "map fst (kvRange kv (fst (prefixRange p)) (snd (prefixRange p))) = filter (\<lambda>k. HasPrefix k p) (map fst kv)"
  unfolding kvRange_prefix by (induction kv) auto

definition allMetas :: "'b chain \<Rightarrow> (string \<times> kvval) list" where
  "allMetas s = filter (\<lambda>(k, _). HasPrefix k ''tm_'') (tokenKV s)"

lemma AllTokens_window:
  assumes "token_inv (tokenKV s)" "length (tokenKV s) < 2 ^ 64"
  shows "AllTokens E (Some page) s = Inr (map (tokenInfo E \<circ> metaOf \<circ> snd)
      (window (fst (pageOf page)) (snd (pageOf page)) (allMetas s)),
    restKey (pastWindow (fst (pageOf page)) (snd (pageOf page)) (allMetas s)))"
proof -
  obtain limit offset where pg: "pageOf page = (limit, offset)" by (cases "pageOf page")
  have "isMeta v" if "(k, v) \<in> set (tokenKV s)" "HasPrefix k ''tm_''" for k v
  proof -
    from that(2) obtain i where "k = metaKey i" by (auto simp: HasPrefix_iff prefix_def metaKey_def)
    with that(1) assms(1) have "kvGet (tokenKV s) (metaKey i) = Some v"
      by (simp add: token_inv_def kvGet_iff)
    with assms(1) show ?thesis by (fastforce simp: token_inv_def metas_ok_def isMeta_def)
  qed
  then have m: "\<forall>(k, v) \<in> set (allMetas s). HasPrefix k ''tm_'' \<and> isMeta v" by (auto simp: allMetas_def)
  have "length (allMetas s) < 2 ^ 64" unfolding allMetas_def by (rule le_less_trans [OF length_filter_le assms(2)])
  then have "allLoop E limit offset (allMetas s) 0 [] =
    Inr (map (tokenInfo E \<circ> metaOf \<circ> snd) (window limit offset (allMetas s)), restKey (pastWindow limit offset (allMetas s)))"
    by (subst allLoop_window [OF m]) simp_all
  then show ?thesis using kvRange_prefix [of "tokenKV s" "''tm_''"]
    by (simp add: AllTokens_def pg Let_def case_prod_unfold allMetas_def)
qed

text \<open>
  AllTokens returns the window that its page request names of the list of all stored tokens
  in key order.
\<close>

theorem all_tokens_pages:
  assumes "token_inv (tokenKV s)" "length (tokenKV s) < 2 ^ 64"
  shows "AllTokens E (Some page) s = Inr (map (tokenInfo E \<circ> metaOf \<circ> snd)
      (window (fst (pageOf page)) (snd (pageOf page)) (allMetas s)),
    restKey (pastWindow (fst (pageOf page)) (snd (pageOf page)) (allMetas s)))"
  by (rule AllTokens_window [OF assms])

theorem all_tokens_pages_witness:
  "\<exists>nk x. AllTokens ref_sdk (Some (Some \<lparr>prKey = [], prLimit = 1, prOffset = 1\<rparr>)) minedState = Inr ([x], nk)"
proof -
  let ?pg = "Some \<lparr>prKey = [], prLimit = 1, prOffset = 1\<rparr>"
  have "tokenKV tokenState = []" by (simp add: tokenState_def initChain_def)
  then have inv: "token_inv (tokenKV minedState)" unfolding minedState_def
    by (intro deliver_all_inv) (simp_all add: token_inv_Nil seqOf_def counterAt_def)
  have "length (tokenKV minedState) = 8" by code_simp
  then have l: "length (tokenKV minedState) < 2 ^ 64" by simp
  have "length (window (fst (pageOf ?pg)) (snd (pageOf ?pg)) (allMetas minedState)) = 1"
    by code_simp
  then obtain x where w: "window (fst (pageOf ?pg)) (snd (pageOf ?pg)) (allMetas minedState) = [x]"
    by (auto simp: length_Suc_conv)
  from all_tokens_pages [OF inv l, of ref_sdk ?pg] show ?thesis unfolding w by auto
qed

text \<open>
  ChargeAndSplitFee converts the USD amount, sends half of the micro units, rounded down,
  to the treasury and the other half to infrastructure.
\<close>

theorem split_fee_halves:
  assumes "dec_rounding E" "coin_laws E" "bank_laws E"
    and "ChargeAndSplitFee E (feesKeeper rate E) sender usd s = (Inr (), t)"
  shows "\<exists>csv pd s1 n b1. ConvertUSDToCSV rate E usd s = (Inr (csv, pd), s1) \<and> microUnits E csv = Inr n \<and> 0 \<le> n \<and>
    movedBy E sender (Some (GetModuleAddress E ''treasury'')) ''ucsv'' (n div 2) (ext s) b1 \<and>
    movedBy E sender (Some (GetModuleAddress E ''infrastructure'')) ''ucsv'' (n - n div 2) b1 (ext t)"
  by (rule fees.split_charge [OF assms(1-3) assms(4) [unfolded feesKeeper_def]])

definition payerState :: "ledger chain" where
  "payerState = (initChain (fund ''alice'' ''ucsv'' 5000000 emptyLedger))\<lparr>feesParams := Some DefaultParams\<rparr>"

theorem split_fee_halves_witness:
  "\<exists>csv pd s1. ConvertUSDToCSV (GetExchangeRate ref_sdk) ref_sdk (Some (3 * decOne)) payerState = (Inr (csv, pd), s1)"
proof -
  have r: "fst (ChargeAndSplitFee ref_sdk (feesKeeper (GetExchangeRate ref_sdk) ref_sdk) ''alice'' (Some (3 * decOne)) payerState) = Inr ()"
    by code_simp
  show ?thesis using split_fee_halves [OF ref_dec_rounding ref_coin_laws ref_bank_laws runs [OF r]] by blast
qed

end
