(* ===== verification/TokenPaging.thy ===== *)
theory TokenPaging
  imports TokenCorrect
begin

text \<open>
  Clients of the listing of tokens (\<open>x/token/keeper/query.go\<close>). A page names the key the next one
  starts at. A client that counts what it has seen and asks by offset comes to the end and has seen
  every token. A client that hands the key back, as the page request of the SDK has it, does not:
  \<open>AllTokens\<close> never looks at the key of a request. Both clients are loops that may not end, so they
  are \<open>partial_function\<close>s: one that does not end has no result.
\<close>

definition pageRequest :: "bytes \<Rightarrow> u64 \<Rightarrow> u64 \<Rightarrow> PageRequest option option" where
  "pageRequest key limit offset = Some (Some \<lparr>prKey = key, prLimit = limit, prOffset = offset\<rparr>)"

text \<open>The client that asks for what comes after all it has seen.\<close>

partial_function (option) followOffset :: "'b sdk \<Rightarrow> u64 \<Rightarrow> u64 \<Rightarrow> 'b chain \<Rightarrow> TokenInfo list res option" where
  "followOffset E limit offset s = (case AllTokens E (pageRequest [] limit offset) s of
     Inl e \<Rightarrow> Some (Inl e)
   | Inr (page, None) \<Rightarrow> Some (Inr page)
   | Inr (page, Some next_key) \<Rightarrow>
       Option.bind (followOffset E limit (offset + of_nat (length page)) s) (\<lambda>rest. Some (map_sum id ((@) page) rest)))"

text \<open>The client that hands back the key it was given.\<close>

partial_function (option) followKey :: "'b sdk \<Rightarrow> u64 \<Rightarrow> bytes \<Rightarrow> 'b chain \<Rightarrow> TokenInfo list res option" where
  "followKey E limit key s = (case AllTokens E (pageRequest key limit 0) s of
     Inl e \<Rightarrow> Some (Inl e)
   | Inr (page, None) \<Rightarrow> Some (Inr page)
   | Inr (page, Some next_key) \<Rightarrow> Option.bind (followKey E limit next_key s) (\<lambda>rest. Some (map_sum id ((@) page) rest)))"

definition allInfos :: "'b sdk \<Rightarrow> 'b chain \<Rightarrow> TokenInfo list" where
  "allInfos E s = map (tokenInfo E \<circ> metaOf \<circ> snd) (allMetas s)"

lemma AllTokens_page:
  assumes "token_inv (tokenKV s)" "length (tokenKV s) < 2 ^ 64" "limit \<noteq> 0"
  shows "AllTokens E (pageRequest key limit offset) s =
    Inr (take (unat limit) (drop (unat offset) (allInfos E s)),
      restKey (drop (unat limit) (drop (unat offset) (allMetas s))))"
  using AllTokens_window [OF assms(1,2), of E "Some \<lparr>prKey = key, prLimit = limit, prOffset = offset\<rparr>"] assms(3)
  by (simp add: pageRequest_def pageOf_def window_def pastWindow_def allInfos_def take_map drop_map)

lemma restKey_simps [simp]:
  "restKey [] = None" "restKey (p # it) = Some (fst p)"
  by (simp_all add: restKey_def split: prod.split)

lemma restKey_None [simp]: "restKey it = None \<longleftrightarrow> it = []"
  by (cases it) simp_all

lemma length_allInfos [simp]: "length (allInfos E s) = length (allMetas s)"
  by (simp add: allInfos_def)

lemma length_allMetas: "length (allMetas s) \<le> length (tokenKV s)"
  by (simp add: allMetas_def)

lemma followOffset_ends:
  assumes "token_inv (tokenKV s)" "length (tokenKV s) < 2 ^ 64" "limit \<noteq> 0"
  shows "followOffset E limit offset s = Some (Inr (drop (unat offset) (allInfos E s)))"
proof (induction "length (allMetas s) - unat offset" arbitrary: offset rule: less_induct)
  case less
  let ?page = "take (unat limit) (drop (unat offset) (allInfos E s))"
  have l: "0 < unat limit" using assms(3) by (simp add: unat_gt_0)
  have w: "of_nat (unat limit) = limit" by simp
  show ?case
  proof (cases "restKey (drop (unat limit) (drop (unat offset) (allMetas s)))")
    case None
    then have "length (allInfos E s) \<le> unat limit + unat offset" by simp
    then show ?thesis
      by (subst followOffset.simps) (simp add: AllTokens_page [OF assms] None)
  next
    case (Some k)
    then have "drop (unat limit) (drop (unat offset) (allMetas s)) \<noteq> []" by (metis option.distinct(1) restKey_None)
    then have more: "unat offset + unat limit < length (allMetas s)" by simp
    then have n: "length ?page = unat limit" by simp
    have "unat offset + unat limit < 2 ^ 64" using more length_allMetas [of s] assms(2) by simp
    then have u: "unat (offset + limit) = unat offset + unat limit"
      by (subst unat_add_lem [THEN iffD1]) simp_all
    then have IH: "followOffset E limit (offset + limit) s = Some (Inr (drop (unat limit) (drop (unat offset) (allInfos E s))))"
      using more l by (subst less) (simp_all add: add.commute)
    show ?thesis
      by (subst followOffset.simps) (simp only: AllTokens_page [OF assms] Some n w IH sum.case option.case prod.case,
        simp del: drop_drop)
  qed
qed

lemma followKey_result:
  assumes "followKey E limit key s = Some r" "token_inv (tokenKV s)" "length (tokenKV s) < 2 ^ 64" "limit \<noteq> 0"
  shows "length (allMetas s) \<le> unat limit"
  using assms(2-4)
proof (induction rule: followKey.raw_induct [OF _ assms(1), consumes 0, case_names step])
  case (step follow E limit key s r)
  show ?case
  proof (cases "drop (unat limit) (allMetas s)")
    case (Cons p rest)
    from step.hyps obtain r' where "follow E limit (fst p) s = Some r'"
      by (auto simp: AllTokens_page [OF step.prems] Cons Option.bind_eq_Some_conv)
    with step show ?thesis by blast
  qed simp
qed

text \<open>
  C27. A client that lists the tokens in pages, asking each time for what comes after all it has
  seen, makes finitely many requests and has then seen every stored token, in key order.
\<close>

theorem paging_by_offset_ends:
  assumes "token_inv (tokenKV s)" "length (tokenKV s) < 2 ^ 64" "limit \<noteq> 0"
  shows "followOffset E limit 0 s = Some (Inr (allInfos E s))"
  using followOffset_ends [OF assms, of E 0] by simp

lemma minedState_listing:
  "token_inv (tokenKV minedState)" "length (tokenKV minedState) < 2 ^ 64" "length (allMetas minedState) = 2"
proof -
  have "tokenKV tokenState = []" by (simp add: tokenState_def initChain_def)
  then show "token_inv (tokenKV minedState)" unfolding minedState_def
    by (intro deliver_all_inv) (simp_all add: token_inv_Nil seqOf_def counterAt_def)
  have "length (tokenKV minedState) = 8" by code_simp
  then show "length (tokenKV minedState) < 2 ^ 64" by simp
  show "length (allMetas minedState) = 2" by code_simp
qed

theorem paging_by_offset_ends_witness:
  "\<exists>x y. followOffset ref_sdk 1 0 minedState = Some (Inr [x, y])"
proof -
  have "length (allInfos ref_sdk minedState) = Suc (Suc 0)" by (simp add: minedState_listing(3))
  then obtain x y where "allInfos ref_sdk minedState = [x, y]" by (auto simp only: length_Suc_conv length_0_conv)
  with paging_by_offset_ends [OF minedState_listing(1,2), of 1 ref_sdk] show ?thesis by simp
qed

text \<open>
  C37. A client that hands back the next key of each page, as the page request of the SDK has
  it, never ends when the tokens do not fit on one page: AllTokens does not read the key and
  shows the first page again.
\<close>

theorem paging_by_key_never_ends:
  assumes "token_inv (tokenKV s)" "length (tokenKV s) < 2 ^ 64" "limit \<noteq> 0" "unat limit < length (allMetas s)"
  shows "followKey E limit key s = None"
  using followKey_result [OF _ assms(1-3), of E key] assms(4) by (cases "followKey E limit key s") force+

theorem paging_by_key_never_ends_witness: "followKey ref_sdk 1 [] minedState = None"
  by (rule paging_by_key_never_ends [OF minedState_listing(1,2)]) (simp_all add: minedState_listing(3))

end
