(* ===== verification/AppAnte.thy ===== *)
theory AppAnte
  imports FeeAnte RefSdk
begin

text \<open>
  The application's ante handler (\<open>app/ante.go\<close> and its composition with the fee handlers in
  \<open>app/app.go\<close>). The decorators of the SDK, of wasmd, of ibc-go and of the circuit module, the gas
  meters of the context and the signature methods of a transaction are fields of a record of
  parameters; the program's own decorators and the order of the chain are the model. The result of
  \<open>tx.(SigVerifiableTx)\<close> is \<^term>\<open>None\<close> when the transaction has no such methods.
\<close>

type_synonym 'b decorator = "ante_ctx \<Rightarrow> tx \<Rightarrow> bool \<Rightarrow> 'b ante \<Rightarrow> ('b chain, ante_ctx) act"

record sig_methods =
  GetSignaturesV2 :: "bytes list res"
  GetSigners :: "addr list res"

record 'b ante_env =
  ChainAnteDecorators :: "'b decorator list \<Rightarrow> 'b ante"
  SigMethods :: "tx \<Rightarrow> sig_methods option"
  GetSignerAcc :: "'b \<Rightarrow> addr \<Rightarrow> bool res"
  WithInfiniteGasMeter :: "'b \<Rightarrow> 'b"
  BlockGasMeterSet :: "'b \<Rightarrow> bool"
  WithInfiniteBlockGasMeter :: "'b \<Rightarrow> 'b"
  LimitSimulationGas :: "'b decorator"
  CountTX :: "'b decorator"
  GasRegister :: "'b decorator"
  TxContracts :: "'b decorator"
  CircuitBreaker :: "'b decorator"
  ExtensionOptions :: "'b decorator"
  ValidateBasicDec :: "'b decorator"
  TxTimeoutHeight :: "'b decorator"
  ValidateMemo :: "'b decorator"
  SetPubKey :: "'b decorator"
  ValidateSigCount :: "'b decorator"
  IncrementSequence :: "'b decorator"
  RedundantRelay :: "'b decorator"

section \<open>The program's decorators\<close>

definition ZeroGasSetupContext :: "'b ante_env \<Rightarrow> 'b decorator" where
  "ZeroGasSetupContext A ctx tx simulate next =
     bnd (modify (\<lambda>s. s\<lparr>ext := WithInfiniteGasMeter A (ext s)\<rparr>)) (\<lambda>_.
     bnd (modify (\<lambda>s. if BlockGasMeterSet A (ext s) then s\<lparr>ext := WithInfiniteBlockGasMeter A (ext s)\<rparr> else s)) (\<lambda>_.
     next ctx tx simulate))"

definition ZeroGasFee :: "'b decorator" where
  "ZeroGasFee ctx tx simulate next = next ctx tx simulate"

definition checkSigner :: "'b ante_env \<Rightarrow> bool \<Rightarrow> addr list \<Rightarrow> nat \<Rightarrow> ('b chain, unit) act" where
  "checkSigner A simulate signers i =
     (if length signers \<le> i then raise Panic
      else bnd (gets (\<lambda>s. GetSignerAcc A (ext s) (signers ! i))) (\<lambda>acc.
        bnd (lift acc) (\<lambda>hasKey.
        if \<not> simulate \<and> \<not> hasKey then raise (Wrap ''pubkey on account is not set'' (SdkErr ''ErrInvalidPubKey''))
        else return ())))"

definition ZeroGasSigVerification :: "'b ante_env \<Rightarrow> 'b decorator" where
  "ZeroGasSigVerification A ctx tx simulate next = (case SigMethods A tx of
     None \<Rightarrow> raise (Wrap ''invalid transaction type'' (SdkErr ''ErrTxDecode''))
   | Some sigTx \<Rightarrow>
       bnd (lift (GetSignaturesV2 sigTx)) (\<lambda>sigs.
       bnd (lift (GetSigners sigTx)) (\<lambda>signers.
       bnd (forA [0..<length sigs] (checkSigner A simulate signers)) (\<lambda>_.
       next ctx tx simulate))))"

section \<open>The chain\<close>

definition anteChain :: "'b ante_env \<Rightarrow> 'b decorator list" where
  "anteChain A =
     [ZeroGasSetupContext A,
      LimitSimulationGas A, CountTX A, GasRegister A, TxContracts A,
      CircuitBreaker A,
      ExtensionOptions A, ValidateBasicDec A, TxTimeoutHeight A, ValidateMemo A,
      ZeroGasFee, SetPubKey A, ValidateSigCount A, ZeroGasSigVerification A,
      IncrementSequence A,
      RedundantRelay A]"

definition NewAnteHandler :: "'b ante_env \<Rightarrow> bool \<Rightarrow> bool \<Rightarrow> bool \<Rightarrow> 'b ante res" where
  "NewAnteHandler A nodeConfig txCounterStore circuitKeeper =
     (if \<not> nodeConfig then Inl (Wrap ''wasm node config is required for ante builder'' (SdkErr ''ErrInvalidRequest''))
      else if \<not> txCounterStore then Inl (Wrap ''wasm store service is required for ante builder'' (SdkErr ''ErrInvalidRequest''))
      else if \<not> circuitKeeper then Inl (Wrap ''circuit keeper is required for ante builder'' (SdkErr ''ErrInvalidRequest''))
      else Inr (ChainAnteDecorators A (anteChain A)))"

text \<open>
  Setting up the wasm modules installs that chain, with everything it asks for
  (\<open>app/wasm.go\<close>); \<open>app.New\<close> then puts the fee check and the fee collection before it.
\<close>

definition setAnteHandler :: "'b ante_env \<Rightarrow> 'b ante res" where
  "setAnteHandler A = (case NewAnteHandler A True True True of
     Inl e \<Rightarrow> Inl (ErrMsg ''failed to create AnteHandler'')
   | Inr h \<Rightarrow> Inr h)"

lemma setAnteHandler_eq: "setAnteHandler A = Inr (ChainAnteDecorators A (anteChain A))"
  by (simp add: setAnteHandler_def NewAnteHandler_def)

definition customAnte :: "'b rate \<Rightarrow> 'b sdk \<Rightarrow> 'b ante \<Rightarrow> 'b ante" where
  "customAnte rate E baseAnte ctx tx simulate =
     FeeAnteHandle rate E ctx tx simulate (\<lambda>c t sim. DeductFeeHandle E c t sim baseAnte)"

section \<open>What the signature check checks\<close>

text \<open>The signers that go with a signature have an account with a public key.\<close>

definition signer_known :: "'b ante_env \<Rightarrow> 'b chain \<Rightarrow> addr \<Rightarrow> bool" where
  "signer_known A s a \<longleftrightarrow> GetSignerAcc A (ext s) a = Inr True"

definition signers_known :: "'b ante_env \<Rightarrow> 'b chain \<Rightarrow> 'c list \<Rightarrow> addr list \<Rightarrow> bool" where
  "signers_known A s sigs signers \<longleftrightarrow>
     length sigs \<le> length signers \<and> list_all (signer_known A s) (take (length sigs) signers)"

lemma checkSigner_eval:
  shows "snd (checkSigner A False signers i s) = s"
    and "fst (checkSigner A False signers i s) = Inr () \<longleftrightarrow> i < length signers \<and> signer_known A s (signers ! i)"
  by (cases "GetSignerAcc A (ext s) (signers ! i)"; auto simp: checkSigner_def signer_known_def act_simps bnd_def lift_def)+

lemma forA_checkSigner:
  "\<exists>r. forA js (checkSigner A False signers) s = (r, s) \<and>
     (r = Inr () \<longleftrightarrow> list_all (\<lambda>i. i < length signers \<and> signer_known A s (signers ! i)) js)"
proof (induction js)
  case Nil
  then show ?case by (simp add: act_simps)
next
  case (Cons i js)
  obtain r where r: "checkSigner A False signers i s = (r, s)"
    "r = Inr () \<longleftrightarrow> i < length signers \<and> signer_known A s (signers ! i)"
    using checkSigner_eval [where A = A and signers = signers and i = i and s = s] by (metis prod.collapse)
  with Cons.IH show ?case by (cases r) (auto simp: andThen_def bnd_def)
qed

lemma all_signers_known:
  "list_all (\<lambda>i. i < length signers \<and> signer_known A s (signers ! i)) [0..<length sigs] \<longleftrightarrow> signers_known A s sigs signers"
  by (auto simp: signers_known_def list_all_length) (meson leI less_irrefl)

text \<open>
  C8. The signature check of the application passes a transaction on to the next handler for any
  signature bytes whatever: it only asks that the signers that go with the signatures have an
  account with a public key, and fails without a change otherwise.
\<close>

theorem signatures_are_not_verified:
  assumes "SigMethods A tx = Some \<lparr>GetSignaturesV2 = Inr sigs, GetSigners = Inr signers\<rparr>"
  shows "if signers_known A s sigs signers
    then ZeroGasSigVerification A ctx tx False next s = next ctx tx False s
    else (\<exists>e. ZeroGasSigVerification A ctx tx False next s = (Inl e, s))"
proof -
  from forA_checkSigner [of "[0..<length sigs]" A signers s] obtain r where
    "forA [0..<length sigs] (checkSigner A False signers) s = (r, s)" "r = Inr () \<longleftrightarrow> signers_known A s sigs signers"
    by (auto simp: all_signers_known)
  with assms show ?thesis
    by (cases r) (auto simp: ZeroGasSigVerification_def act_simps bnd_def lift_def)
qed


text \<open>A signature of no bytes at all, on a transaction of an account that is on the chain.\<close>

definition passEnv :: "ledger ante_env" where
  "passEnv = (let pass = (\<lambda>ctx tx simulate next. next ctx tx simulate) in
     \<lparr>ChainAnteDecorators = (\<lambda>ds. foldr (\<lambda>d n ctx tx simulate. d ctx tx simulate n) ds (\<lambda>ctx tx simulate. return ctx)),
      SigMethods = (\<lambda>tx. Some \<lparr>GetSignaturesV2 = Inr [[]], GetSigners = Inr [txFeePayer tx]\<rparr>),
      GetSignerAcc = (\<lambda>l a. if a \<in> set (accounts l) then Inr (a \<in> set (keyed l)) else Inl (SdkErr ''ErrUnknownAddress'')),
      WithInfiniteGasMeter = (\<lambda>l. l), BlockGasMeterSet = (\<lambda>l. False), WithInfiniteBlockGasMeter = (\<lambda>l. l),
      LimitSimulationGas = pass, CountTX = pass, GasRegister = pass, TxContracts = pass, CircuitBreaker = pass,
      ExtensionOptions = pass, ValidateBasicDec = pass, TxTimeoutHeight = pass, ValidateMemo = pass, SetPubKey = pass,
      ValidateSigCount = pass, IncrementSequence = pass, RedundantRelay = pass\<rparr>)"

definition victimState :: "ledger chain" where
  "victimState = initChain (emptyLedger\<lparr>accounts := [''alice''], keyed := [''alice'']\<rparr>)"

definition forgedTx :: tx where
  "forgedTx = \<lparr>isFeeTx = True, txMsgs = [MsgSend], txMemo = None, txFee = [], txGas = 0, txFeePayer = ''alice'',
     txFeeGranter = None\<rparr>"

theorem signatures_are_not_verified_witness:
  "\<forall>ctx next. ZeroGasSigVerification passEnv ctx forgedTx False next victimState = next ctx forgedTx False victimState"
proof (intro allI)
  fix ctx and "next" :: "ledger ante"
  have m: "SigMethods passEnv forgedTx = Some \<lparr>GetSignaturesV2 = Inr [[]], GetSigners = Inr [''alice'']\<rparr>"
    by (simp add: passEnv_def Let_def forgedTx_def)
  have "signers_known passEnv victimState [[] :: bytes] [''alice'']"
    by (simp add: signers_known_def signer_known_def passEnv_def Let_def victimState_def initChain_def emptyLedger_def)
  with signatures_are_not_verified [OF m, of victimState ctx "next"]
  show "ZeroGasSigVerification passEnv ctx forgedTx False next victimState = next ctx forgedTx False victimState"
    by simp
qed

end
