(* ===== verification/FeesCorrect.thy ===== *)
theory FeesCorrect
  imports ChargeFee
begin

text \<open>
  The properties of the fees module: what a distribution pays, what the fee check lets through,
  the guard rails, charging by message, and the parameters. Each has a witness on the reference
  environment.
\<close>

section \<open>States to evaluate on\<close>

definition feeState :: "ledger chain" where
  "feeState = (initChain (fund ''alice'' ''ucsv'' 5000000 emptyLedger))\<lparr>feesParams := Some DefaultParams\<rparr>"

definition poolState :: "ledger chain" where
  "poolState = (initChain (fund (refMod ''fees'') ''ucsv'' 5000000 emptyLedger))\<lparr>feesParams := Some DefaultParams\<rparr>"

definition ucsv :: "int \<Rightarrow> coin" where
  "ucsv n = \<lparr>Denom = ''ucsv'', Amount = n\<rparr>"

lemma ucsv_simps [simp]: "Denom (ucsv n) = ''ucsv''" "Amount (ucsv n) = n"
  by (simp_all add: ucsv_def)

lemma feeState_params [simp]: "feesParams feeState = Some DefaultParams"
  and poolState_params [simp]: "feesParams poolState = Some DefaultParams"
  by (simp_all add: feeState_def poolState_def)

lemma default_table [simp]: "FeeTableUsd DefaultParams = DefaultFeeTable"
  by (simp add: DefaultParams_def)

section \<open>Distribution\<close>

text \<open>
  C1. When DistributeFee succeeds on an entry whose shares are non-negative and add up to one,
  it implements its specification exactly: the sender lost the sum of the shares, the treasury
  module and each resolved recipient got its share rounded down (a share without recipient went
  to the treasury), and no other balance and no supply changed.
\<close>

theorem DistributeFee_exact:
  assumes "dec_rounding E" "coin_laws E" "bank_laws E"
    and "feesParams s = Some p" "split_ok (Split (feeTypeConfig (FeeTableUsd p) feeType))" "0 \<le> Amount c"
    and "DistributeFee E sender feeType c md s = (Inr (), t)"
  shows "paid E sender (Denom c) (resolveRecipients E p md)
      (promised (Split (feeTypeConfig (FeeTableUsd p) feeType)) (resolveRecipients E p md) (Amount c)) (ext s) (ext t)"
  by (rule DistributeFee_paid [OF assms])

theorem DistributeFee_exact_witness:
  "paid ref_sdk ''alice'' ''ucsv'' (resolveRecipients ref_sdk DefaultParams Map.empty)
     (promised (Split (feeTypeConfig DefaultFeeTable ''pos_payment'')) (resolveRecipients ref_sdk DefaultParams Map.empty) 1001)
     (ext feeState) (ext (snd (DistributeFee ref_sdk ''alice'' ''pos_payment'' (ucsv 1001) Map.empty feeState)))"
proof -
  have r: "fst (DistributeFee ref_sdk ''alice'' ''pos_payment'' (ucsv 1001) Map.empty feeState) = Inr ()"
    by code_simp
  have sp: "split_ok (Split (feeTypeConfig (FeeTableUsd DefaultParams) ''pos_payment''))" by code_simp
  show ?thesis
    using DistributeFee_exact [OF ref_dec_rounding ref_coin_laws ref_bank_laws feeState_params sp _ runs [OF r]]
    by simp
qed

text \<open>
  C5. When DistributeFeeFromModule succeeds on an entry whose shares are non-negative and add up
  to one, the module account lost the sum of the shares, the treasury and each resolved
  recipient got its share rounded down, and no other balance and no supply changed.
\<close>

theorem DistributeFeeFromModule_exact:
  assumes "dec_rounding E" "coin_laws E" "bank_laws E"
    and "feesParams s = Some p" "split_ok (Split (moduleFeeTypeConfig (FeeTableUsd p) feeType))" "0 \<le> Amount c"
    and "DistributeFeeFromModule E m feeType c md s = (Inr (), t)"
  shows "paid E (GetModuleAddress E m) (Denom c) (resolveRecipients E p md)
      (promised (Split (moduleFeeTypeConfig (FeeTableUsd p) feeType)) (resolveRecipients E p md) (Amount c)) (ext s) (ext t)"
  by (rule DistributeFeeFromModule_paid [OF assms])

theorem DistributeFeeFromModule_exact_witness:
  "paid ref_sdk (refMod ''fees'') ''ucsv'' (resolveRecipients ref_sdk DefaultParams Map.empty)
     (promised (Split (moduleFeeTypeConfig DefaultFeeTable ''token_interaction'')) (resolveRecipients ref_sdk DefaultParams Map.empty) 1001)
     (ext poolState) (ext (snd (DistributeFeeFromModule ref_sdk ''fees'' ''token_interaction'' (ucsv 1001) Map.empty poolState)))"
proof -
  have r: "fst (DistributeFeeFromModule ref_sdk ''fees'' ''token_interaction'' (ucsv 1001) Map.empty poolState) = Inr ()"
    by code_simp
  have sp: "split_ok (Split (moduleFeeTypeConfig (FeeTableUsd DefaultParams) ''token_interaction''))" by code_simp
  have m: "GetModuleAddress ref_sdk ''fees'' = refMod ''fees''" by (simp add: ref_sdk_def)
  show ?thesis
    using DistributeFeeFromModule_exact [OF ref_dec_rounding ref_coin_laws ref_bank_laws poolState_params sp _ runs [OF r]]
    by (simp add: m)
qed

text \<open>Rounding four shares down loses at most three units.\<close>

theorem shares_lose_at_most_three:
  assumes "dec_rounding E" "split_ok sp" "0 \<le> amount" "splitShares E sp amount = Inr sh"
  shows "0 \<le> toTreasury sh \<and> 0 \<le> toRetail sh \<and> 0 \<le> toDev sh \<and> 0 \<le> toCreator sh \<and>
    amount - 3 \<le> sharesTotal (remapShares rc sh) \<and> sharesTotal (remapShares rc sh) \<le> amount"
  using promised_total [OF assms(2), where amount = amount and rc = rc]
  by (simp add: splitShares_promised(1) [OF assms] split_shares_nonneg [OF assms])

theorem shares_lose_at_most_three_witness:
  "1001 - 3 \<le> sharesTotal (remapShares \<lparr>retailAddr = None, devAddr = None, creatorAddr = None\<rparr>
     \<lparr>toTreasury = 500, toRetail = 500, toDev = 0, toCreator = 0\<rparr>)"
proof -
  have sp: "split_ok (Split (PosPayment DefaultFeeTable))" by code_simp
  have r: "splitShares ref_sdk (Split (PosPayment DefaultFeeTable)) 1001 =
      Inr \<lparr>toTreasury = 500, toRetail = 500, toDev = 0, toCreator = 0\<rparr>" by code_simp
  show ?thesis using shares_lose_at_most_three [OF ref_dec_rounding sp _ r] by simp
qed



section \<open>The fee check\<close>

definition memoOf :: "tx \<Rightarrow> string" where
  "memoOf tx = (case txMemo tx of None \<Rightarrow> [] | Some m \<Rightarrow> m)"

text \<open>\<open>fee_due\<close>: the fee a transaction must offer for its estimate, within the tolerance.\<close>

definition fee_due :: "'b sdk \<Rightarrow> FeesParams \<Rightarrow> tx \<Rightarrow> FeeEstimate \<Rightarrow> bool" where
  "fee_due E p tx est \<longleftrightarrow>
     (if IsFree est then CoinsIsZero E (txFee tx) \<and> txGas tx \<le> getMaxGasForFreeCategory (Category est) (GuardRails p)
      else CSVAmount est = 0 \<or>
        (let due = dueUnits (CSVAmount est) in
         \<bar>AmountOf E (txFee tx) ''ucsv'' - due\<bar> \<le> truncDiv (decWithPrec 5 2 * due) decOne))"

lemma FeeAnte_charged:
  assumes E: "dec_rounding E" "coin_laws E" and p: "feesParams s = Some p" "\<not> IsGasOnly p"
    and r: "FeeAnteHandle rate E ctx tx False nxt s = (Inr ctx', t)"
    and c: "classifyTransaction E (Some p) (expandMessages 4 (txMsgs tx)) (memoOf tx) \<noteq> CategorySystem"
  obtains est s1 md s2 where "EstimateFee rate E (txMsgs tx) (memoOf tx) (txGas tx) s = (Inr est, s1)" "fee_due E p tx est"
    "emitFeeChargedEvent est (txFee tx) md s1 = (Inr (), s2)"
    "nxt (ctx\<lparr>ctxEstimate := Some est, ctxMetadata := Some md\<rparr>) tx False s2 = (Inr ctx', t)"
  using r p(1)
proof (cases rule: FeeAnteHandle_cases)
  case (system est s1)
  from system(1,3) c p(1) have False
    by (cases rule: EstimateFee_cases) (auto simp: zeroEstimate_def memoOf_def)
  then show thesis ..
next
  case (charged est md s1 s2)
  have v: "ValidateFeeAgainstEstimate E (txFee tx) est ''ucsv'' (decWithPrec 5 2) = Inr ()"
    using charged(2,3) p(2) by (auto simp: checkFee_def Let_def rwrap_Inr_iff split: if_splits)
  have "fee_due E p tx est"
  proof (cases "IsFree est \<or> CSVAmount est = 0")
    case True
    then show ?thesis using v charged(4)
      by (auto simp: fee_due_def ValidateFeeAgainstEstimate_def rbind_Inr_iff split: if_splits)
  next
    case False
    from v obtain ex where ex: "BuildFeeFromEstimate E est ''ucsv'' = Inr ex"
      by (auto simp: ValidateFeeAgainstEstimate_def rbind_Inr_iff)
    have a: "AmountOf E ex ''ucsv'' = dueUnits (CSVAmount est)" using False by (intro BuildFee_due [OF E ex]) auto
    have "\<bar>AmountOf E (txFee tx) ''ucsv'' - AmountOf E ex ''ucsv''\<bar> \<le> truncDiv (decWithPrec 5 2 * AmountOf E ex ''ucsv'') decOne"
      using False dueUnits_nonzero by (intro ValidateFee_charged [OF v _ ex _ E(1)]) (simp_all add: a)
    then show ?thesis using False by (simp add: fee_due_def a Let_def)
  qed
  with charged(1,5,6) show thesis by (intro that) (simp_all add: memoOf_def)
qed


definition passThrough :: "'b ante" where
  "passThrough ctx tx simulate = return ctx"

definition noCtx :: ante_ctx where
  "noCtx = \<lparr>ctxEstimate = None, ctxMetadata = None\<rparr>"

definition sendTx :: tx where
  "sendTx = \<lparr>isFeeTx = True, txMsgs = [MsgExec [Some MsgSend]], txMemo = Some ''rent'', txFee = [ucsv 2040000],
     txGas = 2000000, txFeePayer = ''alice'', txFeeGranter = None\<rparr>"


text \<open>
  C23. For transactions nested at most four levels deep, a transaction is classified as a system
  transaction exactly when its memo names no category, unwrapping leaves at least one message,
  and every message unwrapped from authz MsgExec is a system message.
\<close>

theorem system_transactions:
  assumes "list_all (\<lambda>m. execDepth m \<le> 4) msgs"
  shows "classifyTransaction E params (expandMessages 4 msgs) memo = CategorySystem \<longleftrightarrow>
    memoCategory memo = None \<and> concat (map leaves msgs) \<noteq> [] \<and>
    list_all (isSystemMsg E params) (concat (map leaves msgs))"
  unfolding expandMessages_leaves [OF assms] by (rule classify_system_iff)

theorem system_transactions_witness:
  "classifyTransaction ref_sdk (Some DefaultParams)
     (expandMessages 4 [MsgExec [Some (OtherMsg ''/ibc.core.channel.v1.MsgRecvPacket'')]]) ''relay'' = CategorySystem"
proof -
  have d: "list_all (\<lambda>m. execDepth m \<le> 4) [MsgExec [Some (OtherMsg ''/ibc.core.channel.v1.MsgRecvPacket'')]]"
    by code_simp
  show ?thesis unfolding system_transactions [OF d] by code_simp
qed

text \<open>A transaction with an ICS-20 transfer is never a system transaction.\<close>

theorem transfer_is_never_system:
  assumes "MsgTypeURL E m = ''/ibc.applications.transfer.v1.MsgTransfer''" "m \<in> set msgs"
  shows "classifyTransaction E params msgs memo \<noteq> CategorySystem"
  using assms by (auto simp: classify_system_iff list_all_iff isSystemMsg_def Let_def)

theorem transfer_is_never_system_witness:
  "classifyTransaction ref_sdk None
     [OtherMsg ''/ibc.core.client.v1.MsgUpdateClient'', OtherMsg ''/ibc.applications.transfer.v1.MsgTransfer''] []
   \<noteq> CategorySystem"
  by (rule transfer_is_never_system [of ref_sdk "OtherMsg ''/ibc.applications.transfer.v1.MsgTransfer''"])
     (simp_all add: ref_sdk_def)

section \<open>Guard rails\<close>

text \<open>
  C24. For gas below 2^63 the guard rails return an amount whose price per gas is the incoming
  price cut to the configured range, and an amount already in range is returned unchanged.
\<close>

theorem guard_rails_clamp_gas_price:
  assumes "dec_laws E" "0 < gas" "uint gas < 2 ^ 63"
    and "MinGasPriceCsv r = Some mn" "MaxGasPriceCsv r = Some mx" "mn \<le> mx"
    and "\<bar>mn\<bar> < 2 ^ 190" "\<bar>mx\<bar> < 2 ^ 190" "\<bar>csv\<bar> < 2 ^ 256"
  shows "\<exists>out. applyGuardRails E csv gas r = Inr out \<and>
    truncDiv out (uint gas) = clamp mn mx (truncDiv csv (uint gas)) \<and>
    (mn \<le> truncDiv csv (uint gas) \<and> truncDiv csv (uint gas) \<le> mx \<longrightarrow> out = csv)"
proof -
  have "0 < uint gas" using assms(2) by (auto simp: word_less_def)
  with assms(6) show ?thesis unfolding applyGuardRails_clamp [OF assms]
    by (auto simp: clamp_def truncDiv_mult)
qed

theorem guard_rails_clamp_gas_price_witness:
  "\<exists>out. applyGuardRails ref_sdk 5 2000000 (GuardRails DefaultParams) = Inr out \<and>
    truncDiv out (uint (2000000 :: u64)) = clamp (10 ^ 12) (10 ^ 18) (truncDiv 5 (uint (2000000 :: u64)))"
proof -
  have g: "(0 :: u64) < 2000000" "uint (2000000 :: u64) < 2 ^ 63" by simp_all
  have r: "MinGasPriceCsv (GuardRails DefaultParams) = Some (10 ^ 12)"
    "MaxGasPriceCsv (GuardRails DefaultParams) = Some (10 ^ 18)"
    by (simp_all add: DefaultParams_def decWithPrec_def decFromInt_def decOne_def)
  show ?thesis using guard_rails_clamp_gas_price [OF ref_dec_laws g r, of 5] by auto
qed

text \<open>
  For a gas limit of 2^63 or more the conversion to int64 wraps and the guard rails return
  a negative amount instead of the maximum or minimum price.
\<close>

theorem huge_gas_makes_the_fee_negative:
  assumes "dec_laws E" "2 ^ 63 \<le> uint gas"
    and "MinGasPriceCsv r = Some mn" "MaxGasPriceCsv r = Some mx" "0 < mn" "mn \<le> mx" "mx < 2 ^ 190"
    and "0 \<le> csv" "csv < 2 ^ 256"
  shows "applyGuardRails E csv gas r = Inr (mn * (uint gas - 2 ^ 64)) \<and> mn * (uint gas - 2 ^ 64) < 0"
proof
  have g: "uint gas < 2 ^ 64" using uint_lt2p [of gas] by simp
  have i: "int64 gas = uint gas - 2 ^ 64" by (rule int64_big [OF assms(2)])
  have neg: "int64 gas < 0" using i g by simp
  then show "mn * (uint gas - 2 ^ 64) < 0" unfolding i [symmetric] using assms(5) by (simp add: mult_pos_neg)
  have t: "truncDiv csv (int64 gas) \<le> 0"
    using neg assms(8) by (auto simp: truncDiv_def sgn_if pos_imp_zdiv_nonneg_iff)
  have q: "dQuoInt E csv (int64 gas) = Some (truncDiv csv (int64 gas))"
    using neg assms(8,9) by (intro dQuoInt_ok [OF assms(1)]) simp_all
  have "\<bar>mn * int64 gas\<bar> = mn * (2 ^ 64 - uint gas)" using neg assms(5) i by (simp add: abs_mult)
  also have "\<dots> \<le> 2 ^ 190 * 2 ^ 63" using assms(2,5,6,7) g by (intro mult_mono) simp_all
  also have "\<dots> < 2 ^ 256" by simp
  finally have m: "dMulInt E mn (int64 gas) = Some (mn * int64 gas)" by (intro dMulInt_ok [OF assms(1)])
  have "gas \<noteq> 0" using assms(2) by auto
  with t assms(3-6) show "applyGuardRails E csv gas r = Inr (mn * (uint gas - 2 ^ 64))"
    by (simp add: applyGuardRails_def q m) (simp add: i)
qed

theorem huge_gas_makes_the_fee_negative_witness:
  "applyGuardRails ref_sdk (10 ^ 18) (2 ^ 63) (GuardRails DefaultParams) = Inr (- (10 ^ 12 * 2 ^ 63))"
proof -
  have r: "MinGasPriceCsv (GuardRails DefaultParams) = Some (10 ^ 12)"
    "MaxGasPriceCsv (GuardRails DefaultParams) = Some (10 ^ 18)"
    by (simp_all add: DefaultParams_def decWithPrec_def decFromInt_def decOne_def)
  have g: "uint ((2 :: u64) ^ 63) = 2 ^ 63" by simp
  show ?thesis using huge_gas_makes_the_fee_negative [OF ref_dec_laws _ r, of "2 ^ 63" "10 ^ 18"] g by simp
qed

section \<open>Charging by message\<close>

definition chargeMeta :: "MsgChargeFee \<Rightarrow> (string \<rightharpoonup> json)" where
  "chargeMeta msg = (if cfMetadata msg \<noteq> [] then decodeMap (cfMetadata msg) else Map.empty)"


definition posCharge :: MsgChargeFee where
  "posCharge = \<lparr>cfCreator = ''alice'', cfCategory = ''pos_payment'', cfAmount = [],
     cfMetadata = ''{'' @ [CHR 0x22] @ ''retail_address'' @ [CHR 0x22] @ '':'' @ [CHR 0x22] @ ''shop'' @ [CHR 0x22] @ ''}''\<rparr>"


section \<open>Collection\<close>

text \<open>
  The fee of a transaction that names a fee granter is taken from the granter and not from
  the payer, without any look at a grant.
\<close>

theorem granter_pays_without_consent:
  assumes E: "coin_laws E" "bank_laws E"
    and t: "txFeeGranter tx = Some granter" "granter \<noteq> GetModuleAddress E ''fees''"
    and r: "deductFees E tx fee s = (Inr (), t)"
  shows "GetBalance E (ext t) granter d = GetBalance E (ext s) granter d - AmountOf E fee d \<and>
    (txFeePayer tx \<noteq> granter \<and> txFeePayer tx \<noteq> GetModuleAddress E ''fees'' \<longrightarrow>
       GetBalance E (ext t) (txFeePayer tx) d = GetBalance E (ext s) (txFeePayer tx) d)"
proof -
  from r t have "SendCoinsFromAccountToModule E (ext s) granter ''fees'' fee = (None, ext t)"
    by (auto simp: deductFees_def Let_def act_splits split: if_splits)
  from SendToModule_moves [OF E(2) this] t(2) show ?thesis by (auto simp: moves_def)
qed

definition grantedTx :: tx where
  "grantedTx = sendTx\<lparr>txFeePayer := ''mallory'', txFeeGranter := Some ''alice''\<rparr>"

theorem granter_pays_without_consent_witness:
  "GetBalance ref_sdk (ext (snd (deductFees ref_sdk grantedTx [ucsv 2040000] feeState))) ''alice'' ''ucsv'' =
   GetBalance ref_sdk (ext feeState) ''alice'' ''ucsv'' - AmountOf ref_sdk [ucsv 2040000] ''ucsv''"
proof -
  have r: "fst (deductFees ref_sdk grantedTx [ucsv 2040000] feeState) = Inr ()" by code_simp
  have g: "txFeeGranter grantedTx = Some ''alice''" "''alice'' \<noteq> GetModuleAddress ref_sdk ''fees''"
    by (simp_all add: grantedTx_def ref_sdk_def refMod_def)
  show ?thesis using granter_pays_without_consent [OF ref_coin_laws ref_bank_laws g runs [OF r]] by blast
qed

text \<open>
  Collection end to end: \<open>DeductFeeHandle\<close> on a fee of one coin, between the state the fee check
  leaves and the next handler.
\<close>

definition ctxType :: "ante_ctx \<Rightarrow> string" where
  "ctxType ctx = (case ctxEstimate ctx of None \<Rightarrow> ''native_transfer'' | Some est \<Rightarrow> Category est)"

text \<open>
  What the collection of a fee \<open>c\<close> under the entry \<open>feeType\<close> does to the balances: the payer loses the
  whole fee, the treasury and the resolved recipients hold their shares, and the rest of at most
  three units stays with the fees module.
\<close>

definition collects :: "'b sdk \<Rightarrow> FeesParams \<Rightarrow> string \<Rightarrow> addr \<Rightarrow> coin \<Rightarrow> 'b \<Rightarrow> 'b \<Rightarrow> bool" where
  "collects E p feeType payer c b b' \<longleftrightarrow>
    (let rc = resolveRecipients E p Map.empty;
         sh = promised (Split (moduleFeeTypeConfig (FeeTableUsd p) feeType)) rc (Amount c)
     in Amount c - 3 \<le> sharesTotal sh \<and> sharesTotal sh \<le> Amount c \<and>
      (\<forall>a d. GetBalance E b' a d = GetBalance E b a d + (if d = Denom c then
        creditOf (GetModuleAddress E ''treasury'') rc sh a
        + (if a = GetModuleAddress E ''fees'' then Amount c - sharesTotal sh else 0)
        - (if a = payer then Amount c else 0) else 0)))"

lemma DeductFee_collects:
  assumes E: "dec_rounding E" "coin_laws E" "bank_laws E"
    and p: "feesParams s = Some p" "split_ok (Split (moduleFeeTypeConfig (FeeTableUsd p) (ctxType ctx)))"
    and f: "txFee tx = [c]" "0 < Amount c" "txFeeGranter tx = None"
    and r: "DeductFeeHandle E ctx tx False nxt s = (Inr ctx', t)"
  shows "\<exists>u. nxt ctx tx False u = (Inr ctx', t) \<and> feesParams u = Some p \<and>
    collects E p (ctxType ctx) (txFeePayer tx) c (ext s) (ext u)"
proof -
  have nz: "\<not> CoinsIsZero E [c]" using f(2) by (simp add: CoinsIsZero_eq [OF E(2)])
  from r f nz obtain s1 u where
    d: "deductFees E tx [c] s = (Inr (), s1)" and
    ds: "DistributeFeeFromModule E ''fees'' (ctxType ctx) c Map.empty s1 = (Inr (), u)" and
    n: "nxt ctx tx False u = (Inr ctx', t)"
    by (auto simp: DeductFeeHandle_def act_splits distributeFees_def Let_def ctxType_def split: if_splits)
  from d f(3) have "SendCoinsFromAccountToModule E (ext s) (txFeePayer tx) ''fees'' [c] = (None, ext s1)"
    by (auto simp: deductFees_def Let_def act_splits split: if_splits)
  note m = SendToModule_moves [OF E(3) this]
  have p1: "feesParams s1 = Some p" using keepsD [OF keeps_deductFees, OF _ d, where f = feesParams] p(1) by simp
  have p2: "feesParams u = Some p" using keepsD [OF keeps_DistributeFeeFromModule, OF _ ds, where f = feesParams] p1 by simp
  let ?rc = "resolveRecipients E p Map.empty"
  let ?sh = "promised (Split (moduleFeeTypeConfig (FeeTableUsd p) (ctxType ctx))) ?rc (Amount c)"
  have "paid E (GetModuleAddress E ''fees'') (Denom c) ?rc ?sh (ext s1) (ext u)"
    using f(2) by (intro DistributeFeeFromModule_paid [OF E p1 p(2) _ ds]) simp
  with m have "\<forall>a d. GetBalance E (ext u) a d = GetBalance E (ext s) a d + (if d = Denom c then
        creditOf (GetModuleAddress E ''treasury'') ?rc ?sh a
        + (if a = GetModuleAddress E ''fees'' then Amount c - sharesTotal ?sh else 0)
        - (if a = txFeePayer tx then Amount c else 0) else 0)"
    by (simp add: paid_def moves_def AmountOf_one [OF E(2)])
  with n p2 promised_total [OF p(2)] show ?thesis unfolding collects_def Let_def by blast
qed

text \<open>The categories the classifier gives to POS, wizard and mixed transactions are no entries of the distribution, which falls back to the native split.\<close>

theorem pos_fee_uses_native_split:
  assumes "dec_rounding E" "coin_laws E" "bank_laws E"
    and "feesParams s = Some p" "split_ok (Split (NativeTransfer (FeeTableUsd p)))" "0 \<le> Amount c"
    and e: "ctxEstimate ctx = Some est" "Category est \<in> {CategoryPOS, CategoryWizard, CategoryMixed}"
    and r: "distributeFees E ctx [c] s = (Inr (), t)"
  shows "paid E (GetModuleAddress E ''fees'') (Denom c) (resolveRecipients E p Map.empty)
    (promised (Split (NativeTransfer (FeeTableUsd p))) (resolveRecipients E p Map.empty) (Amount c)) (ext s) (ext t)"
proof -
  have ty: "moduleFeeTypeConfig (FeeTableUsd p) (Category est) = NativeTransfer (FeeTableUsd p)"
    using e(2) by (auto simp: moduleFeeTypeConfig_def category_defs)
  have "DistributeFeeFromModule E ''fees'' (Category est) c Map.empty s = (Inr (), t)"
    using r e(1) by (auto simp: distributeFees_def Let_def act_splits)
  from DistributeFeeFromModule_paid [OF assms(1-4) _ assms(6) this] assms(5) show ?thesis by (simp add: ty)
qed

definition posCtx :: ante_ctx where
  "posCtx = noCtx\<lparr>ctxEstimate := Some (zeroEstimate CategoryPOS 1)\<rparr>"

theorem pos_fee_uses_native_split_witness:
  "paid ref_sdk (GetModuleAddress ref_sdk ''fees'') ''ucsv'' (resolveRecipients ref_sdk DefaultParams Map.empty)
    (promised (Split (NativeTransfer DefaultFeeTable)) (resolveRecipients ref_sdk DefaultParams Map.empty) 150000)
    (ext poolState) (ext (snd (distributeFees ref_sdk posCtx [ucsv 150000] poolState)))"
proof -
  have r: "fst (distributeFees ref_sdk posCtx [ucsv 150000] poolState) = Inr ()" by code_simp
  have sp: "split_ok (Split (NativeTransfer (FeeTableUsd DefaultParams)))" by code_simp
  have e: "ctxEstimate posCtx = Some (zeroEstimate CategoryPOS 1)"
    "Category (zeroEstimate CategoryPOS 1) \<in> {CategoryPOS, CategoryWizard, CategoryMixed}"
    by (simp_all add: posCtx_def zeroEstimate_def)
  show ?thesis
    using pos_fee_uses_native_split [OF ref_dec_rounding ref_coin_laws ref_bank_laws poolState_params sp _ e runs [OF r]] by simp
qed

section \<open>Parameters\<close>

definition params_ok :: "FeesParams \<Rightarrow> bool" where
  "params_ok p \<longleftrightarrow> (\<forall>c \<in> set (feeConfigs (FeeTableUsd p)). config_ok c) \<and>
     (\<exists>mn mx. MinGasPriceCsv (GuardRails p) = Some mn \<and> MaxGasPriceCsv (GuardRails p) = Some mx \<and> 0 \<le> mn \<and> mn \<le> mx) \<and>
     0 < MaxGasWizard (GuardRails p) \<and> 0 < MaxGasDeploy (GuardRails p) \<and>
     FeeMode p \<in> {'''', ''table'', ''hybrid'', ''gas_only''} \<and>
     set (filter (\<lambda>s. s \<noteq> []) (SystemMsgTypeUrls p)) \<inter> set (ExemptMsgTypeUrls p) = {}"

lemma feesValidate_ok: "feesValidate p = Inr () \<Longrightarrow> looksEmpty p = Inr False \<Longrightarrow> params_ok p"
  by (auto simp: feesValidate_def params_ok_def rbind_Inr_iff validateFeeTableUSD_def validateConfigs_ok
      validateOracleParams_def validateGuardRails_def validateMinGasPolicy_def validateHybridFields_def
      checkSystemUrls_ok checkExemptUrls_ok Let_def word_neq_0_conv split: if_splits)

text \<open>
  Whatever sequence of parameter updates is tried, changed parameters are ones that the
  authority sent, as the store encodes them, and they meet the range conditions unless they look
  like the empty value.
\<close>

theorem params_change_only_by_authority:
  assumes "feesParams (runUpdates (feesUpdateParams E authority) us s) \<noteq> feesParams s"
  shows "\<exists>(signer, p) \<in> set us. StringToBytes E signer = Some authority \<and>
    feesParams (runUpdates (feesUpdateParams E authority) us s) = Some (wireParams E p) \<and>
    (looksEmpty p = Inr False \<longrightarrow> params_ok p)"
  using feesGov.history [of E authority us s] assms feesValidate_ok by fastforce

theorem params_change_only_by_authority_witness:
  "\<exists>(signer, p) \<in> {(''eve'', NewParams), (''gov'', DefaultParams)}. StringToBytes ref_sdk signer = Some ''gov'' \<and>
    feesParams (runUpdates (feesUpdateParams ref_sdk ''gov'') [(''eve'', NewParams), (''gov'', DefaultParams)]
      (initChain emptyLedger)) = Some (wireParams ref_sdk p) \<and> (looksEmpty p = Inr False \<longrightarrow> params_ok p)"
proof -
  have "feesParams (runUpdates (feesUpdateParams ref_sdk ''gov'') [(''eve'', NewParams), (''gov'', DefaultParams)]
      (initChain emptyLedger)) \<noteq> feesParams (initChain emptyLedger)"
    by code_simp
  from params_change_only_by_authority [OF this] show ?thesis by simp
qed

text \<open>The default parameters are valid.\<close>

theorem defaults_are_valid:
  "feesValidate DefaultParams = Inr () \<and>
   list_all (\<lambda>c. UsdAmount c = Some 0 \<or> split_ok (Split c)) (feeConfigs (FeeTableUsd DefaultParams))"
  by code_simp

definition negativeShare :: FeesParams where
  "negativeShare = DefaultParams\<lparr>FeeTableUsd := DefaultFeeTable
     \<lparr>NativeTransfer := config_of decOne (split_of (2 * decOne) (- decOne) 0 0)\<rparr>\<rparr>"

text \<open>Validation accepts a split with a negative share.\<close>

theorem validation_admits_negative_share:
  "feesValidate negativeShare = Inr () \<and>
   fst (DistributeFee ref_sdk ''alice'' ''native_transfer'' (ucsv 100) Map.empty
     (feeState\<lparr>feesParams := Some negativeShare\<rparr>)) = Inl Panic"
  by code_simp

end
