(* ===== verification/AppFees.thy ===== *)
theory AppFees
  imports AppAnte FeesCorrect
begin

text \<open>
  Fees through the whole ante chain of the application: the fee check, the collection and the handler
  that was installed before them, composed as \<open>app.New\<close> composes them.
\<close>

text \<open>The category the fee check gives a transaction.\<close>

definition categoryOf :: "'b sdk \<Rightarrow> FeesParams \<Rightarrow> tx \<Rightarrow> string" where
  "categoryOf E p tx = classifyTransaction E (Some p) (expandMessages 4 (txMsgs tx)) (memoOf tx)"

lemma estimate_category:
  assumes "EstimateFee rate E (txMsgs tx) (memoOf tx) gas s = (Inr est, t)" "feesParams s = Some p"
  shows "Category est = categoryOf E p tx"
  using assms(1) by (cases rule: EstimateFee_cases) (simp_all add: categoryOf_def assms(2) zeroEstimate_def)



end
