(* ===== verification/Base64.thy ===== *)
theory Base64
  imports Json
begin

text \<open>
  Go's \<open>base64.StdEncoding\<close> and \<open>encoding/hex\<close> as the interchain modules use them, with the round
  trip of the first. Decoding skips carriage returns and newlines and ignores the unused bits of a
  padded group, as the library does.
\<close>

definition b64Char :: "nat \<Rightarrow> char" where
  "b64Char n = (if n < 26 then byteOf (65 + n) else if n < 52 then byteOf (71 + n)
     else if n < 62 then byteOf (n - 4) else if n = 62 then CHR ''+'' else CHR ''/'')"

definition b64Val :: "char \<Rightarrow> nat option" where
  "b64Val c = (let v = byteVal c in
     if 65 \<le> v \<and> v \<le> 90 then Some (v - 65)
     else if 97 \<le> v \<and> v \<le> 122 then Some (v - 71)
     else if 48 \<le> v \<and> v \<le> 57 then Some (v + 4)
     else if c = CHR ''+'' then Some 62 else if c = CHR ''/'' then Some 63 else None)"

fun b64Encode :: "bytes \<Rightarrow> string" where
  "b64Encode [] = []"
| "b64Encode [a] = (let x = byteVal a in
     [b64Char (x div 4), b64Char (x mod 4 * 16), CHR ''='', CHR ''=''])"
| "b64Encode [a, b] = (let x = byteVal a; y = byteVal b in
     [b64Char (x div 4), b64Char (x mod 4 * 16 + y div 16), b64Char (y mod 16 * 4), CHR ''=''])"
| "b64Encode (a # b # c # r) = (let x = byteVal a; y = byteVal b; z = byteVal c in
     b64Char (x div 4) # b64Char (x mod 4 * 16 + y div 16) # b64Char (y mod 16 * 4 + z div 64) #
     b64Char (z mod 64) # b64Encode r)"

fun b64Groups :: "string \<Rightarrow> bytes option" where
  "b64Groups [] = Some []"
| "b64Groups (w # x # y # z # r) = (case (b64Val w, b64Val x) of
     (Some p, Some q) \<Rightarrow>
       if z = CHR ''='' \<and> r = [] then
         (if y = CHR ''='' then Some [byteOf (p * 4 + q div 16)]
          else map_option (\<lambda>u. [byteOf (p * 4 + q div 16), byteOf (q mod 16 * 16 + u div 4)]) (b64Val y))
       else (case (b64Val y, b64Val z, b64Groups r) of
         (Some u, Some v, Some bs) \<Rightarrow>
           Some (byteOf (p * 4 + q div 16) # byteOf (q mod 16 * 16 + u div 4) # byteOf (u mod 4 * 64 + v) # bs)
       | _ \<Rightarrow> None)
   | _ \<Rightarrow> None)"
| "b64Groups _ = None"

definition b64Decode :: "string \<Rightarrow> bytes option" where
  "b64Decode s = b64Groups (filter (\<lambda>c. c \<noteq> CHR 0x0A \<and> c \<noteq> CHR 0x0D) s)"

definition hexDigit :: "nat \<Rightarrow> char" where
  "hexDigit n = ''0123456789abcdef'' ! n"

definition hexEncode :: "bytes \<Rightarrow> string" where
  "hexEncode s = concat (map (\<lambda>c. [hexDigit (byteVal c div 16), hexDigit (byteVal c mod 16)]) s)"

section \<open>Round trip\<close>

lemma byteVal_lt: "byteVal c < 256"
  by (simp add: byteVal_def)

lemma byteOf_byteVal [simp]: "byteOf (byteVal c) = c"
  by (simp add: byteOf_def byteVal_def)

lemma byteVal_byteOf: "n < 256 \<Longrightarrow> byteVal (byteOf n) = n"
  by (simp add: byteVal_def byteOf_def)

lemma b64Val_literals:
  "b64Val CHR ''+'' = Some 62" "b64Val CHR ''/'' = Some 63" "b64Val CHR ''='' = None"
  "b64Val CHR 0x0A = None" "b64Val CHR 0x0D = None"
  by (simp_all add: b64Val_def byteVal_def)

lemma b64Val_b64Char:
  assumes "n < 64"
  shows "b64Val (b64Char n) = Some n"
proof -
  consider "n < 26" | "26 \<le> n" "n < 52" | "52 \<le> n" "n < 62" | "n = 62" | "n = 63"
    using assms by linarith
  then show ?thesis
  proof cases
    case 3
    then have "48 \<le> n - 4 \<and> n - 4 \<le> 57" by linarith
    with 3 show ?thesis by (simp add: b64Char_def b64Val_def byteVal_byteOf Let_def)
  qed (simp_all add: b64Char_def b64Val_literals, simp_all add: b64Val_def byteVal_byteOf Let_def)
qed

lemma b64Char_plain: "n < 64 \<Longrightarrow> b64Char n \<noteq> CHR ''='' \<and> b64Char n \<noteq> CHR 0x0A \<and> b64Char n \<noteq> CHR 0x0D"
  using b64Val_b64Char [of n] b64Val_literals by auto

lemma byte_parts:
  "byteVal c div 4 < 64" "byteVal c div 16 < 16" "byteVal c div 64 < 4"
  using byteVal_lt [of c] by simp_all

lemma sextets:
  "byteVal a mod 4 * 16 + byteVal b div 16 < 64" "byteVal a mod 16 * 4 + byteVal b div 64 < 64"
  "byteVal a mod 4 * 16 < 64" "byteVal a mod 16 * 4 < 64" "byteVal a mod 64 < 64"
proof -
  have "byteVal a mod 4 \<le> 3" "byteVal a mod 16 \<le> 15"
    using mod_less_divisor [of 4 "byteVal a"] mod_less_divisor [of 16 "byteVal a"] by linarith+
  with byte_parts(2,3) [of b] show "byteVal a mod 4 * 16 + byteVal b div 16 < 64"
    "byteVal a mod 16 * 4 + byteVal b div 64 < 64" "byteVal a mod 4 * 16 < 64" "byteVal a mod 16 * 4 < 64"
    by linarith+
qed simp

lemmas b64_plain = b64Char_plain [OF byte_parts(1)] b64Char_plain [OF sextets(1)] b64Char_plain [OF sextets(2)]
  b64Char_plain [OF sextets(3)] b64Char_plain [OF sextets(4)] b64Char_plain [OF sextets(5)]

lemmas b64_vals = b64Val_b64Char [OF byte_parts(1)] b64Val_b64Char [OF sextets(1)] b64Val_b64Char [OF sextets(2)]
  b64Val_b64Char [OF sextets(3)] b64Val_b64Char [OF sextets(4)] b64Val_b64Char [OF sextets(5)]

lemma b64Groups_encode: "b64Groups (b64Encode s) = Some s"
  by (induction s rule: b64Encode.induct) (simp_all add: Let_def b64_vals b64_plain byte_parts)

lemma b64Encode_no_breaks: "list_all (\<lambda>c. c \<noteq> CHR 0x0A \<and> c \<noteq> CHR 0x0D) (b64Encode s)"
  by (induction s rule: b64Encode.induct) (simp_all add: Let_def b64_plain)

lemma b64Decode_encode [simp]: "b64Decode (b64Encode s) = Some s"
proof -
  have "filter (\<lambda>c. c \<noteq> CHR 0x0A \<and> c \<noteq> CHR 0x0D) (b64Encode s) = b64Encode s"
    using b64Encode_no_breaks [of s] by (intro filter_True) (simp add: list_all_iff)
  then show ?thesis by (simp add: b64Decode_def b64Groups_encode)
qed

end
