(* ===== verification/Ibc.thy ===== *)
theory Ibc
  imports Oracle Base64
begin

text \<open>
  What the interchain modules call beside the channel keeper, as a second record of parameters: the
  decoding of an acknowledgement, the protobuf and JSON codecs of the packets, the port validator
  and the capability keeper, whose state is part of \<^typ>\<open>'b\<close>; with a concrete instance for the
  witnesses. \<open>AckNone\<close> is an acknowledgement with neither a result nor an error.
\<close>

datatype ackResponse = AckNone | AckResult bytes | AckError string

record OracleRequestPacketData =
  orqOracleScriptId :: u64
  orqCalldata :: string
  orqSymbols :: string
  orqAskCount :: u64
  orqMinCount :: u64
  orqFeeLimit :: string
  orqPrepareGas :: u64
  orqExecuteGas :: u64
  orqClientId :: string

record OracleResponsePacketData =
  orpRequestId :: u64
  orpPrices :: string
  orpRates :: string
  orpError :: string

datatype feedPacket =
    RequestPacket OracleRequestPacketData
  | ResponsePacket OracleResponsePacketData
  | NoDataPacket

record 'b ibc =
  AckJSON :: "bytes \<Rightarrow> ackResponse option"
  AckCodec :: "bytes \<Rightarrow> ackResponse option"
  SerializeQuery :: "string \<Rightarrow> bytes \<Rightarrow> bytes option"
  DeserializeResponse :: "bytes \<Rightarrow> bytes list option"
  icqUnmarshal :: "bytes \<Rightarrow> bool"
  feedMarshal :: "feedPacket \<Rightarrow> bytes option"
  feedUnmarshal :: "bytes \<Rightarrow> feedPacket option"
  packetAckJSON :: "bytes option"
  packetAckOk :: "bytes \<Rightarrow> bool"
  PortIdentifierOk :: "string \<Rightarrow> bool"
  HasCapability :: "'b \<Rightarrow> string \<Rightarrow> bool"
  NewCapability :: "'b \<Rightarrow> string \<Rightarrow> go_error option \<times> 'b"

text \<open>A packet that was marshalled is read back.\<close>

definition feed_codec :: "'b ibc \<Rightarrow> bool" where
  "feed_codec I \<longleftrightarrow> (\<forall>p b. feedMarshal I p = Some b \<longrightarrow> feedUnmarshal I b = Some p)"

text \<open>A call of another keeper that returns a value.\<close>

definition externV :: "('b \<Rightarrow> 'a res \<times> 'b) \<Rightarrow> ('b chain, 'a) act" where
  "externV f s = (case f (ext s) of (r, b) \<Rightarrow> (r, s\<lparr>ext := b\<rparr>))"

text \<open>
  The keepers reach the channel keeper through \<open>ibcKeeperFn\<close>, a function they are constructed with;
  when it is nil, calling it panics.
\<close>

definition viaIBC :: "'b sdk \<Rightarrow> ('b chain, 'a) act \<Rightarrow> ('b chain, 'a) act" where
  "viaIBC E m = (if ibcKeeperFn E then m else raise Panic)"

lemma viaIBC_Inr_iff [act_splits]: "viaIBC E m s = (Inr y, t) \<longleftrightarrow> ibcKeeperFn E \<and> m s = (Inr y, t)"
  by (simp add: viaIBC_def raise_def)

lemma viaIBC_simps [act_simps]:
  "ibcKeeperFn E \<Longrightarrow> viaIBC E m = m"
  "\<not> ibcKeeperFn E \<Longrightarrow> viaIBC E m = raise Panic"
  by (simp_all add: viaIBC_def)

lemma keeps_viaIBC [keeps_intros]: "keeps f m \<Longrightarrow> keeps f (viaIBC E m)"
  by (simp add: viaIBC_def keeps_basic)

lemma externV_Inr_iff [act_splits]:
  "externV f s = (Inr y, t) \<longleftrightarrow> (\<exists>b. f (ext s) = (Inr y, b) \<and> t = s\<lparr>ext := b\<rparr>)"
  by (auto simp: externV_def split: prod.splits)

lemma keeps_externV [keeps_intros]: "(\<And>s b. g (s\<lparr>ext := b\<rparr>) = g s) \<Longrightarrow> keeps g (externV f)"
  by (auto simp: keeps_def externV_def split: prod.splits)

section \<open>A concrete instance\<close>

text \<open>Packets are coded as tagged text; the tag and the length of each field come first.\<close>

definition putField :: "string \<Rightarrow> string" where
  "putField s = replicate (length s) CHR ''x'' @ ''.'' @ s"

definition getField :: "string \<Rightarrow> string \<times> string" where
  "getField s = (let n = length (takeWhile (\<lambda>c. c = CHR ''x'') s); r = drop (n + 1) s in (take n r, drop n r))"

lemma takeWhile_replicate: "y \<noteq> x \<Longrightarrow> takeWhile (\<lambda>c. c = x) (replicate n x @ y # r) = replicate n x"
  by (induction n) simp_all

lemma getField_putField [simp]: "getField (putField s @ r) = (s, r)"
  by (simp add: getField_def putField_def takeWhile_replicate Let_def)

definition refMarshal :: "feedPacket \<Rightarrow> bytes option" where
  "refMarshal p = Some (case p of
     NoDataPacket \<Rightarrow> ''N''
   | ResponsePacket d \<Rightarrow> ''P'' @ putField (fmtNat (unat (orpRequestId d))) @ putField (orpPrices d) @
       putField (orpRates d) @ putField (orpError d)
   | RequestPacket d \<Rightarrow> ''Q'' @ putField (fmtNat (unat (orqOracleScriptId d))) @ putField (orqCalldata d) @
       putField (orqSymbols d) @ putField (fmtNat (unat (orqAskCount d))) @ putField (fmtNat (unat (orqMinCount d))) @
       putField (orqFeeLimit d) @ putField (fmtNat (unat (orqPrepareGas d))) @
       putField (fmtNat (unat (orqExecuteGas d))) @ putField (orqClientId d))"

definition readU64 :: "string \<Rightarrow> u64" where
  "readU64 s = of_nat (readNat s)"

lemma readU64_fmtNat [simp]: "readU64 (fmtNat (unat w)) = w"
  by (simp add: readU64_def)

definition refUnmarshal :: "bytes \<Rightarrow> feedPacket option" where
  "refUnmarshal b = (case b of
     [] \<Rightarrow> None
   | c # r \<Rightarrow>
      if c = CHR ''N'' then Some NoDataPacket
      else if c = CHR ''P'' then
        (let (a1, r1) = getField r; (a2, r2) = getField r1; (a3, r3) = getField r2; (a4, r4) = getField r3
         in Some (ResponsePacket \<lparr>orpRequestId = readU64 a1, orpPrices = a2, orpRates = a3, orpError = a4\<rparr>))
      else if c = CHR ''Q'' then
        (let (a1, r1) = getField r; (a2, r2) = getField r1; (a3, r3) = getField r2; (a4, r4) = getField r3;
             (a5, r5) = getField r4; (a6, r6) = getField r5; (a7, r7) = getField r6; (a8, r8) = getField r7;
             (a9, r9) = getField r8
         in Some (RequestPacket \<lparr>orqOracleScriptId = readU64 a1, orqCalldata = a2, orqSymbols = a3,
              orqAskCount = readU64 a4, orqMinCount = readU64 a5, orqFeeLimit = a6, orqPrepareGas = readU64 a7,
              orqExecuteGas = readU64 a8, orqClientId = a9\<rparr>))
      else None)"

lemma getField_last [simp]: "getField (putField s) = (s, [])"
  using getField_putField [of s "[]"] by simp

lemma ref_codec: "refMarshal p = Some b \<Longrightarrow> refUnmarshal b = Some p"
  by (cases p) (auto simp: refMarshal_def refUnmarshal_def)

definition ref_ibc :: "ledger ibc" where
  "ref_ibc = \<lparr>
     AckJSON = (\<lambda>b. if take 1 b = ''R'' then Some (AckResult (drop 1 b)) else if take 1 b = ''E'' then Some (AckError (drop 1 b)) else None),
     AckCodec = (\<lambda>b. if take 1 b = ''R'' then Some (AckResult (drop 1 b)) else if take 1 b = ''E'' then Some (AckError (drop 1 b)) else None),
     SerializeQuery = (\<lambda>p d. Some (putField p @ putField d)),
     DeserializeResponse = (\<lambda>b. if b = [] then Some [] else Some [b]),
     icqUnmarshal = (\<lambda>b. b = []),
     feedMarshal = refMarshal,
     feedUnmarshal = refUnmarshal,
     packetAckJSON = Some ''{}'',
     packetAckOk = (\<lambda>b. b = ''{}''),
     PortIdentifierOk = (\<lambda>p. 2 \<le> length p),
     HasCapability = (\<lambda>l c. False),
     NewCapability = (\<lambda>l c. (None, l))\<rparr>"

lemma ref_feed_codec: "feed_codec ref_ibc"
  by (simp add: feed_codec_def ref_ibc_def ref_codec)

end
