(* ===== verification/IcqController.thy ===== *)
theory IcqController
  imports Ibc
begin

text \<open>
  The interchain query controller (\<open>x/icqcontroller\<close>): the active channel of a connection, the table
  of queries in flight, sending a query, handling its acknowledgement or timeout, the channel
  handshake, parameters and genesis; and the adapter \<open>x/osmosisicq/module\<close> puts around it. A consumer
  of results is \<open>types.KVResultConsumer\<close>, \<^term>\<open>None\<close> while it is nil. How a value is extracted
  from an acknowledgement depends on the build; both builds are modelled and the handler takes
  the extractor as its argument.
\<close>

type_synonym 'b kv_consumer = "string \<Rightarrow> bytes \<Rightarrow> bytes \<Rightarrow> ('b chain, unit) act"

section \<open>Tables\<close>

definition icqNewKeeper :: "'b sdk \<Rightarrow> addr \<Rightarrow> unit res" where
  "icqNewKeeper E authority = requireAuthority E authority"

definition SetActiveChannel :: "string \<Rightarrow> string \<Rightarrow> ('b chain, unit) act" where
  "SetActiveChannel connectionID channelID =
     modify (\<lambda>s. s\<lparr>icqActive := (icqActive s)(connectionID \<mapsto> channelID)\<rparr>)"

definition RemoveActiveChannel :: "string \<Rightarrow> ('b chain, unit) act" where
  "RemoveActiveChannel connectionID = modify (\<lambda>s. s\<lparr>icqActive := (icqActive s)(connectionID := None)\<rparr>)"

definition GetChannelForConnection :: "'b chain \<Rightarrow> string \<Rightarrow> string \<times> bool" where
  "GetChannelForConnection s connectionID = (case icqActive s connectionID of
     None \<Rightarrow> ([], False) | Some ch \<Rightarrow> (ch, True))"

definition pendingKey :: "string \<Rightarrow> u64 \<Rightarrow> string" where
  "pendingKey channelID sequence = channelID @ ''/'' @ fmtNat (unat sequence)"

definition SetPending :: "string \<Rightarrow> u64 \<Rightarrow> string \<Rightarrow> bytes \<Rightarrow> string \<Rightarrow> ('b chain, unit) act" where
  "SetPending channelID sequence store key connectionID =
     modify (\<lambda>s. s\<lparr>icqPending := (icqPending s)(pendingKey channelID sequence \<mapsto>
       \<lparr>pvStore = store, pvKeyB64 = b64Encode key, pvConnection = connectionID\<rparr>)\<rparr>)"

definition GetPending :: "'b chain \<Rightarrow> string \<Rightarrow> u64 \<Rightarrow> string \<times> bytes \<times> string \<times> bool" where
  "GetPending s channelID sequence = (case icqPending s (pendingKey channelID sequence) of
     None \<Rightarrow> ([], [], [], False)
   | Some pv \<Rightarrow> (case b64Decode (pvKeyB64 pv) of
       None \<Rightarrow> (pvStore pv, [], pvConnection pv, True)
     | Some kb \<Rightarrow> (pvStore pv, kb, pvConnection pv, True)))"

definition RemovePending :: "string \<Rightarrow> u64 \<Rightarrow> ('b chain, unit) act" where
  "RemovePending channelID sequence =
     modify (\<lambda>s. s\<lparr>icqPending := (icqPending s)(pendingKey channelID sequence := None)\<rparr>)"

section \<open>Sending a query\<close>

text \<open>The JSON of \<open>InterchainQueryPacketData\<close>.\<close>

definition packetBytes :: "bytes \<Rightarrow> bytes" where
  "packetBytes d = ''{'' @ [CHR 0x22] @ ''data'' @ [CHR 0x22] @ '':'' @ [CHR 0x22] @ b64Encode d @ [CHR 0x22] @ ''}''"

definition queryTimeout :: "'b chain \<Rightarrow> u64" where
  "queryTimeout s = of_int (blockTime s + 2 * (60 * 10 ^ 9))"

definition icqSourcePort :: "'b chain \<Rightarrow> string" where
  "icqSourcePort s = (case icqPort s of None \<Rightarrow> ''icqcontroller'' | Some p \<Rightarrow> if p = [] then ''icqcontroller'' else p)"

definition SendKVQuery :: "'b sdk \<Rightarrow> 'b ibc \<Rightarrow> string \<Rightarrow> string \<Rightarrow> bytes \<Rightarrow> ('b chain, string) act" where
  "SendKVQuery E I connectionID store key =
     bnd (gets icqSourcePort) (\<lambda>portID.
     bnd (gets (\<lambda>s. GetChannelForConnection s connectionID)) (\<lambda>(channelID, ok).
     if \<not> ok \<or> channelID = [] then raise (ErrMsg (''no active ICQ channel for connection '' @ connectionID))
     else
       bnd (lift (ofOption (LibErr ''json.Marshal'') (SerializeQuery I (''/store/'' @ store @ ''/key'') key))) (\<lambda>bz.
       bnd (gets queryTimeout) (\<lambda>timeoutTimestamp.
       viaIBC E
      (bnd (gets (\<lambda>s. GetNextSequenceSend E (ext s) portID channelID)) (\<lambda>seqOpt.
       bnd (lift (ofOption (ErrMsg (''cannot get next sequence for '' @ portID @ ''/'' @ channelID)) seqOpt)) (\<lambda>nextSeq.
       bnd (SetPending channelID nextSeq store key connectionID) (\<lambda>_.
       catchA (externV (\<lambda>b. SendPacket E b portID channelID timeoutTimestamp (packetBytes bz)))
         (\<lambda>e. bnd (RemovePending channelID nextSeq) (\<lambda>_. raise e))
         (\<lambda>n. return (portID @ ''/'' @ channelID @ ''#'' @ fmtNat (unat n)))))))))))"

text \<open>The client \<open>x/osmosisicq\<close> gets: the adapter around the controller, \<^term>\<open>False\<close> when there is none.\<close>

definition icqRegisterKVQuery :: "'b sdk \<Rightarrow> 'b ibc \<Rightarrow> bool \<Rightarrow> string \<Rightarrow> string \<Rightarrow> bytes \<Rightarrow> ('b chain, string) act" where
  "icqRegisterKVQuery E I wired connectionID store key =
     (if \<not> wired then raise (Reg ''osmosisicq'' 1101)
      else
        bnd (gets (\<lambda>s. snd (GetChannelForConnection s connectionID))) (\<lambda>ok.
        if \<not> ok then
          bnd (emit ''icq_register_intent''
            [(''connection_id'', AStr connectionID), (''store'', AStr store),
             (''key_len'', AInt (int (length key))), (''note'', AStr ''no_active_channel'')]) (\<lambda>_.
          raise (Reg ''osmosisicq'' 1101))
        else SendKVQuery E I connectionID store key))"

section \<open>Acknowledgements and timeouts\<close>

text \<open>The extractor of the default build, and the one under the tag \<open>icq_async\<close>.\<close>

definition extractValueStub :: "bytes \<Rightarrow> bytes res" where
  "extractValueStub acknowledgement = Inr []"

fun jsonByte :: "json \<Rightarrow> char option" where
  "jsonByte JNull = Some (byteOf 0)"
| "jsonByte (JNum n) = (case parseInt64 n of
     Some v \<Rightarrow> if 0 \<le> v \<and> v < 256 then Some (byteOf (nat v)) else None
   | None \<Rightarrow> None)"
| "jsonByte j = None"

fun decodeBytesField :: "bytes \<Rightarrow> json list \<Rightarrow> bytes option" where
  "decodeBytesField cur [] = Some cur"
| "decodeBytesField cur (JNull # js) = decodeBytesField [] js"
| "decodeBytesField cur (JStr s # js) = (case b64Decode s of None \<Rightarrow> None | Some b \<Rightarrow> decodeBytesField b js)"
| "decodeBytesField cur (JArr xs # js) =
     (if list_all (\<lambda>x. jsonByte x \<noteq> None) xs then decodeBytesField (map (\<lambda>x. the (jsonByte x)) xs) js else None)"
| "decodeBytesField cur (j # js) = None"

definition unmarshalPacketAck :: "bytes \<Rightarrow> bytes option" where
  "unmarshalPacketAck b = (case parseJson b of
     Some JNull \<Rightarrow> Some []
   | Some (JObj ms) \<Rightarrow> decodeBytesField [] (membersOf ''data'' ms)
   | _ \<Rightarrow> None)"

definition DeserializeCosmosResponse :: "'b ibc \<Rightarrow> bytes \<Rightarrow> bytes list res" where
  "DeserializeCosmosResponse I bz =
     (if bz = [] then Inr [] else ofOption (LibErr ''json.Unmarshal'') (DeserializeResponse I bz))"

definition firstValue :: "bytes list \<Rightarrow> bytes" where
  "firstValue resps = (case find (\<lambda>v. v \<noteq> []) resps of None \<Rightarrow> [] | Some v \<Rightarrow> v)"

definition extractValueAsync :: "'b ibc \<Rightarrow> bytes \<Rightarrow> bytes res" where
  "extractValueAsync I acknowledgement = (case AckJSON I acknowledgement of
     None \<Rightarrow> Inl (LibErr ''json.Unmarshal'')
   | Some (AckResult result) \<Rightarrow>
       rbind (ofOption (LibErr ''json.Unmarshal'') (unmarshalPacketAck result)) (\<lambda>inner.
       rbind (DeserializeCosmosResponse I inner) (\<lambda>resps.
       Inr (firstValue resps)))
   | Some _ \<Rightarrow> Inr [])"

definition ackOutcome :: "'b ibc \<Rightarrow> bytes \<Rightarrow> bool \<times> string" where
  "ackOutcome I acknowledgement = (case AckJSON I acknowledgement of
     None \<Rightarrow> (False, [])
   | Some (AckResult _) \<Rightarrow> (True, [])
   | Some (AckError e) \<Rightarrow> (False, e)
   | Some AckNone \<Rightarrow> (False, []))"

definition ackAttrs :: "string \<Rightarrow> string \<Rightarrow> u64 \<Rightarrow> string \<Rightarrow> string \<Rightarrow> bytes \<Rightarrow> (string \<times> attr) list" where
  "ackAttrs portID channelID sequence connectionID store key =
     [(''port'', AStr portID), (''channel'', AStr channelID), (''sequence'', AInt (uint sequence)),
      (''connection'', AStr connectionID), (''store'', AStr store), (''key_b64'', AStr (b64Encode key))]"

definition deliver ::
  "'b ibc \<Rightarrow> (bytes \<Rightarrow> bytes res) \<Rightarrow> 'b kv_consumer option \<Rightarrow> string \<Rightarrow> bytes \<Rightarrow> (string \<times> attr) list \<Rightarrow> bytes \<Rightarrow> ('b chain, unit) act" where
  "deliver I extract consumer store key attrs acknowledgement =
     (let (ackSuccess, ackErrStr) = ackOutcome I acknowledgement in
      case consumer of
        None \<Rightarrow>
          if ackSuccess then emit ''icq_ack_success'' attrs
          else emit ''icq_ack_error'' (attrs @ [(''error'', AStr ackErrStr)])
      | Some onKVResult \<Rightarrow>
          (case extract acknowledgement of
             Inl e \<Rightarrow> if e = Panic then raise Panic else
               bnd (emit ''icq_ack_error'' (attrs @ [(''error'', AStr ackErrStr)])) (\<lambda>_. raise e)
           | Inr val \<Rightarrow>
               if val = [] then
                 emit (if ackSuccess then ''icq_ack_success'' else ''icq_ack_error'')
                   (attrs @ [(''error'', AStr ackErrStr)])
               else
                 bnd (emit ''icq_ack_success'' (attrs @ [(''value_len'', AInt (int (length val)))])) (\<lambda>_.
                 onKVResult store key val)))"

text \<open>\<open>defer\<close>: the cleanup runs whatever the body returns.\<close>

definition deferA :: "('s, unit) act \<Rightarrow> ('s, 'a) act \<Rightarrow> ('s, 'a) act" where
  "deferA cleanup m s = (case m s of (r, s') \<Rightarrow> (r, snd (cleanup s')))"

definition HandlePacketAcknowledgement ::
  "'b ibc \<Rightarrow> (bytes \<Rightarrow> bytes res) \<Rightarrow> 'b kv_consumer option \<Rightarrow> string \<Rightarrow> string \<Rightarrow> u64 \<Rightarrow> bytes \<Rightarrow> ('b chain, unit) act" where
  "HandlePacketAcknowledgement I extract consumer portID channelID sequence acknowledgement =
     bnd (gets (\<lambda>s. GetPending s channelID sequence)) (\<lambda>(store, key, connectionID, ok).
     if \<not> ok then return ()
     else deferA (RemovePending channelID sequence)
       (deliver I extract consumer store key
         (ackAttrs portID channelID sequence connectionID store key) acknowledgement))"

definition HandlePacketTimeout :: "string \<Rightarrow> string \<Rightarrow> u64 \<Rightarrow> ('b chain, unit) act" where
  "HandlePacketTimeout portID channelID sequence =
     bnd (gets (\<lambda>s. GetPending s channelID sequence)) (\<lambda>(store, key, connectionID, _).
     bnd (RemovePending channelID sequence) (\<lambda>_.
     emit ''icq_timeout'' (ackAttrs portID channelID sequence connectionID store key)))"

section \<open>IBC callbacks\<close>

definition icqVersion :: string where
  "icqVersion = ''icq-1''"

definition recordChannel :: "string list \<Rightarrow> string \<Rightarrow> ('b chain, unit) act" where
  "recordChannel connectionHops channelID = (case connectionHops of
     [] \<Rightarrow> return () | connectionID # _ \<Rightarrow> SetActiveChannel connectionID channelID)"

definition icqOnChanOpenInit :: "string list \<Rightarrow> string \<Rightarrow> string \<Rightarrow> ('b chain, string) act" where
  "icqOnChanOpenInit connectionHops channelID version =
     (if version \<noteq> icqVersion then raise (Wrap ''got version'' (Reg ''icqcontroller'' 1501))
      else bnd (recordChannel connectionHops channelID) (\<lambda>_. return version))"

definition icqOnChanOpenTry :: "string list \<Rightarrow> string \<Rightarrow> string \<Rightarrow> ('b chain, string) act" where
  "icqOnChanOpenTry connectionHops channelID counterpartyVersion =
     (if counterpartyVersion \<noteq> icqVersion then raise (Wrap ''invalid counterparty version'' (Reg ''icqcontroller'' 1501))
      else bnd (recordChannel connectionHops channelID) (\<lambda>_. return counterpartyVersion))"

definition icqOnChanOpenAck :: "string \<Rightarrow> ('b chain, unit) act" where
  "icqOnChanOpenAck counterpartyVersion =
     (if counterpartyVersion \<noteq> icqVersion then raise (Wrap ''invalid counterparty version'' (Reg ''icqcontroller'' 1501))
      else return ())"

definition icqOnChanOpenConfirm :: "('b chain, unit) act" where
  "icqOnChanOpenConfirm = return ()"

definition icqOnChanCloseInit :: "('b chain, unit) act" where
  "icqOnChanCloseInit = raise (Wrap ''user cannot close channel'' (SdkErr ''ErrInvalidRequest''))"

definition icqOnChanCloseConfirm :: "'b sdk \<Rightarrow> string \<Rightarrow> string \<Rightarrow> ('b chain, unit) act" where
  "icqOnChanCloseConfirm E portID channelID =
     viaIBC E (bnd (gets (\<lambda>s. GetChannel E (ext s) portID channelID)) (\<lambda>ch.
     case ch of
       Some (connectionID # _) \<Rightarrow> RemoveActiveChannel connectionID
     | _ \<Rightarrow> return ()))"

text \<open>Every packet is answered with an error acknowledgement; the error is the one put in it.\<close>

definition icqOnRecvPacket :: "'b ibc \<Rightarrow> bytes \<Rightarrow> go_error" where
  "icqOnRecvPacket I d =
     (if \<not> icqUnmarshal I d then Wrap ''cannot unmarshal packet data'' (SdkErr ''ErrUnknownRequest'')
      else ErrMsg ''unrecognized icqcontroller packet type'')"

definition icqOnAcknowledgementPacket ::
  "'b ibc \<Rightarrow> (bytes \<Rightarrow> bytes res) \<Rightarrow> 'b kv_consumer option \<Rightarrow> string \<Rightarrow> string \<Rightarrow> u64 \<Rightarrow> bytes \<Rightarrow> ('b chain, unit) act" where
  "icqOnAcknowledgementPacket I extract consumer sourcePort sourceChannel sequence acknowledgement =
     bnd (HandlePacketAcknowledgement I extract consumer sourcePort sourceChannel sequence acknowledgement) (\<lambda>_. return ())"

definition icqOnTimeoutPacket :: "string \<Rightarrow> string \<Rightarrow> u64 \<Rightarrow> ('b chain, unit) act" where
  "icqOnTimeoutPacket sourcePort sourceChannel sequence =
     bnd (HandlePacketTimeout sourcePort sourceChannel sequence) (\<lambda>_. return ())"

section \<open>Parameters and genesis\<close>

definition icqValidate :: "unit \<Rightarrow> unit res" where
  "icqValidate p = Inr ()"

definition icqUpdateParams :: "'b sdk \<Rightarrow> addr \<Rightarrow> string \<Rightarrow> unit \<Rightarrow> ('b chain, unit) act" where
  "icqUpdateParams E authority signer p =
     bnd (lift (checkAuthority E ''icqcontroller'' authority signer)) (\<lambda>_.
     bnd (lift (icqValidate p)) (\<lambda>_.
     modify (\<lambda>s. s\<lparr>icqParams := Some p\<rparr>)))"

definition icqQueryParams :: "unit option \<Rightarrow> ('b chain, unit) act" where
  "icqQueryParams req = bnd (lift (queryReq req)) (\<lambda>_.
     gets (\<lambda>s. case icqParams s of None \<Rightarrow> () | Some p \<Rightarrow> p))"

definition icqGenesisValidate :: "'b ibc \<Rightarrow> unit \<times> string \<Rightarrow> unit res" where
  "icqGenesisValidate I g = (if \<not> PortIdentifierOk I (snd g) then Inl (LibErr ''PortIdentifierValidator'')
     else icqValidate (fst g))"

text \<open>The port capability, when the capability keeper is wired; its error is ignored.\<close>

definition ensureCapability :: "'b ibc \<Rightarrow> bool \<Rightarrow> string \<Rightarrow> ('b chain, unit) act" where
  "ensureCapability I scoped portId =
     whenA scoped (let name = ''ports/'' @ portId in
       bnd (gets (\<lambda>s. HasCapability I (ext s) name)) (\<lambda>owned.
       whenA (\<not> owned) (ignoreA (extern (\<lambda>b. NewCapability I b name)))))"

definition icqInitGenesis :: "'b ibc \<Rightarrow> bool \<Rightarrow> unit \<times> string \<Rightarrow> ('b chain, unit) act" where
  "icqInitGenesis I scoped g =
     bnd (modify (\<lambda>s. s\<lparr>icqPort := Some (snd g)\<rparr>)) (\<lambda>_.
     bnd (ensureCapability I scoped (snd g)) (\<lambda>_.
     modify (\<lambda>s. s\<lparr>icqParams := Some (fst g)\<rparr>)))"

definition icqExportGenesis :: "'b chain \<Rightarrow> (unit \<times> string) res" where
  "icqExportGenesis s = rbind (ofOption (SdkErr ''collections: not found'') (icqParams s)) (\<lambda>p.
     Inr (p, case icqPort s of None \<Rightarrow> [] | Some port \<Rightarrow> port))"

interpretation icqGov: governed_params "icqUpdateParams E authority" icqParams
  "\<lambda>signer. StringToBytes E signer = Some authority" "\<lambda>p. icqValidate p = Inr ()" "\<lambda>p. p"
  for E :: "'b sdk" and authority
  by unfold_locales
    (auto simp: icqUpdateParams_def act_splits checkAuthority_Inr bnd_def lift_def modify_def split: sum.splits)

end
