(* ===== verification/IcqCorrect.thy ===== *)
theory IcqCorrect
  imports IcqController OsmosisSchedule
begin

text \<open>
  What the query controller guarantees: the table of queries in flight is exact, a query is answered
  at most once, and an answer reaches the consumer with the store and key it was asked for. The
  consumer is an interface; the locale states what the controller relies on, and the interpretation
  is the consumer of the repository, \<open>x/osmosisicq\<close>.
\<close>

section \<open>The table of queries in flight\<close>

lemma takeWhile_stop: "list_all P xs \<Longrightarrow> \<not> P y \<Longrightarrow> takeWhile P (xs @ y # ys) = xs"
  by (induction xs) simp_all

lemma pendingKey_inject [simp]: "pendingKey c n = pendingKey d m \<longleftrightarrow> c = d \<and> n = m"
proof
  assume e: "pendingKey c n = pendingKey d m"
  have tw: "takeWhile isDigit (rev (pendingKey x k)) = rev (fmtNat (unat k))" for x k
    using fmtNat_digits
    by (auto simp: pendingKey_def isDigit_def list_all_iff intro!: takeWhile_stop)
  from e have "rev (fmtNat (unat n)) = rev (fmtNat (unat m))" using tw [of c n] tw [of d m] by simp
  then have "n = m" by (simp add: word_unat_eq_iff)
  with e show "c = d \<and> n = m" by (simp add: pendingKey_def)
qed simp

lemma GetPending_after_Set:
  "GetPending (s\<lparr>icqPending := (icqPending s)(pendingKey c n \<mapsto> \<lparr>pvStore = st, pvKeyB64 = b64Encode k, pvConnection = conn\<rparr>)\<rparr>) d m
   = (if d = c \<and> m = n then (st, k, conn, True) else GetPending s d m)"
  by (simp add: GetPending_def)

lemma GetPending_none: "icqPending s (pendingKey c n) = None \<longleftrightarrow> \<not> snd (snd (snd (GetPending s c n)))"
  by (simp add: GetPending_def split: option.splits)

section \<open>Consumers\<close>

locale kv_consumer =
  fixes consume :: "string \<Rightarrow> bytes \<Rightarrow> bytes \<Rightarrow> ('b chain, unit) act"
  assumes consume_pending: "keeps icqPending (consume store key val)"
    and consume_channels: "keeps icqActive (consume store key val)"
begin

lemma deliver_pending: "keeps icqPending (deliver I extract (Some consume) store key attrs a)"
  unfolding deliver_def using consume_pending
  by (auto intro!: keeps_intros split: prod.splits sum.splits)

lemma deliver_channels: "keeps icqActive (deliver I extract (Some consume) store key attrs a)"
  unfolding deliver_def using consume_channels
  by (auto intro!: keeps_intros split: prod.splits sum.splits)

text \<open>However the answer is received, its entry is gone and every other entry stays.\<close>

lemma ack_pending:
  assumes "HandlePacketAcknowledgement I extract (Some consume) port c n a s = (r, t)"
  shows "icqPending t = (icqPending s)(pendingKey c n := None)"
proof -
  obtain st k conn ok where g: "GetPending s c n = (st, k, conn, ok)" by (cases "GetPending s c n") auto
  show ?thesis
  proof (cases ok)
    case False
    with g have "icqPending s (pendingKey c n) = None" by (simp add: GetPending_none)
    with assms g False show ?thesis
      by (auto simp: HandlePacketAcknowledgement_def act_simps)
  next
    case True
    obtain r' s' where d: "deliver I extract (Some consume) st k (ackAttrs port c n conn st k) a s = (r', s')"
      by (metis surj_pair)
    with assms g True have "t = s'\<lparr>icqPending := (icqPending s')(pendingKey c n := None)\<rparr>"
      by (simp add: HandlePacketAcknowledgement_def act_simps deferA_def RemovePending_def)
    then show ?thesis using keepsD [OF deliver_pending d] by simp
  qed
qed

lemma ack_channels:
  assumes "HandlePacketAcknowledgement I extract (Some consume) port c n a s = (r, t)"
  shows "icqActive t = icqActive s"
proof -
  have "keeps icqActive (deferA (RemovePending c n) m)" if "keeps icqActive m" for m :: "('b chain, unit) act"
    using that by (auto simp: keeps_def deferA_def RemovePending_def act_eval split: prod.splits) (metis snd_conv)
  then have "keeps icqActive (HandlePacketAcknowledgement I extract (Some consume) port c n a)"
    unfolding HandlePacketAcknowledgement_def using deliver_channels
    by (auto intro!: keeps_intros split: prod.splits)
  from keepsD [OF this assms] show ?thesis .
qed

end

lemma keeps_OnKVResult:
  assumes "\<And>s p. g (s\<lparr>csvPrice := p\<rparr>) = g s" "\<And>s l. g (s\<lparr>osmoLastResult := l\<rparr>) = g s" "\<And>s es. g (s\<lparr>events := es\<rparr>) = g s"
  shows "keeps g (OnKVResult E (oracleKeeper E) store key val)"
  unfolding OnKVResult_def HandleTwapResult_def HandleSpotResult_def ValidateAndPersistPrice_def getOsmoParams_def
    oracleKeeper_def SetCSVPerUSD_def Let_def
  using assms by (auto intro!: keeps_intros split: prod.splits)

interpretation osmoConsumer: kv_consumer "OnKVResult E (oracleKeeper E)" for E :: "'b sdk"
  by unfold_locales (rule keeps_OnKVResult; simp)+

section \<open>Sending\<close>

lemma SendKVQuery_ok:
  assumes "SendKVQuery E I conn st k s = (Inr qid, t)"
  obtains c n b m where "icqActive s conn = Some c" "GetNextSequenceSend E (ext s) (icqSourcePort s) c = Some n"
    "\<exists>d ts. SendPacket E (ext s) (icqSourcePort s) c ts d = (Inr m, b)"
    "t = s\<lparr>icqPending := (icqPending s)(pendingKey c n \<mapsto> \<lparr>pvStore = st, pvKeyB64 = b64Encode k, pvConnection = conn\<rparr>), ext := b\<rparr>"
    "qid = icqSourcePort s @ ''/'' @ c @ ''#'' @ fmtNat (unat m)"
  using assms
  by (auto simp: SendKVQuery_def act_splits GetChannelForConnection_def SetPending_def RemovePending_def catchA_Inr_iff
      split: option.splits if_splits) fastforce

lemma SendKVQuery_at:
  assumes "SendKVQuery E I conn st k s = (Inr qid, t)"
    and "icqActive s conn = Some c" "GetNextSequenceSend E (ext s) (icqSourcePort s) c = Some n"
  obtains b m where "\<exists>d ts. SendPacket E (ext s) (icqSourcePort s) c ts d = (Inr m, b)"
    "t = s\<lparr>icqPending := (icqPending s)(pendingKey c n \<mapsto> \<lparr>pvStore = st, pvKeyB64 = b64Encode k, pvConnection = conn\<rparr>), ext := b\<rparr>"
    "qid = icqSourcePort s @ ''/'' @ c @ ''#'' @ fmtNat (unat m)"
proof (rule SendKVQuery_ok [OF assms(1)])
  fix c' n' b m
  assume "icqActive s conn = Some c'" "GetNextSequenceSend E (ext s) (icqSourcePort s) c' = Some n'"
    and r: "\<exists>d ts. SendPacket E (ext s) (icqSourcePort s) c' ts d = (Inr m, b)"
      "t = s\<lparr>icqPending := (icqPending s)(pendingKey c' n' \<mapsto> \<lparr>pvStore = st, pvKeyB64 = b64Encode k, pvConnection = conn\<rparr>), ext := b\<rparr>"
      "qid = icqSourcePort s @ ''/'' @ c' @ ''#'' @ fmtNat (unat m)"
  with assms(2,3) have "c' = c" "n' = n" by simp_all
  with r show thesis by (intro that) simp_all
qed

section \<open>Properties\<close>


text \<open>
  C10. A query that was sent has its correlation entry under the sequence of its packet; the
  first acknowledgement removes it, and any further acknowledgement of that sequence does
  nothing, so an answer is delivered at most once.
\<close>

theorem query_is_answered_once:
  assumes "channel_laws E" "SendKVQuery E I conn store key s = (Inr qid, s1)"
    and "icqActive s conn = Some c" "GetNextSequenceSend E (ext s) (icqSourcePort s) c = Some n"
    and "HandlePacketAcknowledgement I extract (Some (OnKVResult E (oracleKeeper E))) port c n a s1 = (r, s2)"
  shows "GetPending s1 c n = (store, key, conn, True) \<and>
    qid = icqSourcePort s @ ''/'' @ c @ ''#'' @ fmtNat (unat n) \<and>
    GetPending s2 c n = ([], [], [], False) \<and>
    HandlePacketAcknowledgement I extract' consumer' port' c n a' s2 = (Inr (), s2)"
proof -
  obtain b m where
    sp: "\<exists>d ts. SendPacket E (ext s) (icqSourcePort s) c ts d = (Inr m, b)" and
    s1: "s1 = s\<lparr>icqPending := (icqPending s)(pendingKey c n \<mapsto>
      \<lparr>pvStore = store, pvKeyB64 = b64Encode key, pvConnection = conn\<rparr>), ext := b\<rparr>" and
    q: "qid = icqSourcePort s @ ''/'' @ c @ ''#'' @ fmtNat (unat m)"
    by (rule SendKVQuery_at [OF assms(2-4)])
  from sp obtain d ts where "SendPacket E (ext s) (icqSourcePort s) c ts d = (Inr m, b)" by blast
  with assms(1) have "GetNextSequenceSend E (ext s) (icqSourcePort s) c = Some m"
    unfolding channel_laws_def by blast
  with assms(4) have "m = n" by simp
  moreover have "GetPending s1 c n = (store, key, conn, True)" by (simp add: s1 GetPending_def)
  moreover have g: "GetPending s2 c n = ([], [], [], False)"
    using osmoConsumer.ack_pending [OF assms(5)] by (simp add: GetPending_def)
  moreover have "HandlePacketAcknowledgement I extract' consumer' port' c n a' s2 = (Inr (), s2)"
    by (simp add: HandlePacketAcknowledgement_def act_simps g)
  ultimately show ?thesis using q by blast
qed

definition icqState :: "ledger chain" where
  "icqState = (initChain (emptyLedger\<lparr>channels := [(''channel-7'', [''connection-0'']), (''channel-3'', [''connection-0''])]\<rparr>))
     \<lparr>icqActive := [''connection-0'' \<mapsto> ''channel-7''],
      osmoParams := Some (icqParamsOf ''uusdc'' ''ucsv'' ''0.5''), csvPrice := [''CSV_USD'' \<mapsto> ''0.4'']\<rparr>"

definition asked :: "ledger chain" where
  "asked = snd (SendKVQuery ref_sdk ref_ibc ''connection-0'' ''gamm'' ''pool/1'' icqState)"

lemma asked_runs: "SendKVQuery ref_sdk ref_ibc ''connection-0'' ''gamm'' ''pool/1'' icqState = (Inr ''icqcontroller/channel-7#1'', asked)"
proof -
  have "fst (SendKVQuery ref_sdk ref_ibc ''connection-0'' ''gamm'' ''pool/1'' icqState) = Inr ''icqcontroller/channel-7#1''"
    by code_simp
  from runs [OF this] show ?thesis by (simp only: asked_def)
qed

definition answer :: bytes where
  "answer = ''R{'' @ [CHR 0x22] @ ''data'' @ [CHR 0x22] @ '':'' @ [CHR 0x22] @ b64Encode ''0.45|1'' @ [CHR 0x22] @ ''}''"

theorem query_is_answered_once_witness:
  "GetPending asked ''channel-7'' 1 = (''gamm'', ''pool/1'', ''connection-0'', True) \<and>
   GetPending (snd (HandlePacketAcknowledgement ref_ibc (extractValueAsync ref_ibc)
      (Some (OnKVResult ref_sdk (oracleKeeper ref_sdk))) ''icqcontroller'' ''channel-7'' 1 answer asked)) ''channel-7'' 1
     = ([], [], [], False)"
proof -
  have a: "icqActive icqState ''connection-0'' = Some ''channel-7''" by (simp add: icqState_def)
  have n: "GetNextSequenceSend ref_sdk (ext icqState) (icqSourcePort icqState) ''channel-7'' = Some 1" by code_simp
  show ?thesis using query_is_answered_once [OF ref_channel_laws asked_runs a n prod.collapse [symmetric]] by blast
qed

text \<open>
  C16. With the asynchronous extractor and a consumer wired, a success acknowledgement of a sent
  query that holds a value hands that value to the consumer with the store and key of the query,
  and clears the entry afterwards.
\<close>

theorem answer_reaches_the_consumer:
  assumes "SendKVQuery E I conn store key s = (Inr qid, s1)"
    and "icqActive s conn = Some c" "GetNextSequenceSend E (ext s) (icqSourcePort s) c = Some n"
    and "AckJSON I a = Some (AckResult result)" "unmarshalPacketAck result = Some inner" "inner \<noteq> []"
    and "DeserializeResponse I inner = Some resps" "firstValue resps = val" "val \<noteq> []"
    and "OnKVResult E (oracleKeeper E) store key val (s1\<lparr>events := events s1 @ [mkEvent ''icq_ack_success''
      (ackAttrs port c n conn store key @ [(''value_len'', AInt (int (length val)))])]\<rparr>) = (r, s2)"
  shows "HandlePacketAcknowledgement I (extractValueAsync I) (Some (OnKVResult E (oracleKeeper E))) port c n a s1
    = (r, s2\<lparr>icqPending := (icqPending s)(pendingKey c n := None)\<rparr>)"
proof -
  obtain b where
    s1: "s1 = s\<lparr>icqPending := (icqPending s)(pendingKey c n \<mapsto>
      \<lparr>pvStore = store, pvKeyB64 = b64Encode key, pvConnection = conn\<rparr>), ext := b\<rparr>"
    by (rule SendKVQuery_at [OF assms(1-3)])
  have g: "GetPending s1 c n = (store, key, conn, True)" by (simp add: s1 GetPending_def)
  have x: "extractValueAsync I a = Inr val"
    using assms(4-8) by (simp add: extractValueAsync_def DeserializeCosmosResponse_def)
  have "HandlePacketAcknowledgement I (extractValueAsync I) (Some (OnKVResult E (oracleKeeper E))) port c n a s1
    = (r, s2\<lparr>icqPending := (icqPending s2)(pendingKey c n := None)\<rparr>)"
    using assms(4,9,10) x
    by (simp add: HandlePacketAcknowledgement_def act_simps g deferA_def deliver_def ackOutcome_def emit_bind
      RemovePending_def)
  moreover have "icqPending s2 = icqPending s1"
    using keepsD [OF osmoConsumer.consume_pending assms(10)] by simp
  ultimately show ?thesis by (simp add: s1)
qed

theorem answer_reaches_the_consumer_witness:
  "GetCSVPerUSD ref_sdk (snd (HandlePacketAcknowledgement ref_ibc (extractValueAsync ref_ibc)
      (Some (OnKVResult ref_sdk (oracleKeeper ref_sdk))) ''icqcontroller'' ''channel-7'' 1 answer asked)) = 45 * 10 ^ 16"
proof -
  let ?s = "asked\<lparr>events := events asked @ [mkEvent ''icq_ack_success''
      (ackAttrs ''icqcontroller'' ''channel-7'' 1 ''connection-0'' ''gamm'' ''pool/1'' @ [(''value_len'', AInt (int (length ''0.45|1'')))])]\<rparr>"
  have a: "icqActive icqState ''connection-0'' = Some ''channel-7''" by (simp add: icqState_def)
  have n: "GetNextSequenceSend ref_sdk (ext icqState) (icqSourcePort icqState) ''channel-7'' = Some 1" by code_simp
  have j: "AckJSON ref_ibc answer = Some (AckResult (tl answer))" by code_simp
  have u: "unmarshalPacketAck (tl answer) = Some ''0.45|1''" by code_simp
  have d: "DeserializeResponse ref_ibc ''0.45|1'' = Some [''0.45|1'']" by (simp add: ref_ibc_def)
  have v: "firstValue [''0.45|1''] = ''0.45|1''" by (simp add: firstValue_def)
  obtain r s2 where ok: "OnKVResult ref_sdk (oracleKeeper ref_sdk) ''gamm'' ''pool/1'' ''0.45|1'' ?s = (r, s2)"
    by (metis surj_pair)
  have p: "GetCSVPerUSD ref_sdk (snd (OnKVResult ref_sdk (oracleKeeper ref_sdk) ''gamm'' ''pool/1'' ''0.45|1'' ?s)) = 45 * 10 ^ 16"
    by code_simp
  from answer_reaches_the_consumer [OF asked_runs a n j u _ d v _ ok] ok p
  show ?thesis by (simp add: GetCSVPerUSD_def)
qed

text \<open>What the wiring of the application leaves: no consumer, and an extractor that extracts nothing.\<close>

lemma deliver_nothing:
  assumes "consumer = None \<or> extract = extractValueStub"
    and "\<And>s es. f (s\<lparr>events := es\<rparr>) = f s"
  shows "keeps f (deliver I extract consumer store key attrs a)"
  using assms unfolding deliver_def
  by (auto simp: extractValueStub_def intro!: keeps_intros split: prod.splits option.splits)

lemma keeps_ack:
  assumes "\<And>st k attrs. keeps f (deliver I extract consumer st k attrs a)" "\<And>s p. f (s\<lparr>icqPending := p\<rparr>) = f s"
  shows "keeps f (HandlePacketAcknowledgement I extract consumer port c n a)"
proof -
  have "keeps f (deferA (RemovePending c n) m)" if "keeps f m" for m :: "('a chain, unit) act"
    using that assms(2) by (auto simp: keeps_def deferA_def RemovePending_def act_eval split: prod.splits) (metis snd_conv)
  then show ?thesis
    unfolding HandlePacketAcknowledgement_def using assms(1) by (auto intro!: keeps_intros split: prod.splits)
qed

text \<open>
  Without a consumer, or with the extractor of the default build, an acknowledgement clears
  its entry and never changes the price.
\<close>

theorem default_wiring_delivers_nothing:
  assumes "consumer = None \<or> extract = extractValueStub"
    and "icqOnAcknowledgementPacket I extract consumer port c n a s = (r, t)"
  shows "r = Inr () \<and> csvPrice t = csvPrice s \<and> osmoLastResult t = osmoLastResult s \<and>
    icqPending t = (icqPending s)(pendingKey c n := None)"
proof -
  obtain st k conn ok where g: "GetPending s c n = (st, k, conn, ok)" by (cases "GetPending s c n") auto
  obtain r' t' where h: "HandlePacketAcknowledgement I extract consumer port c n a s = (r', t')" by (metis surj_pair)
  have r: "r' = Inr () \<and> t' = t \<and> r = Inr ()"
    using assms h g
    by (auto simp: icqOnAcknowledgementPacket_def HandlePacketAcknowledgement_def act_simps deferA_def deliver_def bnd_def
        return_def emit_eval extractValueStub_def split: prod.splits option.splits if_splits)
  have k: "keeps csvPrice (HandlePacketAcknowledgement I extract consumer port c n a)"
    "keeps osmoLastResult (HandlePacketAcknowledgement I extract consumer port c n a)"
    by (rule keeps_ack [OF deliver_nothing [OF assms(1)]]; simp)+
  have p: "icqPending t = (icqPending s)(pendingKey c n := None)"
  proof (cases ok)
    case True
    obtain q u where d: "deliver I extract consumer st k (ackAttrs port c n conn st k) a s = (q, u)" by (metis surj_pair)
    have "keeps icqPending (deliver I extract consumer st k (ackAttrs port c n conn st k) a)"
      by (rule deliver_nothing [OF assms(1)]) simp
    from keepsD [OF this d] have "icqPending u = icqPending s" .
    then show ?thesis
      using h g r True d by (auto simp: HandlePacketAcknowledgement_def act_simps deferA_def RemovePending_def)
  next
    case False
    with g have "icqPending s (pendingKey c n) = None" by (simp add: GetPending_none)
    then show ?thesis using h g r False by (auto simp: HandlePacketAcknowledgement_def act_simps)
  qed
  show ?thesis using r p keepsD [OF k(1) h] keepsD [OF k(2) h] by simp
qed

theorem default_wiring_delivers_nothing_witness:
  "csvPrice (snd (icqOnAcknowledgementPacket ref_ibc extractValueStub (Some (OnKVResult ref_sdk (oracleKeeper ref_sdk)))
     ''icqcontroller'' ''channel-7'' 1 answer asked)) = csvPrice asked"
proof -
  obtain r t where h: "icqOnAcknowledgementPacket ref_ibc extractValueStub (Some (OnKVResult ref_sdk (oracleKeeper ref_sdk)))
     ''icqcontroller'' ''channel-7'' 1 answer asked = (r, t)" by (metis surj_pair)
  from default_wiring_delivers_nothing [OF disjI2 [OF refl] h] h show ?thesis by simp
qed

text \<open>A send that fails leaves no entry behind.\<close>

theorem failed_send_leaves_no_entry:
  assumes "SendKVQuery E I conn store key s = (Inl e, t)"
  shows "icqPending t = icqPending s \<or>
    (\<exists>c n. icqActive s conn = Some c \<and> GetNextSequenceSend E (ext s) (icqSourcePort s) c = Some n \<and>
      icqPending t = (icqPending s)(pendingKey c n := None)) \<or> e = Panic"
  using assms
  by (auto simp: SendKVQuery_def viaIBC_def bnd_def gets_def lift_def raise_def return_def GetChannelForConnection_def SetPending_def
      RemovePending_def catchA_def externV_def modify_def ofOption_Inr_iff
      split: option.splits if_splits prod.splits sum.splits go_error.splits)

theorem failed_send_leaves_no_entry_witness:
  "icqPending (snd (SendKVQuery ref_sdk ref_ibc ''connection-9'' ''gamm'' [] icqState)) = icqPending icqState \<or>
   (\<exists>c n. icqActive icqState ''connection-9'' = Some c \<and>
      GetNextSequenceSend ref_sdk (ext icqState) (icqSourcePort icqState) c = Some n \<and>
      icqPending (snd (SendKVQuery ref_sdk ref_ibc ''connection-9'' ''gamm'' [] icqState)) = (icqPending icqState)(pendingKey c n := None)) \<or>
   ErrMsg ''no active ICQ channel for connection connection-9'' = Panic"
proof -
  have "fst (SendKVQuery ref_sdk ref_ibc ''connection-9'' ''gamm'' [] icqState)
    = Inl (ErrMsg ''no active ICQ channel for connection connection-9'')" by code_simp
  then have "SendKVQuery ref_sdk ref_ibc ''connection-9'' ''gamm'' [] icqState
    = (Inl (ErrMsg ''no active ICQ channel for connection connection-9''),
       snd (SendKVQuery ref_sdk ref_ibc ''connection-9'' ''gamm'' [] icqState))"
    by (metis prod.collapse)
  from failed_send_leaves_no_entry [OF this] show ?thesis .
qed

section \<open>Channels\<close>

text \<open>Starting a handshake takes the mapping of its connection over.\<close>

theorem any_handshake_takes_the_connection_over:
  assumes "icqOnChanOpenInit (conn # hops) c icqVersion s = (r, t)"
  shows "r = Inr icqVersion \<and> GetChannelForConnection t conn = (c, True) \<and>
    (\<forall>other. other \<noteq> conn \<longrightarrow> GetChannelForConnection t other = GetChannelForConnection s other)"
  using assms
  by (auto simp: icqOnChanOpenInit_def recordChannel_def SetActiveChannel_def act_simps GetChannelForConnection_def
      split: option.splits if_splits)

theorem any_handshake_takes_the_connection_over_witness:
  "GetChannelForConnection (snd (icqOnChanOpenInit [''connection-0''] ''channel-99'' icqVersion icqState)) ''connection-0''
    = (''channel-99'', True)"
proof -
  obtain r t where h: "icqOnChanOpenInit [''connection-0''] ''channel-99'' icqVersion icqState = (r, t)" by (metis surj_pair)
  from any_handshake_takes_the_connection_over [OF h] h show ?thesis by simp
qed



section \<open>The controller as a query client\<close>

lemma keeps_icqRegister:
  assumes "\<And>s b. f (s\<lparr>ext := b\<rparr>) = f s" "\<And>s p. f (s\<lparr>icqPending := p\<rparr>) = f s" "\<And>s es. f (s\<lparr>events := es\<rparr>) = f s"
  shows "keeps f (icqRegisterKVQuery E I w conn store key)"
  unfolding icqRegisterKVQuery_def SendKVQuery_def SetPending_def RemovePending_def
  using assms by (auto intro!: keeps_intros split: prod.splits)

interpretation icqClient: query_client "icqRegisterKVQuery E I w" for E :: "'b sdk" and I :: "'b ibc" and w
  by unfold_locales (rule keeps_icqRegister; simp)+

text \<open>Scheduling with the controller as the client does not change the price.\<close>

theorem scheduled_queries_leave_the_price_alone:
  "keeps csvPrice (osmoBeginBlock (Some (icqRegisterKVQuery E I w)) b) \<and>
   keeps osmoParams (osmoBeginBlock (Some (icqRegisterKVQuery E I w)) b)"
  using icqClient.begin_block_frames by blast

end
