(* ===== verification/PriceFeed.thy ===== *)
theory PriceFeed
  imports Ibc Osmosis
begin

text \<open>
  The Band price feed (\<open>x/pricefeed\<close>): sending oracle requests and responses over IBC, receiving
  them, and turning a response into the oracle's CSV price. The text \<open>%v\<close> gives of a JSON number,
  which Go holds as a \<open>float64\<close>, is a parameter (\<open>floatText\<close>, \<^term>\<open>None\<close> when it is out of range);
  the text of every other JSON value is computed.
\<close>

section \<open>Text of JSON values\<close>

definition joinSp :: "string list \<Rightarrow> string" where
  "joinSp ts = concat (case ts of [] \<Rightarrow> [] | t # r \<Rightarrow> t # map (\<lambda>x. '' '' @ x) r)"

definition lastMembers :: "(string \<times> 'a) list \<Rightarrow> (string \<times> 'a) list" where
  "lastMembers ms = sort_key fst (foldr (\<lambda>(k, v) acc. if k \<in> fst ` set acc then acc else (k, v) # acc) ms [])"

fun fmtV :: "(string \<Rightarrow> string option) \<Rightarrow> json \<Rightarrow> string"
  and fmtVs :: "(string \<Rightarrow> string option) \<Rightarrow> json list \<Rightarrow> string list"
  and fmtMs :: "(string \<Rightarrow> string option) \<Rightarrow> (string \<times> json) list \<Rightarrow> (string \<times> string) list" where
  "fmtV ft JNull = ''<nil>''"
| "fmtV ft (JBool b) = (if b then ''true'' else ''false'')"
| "fmtV ft (JNum n) = (case ft n of None \<Rightarrow> [] | Some t \<Rightarrow> t)"
| "fmtV ft (JStr s) = s"
| "fmtV ft (JArr xs) = ''['' @ joinSp (fmtVs ft xs) @ '']''"
| "fmtV ft (JObj ms) = ''map['' @ joinSp (map (\<lambda>(k, t). k @ '':'' @ t) (lastMembers (fmtMs ft ms))) @ '']''"
| "fmtVs ft [] = []"
| "fmtVs ft (x # xs) = fmtV ft x # fmtVs ft xs"
| "fmtMs ft [] = []"
| "fmtMs ft ((k, x) # ms) = (k, fmtV ft x) # fmtMs ft ms"

fun numbersOk :: "(string \<Rightarrow> string option) \<Rightarrow> json \<Rightarrow> bool" where
  "numbersOk ft (JNum n) = (ft n \<noteq> None)"
| "numbersOk ft (JArr xs) = list_all (numbersOk ft) xs"
| "numbersOk ft (JObj ms) = list_all (\<lambda>p. numbersOk ft (snd p)) ms"
| "numbersOk ft j = True"

text \<open>\<open>json.Unmarshal\<close> into a \<open>map[string]interface{}\<close>, \<^term>\<open>None\<close> on error.\<close>

definition unmarshalMap :: "(string \<Rightarrow> string option) \<Rightarrow> bytes \<Rightarrow> (string \<rightharpoonup> json) option" where
  "unmarshalMap ft s = (case parseJson s of
     Some JNull \<Rightarrow> Some Map.empty
   | Some (JObj ms) \<Rightarrow> if numbersOk ft (JObj ms) then Some (map_of (rev ms)) else None
   | _ \<Rightarrow> None)"

text \<open>
  \<open>json.Marshal\<close> of a string, with the escapes of Go, for bytes that are valid UTF-8 and hold no
  line separator of U+2028 or U+2029.
\<close>

definition escapeByte :: "char \<Rightarrow> string" where
  "escapeByte c = (let v = byteVal c in
     if c = CHR 0x22 then [CHR 0x5C, CHR 0x22]
     else if c = CHR 0x5C then [CHR 0x5C, CHR 0x5C]
     else if v = 8 then [CHR 0x5C, CHR ''b''] else if v = 12 then [CHR 0x5C, CHR ''f'']
     else if v = 10 then [CHR 0x5C, CHR ''n''] else if v = 13 then [CHR 0x5C, CHR ''r'']
     else if v = 9 then [CHR 0x5C, CHR ''t'']
     else if v < 32 \<or> c = CHR ''<'' \<or> c = CHR ''>'' \<or> c = CHR ''&'' then
       [CHR 0x5C, CHR ''u'', CHR ''0'', CHR ''0''] @ hexEncode [c]
     else [c])"

definition jsonString :: "string \<Rightarrow> string" where
  "jsonString s = [CHR 0x22] @ concat (map escapeByte s) @ [CHR 0x22]"

fun joinComma :: "string list \<Rightarrow> string" where
  "joinComma [] = []"
| "joinComma [t] = t"
| "joinComma (t # ts) = t @ '','' @ joinComma ts"

definition calldataJson :: "string list option \<Rightarrow> bytes" where
  "calldataJson symbols = ''{'' @ jsonString ''symbols'' @ '':'' @
     (case symbols of None \<Rightarrow> ''null'' | Some ss \<Rightarrow> ''['' @ joinComma (map jsonString ss) @ '']'') @ ''}''"

definition symbolsText :: "string list option \<Rightarrow> string" where
  "symbolsText symbols = ''['' @ joinSp (case symbols of None \<Rightarrow> [] | Some ss \<Rightarrow> ss) @ '']''"

section \<open>Sending\<close>

record MsgSendOracleRequest =
  sorCreator :: string
  sorPort :: string
  sorChannelID :: string
  sorTimeoutTimestamp :: u64
  sorOracleScriptId :: u64
  sorCalldata :: string
  sorSymbols :: string
  sorAskCount :: u64
  sorMinCount :: u64
  sorFeeLimit :: string
  sorPrepareGas :: u64
  sorExecuteGas :: u64
  sorClientId :: string

record MsgSendOracleResponse =
  srsCreator :: string
  srsPort :: string
  srsChannelID :: string
  srsTimeoutTimestamp :: u64
  srsRequestId :: u64
  srsPrices :: string
  srsRates :: string
  srsError :: string

definition NewMsgSendOracleRequest ::
  "string \<Rightarrow> string \<Rightarrow> string \<Rightarrow> u64 \<Rightarrow> u64 \<Rightarrow> string \<Rightarrow> string \<Rightarrow> u64 \<Rightarrow> u64 \<Rightarrow> string \<Rightarrow> u64 \<Rightarrow> u64 \<Rightarrow> string
    \<Rightarrow> MsgSendOracleRequest" where
  "NewMsgSendOracleRequest creator port channelID timeoutTimestamp oracleScriptId calldata symbols askCount
     minCount feeLimit prepareGas executeGas clientId =
     \<lparr>sorCreator = creator, sorPort = port, sorChannelID = channelID, sorTimeoutTimestamp = timeoutTimestamp,
      sorOracleScriptId = oracleScriptId, sorCalldata = calldata, sorSymbols = symbols, sorAskCount = askCount,
      sorMinCount = minCount, sorFeeLimit = feeLimit, sorPrepareGas = prepareGas, sorExecuteGas = executeGas,
      sorClientId = clientId\<rparr>"

definition NewMsgSendOracleResponse ::
  "string \<Rightarrow> string \<Rightarrow> string \<Rightarrow> u64 \<Rightarrow> u64 \<Rightarrow> string \<Rightarrow> string \<Rightarrow> string \<Rightarrow> MsgSendOracleResponse" where
  "NewMsgSendOracleResponse creator port channelID timeoutTimestamp requestId prices rates err =
     \<lparr>srsCreator = creator, srsPort = port, srsChannelID = channelID, srsTimeoutTimestamp = timeoutTimestamp,
      srsRequestId = requestId, srsPrices = prices, srsRates = rates, srsError = err\<rparr>"

definition feedNewKeeper :: "'b sdk \<Rightarrow> addr \<Rightarrow> unit res" where
  "feedNewKeeper E authority = requireAuthority E authority"

definition requestBytes :: "'b ibc \<Rightarrow> OracleRequestPacketData \<Rightarrow> bytes option" where
  "requestBytes I p = feedMarshal I (RequestPacket p)"

definition responseBytes :: "'b ibc \<Rightarrow> OracleResponsePacketData \<Rightarrow> bytes option" where
  "responseBytes I p = feedMarshal I (ResponsePacket p)"

definition cannotMarshal :: go_error where
  "cannotMarshal = Wrap ''cannot marshal the packet'' (SdkErr ''ErrJSONMarshal'')"

definition TransmitOracleRequestPacket ::
  "'b sdk \<Rightarrow> 'b ibc \<Rightarrow> OracleRequestPacketData \<Rightarrow> string \<Rightarrow> string \<Rightarrow> u64 \<Rightarrow> ('b chain, u64) act" where
  "TransmitOracleRequestPacket E I packetData sourcePort sourceChannel timeoutTimestamp =
     bnd (lift (ofOption cannotMarshal (requestBytes I packetData))) (\<lambda>packetBytes.
     viaIBC E (externV (\<lambda>b. SendPacket E b sourcePort sourceChannel timeoutTimestamp packetBytes)))"

definition TransmitOracleResponsePacket ::
  "'b sdk \<Rightarrow> 'b ibc \<Rightarrow> OracleResponsePacketData \<Rightarrow> string \<Rightarrow> string \<Rightarrow> u64 \<Rightarrow> ('b chain, u64) act" where
  "TransmitOracleResponsePacket E I packetData sourcePort sourceChannel timeoutTimestamp =
     bnd (lift (ofOption cannotMarshal (responseBytes I packetData))) (\<lambda>packetBytes.
     viaIBC E (externV (\<lambda>b. SendPacket E b sourcePort sourceChannel timeoutTimestamp packetBytes)))"

definition checkRoute :: "'b sdk \<Rightarrow> string \<Rightarrow> string \<Rightarrow> string \<Rightarrow> u64 \<Rightarrow> unit res" where
  "checkRoute E creator port channelID timeout =
     (if StringToBytes E creator = None then Inl (Wrap ''invalid address'' (SdkErr ''ErrInvalidAddress''))
      else if port = [] then Inl (Wrap ''invalid packet port'' (SdkErr ''ErrInvalidRequest''))
      else if channelID = [] then Inl (Wrap ''invalid packet channel'' (SdkErr ''ErrInvalidRequest''))
      else if timeout = 0 then Inl (Wrap ''invalid packet timeout'' (SdkErr ''ErrInvalidRequest''))
      else Inr ())"

definition requestPacketOf :: "MsgSendOracleRequest \<Rightarrow> OracleRequestPacketData" where
  "requestPacketOf msg = \<lparr>orqOracleScriptId = sorOracleScriptId msg, orqCalldata = sorCalldata msg,
     orqSymbols = sorSymbols msg, orqAskCount = (if sorAskCount msg = 0 then 4 else sorAskCount msg),
     orqMinCount = (if sorMinCount msg = 0 then 3 else sorMinCount msg),
     orqFeeLimit = (if sorFeeLimit msg = [] then ''100000uband'' else sorFeeLimit msg),
     orqPrepareGas = (if sorPrepareGas msg = 0 then 50000 else sorPrepareGas msg),
     orqExecuteGas = (if sorExecuteGas msg = 0 then 300000 else sorExecuteGas msg),
     orqClientId = sorClientId msg\<rparr>"

definition SendOracleRequest :: "'b sdk \<Rightarrow> 'b ibc \<Rightarrow> MsgSendOracleRequest \<Rightarrow> ('b chain, unit) act" where
  "SendOracleRequest E I msg =
     bnd (lift (checkRoute E (sorCreator msg) (sorPort msg) (sorChannelID msg) (sorTimeoutTimestamp msg))) (\<lambda>_.
     bnd (TransmitOracleRequestPacket E I (requestPacketOf msg) (sorPort msg) (sorChannelID msg)
       (sorTimeoutTimestamp msg)) (\<lambda>_.
     return ()))"

definition responsePacketOf :: "MsgSendOracleResponse \<Rightarrow> OracleResponsePacketData" where
  "responsePacketOf msg = \<lparr>orpRequestId = srsRequestId msg, orpPrices = srsPrices msg, orpRates = srsRates msg,
     orpError = srsError msg\<rparr>"

definition SendOracleResponse :: "'b sdk \<Rightarrow> 'b ibc \<Rightarrow> MsgSendOracleResponse \<Rightarrow> ('b chain, unit) act" where
  "SendOracleResponse E I msg =
     bnd (lift (checkRoute E (srsCreator msg) (srsPort msg) (srsChannelID msg) (srsTimeoutTimestamp msg))) (\<lambda>_.
     bnd (TransmitOracleResponsePacket E I (responsePacketOf msg) (srsPort msg) (srsChannelID msg)
       (srsTimeoutTimestamp msg)) (\<lambda>_.
     return ()))"

text \<open>\<open>uint64(BlockTime().Unix()) + 3600\<close>, and the block height as \<open>%d\<close> prints it.\<close>

definition requestTimeout :: "'b chain \<Rightarrow> u64" where
  "requestTimeout s = of_int (unixTime s) + 3600"

definition fmtInt :: "int \<Rightarrow> string" where
  "fmtInt n = (if n < 0 then ''-'' @ fmtNat (nat (- n)) else fmtNat (nat n))"

definition priceRequest :: "'b sdk \<Rightarrow> addr \<Rightarrow> 'b chain \<Rightarrow> string list option \<Rightarrow> string \<Rightarrow> MsgSendOracleRequest" where
  "priceRequest E authority s symbols channelID =
     \<lparr>sorCreator = AccAddressString E authority, sorPort = ''pricefeed'', sorChannelID = channelID,
      sorTimeoutTimestamp = requestTimeout s, sorOracleScriptId = 37,
      sorCalldata = hexEncode (calldataJson symbols), sorSymbols = symbolsText symbols, sorAskCount = 4, sorMinCount = 3,
      sorFeeLimit = ''100000uband'', sorPrepareGas = 50000, sorExecuteGas = 300000,
      sorClientId = ''cosvian-price-req-'' @ fmtInt (blockHeight s)\<rparr>"

definition RequestPriceData :: "'b sdk \<Rightarrow> 'b ibc \<Rightarrow> addr \<Rightarrow> string list option \<Rightarrow> string \<Rightarrow> ('b chain, unit) act" where
  "RequestPriceData E I authority symbols channelID =
     bnd (gets (\<lambda>s. priceRequest E authority s symbols channelID)) (\<lambda>msg.
     wrapA ''failed to send oracle request'' (SendOracleRequest E I msg))"

definition IntegrateWithOracleModule :: "string list option \<Rightarrow> ('b chain, unit) act" where
  "IntegrateWithOracleModule symbols =
     bnd (gets blockHeight) (\<lambda>h.
     emit ''pricefeed_request''
       [(''symbols'', AStr (symbolsText symbols)), (''source'', AStr ''band_protocol''), (''block_height'', AInt h)])"

section \<open>Prices of a response\<close>

text \<open>The positive decimal a response field names for CSV, if there is one.\<close>

definition csvField :: "'b sdk \<Rightarrow> string \<Rightarrow> dec option" where
  "csvField E doc =
     (if doc = [] then None
      else case unmarshalMap (floatText E) doc of
        None \<Rightarrow> None
      | Some m \<Rightarrow> (case m ''CSV'' of
          None \<Rightarrow> None
        | Some v \<Rightarrow> (case dFromStr E (fmtV (floatText E) v) of
            None \<Rightarrow> None
          | Some d \<Rightarrow> if d > 0 then Some d else None)))"

definition storeFeedPrice :: "'b price_keeper \<Rightarrow> dec \<Rightarrow> string \<Rightarrow> u64 \<Rightarrow> ('b chain, unit) act" where
  "storeFeedPrice ok price source requestId =
     bnd (ignoreA (pkSet ok price)) (\<lambda>_.
     emit ''price_updated''
       [(''symbol'', AStr ''CSV/USD''), (''price'', ADec (Some price)), (''source'', AStr source),
        (''request_id'', AInt (uint requestId))])"

definition ProcessPriceResponse :: "'b sdk \<Rightarrow> 'b price_keeper \<Rightarrow> OracleResponsePacketData \<Rightarrow> ('b chain, unit) act" where
  "ProcessPriceResponse E ok response =
     (if orpError response \<noteq> [] then raise (ErrMsg (''oracle response error: '' @ orpError response))
      else case csvField E (orpRates response) of
        Some d \<Rightarrow> storeFeedPrice ok d ''band_protocol_rates'' (orpRequestId response)
      | None \<Rightarrow> (case csvField E (orpPrices response) of
          Some usdPerCSV \<Rightarrow>
            bnd (lift (ofOption Panic (dQuo E decOne usdPerCSV))) (\<lambda>csvPerUSD.
            storeFeedPrice ok csvPerUSD ''band_protocol_prices_inverted'' (orpRequestId response))
        | None \<Rightarrow> return ()))"

section \<open>Packets\<close>

definition OnRecvOracleRequestPacket :: "OracleRequestPacketData \<Rightarrow> ('b chain, unit) act" where
  "OnRecvOracleRequestPacket d = return ()"

definition OnRecvOracleResponsePacket :: "'b sdk \<Rightarrow> 'b price_keeper \<Rightarrow> OracleResponsePacketData \<Rightarrow> ('b chain, unit) act" where
  "OnRecvOracleResponsePacket E ok d =
     (if orpError d \<noteq> [] then raise (Wrap (''oracle response error: '' @ orpError d) (SdkErr ''ErrInvalidRequest''))
      else failWith (Wrap ''failed to process price response'' (SdkErr ''ErrInvalidRequest'')) (ProcessPriceResponse E ok d))"

definition onAckOf :: "'b ibc \<Rightarrow> ackResponse \<Rightarrow> unit res" where
  "onAckOf I ack = (case ack of
     AckError _ \<Rightarrow> Inr ()
   | AckResult r \<Rightarrow> if packetAckOk I r then Inr () else Inl (ErrMsg ''cannot unmarshal acknowledgment'')
   | AckNone \<Rightarrow> Inl (ErrMsg ''invalid acknowledgment format''))"

definition OnAcknowledgementOracleRequestPacket :: "'b ibc \<Rightarrow> ackResponse \<Rightarrow> unit res" where
  "OnAcknowledgementOracleRequestPacket I ack = onAckOf I ack"

definition OnAcknowledgementOracleResponsePacket :: "'b ibc \<Rightarrow> ackResponse \<Rightarrow> unit res" where
  "OnAcknowledgementOracleResponsePacket I ack = onAckOf I ack"

definition OnTimeoutOracleRequestPacket :: "unit res" where
  "OnTimeoutOracleRequestPacket = Inr ()"

definition OnTimeoutOracleResponsePacket :: "unit res" where
  "OnTimeoutOracleResponsePacket = Inr ()"

end
