(* ===== verification/FeedModule.thy ===== *)
theory FeedModule
  imports PriceFeed IcqController
begin

text \<open>
  The price feed's IBC callbacks (\<open>x/pricefeed/module/module_ibc.go\<close>), parameters and genesis. An
  acknowledgement the module writes is a \<open>recvAck\<close>; \<open>ackText\<close> is what \<open>%v\<close> prints for one it receives.
\<close>

datatype recvAck = ErrorAck go_error | ResultAck bytes

definition feedVersion :: string where
  "feedVersion = ''pricefeed-1''"

definition feedOnChanOpenInit :: "string \<Rightarrow> string res" where
  "feedOnChanOpenInit version =
     (if version \<noteq> feedVersion then Inl (Wrap ''got version'' (Reg ''pricefeed'' 1501)) else Inr version)"

definition feedOnChanOpenTry :: "string \<Rightarrow> string res" where
  "feedOnChanOpenTry counterpartyVersion =
     (if counterpartyVersion \<noteq> feedVersion then Inl (Wrap ''invalid counterparty version'' (Reg ''pricefeed'' 1501))
      else Inr counterpartyVersion)"

definition feedOnChanOpenAck :: "string \<Rightarrow> unit res" where
  "feedOnChanOpenAck counterpartyVersion =
     (if counterpartyVersion \<noteq> feedVersion then Inl (Wrap ''invalid counterparty version'' (Reg ''pricefeed'' 1501))
      else Inr ())"

definition feedOnChanOpenConfirm :: "unit res" where
  "feedOnChanOpenConfirm = Inr ()"

definition feedOnChanCloseInit :: "unit res" where
  "feedOnChanCloseInit = Inl (Wrap ''user cannot close channel'' (SdkErr ''ErrInvalidRequest''))"

definition feedOnChanCloseConfirm :: "unit res" where
  "feedOnChanCloseConfirm = Inr ()"

section \<open>Receiving\<close>

definition boolText :: "bool \<Rightarrow> string" where
  "boolText b = (if b then ''true'' else ''false'')"

text \<open>
  The event after a packet was handled. The code prints \<open>err != nil\<close> under the key \<open>success\<close>:
  \<open>failed\<close> is whether the handler returned an error.
\<close>

definition recvEvent :: "string \<Rightarrow> bool \<Rightarrow> ('b chain, unit) act" where
  "recvEvent eventType failed =
     emit eventType [(''module'', AStr ''pricefeed''), (''success'', AStr (boolText failed))]"

definition recvOutcome :: "'b ibc \<Rightarrow> string \<Rightarrow> ('b chain, unit) act \<Rightarrow> ('b chain, recvAck) act" where
  "recvOutcome I eventType handle =
     catchA handle
       (\<lambda>e. bnd (recvEvent eventType True) (\<lambda>_. return (ErrorAck e)))
       (\<lambda>_. case packetAckJSON I of
          None \<Rightarrow> return (ErrorAck (Wrap ''marshal'' (SdkErr ''ErrJSONMarshal'')))
        | Some packetAckBytes \<Rightarrow> bnd (recvEvent eventType False) (\<lambda>_. return (ResultAck packetAckBytes)))"

definition feedOnRecvPacket :: "'b sdk \<Rightarrow> 'b ibc \<Rightarrow> 'b price_keeper \<Rightarrow> bytes \<Rightarrow> ('b chain, recvAck) act" where
  "feedOnRecvPacket E I ok d = (case feedUnmarshal I d of
     None \<Rightarrow> return (ErrorAck (Wrap ''cannot unmarshal packet data'' (SdkErr ''ErrUnknownRequest'')))
   | Some (RequestPacket p) \<Rightarrow> recvOutcome I ''oracleRequest_packet'' (OnRecvOracleRequestPacket p)
   | Some (ResponsePacket p) \<Rightarrow> recvOutcome I ''oracleResponse_packet'' (OnRecvOracleResponsePacket E ok p)
   | Some NoDataPacket \<Rightarrow> return (ErrorAck (ErrMsg ''unrecognized pricefeed packet type'')))"

section \<open>Acknowledgements and timeouts\<close>

definition ackEvents :: "(ackResponse \<Rightarrow> string) \<Rightarrow> string \<Rightarrow> ackResponse \<Rightarrow> ('b chain, unit) act" where
  "ackEvents ackText eventType ack =
     bnd (emit eventType [(''acknowledgement'', AStr (ackText ack))]) (\<lambda>_.
     case ack of
       AckResult r \<Rightarrow> emit eventType [(''success'', AStr r)]
     | AckError e \<Rightarrow> emit eventType [(''error'', AStr e)]
     | AckNone \<Rightarrow> return ())"

definition feedOnAcknowledgementPacket ::
  "'b ibc \<Rightarrow> (ackResponse \<Rightarrow> string) \<Rightarrow> bytes \<Rightarrow> bytes \<Rightarrow> ('b chain, unit) act" where
  "feedOnAcknowledgementPacket I ackText d acknowledgement = (case AckCodec I acknowledgement of
     None \<Rightarrow> raise (Wrap ''cannot unmarshal packet acknowledgement'' (SdkErr ''ErrUnknownRequest''))
   | Some ack \<Rightarrow> (case feedUnmarshal I d of
       None \<Rightarrow> raise (Wrap ''cannot unmarshal packet data'' (SdkErr ''ErrUnknownRequest''))
     | Some (RequestPacket p) \<Rightarrow>
         bnd (lift (OnAcknowledgementOracleRequestPacket I ack)) (\<lambda>_. ackEvents ackText ''oracleRequest_packet'' ack)
     | Some (ResponsePacket p) \<Rightarrow>
         bnd (lift (OnAcknowledgementOracleResponsePacket I ack)) (\<lambda>_. ackEvents ackText ''oracleResponse_packet'' ack)
     | Some NoDataPacket \<Rightarrow> raise (Wrap ''unrecognized pricefeed packet type'' (SdkErr ''ErrUnknownRequest''))))"

definition feedOnTimeoutPacket :: "'b ibc \<Rightarrow> bytes \<Rightarrow> unit res" where
  "feedOnTimeoutPacket I d = (case feedUnmarshal I d of
     None \<Rightarrow> Inl (Wrap ''cannot unmarshal packet data'' (SdkErr ''ErrUnknownRequest''))
   | Some (RequestPacket p) \<Rightarrow> OnTimeoutOracleRequestPacket
   | Some (ResponsePacket p) \<Rightarrow> OnTimeoutOracleResponsePacket
   | Some NoDataPacket \<Rightarrow> Inl (Wrap ''unrecognized pricefeed packet type'' (SdkErr ''ErrUnknownRequest'')))"

section \<open>Parameters and genesis\<close>

definition feedValidate :: "unit \<Rightarrow> unit res" where
  "feedValidate p = Inr ()"

definition feedUpdateParams :: "'b sdk \<Rightarrow> addr \<Rightarrow> string \<Rightarrow> unit \<Rightarrow> ('b chain, unit) act" where
  "feedUpdateParams E authority signer p =
     bnd (lift (checkAuthority E ''pricefeed'' authority signer)) (\<lambda>_.
     bnd (lift (feedValidate p)) (\<lambda>_.
     modify (\<lambda>s. s\<lparr>feedParams := Some p\<rparr>)))"

definition feedQueryParams :: "unit option \<Rightarrow> ('b chain, unit) act" where
  "feedQueryParams req = bnd (lift (queryReq req)) (\<lambda>_.
     gets (\<lambda>s. case feedParams s of None \<Rightarrow> () | Some p \<Rightarrow> p))"

definition feedGenesisValidate :: "'b ibc \<Rightarrow> unit \<times> string \<Rightarrow> unit res" where
  "feedGenesisValidate I g = (if \<not> PortIdentifierOk I (snd g) then Inl (LibErr ''PortIdentifierValidator'')
     else feedValidate (fst g))"

definition feedInitGenesis :: "'b ibc \<Rightarrow> bool \<Rightarrow> unit \<times> string \<Rightarrow> ('b chain, unit) act" where
  "feedInitGenesis I scoped g =
     bnd (modify (\<lambda>s. s\<lparr>feedPort := Some (snd g)\<rparr>)) (\<lambda>_.
     bnd (ensureCapability I scoped (snd g)) (\<lambda>_.
     modify (\<lambda>s. s\<lparr>feedParams := Some (fst g)\<rparr>)))"

definition feedExportGenesis :: "'b chain \<Rightarrow> (unit \<times> string) res" where
  "feedExportGenesis s = rbind (ofOption (SdkErr ''collections: not found'') (feedParams s)) (\<lambda>p.
     Inr (p, case feedPort s of None \<Rightarrow> [] | Some port \<Rightarrow> port))"

interpretation feedGov: governed_params "feedUpdateParams E authority" feedParams
  "\<lambda>signer. StringToBytes E signer = Some authority" "\<lambda>p. feedValidate p = Inr ()" "\<lambda>p. p"
  for E :: "'b sdk" and authority
  by unfold_locales
    (auto simp: feedUpdateParams_def act_splits checkAuthority_Inr bnd_def lift_def modify_def split: sum.splits)

end
