(* ===== verification/FeedCorrect.thy ===== *)
theory FeedCorrect
  imports FeedModule OsmosisCorrect
begin

text \<open>
  What the Band price feed guarantees, and what it does not: requests keep their content, a rate of
  a response becomes the price whatever the last price was, and the two places where the code reports
  or computes something else than its names say.
\<close>

section \<open>Responses\<close>

lemma OnRecvOracleRequestPacket_eval [act_simps]: "OnRecvOracleRequestPacket d s = (Inr (), s)"
  by (simp add: OnRecvOracleRequestPacket_def act_simps)

context price_store
begin

lemma ignore_put: "ignoreA (put p) s = (Inr (), snd (put p s))"
  using put_returns [of p s] by (cases "put p s") (auto simp: ignoreA_def catchA_def return_def)

lemma storeFeedPrice_price:
  "fst (storeFeedPrice \<lparr>pkSet = put, pkGet = get\<rparr> p src i s) = Inr ()"
  "ok p \<Longrightarrow> get (snd (storeFeedPrice \<lparr>pkSet = put, pkGet = get\<rparr> p src i s)) = p"
proof -
  have "get (t\<lparr>events := es\<rparr>) = get t" for t es by (rule get_frame) simp
  then show "fst (storeFeedPrice \<lparr>pkSet = put, pkGet = get\<rparr> p src i s) = Inr ()"
    "ok p \<Longrightarrow> get (snd (storeFeedPrice \<lparr>pkSet = put, pkGet = get\<rparr> p src i s)) = p"
    by (simp_all add: storeFeedPrice_def bnd_def ignore_put emit_eval get_put)
qed

end

lemmas feed_store = price.storeFeedPrice_price [folded oracleKeeper_def]

lemma csvField_pos: "csvField E doc = Some d \<Longrightarrow> 0 < d \<and> (\<exists>x. dFromStr E x = Some d)"
  by (auto simp: csvField_def split: if_splits option.splits)

text \<open>A response handled without an error: nothing changed, or the rate, or the inverted price, was stored.\<close>

lemma ProcessPriceResponse_cases:
  assumes "ProcessPriceResponse E ok r s = (Inr (), t)"
  obtains (rate) d where "csvField E (orpRates r) = Some d"
      "storeFeedPrice ok d ''band_protocol_rates'' (orpRequestId r) s = (Inr (), t)"
  | (inverse) d q where "csvField E (orpRates r) = None" "csvField E (orpPrices r) = Some d" "dQuo E decOne d = Some q"
      "storeFeedPrice ok q ''band_protocol_prices_inverted'' (orpRequestId r) s = (Inr (), t)"
  | (unusable) "csvField E (orpRates r) = None" "csvField E (orpPrices r) = None" "t = s"
proof (cases "csvField E (orpRates r)")
  case (Some d)
  with assms show thesis by (intro rate) (auto simp: ProcessPriceResponse_def act_splits split: if_splits)
next
  case None
  show thesis
  proof (cases "csvField E (orpPrices r)")
    case (Some d)
    with None assms show thesis by (auto simp: ProcessPriceResponse_def act_splits intro: inverse split: if_splits)
  next
    case n: None
    with None assms show thesis by (intro unusable) (auto simp: ProcessPriceResponse_def act_splits split: if_splits)
  qed
qed

text \<open>An acknowledgement with a result means that the handler returned no error.\<close>

lemma recvOutcome_result:
  assumes "recvOutcome I ty h s = (Inr (ResultAck b), t)"
  obtains s1 where "h s = (Inr (), s1)" "t = s1\<lparr>events := events s1 @ [mkEvent ty
    [(''module'', AStr ''pricefeed''), (''success'', AStr ''false'')]]\<rparr>" "packetAckJSON I = Some b"
  using assms
  by (auto simp: recvOutcome_def catchA_Inr_iff act_splits recvEvent_def boolText_def split: option.splits)

lemma recvOutcome_error:
  assumes "recvOutcome I ty h s = (Inr (ErrorAck e), t)" "packetAckJSON I \<noteq> None"
  obtains s1 where "h s = (Inl e, s1)" "t = s1\<lparr>events := events s1 @ [mkEvent ty
    [(''module'', AStr ''pricefeed''), (''success'', AStr ''true'')]]\<rparr>"
  using assms
  by (auto simp: recvOutcome_def catchA_Inr_iff act_splits recvEvent_def boolText_def split: option.splits)

lemma recv_result:
  assumes "feedOnRecvPacket E I ok d s = (Inr (ResultAck b), t)" "feedUnmarshal I d = Some (ResponsePacket r)"
  obtains s1 where "orpError r = []" "ProcessPriceResponse E ok r s = (Inr (), s1)"
    "t = s1\<lparr>events := events s1 @ [mkEvent ''oracleResponse_packet''
      [(''module'', AStr ''pricefeed''), (''success'', AStr ''false'')]]\<rparr>"
proof -
  from assms have "recvOutcome I ''oracleResponse_packet'' (OnRecvOracleResponsePacket E ok r) s = (Inr (ResultAck b), t)"
    by (simp add: feedOnRecvPacket_def)
  then show thesis
  proof (rule recvOutcome_result)
    fix s1
    assume "OnRecvOracleResponsePacket E ok r s = (Inr (), s1)"
      "t = s1\<lparr>events := events s1 @ [mkEvent ''oracleResponse_packet''
        [(''module'', AStr ''pricefeed''), (''success'', AStr ''false'')]]\<rparr>"
    then show thesis
      by (intro that) (auto simp: OnRecvOracleResponsePacket_def act_splits split: if_splits)
  qed
qed

section \<open>Properties\<close>

text \<open>
  C17. A received oracle response that is acknowledged with a result sets the price to the
  positive CSV rate it holds, whatever the last price was; without a rate, to the inverse of its
  positive CSV price, rounded; and leaves the price alone when it has neither.
\<close>

theorem response_sets_the_price:
  assumes "dec_printable E" "dec_rounding E"
    and "feedUnmarshal I d = Some (ResponsePacket r)"
    and "feedOnRecvPacket E I (oracleKeeper E) d s = (Inr (ResultAck b), t)"
  shows "case csvField E (orpRates r) of
      Some rate \<Rightarrow> 0 < rate \<and> GetCSVPerUSD E t = rate
    | None \<Rightarrow> (case csvField E (orpPrices r) of
        Some usdPerCSV \<Rightarrow> 0 \<le> GetCSVPerUSD E t \<and>
          \<bar>GetCSVPerUSD E t * usdPerCSV - decOne * decOne\<bar> < usdPerCSV
      | None \<Rightarrow> GetCSVPerUSD E t = GetCSVPerUSD E s)"
proof -
  from assms(4,3) obtain s1 where run: "ProcessPriceResponse E (oracleKeeper E) r s = (Inr (), s1)"
    and "t = s1\<lparr>events := events s1 @ [mkEvent ''oracleResponse_packet''
      [(''module'', AStr ''pricefeed''), (''success'', AStr ''false'')]]\<rparr>"
    by (rule recv_result)
  then have t: "GetCSVPerUSD E t = GetCSVPerUSD E s1" by (intro GetCSVPerUSD_frame) simp
  from run show ?thesis
  proof (cases rule: ProcessPriceResponse_cases)
    case (rate p)
    from csvField_pos [OF rate(1)] assms(1) have pos: "0 < p" "price_ok E p" by (auto simp: dec_printable_def)
    with rate(2) feed_store(2) [of E p _ _ s] have "GetCSVPerUSD E s1 = p" by (metis snd_conv)
    with pos(1) rate(1) t show ?thesis by simp
  next
    case (inverse usd p)
    from csvField_pos [OF inverse(2)] have pos: "0 < usd" by simp
    from inverse(3) assms(1) have "price_ok E p" by (auto simp: dec_printable_def)
    with inverse(4) feed_store(2) [of E p _ _ s] have p: "GetCSVPerUSD E s1 = p" by (metis snd_conv)
    have "0 \<le> p" by (rule dQuo_nonneg [OF assms(2) inverse(3)]) (simp_all add: pos less_imp_le)
    with dQuo_near [OF assms(2) inverse(3)] pos inverse(1,2) t p show ?thesis by simp
  qed (simp_all add: t)
qed

definition priceResponse :: "string \<Rightarrow> string \<Rightarrow> bytes" where
  "priceResponse rates prices =
     the (refMarshal (ResponsePacket \<lparr>orpRequestId = 7, orpPrices = prices, orpRates = rates, orpError = []\<rparr>))"

definition csvDoc :: "string \<Rightarrow> string" where
  "csvDoc v = ''{'' @ jsonString ''CSV'' @ '':'' @ v @ ''}''"

definition cheapResponse :: bytes where
  "cheapResponse = priceResponse [] (csvDoc ''4'')"

definition cheapData :: OracleResponsePacketData where
  "cheapData = \<lparr>orpRequestId = 7, orpPrices = csvDoc ''4'', orpRates = [], orpError = []\<rparr>"

lemma cheapResponse_data: "feedUnmarshal ref_ibc cheapResponse = Some (ResponsePacket cheapData)"
proof -
  have "refMarshal (ResponsePacket cheapData) = Some cheapResponse"
    by (simp add: cheapResponse_def priceResponse_def cheapData_def refMarshal_def)
  from ref_codec [OF this] show ?thesis by (simp add: ref_ibc_def)
qed

theorem response_sets_the_price_witness:
  "\<bar>GetCSVPerUSD ref_sdk (snd (feedOnRecvPacket ref_sdk ref_ibc (oracleKeeper ref_sdk) cheapResponse (initChain emptyLedger)))
     * (4 * decOne) - decOne * decOne\<bar> < 4 * decOne"
proof -
  have r: "fst (feedOnRecvPacket ref_sdk ref_ibc (oracleKeeper ref_sdk) cheapResponse (initChain emptyLedger)) = Inr (ResultAck ''{}'')"
    by code_simp
  have f: "csvField ref_sdk (orpRates cheapData) = None" "csvField ref_sdk (orpPrices cheapData) = Some (4 * decOne)"
    by code_simp+
  from response_sets_the_price [OF ref_dec_printable ref_dec_rounding cheapResponse_data runs [OF r]] f
  show ?thesis by simp
qed

section \<open>Requests\<close>

lemma TransmitOracleRequestPacket_Inr:
  "TransmitOracleRequestPacket E I p port ch ts s = (Inr n, t) \<longleftrightarrow>
     (\<exists>b l. ibcKeeperFn E \<and> feedMarshal I (RequestPacket p) = Some b \<and> SendPacket E (ext s) port ch ts b = (Inr n, l) \<and> t = s\<lparr>ext := l\<rparr>)"
  by (auto simp: TransmitOracleRequestPacket_def requestBytes_def act_splits)

lemma SendOracleRequest_sent:
  assumes "SendOracleRequest E I msg s = (Inr (), t)"
  obtains b n l where "feedMarshal I (RequestPacket (requestPacketOf msg)) = Some b"
    "SendPacket E (ext s) (sorPort msg) (sorChannelID msg) (sorTimeoutTimestamp msg) b = (Inr n, l)"
    "t = s\<lparr>ext := l\<rparr>"
  using assms by (auto simp: SendOracleRequest_def act_splits TransmitOracleRequestPacket_Inr)

definition feedLinkState :: "ledger chain" where
  "feedLinkState = (initChain (emptyLedger\<lparr>channels := [(''channel-0'', [''connection-0''])]\<rparr>))\<lparr>blockTime := 1000000000000\<rparr>"

definition askTwo :: MsgSendOracleRequest where
  "askTwo = NewMsgSendOracleRequest ''alice'' ''pricefeed'' ''channel-0'' 4600 37 ''00'' ''CSV'' 2 0 [] 0 0 ''c''"

lemma ref_send_request:
  assumes "sorCreator msg \<noteq> []" "sorPort msg \<noteq> []" "sorChannelID msg = ''channel-0''" "sorTimeoutTimestamp msg \<noteq> 0"
  shows "fst (SendOracleRequest ref_sdk ref_ibc msg feedLinkState) = Inr ()"
  using assms
  by (simp add: SendOracleRequest_def TransmitOracleRequestPacket_def requestBytes_def act_simps checkRoute_def
    ref_sdk_def ref_ibc_def refMarshal_def refPacket_def feedLinkState_def initChain_def emptyLedger_def externV_def chanOf_def viaIBC_def bnd_def return_def)



text \<open>
  The timeout of a price request is computed in seconds while packets carry nanoseconds:
  the packet that is sent has a timeout before the time of its own block.
\<close>

theorem request_timeout_has_passed:
  assumes "RequestPriceData E I authority symbols channelID s = (Inr (), t)"
    and "10 ^ 4 \<le> blockTime s" "blockTime s < 2 ^ 63"
  shows "\<exists>b n timeout. SendPacket E (ext s) ''pricefeed'' channelID timeout b = (Inr n, ext t) \<and>
      uint timeout < blockTime s"
proof -
  from assms(1) have "SendOracleRequest E I (priceRequest E authority s symbols channelID) s = (Inr (), t)"
    by (auto simp: RequestPriceData_def act_splits)
  then obtain b n l where
    sent: "SendPacket E (ext s) ''pricefeed'' channelID (requestTimeout s) b = (Inr n, l)" "t = s\<lparr>ext := l\<rparr>"
    by (rule SendOracleRequest_sent) (simp add: priceRequest_def)
  have u: "0 \<le> unixTime s" "10 ^ 9 * unixTime s \<le> blockTime s"
    using assms(2) by (simp_all add: unixTime_def pos_imp_zdiv_nonneg_iff)
  then have "unixTime s + 3600 < 2 ^ 64" using assms(3) by simp
  then have "uint (requestTimeout s) = unixTime s + 3600"
    using u(1) by (simp add: requestTimeout_def uint_word_ariths uint_word_of_int take_bit_eq_mod)
  also have "\<dots> < blockTime s" using u assms(2) by (cases "unixTime s = 0") simp_all
  finally show ?thesis using sent by auto
qed

theorem request_timeout_has_passed_witness:
  "\<exists>b n timeout. SendPacket ref_sdk (ext feedLinkState) ''pricefeed'' ''channel-0'' timeout b =
      (Inr n, ext (snd (RequestPriceData ref_sdk ref_ibc ''gov'' (Some [''CSV'']) ''channel-0'' feedLinkState))) \<and>
     uint timeout < 1000000000000"
proof -
  have b: "blockTime feedLinkState = 1000000000000" by (simp add: feedLinkState_def)
  let ?msg = "priceRequest ref_sdk ''gov'' feedLinkState (Some [''CSV'']) ''channel-0''"
  have "sorCreator ?msg \<noteq> []" "sorPort ?msg \<noteq> []" "sorChannelID ?msg = ''channel-0''" "sorTimeoutTimestamp ?msg \<noteq> 0"
    by (simp_all add: priceRequest_def requestTimeout_def unixTime_def b ref_sdk_def)
  from runs [OF ref_send_request [OF this]]
  have r: "fst (RequestPriceData ref_sdk ref_ibc ''gov'' (Some [''CSV'']) ''channel-0'' feedLinkState) = Inr ()"
    unfolding RequestPriceData_def by (subst runs) (auto simp: act_simps wrapA_def split: prod.splits)
  show ?thesis using request_timeout_has_passed [OF runs [OF r]] b by simp
qed

text \<open>
  The event after a received packet says success true exactly when the acknowledgement is
  an error, and false when it is a result.
\<close>

theorem success_attribute_is_inverted:
  assumes "feedOnRecvPacket E I ok d s = (Inr ack, t)" "packetAckJSON I \<noteq> None"
    and "feedUnmarshal I d \<notin> {None, Some NoDataPacket}"
  shows "events t \<noteq> [] \<and> evAttrs (last (events t)) =
      [(''module'', AStr ''pricefeed''), (''success'', AStr (if (\<exists>b. ack = ResultAck b) then ''false'' else ''true''))]"
proof -
  from assms(1,3) obtain ty h where run: "recvOutcome I ty h s = (Inr ack, t)"
    by (auto simp: feedOnRecvPacket_def split: option.splits feedPacket.splits)
  show ?thesis
  proof (cases ack)
    case (ErrorAck e)
    from run [unfolded ErrorAck] assms(2) show ?thesis
      by (rule recvOutcome_error) (simp add: ErrorAck mkEvent_def)
  next
    case (ResultAck b)
    from run [unfolded ResultAck] show ?thesis
      by (rule recvOutcome_result) (simp add: ResultAck mkEvent_def)
  qed
qed

theorem success_attribute_is_inverted_witness:
  "evAttrs (last (events (snd (feedOnRecvPacket ref_sdk ref_ibc (oracleKeeper ref_sdk) cheapResponse (initChain emptyLedger)))))
     = [(''module'', AStr ''pricefeed''), (''success'', AStr ''false'')]"
proof -
  have r: "fst (feedOnRecvPacket ref_sdk ref_ibc (oracleKeeper ref_sdk) cheapResponse (initChain emptyLedger)) = Inr (ResultAck ''{}'')"
    by code_simp
  have a: "packetAckJSON ref_ibc \<noteq> None" by (simp add: ref_ibc_def)
  from success_attribute_is_inverted [OF runs [OF r] a] cheapResponse_data show ?thesis by simp
qed

text \<open>The defaults of the two counts are independent: a request for two answers can demand three.\<close>

lemma defaulted_minimum_exceeds_the_count:
  "orqAskCount (requestPacketOf askTwo) < orqMinCount (requestPacketOf askTwo)"
  by (simp add: requestPacketOf_def askTwo_def NewMsgSendOracleRequest_def)

end
