(* ===== verification/Genesis.thy ===== *)
theory Genesis
  imports FeedModule ParamModules Token ChargeFee
begin

text \<open>
  Genesis of the whole chain: the methods of \<open>x/*/module/module.go\<close> around the keepers' genesis, the
  same in every module, and their order in \<open>app/app_config.go\<close>, which leaves the treasury and the
  conversion pool out. The JSON codec of a genesis state is a parameter; \<open>codec_ok\<close> is its law. The
  modules of other repositories touch their own state only.
\<close>

record 'g codec =
  toJSON :: "'g \<Rightarrow> bytes option"
  fromJSON :: "bytes \<Rightarrow> 'g option"

definition codec_ok :: "'g codec \<Rightarrow> bool" where
  "codec_ok c \<longleftrightarrow> (\<forall>g b. toJSON c g = Some b \<longrightarrow> fromJSON c b = Some g)"

section \<open>Module methods\<close>

definition amValidateGenesis :: "'g codec \<Rightarrow> ('g \<Rightarrow> unit res) \<Rightarrow> bytes \<Rightarrow> unit res" where
  "amValidateGenesis c validate bz =
     rbind (ofOption (Wrap ''failed to unmarshal genesis state'' (LibErr ''UnmarshalJSON'')) (fromJSON c bz)) validate"

definition amInitGenesis :: "'g codec \<Rightarrow> ('g \<Rightarrow> ('b chain, unit) act) \<Rightarrow> bytes \<Rightarrow> ('b chain, unit) act" where
  "amInitGenesis c init gs = (case fromJSON c gs of
     None \<Rightarrow> raise Panic
   | Some genState \<Rightarrow> failWith Panic (init genState))"

definition amExportGenesis :: "'g codec \<Rightarrow> ('b chain \<Rightarrow> 'g res) \<Rightarrow> 'b chain \<Rightarrow> bytes res" where
  "amExportGenesis c export s = (case export s of
     Inl e \<Rightarrow> Inl Panic
   | Inr genState \<Rightarrow> ofOption Panic (toJSON c genState))"

section \<open>The chain\<close>

record codecs =
  cCosvian :: "unit codec"
  cToken :: "TokenParams codec"
  cOracle :: "unit codec"
  cPricefeed :: "(unit \<times> string) codec"
  cRegistry :: "RegistryParams codec"
  cFees :: "FeesParams codec"
  cOsmosisicq :: "OsmoParams codec"
  cIcqcontroller :: "(unit \<times> string) codec"

record app_genesis =
  gCosvian :: bytes
  gToken :: bytes
  gOracle :: bytes
  gPricefeed :: bytes
  gRegistry :: bytes
  gFees :: bytes
  gOsmosisicq :: bytes
  gIcqcontroller :: bytes

text \<open>The default genesis of each module (\<open>types/genesis.go\<close>), and what \<open>ValidateGenesis\<close> of the chain checks.\<close>

definition feesDefaultGenesis :: FeesParams where
  "feesDefaultGenesis = DefaultParams"

definition tokenDefaultGenesis :: TokenParams where
  "tokenDefaultGenesis = tokenNewParams"

definition oracleDefaultGenesis :: unit where
  "oracleDefaultGenesis = ()"

definition cosvianDefaultGenesis :: unit where
  "cosvianDefaultGenesis = ()"

definition registryDefaultGenesis :: RegistryParams where
  "registryDefaultGenesis = registryDefaultParams"

definition osmoDefaultGenesis :: OsmoParams where
  "osmoDefaultGenesis = osmoNewParams"

definition feedDefaultGenesis :: "unit \<times> string" where
  "feedDefaultGenesis = ((), ''pricefeed'')"

definition icqDefaultGenesis :: "unit \<times> string" where
  "icqDefaultGenesis = ((), ''icqcontroller'')"

definition amDefaultGenesis :: "'g codec \<Rightarrow> 'g \<Rightarrow> bytes res" where
  "amDefaultGenesis c g = ofOption Panic (toJSON c g)"

definition defaultModules :: "codecs \<Rightarrow> app_genesis res" where
  "defaultModules C =
     rbind (amDefaultGenesis (cCosvian C) cosvianDefaultGenesis) (\<lambda>cosvian.
     rbind (amDefaultGenesis (cToken C) tokenDefaultGenesis) (\<lambda>token.
     rbind (amDefaultGenesis (cOracle C) oracleDefaultGenesis) (\<lambda>orcl.
     rbind (amDefaultGenesis (cPricefeed C) feedDefaultGenesis) (\<lambda>feed.
     rbind (amDefaultGenesis (cRegistry C) registryDefaultGenesis) (\<lambda>registry.
     rbind (amDefaultGenesis (cFees C) feesDefaultGenesis) (\<lambda>fees.
     rbind (amDefaultGenesis (cOsmosisicq C) osmoDefaultGenesis) (\<lambda>osmo.
     rbind (amDefaultGenesis (cIcqcontroller C) icqDefaultGenesis) (\<lambda>icq.
     Inr \<lparr>gCosvian = cosvian, gToken = token, gOracle = orcl, gPricefeed = feed, gRegistry = registry,
       gFees = fees, gOsmosisicq = osmo, gIcqcontroller = icq\<rparr>))))))))"

definition validateModules :: "'b sdk \<Rightarrow> 'b ibc \<Rightarrow> codecs \<Rightarrow> app_genesis \<Rightarrow> unit res" where
  "validateModules E I C G =
     rbind (amValidateGenesis (cCosvian C) cosvianGenesisValidate (gCosvian G)) (\<lambda>_.
     rbind (amValidateGenesis (cToken C) tokenGenesisValidate (gToken G)) (\<lambda>_.
     rbind (amValidateGenesis (cOracle C) oracleValidate (gOracle G)) (\<lambda>_.
     rbind (amValidateGenesis (cPricefeed C) (feedGenesisValidate I) (gPricefeed G)) (\<lambda>_.
     rbind (amValidateGenesis (cRegistry C) registryGenesisValidate (gRegistry G)) (\<lambda>_.
     rbind (amValidateGenesis (cFees C) feesGenesisValidate (gFees G)) (\<lambda>_.
     rbind (amValidateGenesis (cOsmosisicq C) (osmoGenesisValidate E) (gOsmosisicq G)) (\<lambda>_.
     amValidateGenesis (cIcqcontroller C) (icqGenesisValidate I) (gIcqcontroller G))))))))"

definition initModules :: "'b sdk \<Rightarrow> 'b ibc \<Rightarrow> codecs \<Rightarrow> bool \<Rightarrow> app_genesis \<Rightarrow> ('b chain, unit) act" where
  "initModules E I C scoped G =
     andThen (amInitGenesis (cCosvian C) cosvianInitGenesis (gCosvian G))
    (andThen (amInitGenesis (cToken C) (tokenInitGenesis E) (gToken G))
    (andThen (amInitGenesis (cOracle C) oracleInitGenesis (gOracle G))
    (andThen (amInitGenesis (cPricefeed C) (feedInitGenesis I scoped) (gPricefeed G))
    (andThen (amInitGenesis (cRegistry C) registryInitGenesis (gRegistry G))
    (andThen (amInitGenesis (cFees C) (feesInitGenesis E) (gFees G))
    (andThen (amInitGenesis (cOsmosisicq C) osmoInitGenesis (gOsmosisicq G))
    (amInitGenesis (cIcqcontroller C) (icqInitGenesis I scoped) (gIcqcontroller G))))))))"

definition exportModules :: "codecs \<Rightarrow> 'b chain \<Rightarrow> app_genesis res" where
  "exportModules C s =
     rbind (amExportGenesis (cCosvian C) cosvianExportGenesis s) (\<lambda>cosvian.
     rbind (amExportGenesis (cToken C) tokenExportGenesis s) (\<lambda>token.
     rbind (amExportGenesis (cOracle C) oracleExportGenesis s) (\<lambda>orcl.
     rbind (amExportGenesis (cPricefeed C) feedExportGenesis s) (\<lambda>feed.
     rbind (amExportGenesis (cRegistry C) registryExportGenesis s) (\<lambda>registry.
     rbind (amExportGenesis (cFees C) feesExportGenesis s) (\<lambda>fees.
     rbind (amExportGenesis (cOsmosisicq C) osmoExportGenesis s) (\<lambda>osmo.
     rbind (amExportGenesis (cIcqcontroller C) icqExportGenesis s) (\<lambda>icq.
     Inr \<lparr>gCosvian = cosvian, gToken = token, gOracle = orcl, gPricefeed = feed, gRegistry = registry,
       gFees = fees, gOsmosisicq = osmo, gIcqcontroller = icq\<rparr>))))))))"

section \<open>Lemmas\<close>

definition codecs_ok :: "codecs \<Rightarrow> bool" where
  "codecs_ok C \<longleftrightarrow> codec_ok (cCosvian C) \<and> codec_ok (cToken C) \<and> codec_ok (cOracle C) \<and> codec_ok (cPricefeed C) \<and>
     codec_ok (cRegistry C) \<and> codec_ok (cFees C) \<and> codec_ok (cOsmosisicq C) \<and> codec_ok (cIcqcontroller C)"

text \<open>Claiming a capability may fail, but does not panic.\<close>

definition capability_law :: "'b ibc \<Rightarrow> bool" where
  "capability_law I \<longleftrightarrow> (\<forall>b name. fst (NewCapability I b name) \<noteq> Some Panic)"

lemma amExport_Inr:
  assumes "amExportGenesis c export s = Inr b" "codec_ok c"
  obtains g where "export s = Inr g" "toJSON c g = Some b" "fromJSON c b = Some g"
  using assms by (auto simp: amExportGenesis_def codec_ok_def ofOption_Inr_iff split: sum.splits)

lemma amInit_eval:
  "fromJSON c b = Some g \<Longrightarrow> init g s = (Inr (), t) \<Longrightarrow> amInitGenesis c init b s = (Inr (), t)"
  by (simp add: amInitGenesis_def failWith_def catchA_def return_def)

lemma newCapability_eval:
  "capability_law I \<Longrightarrow> \<exists>e. ignoreA (extern (\<lambda>b. NewCapability I b name)) s = (Inr (), s\<lparr>ext := e\<rparr>)"
  by (cases "NewCapability I (ext s) name")
    (auto simp: ignoreA_def catchA_def extern_def return_def capability_law_def split: go_error.splits option.splits, metis fst_conv)

lemma ensureCapability_eval:
  assumes "capability_law I"
  shows "\<exists>e. ensureCapability I scoped port s = (Inr (), s\<lparr>ext := e\<rparr>)"
proof (cases "scoped \<and> \<not> HasCapability I (ext s) (''ports/'' @ port)")
  case True
  with newCapability_eval [OF assms, of "''ports/'' @ port" s] show ?thesis
    by (auto simp: ensureCapability_def whenA_def Let_def act_simps)
next
  case False
  then show ?thesis
    by (auto simp: ensureCapability_def whenA_def Let_def act_simps intro!: exI [of _ "ext s"])
qed

lemma feedInit_eval:
  "capability_law I \<Longrightarrow> \<exists>e. feedInitGenesis I scoped g s =
     (Inr (), s\<lparr>feedPort := Some (snd g), ext := e, feedParams := Some (fst g)\<rparr>)"
  using ensureCapability_eval [of I scoped "snd g" "s\<lparr>feedPort := Some (snd g)\<rparr>"]
  by (auto simp: feedInitGenesis_def act_simps bnd_def modify_def)

lemma icqInit_eval:
  "capability_law I \<Longrightarrow> \<exists>e. icqInitGenesis I scoped g s =
     (Inr (), s\<lparr>icqPort := Some (snd g), ext := e, icqParams := Some (fst g)\<rparr>)"
  using ensureCapability_eval [of I scoped "snd g" "s\<lparr>icqPort := Some (snd g)\<rparr>"]
  by (auto simp: icqInitGenesis_def act_simps bnd_def modify_def)

lemma decWire_idem: "wire_laws E \<Longrightarrow> decWire E (decWire E x) = decWire E x"
  by (cases x; cases "decWire E x") (auto simp: wire_laws_def)

lemma intWire_idem: "wire_laws E \<Longrightarrow> intWire E (intWire E x) = intWire E x"
  by (cases x; cases "intWire E x") (auto simp: wire_laws_def)

lemma wire_idem:
  assumes "wire_laws E"
  shows "wireParams E (wireParams E p) = wireParams E p"
    and "wireTokenParams E (wireTokenParams E q) = wireTokenParams E q"
  by (simp_all add: wireParams_def wireTable_def wireConfig_def wireSplit_def wireTokenParams_def
    decWire_idem [OF assms] intWire_idem [OF assms])

lemma exportModules_Inr:
  assumes "exportModules C s = Inr G"
  shows "amExportGenesis (cCosvian C) cosvianExportGenesis s = Inr (gCosvian G)"
    "amExportGenesis (cToken C) tokenExportGenesis s = Inr (gToken G)"
    "amExportGenesis (cOracle C) oracleExportGenesis s = Inr (gOracle G)"
    "amExportGenesis (cPricefeed C) feedExportGenesis s = Inr (gPricefeed G)"
    "amExportGenesis (cRegistry C) registryExportGenesis s = Inr (gRegistry G)"
    "amExportGenesis (cFees C) feesExportGenesis s = Inr (gFees G)"
    "amExportGenesis (cOsmosisicq C) osmoExportGenesis s = Inr (gOsmosisicq G)"
    "amExportGenesis (cIcqcontroller C) icqExportGenesis s = Inr (gIcqcontroller G)"
  using assms by (auto simp: exportModules_def rbind_Inr_iff)

lemma exportModules_cong:
  assumes "cosvianExportGenesis t = cosvianExportGenesis s" "tokenExportGenesis t = tokenExportGenesis s"
    "oracleExportGenesis t = oracleExportGenesis s" "feedExportGenesis t = feedExportGenesis s"
    "registryExportGenesis t = registryExportGenesis s" "feesExportGenesis t = feesExportGenesis s"
    "osmoExportGenesis t = osmoExportGenesis s" "icqExportGenesis t = icqExportGenesis s"
  shows "exportModules C t = exportModules C s"
  unfolding exportModules_def amExportGenesis_def by (simp only: assms)

lemma initModules_eval:
  assumes "capability_law I"
    and "fromJSON (cCosvian C) (gCosvian G) = Some pc" "fromJSON (cToken C) (gToken G) = Some pt"
      "fromJSON (cOracle C) (gOracle G) = Some po" "fromJSON (cPricefeed C) (gPricefeed G) = Some pf"
      "fromJSON (cRegistry C) (gRegistry G) = Some pr" "fromJSON (cFees C) (gFees G) = Some pe"
      "fromJSON (cOsmosisicq C) (gOsmosisicq G) = Some pm" "fromJSON (cIcqcontroller C) (gIcqcontroller G) = Some pq"
  shows "\<exists>e1 e2. initModules E I C scoped G s = (Inr (), s
    \<lparr>cosvianParams := Some pc, tokenParams := Some (wireTokenParams E pt), oracleParams := Some po,
     feedPort := Some (snd pf), ext := e1, feedParams := Some (fst pf), registryParams := Some pr,
     feesParams := Some (wireParams E pe), osmoParams := Some pm,
     icqPort := Some (snd pq), ext := e2, icqParams := Some (fst pq)\<rparr>)"
proof -
  let ?s3 = "s\<lparr>cosvianParams := Some pc, tokenParams := Some (wireTokenParams E pt), oracleParams := Some po\<rparr>"
  obtain e1 where f: "feedInitGenesis I scoped pf ?s3 =
      (Inr (), ?s3\<lparr>feedPort := Some (snd pf), ext := e1, feedParams := Some (fst pf)\<rparr>)"
    using feedInit_eval [OF assms(1)] by blast
  let ?s7 = "?s3\<lparr>feedPort := Some (snd pf), ext := e1, feedParams := Some (fst pf), registryParams := Some pr,
     feesParams := Some (wireParams E pe), osmoParams := Some pm\<rparr>"
  obtain e2 where q: "icqInitGenesis I scoped pq ?s7 =
      (Inr (), ?s7\<lparr>icqPort := Some (snd pq), ext := e2, icqParams := Some (fst pq)\<rparr>)"
    using icqInit_eval [OF assms(1)] by blast
  have 1: "amInitGenesis (cCosvian C) cosvianInitGenesis (gCosvian G) s = (Inr (), s\<lparr>cosvianParams := Some pc\<rparr>)"
    by (rule amInit_eval [OF assms(2)]) (simp add: cosvianInitGenesis_def modify_def)
  have 2: "amInitGenesis (cToken C) (tokenInitGenesis E) (gToken G) u = (Inr (), u\<lparr>tokenParams := Some (wireTokenParams E pt)\<rparr>)" for u
    by (rule amInit_eval [OF assms(3)]) (simp add: tokenInitGenesis_def modify_def)
  have 3: "amInitGenesis (cOracle C) oracleInitGenesis (gOracle G) u = (Inr (), u\<lparr>oracleParams := Some po\<rparr>)" for u
    by (rule amInit_eval [OF assms(4)]) (simp add: oracleInitGenesis_def modify_def)
  have 4: "amInitGenesis (cPricefeed C) (feedInitGenesis I scoped) (gPricefeed G) ?s3 =
      (Inr (), ?s3\<lparr>feedPort := Some (snd pf), ext := e1, feedParams := Some (fst pf)\<rparr>)"
    by (rule amInit_eval [OF assms(5)]) (rule f)
  have 5: "amInitGenesis (cRegistry C) registryInitGenesis (gRegistry G) u = (Inr (), u\<lparr>registryParams := Some pr\<rparr>)" for u
    by (rule amInit_eval [OF assms(6)]) (simp add: registryInitGenesis_def modify_def)
  have 6: "amInitGenesis (cFees C) (feesInitGenesis E) (gFees G) u = (Inr (), u\<lparr>feesParams := Some (wireParams E pe)\<rparr>)" for u
    by (rule amInit_eval [OF assms(7)]) (simp add: feesInitGenesis_def modify_def)
  have 7: "amInitGenesis (cOsmosisicq C) osmoInitGenesis (gOsmosisicq G) u = (Inr (), u\<lparr>osmoParams := Some pm\<rparr>)" for u
    by (rule amInit_eval [OF assms(8)]) (simp add: osmoInitGenesis_def modify_def)
  have 8: "amInitGenesis (cIcqcontroller C) (icqInitGenesis I scoped) (gIcqcontroller G) ?s7 =
      (Inr (), ?s7\<lparr>icqPort := Some (snd pq), ext := e2, icqParams := Some (fst pq)\<rparr>)"
    by (rule amInit_eval [OF assms(9)]) (rule q)
  have "initModules E I C scoped G s = (Inr (), ?s7\<lparr>icqPort := Some (snd pq), ext := e2, icqParams := Some (fst pq)\<rparr>)"
    by (simp only: initModules_def andThen_def bnd_def 1 2 3 4 5 6 7 8 prod.case sum.case)
  then show ?thesis by blast
qed

text \<open>Genesis documents that are accepted are read, and their contents pass the module's validation.\<close>

lemma amValidate_Inr: "amValidateGenesis c validate bz = Inr () \<longleftrightarrow> (\<exists>g. fromJSON c bz = Some g \<and> validate g = Inr ())"
  by (auto simp: amValidateGenesis_def act_splits)

lemma validateModules_Inr:
  assumes "validateModules E I C G = Inr ()"
  obtains pc pt po pf pr pe pm pq where
    "fromJSON (cCosvian C) (gCosvian G) = Some pc" "fromJSON (cToken C) (gToken G) = Some pt"
    "fromJSON (cOracle C) (gOracle G) = Some po" "fromJSON (cPricefeed C) (gPricefeed G) = Some pf"
    "fromJSON (cRegistry C) (gRegistry G) = Some pr" "fromJSON (cFees C) (gFees G) = Some pe"
    "fromJSON (cOsmosisicq C) (gOsmosisicq G) = Some pm" "fromJSON (cIcqcontroller C) (gIcqcontroller G) = Some pq"
    "tokenGenesisValidate pt = Inr ()" "registryGenesisValidate pr = Inr ()" "feesGenesisValidate pe = Inr ()"
    "osmoGenesisValidate E pm = Inr ()"
  using assms by (auto simp: validateModules_def act_splits amValidate_Inr)

lemma defaultModules_Inr:
  assumes "defaultModules C = Inr G"
  shows "amDefaultGenesis (cCosvian C) cosvianDefaultGenesis = Inr (gCosvian G)"
    "amDefaultGenesis (cToken C) tokenDefaultGenesis = Inr (gToken G)"
    "amDefaultGenesis (cOracle C) oracleDefaultGenesis = Inr (gOracle G)"
    "amDefaultGenesis (cPricefeed C) feedDefaultGenesis = Inr (gPricefeed G)"
    "amDefaultGenesis (cRegistry C) registryDefaultGenesis = Inr (gRegistry G)"
    "amDefaultGenesis (cFees C) feesDefaultGenesis = Inr (gFees G)"
    "amDefaultGenesis (cOsmosisicq C) osmoDefaultGenesis = Inr (gOsmosisicq G)"
    "amDefaultGenesis (cIcqcontroller C) icqDefaultGenesis = Inr (gIcqcontroller G)"
  using assms by (auto simp: defaultModules_def rbind_Inr_iff)

lemma default_genesis_accepted:
  assumes "codecs_ok C" "defaultModules C = Inr G"
    and "dFromStr E ''0'' \<noteq> None" "dFromStr E ''0.5'' = Some dev" "0 \<le> dev"
    and "PortIdentifierOk I ''pricefeed''" "PortIdentifierOk I ''icqcontroller''"
  shows "validateModules E I C G = Inr ()"
proof -
  have c: "fromJSON c b = Some g" if "codec_ok c" "amDefaultGenesis c g = Inr b" for c :: "'g codec" and g b
    using that by (auto simp: amDefaultGenesis_def codec_ok_def act_splits)
  have w: "TrimSpace ''uosmo'' \<noteq> []" "TrimSpace ''ibc/PLACEHOLDER_HASH'' \<noteq> []" by code_simp+
  have m: "osmoGenesisValidate E osmoDefaultGenesis = Inr ()"
    using assms(3-5) w by (auto simp: osmoGenesisValidate_def osmoDefaultGenesis_def osmoValidate_def osmoNewParams_def)
  have f: "feesGenesisValidate feesDefaultGenesis = Inr ()" by code_simp
  have t: "tokenGenesisValidate tokenDefaultGenesis = Inr ()" by code_simp
  have r: "registryGenesisValidate registryDefaultGenesis = Inr ()" by code_simp
  note dec = c [of "cCosvian C"] c [of "cToken C"] c [of "cOracle C"] c [of "cPricefeed C"]
    c [of "cRegistry C"] c [of "cFees C"] c [of "cOsmosisicq C"] c [of "cIcqcontroller C"]
  have ok: "codec_ok (cCosvian C)" "codec_ok (cToken C)" "codec_ok (cOracle C)" "codec_ok (cPricefeed C)"
    "codec_ok (cRegistry C)" "codec_ok (cFees C)" "codec_ok (cOsmosisicq C)" "codec_ok (cIcqcontroller C)"
    using assms(1) by (simp_all add: codecs_ok_def)
  note d = defaultModules_Inr [OF assms(2)]
  note j = dec(1) [OF ok(1) d(1)] dec(2) [OF ok(2) d(2)] dec(3) [OF ok(3) d(3)] dec(4) [OF ok(4) d(4)]
    dec(5) [OF ok(5) d(5)] dec(6) [OF ok(6) d(6)] dec(7) [OF ok(7) d(7)] dec(8) [OF ok(8) d(8)]
  have i: "feedGenesisValidate I feedDefaultGenesis = Inr ()" "icqGenesisValidate I icqDefaultGenesis = Inr ()"
    using assms(6,7) by (simp_all add: feedGenesisValidate_def icqGenesisValidate_def feedValidate_def icqValidate_def
      feedDefaultGenesis_def icqDefaultGenesis_def)
  show ?thesis
    using j by (simp add: validateModules_def amValidateGenesis_def f t r m i cosvianGenesisValidate_def
      cosvianValidate_def oracleValidate_def)
qed

section \<open>Restarting from an export\<close>

text \<open>
  C18. A chain started from the exported genesis of a running one exports the same genesis
  again, but it has no tokens, no CSV price and no channel: only parameters and ports survive a
  restart.
\<close>

theorem restart_keeps_parameters_only:
  assumes "wire_laws E" "codecs_ok C" "capability_law I"
    and "feesParams s = Some (wireParams E fp)" "tokenParams s = Some (wireTokenParams E tp)"
    and "exportModules C s = Inr G"
  shows "\<exists>t. initModules E I C scoped G (initChain b) = (Inr (), t) \<and> exportModules C t = Inr G \<and>
    tokenKV t = [] \<and> GetCSVPerUSD E t = 0 \<and> icqActive t = Map.empty"
proof -
  from assms(2) have ok: "codec_ok (cCosvian C)" "codec_ok (cToken C)" "codec_ok (cOracle C)" "codec_ok (cPricefeed C)"
    "codec_ok (cRegistry C)" "codec_ok (cFees C)" "codec_ok (cOsmosisicq C)" "codec_ok (cIcqcontroller C)"
    by (simp_all add: codecs_ok_def)
  note x = exportModules_Inr [OF assms(6)]
  obtain pc where c: "cosvianExportGenesis s = Inr pc" "fromJSON (cCosvian C) (gCosvian G) = Some pc"
    using amExport_Inr [OF x(1) ok(1)] by blast
  obtain pt where t: "tokenExportGenesis s = Inr pt" "fromJSON (cToken C) (gToken G) = Some pt"
    using amExport_Inr [OF x(2) ok(2)] by blast
  obtain po where orc: "oracleExportGenesis s = Inr po" "fromJSON (cOracle C) (gOracle G) = Some po"
    using amExport_Inr [OF x(3) ok(3)] by blast
  obtain pf where f: "feedExportGenesis s = Inr pf" "fromJSON (cPricefeed C) (gPricefeed G) = Some pf"
    using amExport_Inr [OF x(4) ok(4)] by blast
  obtain pr where r: "registryExportGenesis s = Inr pr" "fromJSON (cRegistry C) (gRegistry G) = Some pr"
    using amExport_Inr [OF x(5) ok(5)] by blast
  obtain pe where e: "feesExportGenesis s = Inr pe" "fromJSON (cFees C) (gFees G) = Some pe"
    using amExport_Inr [OF x(6) ok(6)] by blast
  obtain pm where m: "osmoExportGenesis s = Inr pm" "fromJSON (cOsmosisicq C) (gOsmosisicq G) = Some pm"
    using amExport_Inr [OF x(7) ok(7)] by blast
  obtain pq where q: "icqExportGenesis s = Inr pq" "fromJSON (cIcqcontroller C) (gIcqcontroller G) = Some pq"
    using amExport_Inr [OF x(8) ok(8)] by blast
  obtain t' where run: "initModules E I C scoped G (initChain b) = (Inr (), t')" and
    t': "\<exists>e1 e2. t' = initChain b\<lparr>cosvianParams := Some pc, tokenParams := Some (wireTokenParams E pt), oracleParams := Some po,
     feedPort := Some (snd pf), ext := e1, feedParams := Some (fst pf), registryParams := Some pr,
     feesParams := Some (wireParams E pe), osmoParams := Some pm,
     icqPort := Some (snd pq), ext := e2, icqParams := Some (fst pq)\<rparr>"
    using initModules_eval [OF assms(3) c(2) t(2) orc(2) f(2) r(2) e(2) m(2) q(2), of E scoped "initChain b"] by blast
  have w: "wireParams E pe = pe" "wireTokenParams E pt = pt"
    using e(1) t(1) assms(4,5) wire_idem [OF assms(1)] by (auto simp: feesExportGenesis_def tokenExportGenesis_def)
  have "exportModules C t' = exportModules C s"
    by (rule exportModules_cong; use t' c(1) t(1) orc(1) f(1) r(1) e(1) m(1) q(1) w in
      \<open>auto simp: cosvianExportGenesis_def tokenExportGenesis_def oracleExportGenesis_def registryExportGenesis_def
        feesExportGenesis_def osmoExportGenesis_def feedExportGenesis_def icqExportGenesis_def rbind_Inr_iff ofOption_Inr_iff\<close>)
  moreover have "tokenKV t' = []" "csvPrice t' = Map.empty" "icqActive t' = Map.empty"
    using t' by (auto simp: initChain_def)
  ultimately show ?thesis using run assms(6) by (simp add: GetCSVPerUSD_def)
qed

definition oneState :: "'g \<Rightarrow> 'g codec" where
  "oneState g = \<lparr>toJSON = (\<lambda>h. if h = g then Some ''{}'' else None), fromJSON = (\<lambda>b. Some g)\<rparr>"

lemma oneState_ok [simp]: "codec_ok (oneState g)"
  by (simp add: codec_ok_def oneState_def)

definition oneCodecs :: codecs where
  "oneCodecs = \<lparr>cCosvian = oneState (), cToken = oneState (wireTokenParams ref_sdk tokenNewParams), cOracle = oneState (),
     cPricefeed = oneState ((), ''pricefeed''), cRegistry = oneState registryDefaultParams,
     cFees = oneState (wireParams ref_sdk DefaultParams), cOsmosisicq = oneState osmoNewParams,
     cIcqcontroller = oneState ((), ''icqcontroller'')\<rparr>"

definition emptyDocs :: app_genesis where
  "emptyDocs = \<lparr>gCosvian = ''{}'', gToken = ''{}'', gOracle = ''{}'', gPricefeed = ''{}'', gRegistry = ''{}'',
     gFees = ''{}'', gOsmosisicq = ''{}'', gIcqcontroller = ''{}''\<rparr>"

definition runningState :: "ledger chain" where
  "runningState = (initChain emptyLedger)\<lparr>cosvianParams := Some (),
     tokenParams := Some (wireTokenParams ref_sdk tokenNewParams), oracleParams := Some (), feedParams := Some (),
     feedPort := Some ''pricefeed'', registryParams := Some registryDefaultParams,
     feesParams := Some (wireParams ref_sdk DefaultParams), osmoParams := Some osmoNewParams, icqParams := Some (),
     icqPort := Some ''icqcontroller'', csvPrice := [''CSV_USD'' \<mapsto> ''0.5''], tokenKV := [(sequenceKey, VU64 1)]\<rparr>"

theorem restart_keeps_parameters_only_witness:
  "\<exists>t. initModules ref_sdk ref_ibc oneCodecs False emptyDocs (initChain emptyLedger) = (Inr (), t) \<and>
    exportModules oneCodecs t = Inr emptyDocs \<and> tokenKV runningState \<noteq> [] \<and> tokenKV t = [] \<and>
    GetCSVPerUSD ref_sdk runningState \<noteq> 0 \<and> GetCSVPerUSD ref_sdk t = 0"
proof -
  have c: "codecs_ok oneCodecs" by (simp add: codecs_ok_def oneCodecs_def)
  have l: "capability_law ref_ibc" by (simp add: capability_law_def ref_ibc_def)
  have p: "feesParams runningState = Some (wireParams ref_sdk DefaultParams)"
    "tokenParams runningState = Some (wireTokenParams ref_sdk tokenNewParams)"
    by (simp_all add: runningState_def)
  have x: "exportModules oneCodecs runningState = Inr emptyDocs"
    by (simp add: exportModules_def amExportGenesis_def oneCodecs_def oneState_def runningState_def emptyDocs_def
      cosvianExportGenesis_def tokenExportGenesis_def oracleExportGenesis_def registryExportGenesis_def
      feesExportGenesis_def osmoExportGenesis_def feedExportGenesis_def icqExportGenesis_def)
  have s: "GetCSVPerUSD ref_sdk runningState \<noteq> 0" "tokenKV runningState \<noteq> []" by code_simp (simp add: runningState_def)
  show ?thesis using restart_keeps_parameters_only [OF ref_wire_laws c l p x] s by blast
qed

end
