(* ===== verification/Application.thy ===== *)
theory Application
  imports TokenCorrect IcqCorrect FeedCorrect AppAnte Genesis
begin

text \<open>
  The application as a whole: what \<open>app.New\<close> wires together (\<open>app/app.go\<close>, \<open>app/app_config.go\<close>, the
  \<open>depinject.go\<close> of the modules) and the entry points the chain then has, as one executable step
  function over the shared state. The treasury and the conversion pool are commented out of the
  application, so they have no entry here.
\<close>

section \<open>Wiring\<close>

text \<open>
  \<open>aBase\<close> is the ante handler the application had before \<open>customAnte\<close> replaced it (the one
  \<open>setAnteHandler\<close> installs), \<open>aAsync\<close> the build
  tag \<open>icq_async\<close>, \<open>aConsumer\<close> what \<open>SetKVConsumer\<close> was given, which no code of the repository calls.
  Whether the keepers can reach the IBC keeper is \<open>ibcKeeperFn\<close> of \<open>aSdk\<close>: the inputs declare the
  function optional, and nothing supplies it.
\<close>

record 'b app =
  aSdk :: "'b sdk"
  aIbc :: "'b ibc"
  aBase :: "'b ante"
  aAsync :: bool
  aConsumer :: "'b kv_consumer option"
  aAckText :: "ackResponse \<Rightarrow> string"

text \<open>\<open>ProvideModule\<close>: the authority of every module, with no authority in the configuration.\<close>

definition moduleAuthority :: "'b sdk \<Rightarrow> addr" where
  "moduleAuthority E = GetModuleAddress E ''gov''"

text \<open>The client \<open>osmosisicq\<close> is given: the adapter around the controller, or the registration-only one.\<close>

definition appClient :: "'b app \<Rightarrow> 'b icq_client option" where
  "appClient A = Some (icqRegisterKVQuery (aSdk A) (aIbc A) True)"

definition appExtract :: "'b app \<Rightarrow> bytes \<Rightarrow> bytes res" where
  "appExtract A = (if aAsync A then extractValueAsync (aIbc A) else extractValueStub)"

definition appAnte :: "'b app \<Rightarrow> 'b ante" where
  "appAnte A = customAnte (GetExchangeRate (aSdk A)) (aSdk A) (aBase A)"

text \<open>The chain modules in the order of \<open>BeginBlockers\<close>; only one of them does something.\<close>

definition BeginBlockers :: "string list" where
  "BeginBlockers = [''cosvian'', ''token'', ''oracle'', ''pricefeed'', ''registry'', ''fees'', ''osmosisicq'', ''icqcontroller'']"

definition moduleBeginBlock :: "'b app \<Rightarrow> string \<Rightarrow> ('b chain, unit) act" where
  "moduleBeginBlock A name = (if name = ''osmosisicq'' then osmoBeginBlock (appClient A) True else return ())"

definition beginBlock :: "'b app \<Rightarrow> ('b chain, unit) act" where
  "beginBlock A = forA BeginBlockers (moduleBeginBlock A)"

section \<open>Entry points\<close>

text \<open>The messages the modules serve and the callbacks the IBC router makes.\<close>

datatype app_msg =
    TokenMsg token_msg
  | SetPriceMsg MsgSetPrice
  | ChargeFeeMsg MsgChargeFee
  | OracleRequestMsg MsgSendOracleRequest
  | OracleResponseMsg MsgSendOracleResponse
  | FeesParamsMsg string FeesParams
  | OracleParamsMsg string unit
  | TokenParamsMsg string TokenParams
  | RegistryParamsMsg string RegistryParams
  | CosvianParamsMsg string unit
  | OsmoParamsMsg string OsmoParams
  | IcqParamsMsg string unit
  | FeedParamsMsg string unit
  | IcqOpenInit "string list" string string
  | IcqOpenTry "string list" string string
  | IcqOpenAck string
  | IcqOpenConfirm
  | IcqCloseInit
  | IcqCloseConfirm string string
  | IcqAck string string u64 bytes
  | IcqTimeout string string u64
  | FeedOpenInit string
  | FeedOpenTry string
  | FeedOpenAck string
  | FeedRecv bytes
  | FeedAck bytes bytes
  | FeedTimeout bytes

definition void :: "('s, 'a) act \<Rightarrow> ('s, unit) act" where
  "void m = bnd m (\<lambda>_. return ())"

text \<open>A received packet leaves its writes behind only when it is acknowledged with a result.\<close>

definition needResult :: "recvAck \<Rightarrow> ('s, unit) act" where
  "needResult ack = (case ack of ErrorAck e \<Rightarrow> raise e | ResultAck _ \<Rightarrow> return ())"

fun runMsg :: "'b app \<Rightarrow> app_msg \<Rightarrow> ('b chain, unit) act" where
  "runMsg A (TokenMsg m) = runToken (aSdk A) m"
| "runMsg A (SetPriceMsg m) = void (SetPrice (aSdk A) m)"
| "runMsg A (ChargeFeeMsg m) = void (ChargeFee (GetExchangeRate (aSdk A)) (aSdk A) m)"
| "runMsg A (OracleRequestMsg m) = SendOracleRequest (aSdk A) (aIbc A) m"
| "runMsg A (OracleResponseMsg m) = SendOracleResponse (aSdk A) (aIbc A) m"
| "runMsg A (FeesParamsMsg x p) = feesUpdateParams (aSdk A) (moduleAuthority (aSdk A)) x p"
| "runMsg A (OracleParamsMsg x p) = oracleUpdateParams (aSdk A) (moduleAuthority (aSdk A)) x p"
| "runMsg A (TokenParamsMsg x p) = tokenUpdateParams (aSdk A) (moduleAuthority (aSdk A)) x p"
| "runMsg A (RegistryParamsMsg x p) = registryUpdateParams (aSdk A) (moduleAuthority (aSdk A)) x p"
| "runMsg A (CosvianParamsMsg x p) = cosvianUpdateParams (aSdk A) (moduleAuthority (aSdk A)) x p"
| "runMsg A (OsmoParamsMsg x p) = osmoUpdateParams (aSdk A) (moduleAuthority (aSdk A)) x p"
| "runMsg A (IcqParamsMsg x p) = icqUpdateParams (aSdk A) (moduleAuthority (aSdk A)) x p"
| "runMsg A (FeedParamsMsg x p) = feedUpdateParams (aSdk A) (moduleAuthority (aSdk A)) x p"
| "runMsg A (IcqOpenInit hops c v) = void (icqOnChanOpenInit hops c v)"
| "runMsg A (IcqOpenTry hops c v) = void (icqOnChanOpenTry hops c v)"
| "runMsg A (IcqOpenAck v) = icqOnChanOpenAck v"
| "runMsg A IcqOpenConfirm = icqOnChanOpenConfirm"
| "runMsg A IcqCloseInit = icqOnChanCloseInit"
| "runMsg A (IcqCloseConfirm p c) = icqOnChanCloseConfirm (aSdk A) p c"
| "runMsg A (IcqAck p c n a) = icqOnAcknowledgementPacket (aIbc A) (appExtract A) (aConsumer A) p c n a"
| "runMsg A (IcqTimeout p c n) = icqOnTimeoutPacket p c n"
| "runMsg A (FeedOpenInit v) = void (lift (feedOnChanOpenInit v))"
| "runMsg A (FeedOpenTry v) = void (lift (feedOnChanOpenTry v))"
| "runMsg A (FeedOpenAck v) = lift (feedOnChanOpenAck v)"
| "runMsg A (FeedRecv d) = bnd (feedOnRecvPacket (aSdk A) (aIbc A) (oracleKeeper (aSdk A)) d) needResult"
| "runMsg A (FeedAck d a) = feedOnAcknowledgementPacket (aIbc A) (aAckText A) d a"
| "runMsg A (FeedTimeout d) = lift (feedOnTimeoutPacket (aIbc A) d)"

text \<open>
  An event of the chain: the ante handler of a transaction passes it, one of its messages runs, a
  block begins, or another module changes the state it keeps. An event that fails leaves the state as
  it was, which is what the SDK does with a failed transaction.
\<close>

datatype 'b chain_event =
    Ante tx
  | Message app_msg
  | Block int
  | Elsewhere "'b \<Rightarrow> 'b"

fun runEvent :: "'b app \<Rightarrow> 'b chain_event \<Rightarrow> ('b chain, unit) act" where
  "runEvent A (Ante tx) = void (appAnte A \<lparr>ctxEstimate = None, ctxMetadata = None\<rparr> tx False)"
| "runEvent A (Message m) = runMsg A m"
| "runEvent A (Block time) = andThen (modify (\<lambda>s. s\<lparr>blockTime := time, blockHeight := blockHeight s + 1, events := []\<rparr>)) (beginBlock A)"
| "runEvent A (Elsewhere f) = modify (\<lambda>s. s\<lparr>ext := f (ext s)\<rparr>)"

definition applyEvent :: "'b app \<Rightarrow> 'b chain \<Rightarrow> 'b chain_event \<Rightarrow> 'b chain" where
  "applyEvent A s e = (case runEvent A e s of (Inl _, _) \<Rightarrow> s | (Inr _, t) \<Rightarrow> t)"

definition runEvents :: "'b app \<Rightarrow> 'b chain \<Rightarrow> 'b chain_event list \<Rightarrow> 'b chain" where
  "runEvents A s es = foldl (applyEvent A) s es"

text \<open>What the handlers rely on: the library's ante handler and the consumer stay in their own state.\<close>

definition wired :: "'b app \<Rightarrow> bool" where
  "wired A \<longleftrightarrow> (\<forall>ctx tx sim s. \<exists>b. snd (aBase A ctx tx sim s) = s\<lparr>ext := b\<rparr>) \<and>
     aConsumer A \<in> {None, Some (OnKVResult (aSdk A) (oracleKeeper (aSdk A)))}"

lemma applyEvent_cases:
  obtains (failed) "applyEvent A s e = s" | (ran) "runEvent A e s = (Inr (), applyEvent A s e)"
  by (cases "runEvent A e s"; cases "fst (runEvent A e s)") (auto simp: applyEvent_def)

lemma applyEvent_keeps: "keeps g (runEvent A e) \<Longrightarrow> g (applyEvent A s e) = g s"
  by (cases rule: applyEvent_cases [of A s e]) (auto dest: keepsD)

text \<open>An invariant of the events that occur in a run is an invariant of the run.\<close>

lemma runEvents_invariant:
  assumes "\<And>s e. Q s \<Longrightarrow> e \<in> set es \<Longrightarrow> Q (applyEvent A s e)" "Q s"
  shows "Q (runEvents A s es)"
  using assms unfolding runEvents_def by (induction es arbitrary: s) simp_all

lemma runEvents_keeps:
  assumes "\<And>e. e \<in> set es \<Longrightarrow> keeps g (runEvent A e)"
  shows "g (runEvents A s es) = g s"
  by (rule runEvents_invariant [where Q = "\<lambda>t. g t = g s"]) (simp_all add: assms applyEvent_keeps)

end
