(* ===== verification/AppFrames.thy ===== *)
theory AppFrames
  imports Application
begin

text \<open>
  What each entry point may change: a part of the state that no step of a handler writes is kept by
  the handler. Every lemma is for an arbitrary part \<open>g\<close> of the state, so that the properties of
  the whole chain apply them to the part they are about.
\<close>

section \<open>Handlers\<close>

lemma keeps_void [keeps_intros]: "keeps g m \<Longrightarrow> keeps g (void m)"
  unfolding void_def by (intro keeps_intros)

lemma keeps_needResult [keeps_intros]: "keeps g (needResult ack)"
  by (cases ack) (auto simp: needResult_def intro: keeps_intros)

lemma keeps_token_msg:
  assumes "\<And>s b. g (s\<lparr>ext := b\<rparr>) = g s"
  shows "keeps g (Mint E m)" and "keeps g (Burn E b)"
    and "(\<And>s kv. g (s\<lparr>tokenKV := kv\<rparr>) = g s) \<Longrightarrow> (\<And>s es. g (s\<lparr>events := es\<rparr>) = g s) \<Longrightarrow> keeps g (CreateToken E c)"
  unfolding Mint_def Burn_def CreateToken_def mintInitialSupply_def storeTokenMetadata_def generateTokenID_def
    getNextTokenSequence_def putKV_def Let_def
  using assms by (auto intro!: keeps_intros)

lemma keeps_SetPrice [keeps_intros]:
  assumes "\<And>s p. g (s\<lparr>csvPrice := p\<rparr>) = g s" "\<And>s es. g (s\<lparr>events := es\<rparr>) = g s"
  shows "keeps g (SetPrice E m)"
  unfolding SetPrice_def using assms by (auto intro!: keeps_intros split: option.splits)

lemma keeps_ChargeFee [keeps_intros]:
  assumes "\<And>s b. g (s\<lparr>ext := b\<rparr>) = g s" "\<And>s es. g (s\<lparr>events := es\<rparr>) = g s"
  shows "keeps g (ChargeFee rate E m)"
  unfolding ChargeFee_def Let_def case_prod_unfold using assms by (intro keeps_intros) auto

lemma keeps_SendOracle [keeps_intros]:
  assumes "\<And>s b. g (s\<lparr>ext := b\<rparr>) = g s"
  shows "keeps g (SendOracleRequest E I m)" and "keeps g (SendOracleResponse E I n)"
  unfolding SendOracleRequest_def SendOracleResponse_def TransmitOracleRequestPacket_def TransmitOracleResponsePacket_def
  using assms by (auto intro!: keeps_intros)

lemma keeps_UpdateParams:
  shows "(\<And>s p. g (s\<lparr>feesParams := p\<rparr>) = g s) \<Longrightarrow> keeps g (feesUpdateParams E a x fp)"
    and "(\<And>s p. g (s\<lparr>oracleParams := p\<rparr>) = g s) \<Longrightarrow> keeps g (oracleUpdateParams E a x u)"
    and "(\<And>s p. g (s\<lparr>tokenParams := p\<rparr>) = g s) \<Longrightarrow> keeps g (tokenUpdateParams E a x tp)"
    and "(\<And>s p. g (s\<lparr>registryParams := p\<rparr>) = g s) \<Longrightarrow> keeps g (registryUpdateParams E a x rp)"
    and "(\<And>s p. g (s\<lparr>cosvianParams := p\<rparr>) = g s) \<Longrightarrow> keeps g (cosvianUpdateParams E a x u)"
    and "(\<And>s p. g (s\<lparr>osmoParams := p\<rparr>) = g s) \<Longrightarrow> (\<And>s es. g (s\<lparr>events := es\<rparr>) = g s) \<Longrightarrow>
      keeps g (osmoUpdateParams E a x op)"
    and "(\<And>s p. g (s\<lparr>icqParams := p\<rparr>) = g s) \<Longrightarrow> keeps g (icqUpdateParams E a x u)"
    and "(\<And>s p. g (s\<lparr>feedParams := p\<rparr>) = g s) \<Longrightarrow> keeps g (feedUpdateParams E a x u)"
  unfolding feesUpdateParams_def oracleUpdateParams_def tokenUpdateParams_def registryUpdateParams_def cosvianUpdateParams_def
    osmoUpdateParams_def icqUpdateParams_def feedUpdateParams_def
  by (auto intro!: keeps_intros)

lemma keeps_icqChannel:
  assumes "\<And>s a. g (s\<lparr>icqActive := a\<rparr>) = g s"
  shows "keeps g (icqOnChanOpenInit hops c v)" and "keeps g (icqOnChanOpenTry hops c v)"
    and "keeps g (icqOnChanCloseConfirm E p c)"
  unfolding icqOnChanOpenInit_def icqOnChanOpenTry_def icqOnChanCloseConfirm_def recordChannel_def SetActiveChannel_def
    RemoveActiveChannel_def
  using assms by (auto intro!: keeps_intros split: list.splits option.splits)

lemma keeps_deferA [keeps_intros]: "keeps g m \<Longrightarrow> keeps g c \<Longrightarrow> keeps g (deferA c m)"
  by (auto simp: keeps_def deferA_def split: prod.splits) (metis snd_conv)

lemma keeps_icqAck:
  assumes "\<And>s p. g (s\<lparr>icqPending := p\<rparr>) = g s" "\<And>s es. g (s\<lparr>events := es\<rparr>) = g s"
    and "\<And>f store key val. consumer = Some f \<Longrightarrow> keeps g (f store key val)"
  shows "keeps g (icqOnAcknowledgementPacket I extract consumer p c n a)"
  unfolding icqOnAcknowledgementPacket_def HandlePacketAcknowledgement_def deliver_def RemovePending_def Let_def
  using assms by (auto intro!: keeps_intros split: prod.splits option.splits sum.splits)

lemma keeps_icqTimeout [keeps_intros]:
  assumes "\<And>s p. g (s\<lparr>icqPending := p\<rparr>) = g s" "\<And>s es. g (s\<lparr>events := es\<rparr>) = g s"
  shows "keeps g (icqOnTimeoutPacket p c n)"
  unfolding icqOnTimeoutPacket_def HandlePacketTimeout_def RemovePending_def
  using assms by (auto intro!: keeps_intros split: prod.splits)

lemma keeps_recvOutcome:
  "(\<And>s es. g (s\<lparr>events := es\<rparr>) = g s) \<Longrightarrow> keeps g handle \<Longrightarrow> keeps g (recvOutcome I ty handle)"
  unfolding recvOutcome_def recvEvent_def by (auto intro!: keeps_intros split: option.splits)

lemma keeps_feedRecv:
  assumes "\<And>s p. g (s\<lparr>csvPrice := p\<rparr>) = g s" "\<And>s es. g (s\<lparr>events := es\<rparr>) = g s"
  shows "keeps g (feedOnRecvPacket E I (oracleKeeper E) d)"
proof -
  have "keeps g (OnRecvOracleResponsePacket E (oracleKeeper E) r)" for r
    unfolding OnRecvOracleResponsePacket_def ProcessPriceResponse_def storeFeedPrice_def oracleKeeper_def
    using assms by (auto intro!: keeps_intros split: option.splits)
  then show ?thesis
    unfolding feedOnRecvPacket_def OnRecvOracleRequestPacket_def
    using assms by (auto intro!: keeps_intros keeps_recvOutcome split: option.splits feedPacket.splits)
qed

lemma keeps_feedAck [keeps_intros]:
  "(\<And>s es. g (s\<lparr>events := es\<rparr>) = g s) \<Longrightarrow> keeps g (feedOnAcknowledgementPacket I txt d a)"
  unfolding feedOnAcknowledgementPacket_def ackEvents_def
  by (auto intro!: keeps_intros split: option.splits feedPacket.splits ackResponse.splits)

section \<open>The ante handler and the block\<close>

lemma keeps_FeeAnteHandle:
  assumes "\<And>s es. g (s\<lparr>events := es\<rparr>) = g s" "\<And>c. keeps g (nxt c tx sim)"
  shows "keeps g (FeeAnteHandle rate E ctx tx sim nxt)"
  unfolding FeeAnteHandle_def Let_def using assms by (auto intro!: keeps_intros split: option.splits)

lemma keeps_DeductFeeHandle:
  assumes "\<And>s b. g (s\<lparr>ext := b\<rparr>) = g s" "keeps g (nxt ctx tx sim)"
  shows "keeps g (DeductFeeHandle E ctx tx sim nxt)"
  unfolding DeductFeeHandle_def using assms by (auto intro!: keeps_intros)

lemma keeps_appAnte:
  assumes "wired A" "\<And>s b. g (s\<lparr>ext := b\<rparr>) = g s" "\<And>s es. g (s\<lparr>events := es\<rparr>) = g s"
  shows "keeps g (appAnte A ctx tx sim)"
proof -
  have b: "keeps g (aBase A ctx tx sim)" for ctx
    unfolding keeps_def using assms(1,2) by (metis wired_def)
  show ?thesis unfolding appAnte_def customAnte_def
    by (rule keeps_FeeAnteHandle [OF assms(3)], rule keeps_DeductFeeHandle [OF assms(2)], rule b)
qed

lemma keeps_beginBlock:
  assumes "\<And>s b. g (s\<lparr>ext := b\<rparr>) = g s" "\<And>s es. g (s\<lparr>events := es\<rparr>) = g s" "\<And>s p. g (s\<lparr>icqPending := p\<rparr>) = g s"
    and "\<And>s q. g (s\<lparr>osmoQueryIDs := q\<rparr>) = g s" "\<And>s l n. g (s\<lparr>osmoLastUpdate := l, osmoNextUpdate := n\<rparr>) = g s"
  shows "keeps g (beginBlock A)"
  unfolding beginBlock_def moduleBeginBlock_def appClient_def
  using assms by (auto intro!: keeps_intros keeps_osmoBeginBlock keeps_icqRegister)

section \<open>Events\<close>

text \<open>
  The parts of the state, apart from the clock, the event log and the keepers of other modules, and
  the parts an event may change.
\<close>

datatype part = FeesP | OracleP | PriceP | TokenP | TokensP | RegistryP | CosvianP | OsmoP | ScheduleP | ResultP
  | IcqP | ActiveP | PendingP | FeedP

fun tokenWrites :: "token_msg \<Rightarrow> part set" where
  "tokenWrites (TCreate m) = {TokensP}"
| "tokenWrites (TMint m) = {}"
| "tokenWrites (TBurn m) = {}"

definition msgWrites :: "'b app \<Rightarrow> app_msg \<Rightarrow> part set" where
  "msgWrites A m = (case m of
     TokenMsg t \<Rightarrow> tokenWrites t
   | SetPriceMsg _ \<Rightarrow> {PriceP}
   | FeesParamsMsg _ _ \<Rightarrow> {FeesP}
   | OracleParamsMsg _ _ \<Rightarrow> {OracleP}
   | TokenParamsMsg _ _ \<Rightarrow> {TokenP}
   | RegistryParamsMsg _ _ \<Rightarrow> {RegistryP}
   | CosvianParamsMsg _ _ \<Rightarrow> {CosvianP}
   | OsmoParamsMsg _ _ \<Rightarrow> {OsmoP}
   | IcqParamsMsg _ _ \<Rightarrow> {IcqP}
   | FeedParamsMsg _ _ \<Rightarrow> {FeedP}
   | IcqOpenInit _ _ _ \<Rightarrow> {ActiveP}
   | IcqOpenTry _ _ _ \<Rightarrow> {ActiveP}
   | IcqCloseConfirm _ _ \<Rightarrow> {ActiveP}
   | IcqAck _ _ _ _ \<Rightarrow> if aConsumer A = None then {PendingP} else {PendingP, PriceP, ResultP}
   | IcqTimeout _ _ _ \<Rightarrow> {PendingP}
   | FeedRecv _ \<Rightarrow> {PriceP}
   | _ \<Rightarrow> {})"

fun writes :: "'b app \<Rightarrow> 'b chain_event \<Rightarrow> part set" where
  "writes A (Message m) = msgWrites A m"
| "writes A (Block t) = {ScheduleP, PendingP}"
| "writes A _ = {}"

lemma in_tokenWrites: "p \<in> tokenWrites t \<longleftrightarrow> p = TokensP \<and> (\<exists>c. t = TCreate c)"
  by (cases t) auto

lemma msgWritesD:
  shows "FeesP \<in> msgWrites A m \<Longrightarrow> \<exists>x q. m = FeesParamsMsg x q"
    and "OracleP \<in> msgWrites A m \<Longrightarrow> \<exists>x q. m = OracleParamsMsg x q"
    and "TokenP \<in> msgWrites A m \<Longrightarrow> \<exists>x q. m = TokenParamsMsg x q"
    and "RegistryP \<in> msgWrites A m \<Longrightarrow> \<exists>x q. m = RegistryParamsMsg x q"
    and "CosvianP \<in> msgWrites A m \<Longrightarrow> \<exists>x q. m = CosvianParamsMsg x q"
    and "OsmoP \<in> msgWrites A m \<Longrightarrow> \<exists>x q. m = OsmoParamsMsg x q"
    and "IcqP \<in> msgWrites A m \<Longrightarrow> \<exists>x q. m = IcqParamsMsg x q"
    and "FeedP \<in> msgWrites A m \<Longrightarrow> \<exists>x q. m = FeedParamsMsg x q"
    and "TokensP \<in> msgWrites A m \<Longrightarrow> \<exists>c. m = TokenMsg (TCreate c)"
    and "ScheduleP \<notin> msgWrites A m"
    and "PriceP \<in> msgWrites A m \<Longrightarrow> (\<exists>x. m = SetPriceMsg x) \<or> (\<exists>d. m = FeedRecv d) \<or>
      (\<exists>q c n a. m = IcqAck q c n a \<and> aConsumer A \<noteq> None)"
    and "PendingP \<in> msgWrites A m \<Longrightarrow> (\<exists>q c n a. m = IcqAck q c n a) \<or> (\<exists>q c n. m = IcqTimeout q c n)"
  by (cases m; simp add: msgWrites_def in_tokenWrites split: if_splits)+

lemma keeps_appAck:
  assumes "wired A" "\<And>s p. g (s\<lparr>icqPending := p\<rparr>) = g s" "\<And>s es. g (s\<lparr>events := es\<rparr>) = g s"
    and "\<And>s p. aConsumer A \<noteq> None \<Longrightarrow> g (s\<lparr>csvPrice := p\<rparr>) = g s"
    and "\<And>s l. aConsumer A \<noteq> None \<Longrightarrow> g (s\<lparr>osmoLastResult := l\<rparr>) = g s"
  shows "keeps g (icqOnAcknowledgementPacket I extract (aConsumer A) p c n a)"
proof (rule keeps_icqAck)
  fix f store key val
  assume "aConsumer A = Some f"
  with assms show "keeps g (f store key val)" by (auto simp: wired_def intro!: keeps_OnKVResult)
qed (rule assms)+

lemmas handler_frames = keeps_token_msg keeps_SetPrice keeps_ChargeFee keeps_SendOracle keeps_UpdateParams keeps_icqChannel
  keeps_icqTimeout keeps_feedRecv keeps_feedAck keeps_appAck

lemma keeps_trivial:
  "keeps g (icqOnChanOpenAck v)" "keeps g icqOnChanOpenConfirm" "keeps g icqOnChanCloseInit"
  by (auto simp: icqOnChanOpenAck_def icqOnChanOpenConfirm_def icqOnChanCloseInit_def intro!: keeps_intros)

text \<open>A part of the state that is not among the parts an event writes survives the event.\<close>

lemma event_frame:
  assumes A: "wired A"
    and base: "\<And>s b. g (s\<lparr>ext := b\<rparr>) = g s" "\<And>s es. g (s\<lparr>events := es\<rparr>) = g s"
      "\<And>s t h es. g (s\<lparr>blockTime := t, blockHeight := h, events := es\<rparr>) = g s"
    and parts: "\<And>s v. FeesP \<in> writes A e \<Longrightarrow> g (s\<lparr>feesParams := v\<rparr>) = g s"
      "\<And>s v. OracleP \<in> writes A e \<Longrightarrow> g (s\<lparr>oracleParams := v\<rparr>) = g s"
      "\<And>s v. PriceP \<in> writes A e \<Longrightarrow> g (s\<lparr>csvPrice := v\<rparr>) = g s"
      "\<And>s v. TokenP \<in> writes A e \<Longrightarrow> g (s\<lparr>tokenParams := v\<rparr>) = g s"
      "\<And>s v. TokensP \<in> writes A e \<Longrightarrow> g (s\<lparr>tokenKV := v\<rparr>) = g s"
      "\<And>s v. RegistryP \<in> writes A e \<Longrightarrow> g (s\<lparr>registryParams := v\<rparr>) = g s"
      "\<And>s v. CosvianP \<in> writes A e \<Longrightarrow> g (s\<lparr>cosvianParams := v\<rparr>) = g s"
      "\<And>s v. OsmoP \<in> writes A e \<Longrightarrow> g (s\<lparr>osmoParams := v\<rparr>) = g s"
      "\<And>s v. ScheduleP \<in> writes A e \<Longrightarrow> g (s\<lparr>osmoQueryIDs := v\<rparr>) = g s"
      "\<And>s l n. ScheduleP \<in> writes A e \<Longrightarrow> g (s\<lparr>osmoLastUpdate := l, osmoNextUpdate := n\<rparr>) = g s"
      "\<And>s v. ResultP \<in> writes A e \<Longrightarrow> g (s\<lparr>osmoLastResult := v\<rparr>) = g s"
      "\<And>s v. IcqP \<in> writes A e \<Longrightarrow> g (s\<lparr>icqParams := v\<rparr>) = g s"
      "\<And>s v. ActiveP \<in> writes A e \<Longrightarrow> g (s\<lparr>icqActive := v\<rparr>) = g s"
      "\<And>s v. PendingP \<in> writes A e \<Longrightarrow> g (s\<lparr>icqPending := v\<rparr>) = g s"
      "\<And>s v. FeedP \<in> writes A e \<Longrightarrow> g (s\<lparr>feedParams := v\<rparr>) = g s"
  shows "keeps g (runEvent A e)"
proof (cases e)
  case (Message m)
  show ?thesis
  proof (cases m)
    case (TokenMsg t)
    with Message parts(5) base show ?thesis by (cases t) (auto simp: msgWrites_def intro!: handler_frames)
  qed (use Message A base parts in \<open>auto intro!: handler_frames keeps_intros keeps_trivial simp: msgWrites_def split: if_splits\<close>)
next
  case (Ante tx)
  with A base show ?thesis by (auto intro!: keeps_appAnte keeps_intros)
next
  case (Block t)
  with base parts show ?thesis by (auto intro!: keeps_beginBlock keeps_intros)
next
  case (Elsewhere f)
  with base show ?thesis by (auto intro!: keeps_intros)
qed

text \<open>The frame of every part, as it is used.\<close>

lemma part_frames:
  assumes "wired A"
  shows "FeesP \<notin> writes A e \<Longrightarrow> keeps feesParams (runEvent A e)"
    and "OracleP \<notin> writes A e \<Longrightarrow> keeps oracleParams (runEvent A e)"
    and "PriceP \<notin> writes A e \<Longrightarrow> keeps csvPrice (runEvent A e)"
    and "TokenP \<notin> writes A e \<Longrightarrow> keeps tokenParams (runEvent A e)"
    and "TokensP \<notin> writes A e \<Longrightarrow> keeps tokenKV (runEvent A e)"
    and "RegistryP \<notin> writes A e \<Longrightarrow> keeps registryParams (runEvent A e)"
    and "CosvianP \<notin> writes A e \<Longrightarrow> keeps cosvianParams (runEvent A e)"
    and "OsmoP \<notin> writes A e \<Longrightarrow> keeps osmoParams (runEvent A e)"
    and "ScheduleP \<notin> writes A e \<Longrightarrow> keeps (\<lambda>s. (osmoLastUpdate s, osmoNextUpdate s, osmoQueryIDs s)) (runEvent A e)"
    and "ResultP \<notin> writes A e \<Longrightarrow> keeps osmoLastResult (runEvent A e)"
    and "IcqP \<notin> writes A e \<Longrightarrow> keeps icqParams (runEvent A e)"
    and "ActiveP \<notin> writes A e \<Longrightarrow> keeps icqActive (runEvent A e)"
    and "PendingP \<notin> writes A e \<Longrightarrow> keeps icqPending (runEvent A e)"
    and "FeedP \<notin> writes A e \<Longrightarrow> keeps feedParams (runEvent A e)"
  by (rule event_frame [OF assms]; simp)+

end
