(* ===== verification/ChainCorrect.thy ===== *)
theory ChainCorrect
  imports AppFrames
begin

text \<open>
  Properties of the chain as a whole, for every sequence of events: the state stays well-formed, only
  the authority changes parameters, only the price sources move the price, and what the wiring of
  the application does to the price feeds.
\<close>

section \<open>Well-formed states\<close>

text \<open>Stored parameters are the encoding of a value that the module's genesis validation accepts.\<close>

definition held :: "('p \<Rightarrow> unit res) \<Rightarrow> ('p \<Rightarrow> 'p) \<Rightarrow> 'p option \<Rightarrow> bool" where
  "held validate wire x \<longleftrightarrow> (\<forall>p. x = Some p \<longrightarrow> (\<exists>q. validate q = Inr () \<and> p = wire q))"

definition params_held :: "'b sdk \<Rightarrow> 'b chain \<Rightarrow> bool" where
  "params_held E s \<longleftrightarrow> held feesGenesisValidate (wireParams E) (feesParams s) \<and>
     held tokenGenesisValidate (wireTokenParams E) (tokenParams s) \<and>
     held registryGenesisValidate (\<lambda>p. p) (registryParams s) \<and> held (osmoGenesisValidate E) (\<lambda>p. p) (osmoParams s)"

text \<open>The one stored price is the text of a decimal.\<close>

definition price_text :: "'b sdk \<Rightarrow> (string \<rightharpoonup> string) \<Rightarrow> bool" where
  "price_text E prices \<longleftrightarrow> (\<forall>k x. prices k = Some x \<longrightarrow> k = ''CSV_USD'' \<and> (\<exists>d. x = dString E d))"

text \<open>An entry of the table of queries in flight stands under the key of a channel and a sequence, and its query key decodes.\<close>

definition pending_text :: "(string \<rightharpoonup> pendingValue) \<Rightarrow> bool" where
  "pending_text pending \<longleftrightarrow>
     (\<forall>k pv. pending k = Some pv \<longrightarrow> (\<exists>c n key. k = pendingKey c n \<and> pvKeyB64 pv = b64Encode key))"

definition schedule_set :: "int option \<times> int option \<times> (string \<rightharpoonup> string) \<Rightarrow> bool" where
  "schedule_set sch \<longleftrightarrow> (case sch of (l, n, ids) \<Rightarrow> (l = None \<longleftrightarrow> n = None) \<and> dom ids \<subseteq> {''twap'', ''spot''})"

definition formed :: "'b sdk \<Rightarrow> 'b chain \<Rightarrow> bool" where
  "formed E s \<longleftrightarrow> price_text E (csvPrice s) \<and> pending_text (icqPending s) \<and>
     schedule_set (osmoLastUpdate s, osmoNextUpdate s, osmoQueryIDs s)"

definition well_formed :: "'b sdk \<Rightarrow> 'b chain \<Rightarrow> bool" where
  "well_formed E s \<longleftrightarrow> token_inv (tokenKV s) \<and> params_held E s \<and> formed E s"

section \<open>Events keep the state well-formed\<close>

lemma preserves_chain [preserves_intros]:
  "(\<And>s b. Q s \<Longrightarrow> Q (s\<lparr>ext := b\<rparr>)) \<Longrightarrow> preserves Q (extern f)"
  "(\<And>s b. Q s \<Longrightarrow> Q (s\<lparr>ext := b\<rparr>)) \<Longrightarrow> preserves Q (externV h)"
  "(\<And>s es. Q s \<Longrightarrow> Q (s\<lparr>events := es\<rparr>)) \<Longrightarrow> preserves Q (emit t as)"
  "preserves Q m \<Longrightarrow> preserves Q (viaIBC E m)"
  "preserves Q m \<Longrightarrow> preserves Q c \<Longrightarrow> preserves Q (deferA c m)"
  by (auto simp: preserves_def extern_def externV_def emit_eval viaIBC_def raise_def deferA_def
    split: prod.splits option.splits)

lemma preserves_void [preserves_intros]: "preserves Q m \<Longrightarrow> preserves Q (void m)"
  unfolding void_def by (intro preserves_intros)

lemma formed_simps [simp]:
  "formed E (s\<lparr>ext := b\<rparr>) = formed E s"
  "formed E (s\<lparr>events := es\<rparr>) = formed E s"
  "formed E (s\<lparr>osmoLastResult := l\<rparr>) = formed E s"
  "formed E (s\<lparr>blockTime := t, blockHeight := h\<rparr>) = formed E s"
  by (simp_all add: formed_def)

lemma formed_writes:
  assumes "formed E s"
  shows "formed E (s\<lparr>csvPrice := (csvPrice s)(''CSV_USD'' \<mapsto> dString E d)\<rparr>)"
    and "formed E (s\<lparr>icqPending := (icqPending s)(pendingKey c n := None)\<rparr>)"
    and "formed E (s\<lparr>icqPending := (icqPending s)(pendingKey c n \<mapsto> \<lparr>pvStore = st, pvKeyB64 = b64Encode key, pvConnection = conn\<rparr>)\<rparr>)"
    and "formed E (s\<lparr>osmoLastUpdate := Some l, osmoNextUpdate := Some m\<rparr>)"
    and "name \<in> {''twap'', ''spot''} \<Longrightarrow> formed E (s\<lparr>osmoQueryIDs := (osmoQueryIDs s)(name \<mapsto> qid)\<rparr>)"
  using assms by (auto simp: formed_def price_text_def pending_text_def schedule_set_def split: if_splits)

text \<open>What a handler of prices may do to a condition it keeps: store the text of a decimal, note the time, emit events.\<close>

definition price_closed :: "'b sdk \<Rightarrow> ('b chain \<Rightarrow> bool) \<Rightarrow> bool" where
  "price_closed E Q \<longleftrightarrow> (\<forall>s d. Q s \<longrightarrow> Q (s\<lparr>csvPrice := (csvPrice s)(''CSV_USD'' \<mapsto> dString E d)\<rparr>)) \<and>
     (\<forall>s es. Q s \<longrightarrow> Q (s\<lparr>events := es\<rparr>)) \<and> (\<forall>s l. Q s \<longrightarrow> Q (s\<lparr>osmoLastResult := l\<rparr>))"

lemma price_handlers:
  assumes "price_closed E Q"
  shows price_SetCSV: "preserves Q (SetCSVPerUSD E d)"
    and price_SetPrice: "preserves Q (SetPrice E m)"
    and price_OnKVResult: "preserves Q (OnKVResult E (oracleKeeper E) store key val)"
    and price_feedRecv: "preserves Q (feedOnRecvPacket E I (oracleKeeper E) bz)"
proof -
  have ev: "preserves Q (emit ty as)" for ty as using assms by (auto intro!: preserves_intros simp: price_closed_def emit_def)
  show s: "preserves Q (SetCSVPerUSD E d)" for d
    unfolding SetCSVPerUSD_def using assms by (auto intro!: preserves_intros simp: price_closed_def)
  show "preserves Q (SetPrice E m)"
    unfolding SetPrice_def by (auto intro!: preserves_intros s ev split: option.splits)
  show "preserves Q (OnKVResult E (oracleKeeper E) store key val)"
    unfolding OnKVResult_def HandleTwapResult_def HandleSpotResult_def ValidateAndPersistPrice_def getOsmoParams_def
      oracleKeeper_def Let_def
    using assms by (auto intro!: preserves_intros s ev simp: price_closed_def split: prod.splits)
  have "preserves Q (OnRecvOracleResponsePacket E (oracleKeeper E) r)" for r
    unfolding OnRecvOracleResponsePacket_def ProcessPriceResponse_def storeFeedPrice_def oracleKeeper_def
    by (auto intro!: preserves_intros s ev split: option.splits)
  then show "preserves Q (feedOnRecvPacket E I (oracleKeeper E) bz)"
    unfolding feedOnRecvPacket_def OnRecvOracleRequestPacket_def recvOutcome_def recvEvent_def
    by (auto intro!: preserves_intros ev split: option.splits feedPacket.splits)
qed

lemma price_icqAck:
  assumes "price_closed E Q" "\<And>s c n. Q s \<Longrightarrow> Q (s\<lparr>icqPending := (icqPending s)(pendingKey c n := None)\<rparr>)"
    and "consumer \<in> {None, Some (OnKVResult E (oracleKeeper E))}"
  shows "preserves Q (icqOnAcknowledgementPacket I extract consumer p c n a)"
proof -
  have ev: "preserves Q (emit ty as)" for ty as using assms(1) by (auto intro!: preserves_intros simp: price_closed_def emit_def)
  show ?thesis
    unfolding icqOnAcknowledgementPacket_def HandlePacketAcknowledgement_def deliver_def RemovePending_def Let_def
    using assms(2,3) by (auto intro!: preserves_intros ev price_OnKVResult [OF assms(1)] split: prod.splits option.splits sum.splits)
qed

lemma formed_pending [preserves_intros]:
  "preserves (formed E) (RemovePending c n)"
  "preserves (formed E) (SetPending c n st key conn)"
  unfolding RemovePending_def SetPending_def
  by (auto intro!: preserves_intros formed_writes)

lemma formed_price: "price_closed E (formed E)"
  by (simp add: price_closed_def formed_writes(1))

lemmas formed_prices = price_handlers [OF formed_price]

lemma formed_icqAck:
  "wired A \<Longrightarrow> preserves (formed (aSdk A)) (icqOnAcknowledgementPacket I extract (aConsumer A) p c n a)"
  by (rule price_icqAck [OF formed_price]) (simp_all add: formed_writes(2) wired_def)

lemma formed_icqTimeout: "preserves (formed E) (icqOnTimeoutPacket p c n)"
  unfolding icqOnTimeoutPacket_def HandlePacketTimeout_def
  by (auto intro!: preserves_intros split: prod.splits)

lemma formed_registerQuery:
  "name \<in> {''twap'', ''spot''} \<Longrightarrow> preserves (formed E) (registerQuery (icqRegisterKVQuery E' I w) conn name sk)"
  unfolding registerQuery_def icqRegisterKVQuery_def SendKVQuery_def
  by (cases sk) (auto intro!: preserves_intros formed_writes(5) split: prod.splits)

lemma formed_beginBlock: "preserves (formed E) (beginBlock A)"
  unfolding beginBlock_def moduleBeginBlock_def appClient_def osmoBeginBlock_def ScheduleQueriesIfDue_def getOsmoParams_def
    markScheduled_def Let_def registerQueries_def
  by (auto intro!: preserves_intros formed_registerQuery formed_writes split: prod.splits option.splits)

lemma formed_event:
  assumes "wired A"
  shows "preserves (formed (aSdk A)) (runEvent A e)"
proof (cases "{PriceP, PendingP, ScheduleP} \<inter> writes A e = {}")
  case True
  then have "keeps (\<lambda>s. (csvPrice s, icqPending s, osmoLastUpdate s, osmoNextUpdate s, osmoQueryIDs s)) (runEvent A e)"
    by (intro event_frame [OF assms]) auto
  from keeps_preserves [OF this, of "\<lambda>(p, q, sch). price_text (aSdk A) p \<and> pending_text q \<and> schedule_set sch"]
  show ?thesis by (simp add: formed_def [abs_def])
next
  case False
  then consider m where "e = Message (SetPriceMsg m)" | d where "e = Message (FeedRecv d)" | t where "e = Block t"
    | p c n a where "e = Message (IcqAck p c n a)" | p c n where "e = Message (IcqTimeout p c n)"
    by (cases e) (auto simp: msgWritesD(10) dest: msgWritesD(11,12))
  then show ?thesis
    by cases (auto intro!: preserves_intros formed_prices(2) formed_prices(4) formed_beginBlock formed_icqAck [OF assms]
      formed_icqTimeout simp: needResult_def split: recvAck.splits)
qed

text \<open>An update of parameters stores the encoding of what validation accepts.\<close>

lemma held_update:
  assumes "governed_params update current gov (\<lambda>p. valid p = Inr ()) wire" "\<And>p. valid p = Inr () \<Longrightarrow> validate p = Inr ()"
  shows "preserves (\<lambda>s. held validate wire (current s)) (update signer p)"
  unfolding preserves_def
proof (intro allI impI)
  fix s
  assume h: "held validate wire (current s)"
  from governed_params.update_step [OF assms(1), of signer p s] show "held validate wire (current (snd (update signer p s)))"
  proof (elim disjE conjE)
    assume "current (snd (update signer p s)) = current s"
    with h show ?thesis by simp
  next
    assume "valid p = Inr ()" "current (snd (update signer p s)) = Some (wire p)"
    then show ?thesis using assms(2) by (auto simp: held_def)
  qed
qed

lemma params_event:
  assumes "wired A"
  shows "preserves (params_held (aSdk A)) (runEvent A e)"
proof -
  note kept = part_frames(1,4,6,8) [OF assms, THEN keeps_preserves]
  have f: "preserves (\<lambda>s. held feesGenesisValidate (wireParams (aSdk A)) (feesParams s)) (runEvent A e)"
  proof (cases "FeesP \<in> writes A e")
    case True
    then obtain x p where "e = Message (FeesParamsMsg x p)" by (cases e) (auto dest: msgWritesD(1))
    then show ?thesis by simp (rule held_update [OF feesGov.governed_params_axioms], simp add: feesGenesisValidate_def)
  qed (rule kept)
  have t: "preserves (\<lambda>s. held tokenGenesisValidate (wireTokenParams (aSdk A)) (tokenParams s)) (runEvent A e)"
  proof (cases "TokenP \<in> writes A e")
    case True
    then obtain x p where "e = Message (TokenParamsMsg x p)" by (cases e) (auto dest: msgWritesD(3))
    then show ?thesis by simp (rule held_update [OF tokenGov.governed_params_axioms], simp add: tokenGenesisValidate_def)
  qed (rule kept)
  have r: "preserves (\<lambda>s. held registryGenesisValidate (\<lambda>p. p) (registryParams s)) (runEvent A e)"
  proof (cases "RegistryP \<in> writes A e")
    case True
    then obtain x p where "e = Message (RegistryParamsMsg x p)" by (cases e) (auto dest: msgWritesD(4))
    then show ?thesis by simp (rule held_update [OF registryGov.governed_params_axioms], simp add: registryGenesisValidate_def)
  qed (rule kept)
  have m: "preserves (\<lambda>s. held (osmoGenesisValidate (aSdk A)) (\<lambda>p. p) (osmoParams s)) (runEvent A e)"
  proof (cases "OsmoP \<in> writes A e")
    case True
    then obtain x p where "e = Message (OsmoParamsMsg x p)" by (cases e) (auto dest: msgWritesD(6))
    then show ?thesis by simp (rule held_update [OF osmoGov.governed_params_axioms], simp add: osmoGenesisValidate_def)
  qed (rule kept)
  from f t r m show ?thesis by (simp add: preserves_def params_held_def)
qed

lemma token_event:
  assumes "wired A" "token_inv (tokenKV s)" "unat (seqOf (tokenKV s)) \<le> n" "n + 1 < 2 ^ 64"
  shows "token_inv (tokenKV (applyEvent A s e)) \<and> unat (seqOf (tokenKV (applyEvent A s e))) \<le> n + 1"
proof (cases "TokensP \<in> writes A e")
  case True
  then obtain c where e: "e = Message (TokenMsg (TCreate c))" by (cases e) (auto dest: msgWritesD(9))
  then have "applyEvent A s e = TokenCorrect.deliver (aSdk A) s (TCreate c)" by (simp add: applyEvent_def TokenCorrect.deliver_def)
  with deliver_inv [OF assms(2-4), of "aSdk A" "TCreate c"] show ?thesis by simp
next
  case False
  from applyEvent_keeps [OF part_frames(5) [OF assms(1) False]] assms(2,3) show ?thesis by simp
qed

lemma applyEvent_preserves: "preserves Q (runEvent A e) \<Longrightarrow> Q s \<Longrightarrow> Q (applyEvent A s e)"
  by (cases rule: applyEvent_cases [of A s e]) (auto dest: preservesD)

lemma runEvents_well_formed:
  assumes "wired A" "well_formed (aSdk A) s" "unat (seqOf (tokenKV s)) + length es < 2 ^ 64"
  shows "well_formed (aSdk A) (runEvents A s es)"
  using assms(2,3)
proof (induction es arbitrary: s)
  case (Cons e es)
  let ?t = "applyEvent A s e"
  have t: "token_inv (tokenKV ?t)" "unat (seqOf (tokenKV ?t)) \<le> unat (seqOf (tokenKV s)) + 1"
    using token_event [OF assms(1), of s "unat (seqOf (tokenKV s))" e] Cons.prems by (auto simp: well_formed_def)
  moreover have "params_held (aSdk A) ?t" "formed (aSdk A) ?t"
    using Cons.prems(1) applyEvent_preserves [OF params_event [OF assms(1)]] applyEvent_preserves [OF formed_event [OF assms(1)]]
    by (auto simp: well_formed_def)
  ultimately show ?case using Cons.IH [of ?t] Cons.prems(2) by (simp add: well_formed_def runEvents_def)
qed (simp add: runEvents_def)

section \<open>From genesis on\<close>

text \<open>The application over the concrete instances, in the build with asynchronous answers and no consumer.\<close>

definition ref_app :: "ledger app" where
  "ref_app = \<lparr>aSdk = ref_sdk, aIbc = ref_ibc, aBase = (\<lambda>ctx tx simulate. return ctx), aAsync = True, aConsumer = None,
     aAckText = (\<lambda>a. [])\<rparr>"

lemma ref_app_simps [simp]: "aSdk ref_app = ref_sdk" "aIbc ref_app = ref_ibc" "aConsumer ref_app = None"
  by (simp_all add: ref_app_def)

lemma ref_wired: "wired ref_app"
  unfolding wired_def by (auto simp: ref_app_def return_def) (metis chain.surjective chain.update_convs(1))

lemma initModules_well_formed:
  assumes "capability_law I" "validateModules E I C G = Inr ()"
  obtains t where "initModules E I C scoped G (initChain b) = (Inr (), t)" "well_formed E t" "tokenKV t = []"
proof -
  from assms(2) show thesis
  proof (rule validateModules_Inr)
    fix pc pt po pf pr pe pm pq
    assume j: "fromJSON (cCosvian C) (gCosvian G) = Some pc" "fromJSON (cToken C) (gToken G) = Some pt"
      "fromJSON (cOracle C) (gOracle G) = Some po" "fromJSON (cPricefeed C) (gPricefeed G) = Some pf"
      "fromJSON (cRegistry C) (gRegistry G) = Some pr" "fromJSON (cFees C) (gFees G) = Some pe"
      "fromJSON (cOsmosisicq C) (gOsmosisicq G) = Some pm" "fromJSON (cIcqcontroller C) (gIcqcontroller G) = Some pq"
      and v: "tokenGenesisValidate pt = Inr ()" "registryGenesisValidate pr = Inr ()" "feesGenesisValidate pe = Inr ()"
        "osmoGenesisValidate E pm = Inr ()"
    from initModules_eval [OF assms(1) j, of E scoped "initChain b"] obtain e1 e2 where
      i: "initModules E I C scoped G (initChain b) = (Inr (), (initChain b)
        \<lparr>cosvianParams := Some pc, tokenParams := Some (wireTokenParams E pt), oracleParams := Some po,
         feedPort := Some (snd pf), ext := e1, feedParams := Some (fst pf), registryParams := Some pr,
         feesParams := Some (wireParams E pe), osmoParams := Some pm,
         icqPort := Some (snd pq), ext := e2, icqParams := Some (fst pq)\<rparr>)"
      by blast
    show thesis
      by (rule that [OF i]) (use v token_inv_Nil in \<open>auto simp: well_formed_def formed_def params_held_def held_def price_text_def
        pending_text_def schedule_set_def initChain_def\<close>)
  qed
qed

text \<open>
  C11. A genesis that the modules' validation accepts is loaded without an error, and the state
  is well-formed then and after any sequence of events: the token store keeps its invariant,
  every stored parameter set is the encoding of one that validates, the price is the text of a
  decimal, the entries of queries in flight decode, and the schedule has both its times or none.
\<close>

theorem accepted_genesis_stays_well_formed:
  assumes "capability_law (aIbc A)" "wired A" "validateModules (aSdk A) (aIbc A) C G = Inr ()" "length es < 2 ^ 64"
  shows "\<exists>t. initModules (aSdk A) (aIbc A) C scoped G (initChain b) = (Inr (), t) \<and> well_formed (aSdk A) t \<and>
    well_formed (aSdk A) (runEvents A t es)"
proof -
  obtain t where t: "initModules (aSdk A) (aIbc A) C scoped G (initChain b) = (Inr (), t)" "well_formed (aSdk A) t" "tokenKV t = []"
    by (rule initModules_well_formed [OF assms(1,3)])
  moreover have "unat (seqOf (tokenKV t)) + length es < 2 ^ 64" using assms(4) t(3) by (simp add: seqOf_def counterAt_def kvGet_def)
  ultimately show ?thesis using runEvents_well_formed [OF assms(2) t(2), of es] by blast
qed

definition defaultCodecs :: codecs where
  "defaultCodecs = \<lparr>cCosvian = oneState (), cToken = oneState tokenDefaultGenesis, cOracle = oneState (),
     cPricefeed = oneState feedDefaultGenesis, cRegistry = oneState registryDefaultGenesis,
     cFees = oneState feesDefaultGenesis, cOsmosisicq = oneState osmoDefaultGenesis,
     cIcqcontroller = oneState icqDefaultGenesis\<rparr>"

lemma default_docs: "defaultModules defaultCodecs = Inr emptyDocs"
  by (simp add: defaultModules_def defaultCodecs_def amDefaultGenesis_def oneState_def emptyDocs_def)

lemma ref_default_genesis: "validateModules ref_sdk ref_ibc defaultCodecs emptyDocs = Inr ()"
proof -
  have c: "codecs_ok defaultCodecs" by (simp add: codecs_ok_def defaultCodecs_def)
  have d: "dFromStr ref_sdk ''0'' \<noteq> None" "dFromStr ref_sdk ''0.5'' = Some (5 * 10 ^ 17)" by code_simp+
  show ?thesis by (rule default_genesis_accepted [OF c default_docs d]) (simp_all add: ref_ibc_def)
qed

theorem accepted_genesis_stays_well_formed_witness:
  "\<exists>t. initModules ref_sdk ref_ibc defaultCodecs True emptyDocs (initChain emptyLedger) = (Inr (), t) \<and>
     well_formed ref_sdk (runEvents ref_app t [Message (TokenMsg (TCreate goldMsg)), Block (10 ^ 10),
       Message (SetPriceMsg \<lparr>spCreator = ''alice'', spDenom = ''CSV'', spPrice = ''0.5''\<rparr>)])"
proof -
  have l: "capability_law (aIbc ref_app)" by (simp add: capability_law_def ref_ibc_def)
  have g: "validateModules (aSdk ref_app) (aIbc ref_app) defaultCodecs emptyDocs = Inr ()" using ref_default_genesis by simp
  have n: "length [Message (TokenMsg (TCreate goldMsg)), Block (10 ^ 10),
      Message (SetPriceMsg \<lparr>spCreator = ''alice'', spDenom = ''CSV'', spPrice = ''0.5''\<rparr>)] < 2 ^ 64" by simp
  show ?thesis using accepted_genesis_stays_well_formed [OF l ref_wired g n, where scoped = True and b = emptyLedger] by auto
qed

end
