(* ===== verification/ChainHistory.thy ===== *)
theory ChainHistory
  imports ChainCorrect
begin

text \<open>
  Which events can have led to a state: a part of the state that differs from what it was has a
  last event that changed it, and only the authority's messages change parameters, only the price
  sources the price. Last, what the wiring of the application does to the schedule of queries.
\<close>

section \<open>The last change\<close>

lemma last_change:
  assumes "g (runEvents A s es) \<noteq> g s"
  obtains es1 e es2 where "es = es1 @ e # es2"
    "runEvent A e (runEvents A s es1) = (Inr (), applyEvent A (runEvents A s es1) e)"
    "g (applyEvent A (runEvents A s es1) e) \<noteq> g (runEvents A s es1)"
    "g (runEvents A s es) = g (applyEvent A (runEvents A s es1) e)"
  using assms
proof (induction es arbitrary: thesis rule: rev_induct)
  case (snoc x xs)
  let ?u = "runEvents A s xs"
  have run: "runEvents A s (xs @ [x]) = applyEvent A ?u x" by (simp add: runEvents_def)
  show ?case
  proof (cases "g (applyEvent A ?u x) = g ?u")
    case True
    with snoc.prems(2) run have "g ?u \<noteq> g s" by simp
    then show ?thesis
    proof (rule snoc.IH [rotated])
      fix es1 e es2
      assume x: "xs = es1 @ e # es2" "runEvent A e (runEvents A s es1) = (Inr (), applyEvent A (runEvents A s es1) e)"
        "g (applyEvent A (runEvents A s es1) e) \<noteq> g (runEvents A s es1)" "g ?u = g (applyEvent A (runEvents A s es1) e)"
      show ?thesis by (rule snoc.prems(1) [of es1 e "es2 @ [x]"]) (use x run True in simp_all)
    qed
  next
    case False
    then have "runEvent A x ?u = (Inr (), applyEvent A ?u x)" by (cases rule: applyEvent_cases [of A ?u x]) simp_all
    with False run show ?thesis by (intro snoc.prems(1) [of xs x "[]"]) simp_all
  qed
qed (simp add: runEvents_def)

lemma changed_part: "g (applyEvent A s e) \<noteq> g s \<Longrightarrow> \<not> keeps g (runEvent A e)"
  using applyEvent_keeps by blast

section \<open>Parameters\<close>

text \<open>The parameters of the eight modules, and the signer of a message that updates some of them.\<close>

definition paramsOf where
  "paramsOf s = (feesParams s, oracleParams s, tokenParams s, registryParams s, cosvianParams s, osmoParams s, icqParams s, feedParams s)"

definition updateSigner :: "app_msg \<Rightarrow> string option" where
  "updateSigner m = (case m of
     FeesParamsMsg x _ \<Rightarrow> Some x | OracleParamsMsg x _ \<Rightarrow> Some x | TokenParamsMsg x _ \<Rightarrow> Some x
   | RegistryParamsMsg x _ \<Rightarrow> Some x | CosvianParamsMsg x _ \<Rightarrow> Some x | OsmoParamsMsg x _ \<Rightarrow> Some x
   | IcqParamsMsg x _ \<Rightarrow> Some x | FeedParamsMsg x _ \<Rightarrow> Some x | _ \<Rightarrow> None)"

definition paramParts :: "part set" where
  "paramParts = {FeesP, OracleP, TokenP, RegistryP, CosvianP, OsmoP, IcqP, FeedP}"

lemma keeps_paramsOf:
  assumes "wired A" "writes A e \<inter> paramParts = {}"
  shows "keeps paramsOf (runEvent A e)"
  by (rule event_frame [OF assms(1)]) (use assms(2) in \<open>auto simp: paramsOf_def paramParts_def\<close>)

lemma param_writers: "writes A e \<inter> paramParts \<noteq> {} \<Longrightarrow> \<exists>m x. e = Message m \<and> updateSigner m = Some x"
proof (cases e)
  case (Message m)
  assume "writes A e \<inter> paramParts \<noteq> {}"
  then show ?thesis using Message
    by (auto simp: paramParts_def updateSigner_def dest!: msgWritesD(1-8))
qed (auto simp: paramParts_def)

lemma update_authority:
  assumes "updateSigner m = Some x" "runMsg A m s = (Inr (), t)"
  shows "StringToBytes (aSdk A) x = Some (moduleAuthority (aSdk A))"
  using assms
  by (cases m) (auto simp: updateSigner_def feesUpdateParams_def oracleUpdateParams_def tokenUpdateParams_def registryUpdateParams_def
    cosvianUpdateParams_def osmoUpdateParams_def icqUpdateParams_def feedUpdateParams_def act_splits checkAuthority_Inr)

text \<open>
  C12. Whatever happens on the chain, parameters of a module that differ from what they were are
  what an UpdateParams message left that ran without an error and whose signer decodes to the
  governance account; no later event changed them again.
\<close>

theorem parameters_change_only_by_authority:
  assumes "wired A" "paramsOf (runEvents A s es) \<noteq> paramsOf s"
  shows "\<exists>es1 m x es2. es = es1 @ Message m # es2 \<and> updateSigner m = Some x \<and>
    StringToBytes (aSdk A) x = Some (GetModuleAddress (aSdk A) ''gov'') \<and>
    (\<exists>t. runMsg A m (runEvents A s es1) = (Inr (), t) \<and> paramsOf (runEvents A s es) = paramsOf t)"
proof -
  obtain es1 e es2 where e: "es = es1 @ e # es2"
    "runEvent A e (runEvents A s es1) = (Inr (), applyEvent A (runEvents A s es1) e)"
    "paramsOf (applyEvent A (runEvents A s es1) e) \<noteq> paramsOf (runEvents A s es1)"
    "paramsOf (runEvents A s es) = paramsOf (applyEvent A (runEvents A s es1) e)"
    using last_change [of paramsOf, OF assms(2)] by blast
  from changed_part [OF e(3)] keeps_paramsOf [OF assms(1)] obtain m x where m: "e = Message m" "updateSigner m = Some x"
    using param_writers by blast
  from e(2) have r: "runMsg A m (runEvents A s es1) = (Inr (), applyEvent A (runEvents A s es1) e)" by (simp add: m(1))
  from update_authority [OF m(2) r] e m r show ?thesis unfolding moduleAuthority_def by blast
qed

definition govUpdates :: "ledger chain_event list" where
  "govUpdates = [Message (FeesParamsMsg ''eve'' NewParams), Message (FeesParamsMsg (refMod ''gov'') DefaultParams)]"

theorem parameters_change_only_by_authority_witness:
  "\<exists>es1 m x es2. govUpdates = es1 @ Message m # es2 \<and> updateSigner m = Some x \<and>
    StringToBytes ref_sdk x = Some (GetModuleAddress ref_sdk ''gov'')"
proof -
  have "paramsOf (runEvents ref_app (initChain emptyLedger) govUpdates) \<noteq> paramsOf (initChain emptyLedger)"
    by code_simp
  from parameters_change_only_by_authority [OF ref_wired this] show ?thesis by auto
qed

section \<open>The price\<close>

lemma SetPrice_change:
  assumes "SetPrice E m s = (Inr r, t)" "csvPrice t \<noteq> csvPrice s"
  shows "\<exists>d. dFromStr E (spPrice m) = Some d \<and> 0 < d \<and> csvPrice t = (csvPrice s)(''CSV_USD'' \<mapsto> dString E d)"
  using assms by (auto simp: SetPrice_def SetCSVPerUSD_def emit_def act_splits split: option.splits if_splits)

lemma needResult_Inr: "needResult ack s = (Inr u, t) \<longleftrightarrow> (\<exists>b. ack = ResultAck b) \<and> t = s"
  by (cases ack) (auto simp: needResult_def act_eval)

lemma feedRecv_change:
  assumes "feedOnRecvPacket E I (oracleKeeper E) bz s = (Inr r, t)" "csvPrice t \<noteq> csvPrice s"
  shows "\<exists>p. feedUnmarshal I bz = Some (ResponsePacket p) \<and> orpError p = []"
proof (rule ccontr)
  assume n: "\<nexists>p. feedUnmarshal I bz = Some (ResponsePacket p) \<and> orpError p = []"
  have "keeps csvPrice (OnRecvOracleResponsePacket E (oracleKeeper E) p)" if "orpError p \<noteq> []" for p
    using that by (auto simp: OnRecvOracleResponsePacket_def intro!: keeps_intros)
  with n have "keeps csvPrice (feedOnRecvPacket E I (oracleKeeper E) bz)"
    unfolding feedOnRecvPacket_def OnRecvOracleRequestPacket_def
    by (auto intro!: keeps_intros keeps_recvOutcome split: option.splits feedPacket.splits)
  from keepsD [OF this assms(1)] assms(2) show False by simp
qed

lemma icqAck_idle:
  "icqPending s (pendingKey c n) = None \<Longrightarrow> icqOnAcknowledgementPacket I extract consumer p c n a s = (Inr (), s)"
  by (simp add: icqOnAcknowledgementPacket_def HandlePacketAcknowledgement_def GetPending_def act_simps)

text \<open>What an event that changed the price can be, and the price it left.\<close>

definition price_source :: "'b app \<Rightarrow> 'b chain \<Rightarrow> 'b chain_event \<Rightarrow> bool" where
  "price_source A s e \<longleftrightarrow> (case e of
     Message (SetPriceMsg m) \<Rightarrow> (\<exists>d. dFromStr (aSdk A) (spPrice m) = Some d \<and> 0 < d)
   | Message (FeedRecv bz) \<Rightarrow> (\<exists>p. feedUnmarshal (aIbc A) bz = Some (ResponsePacket p) \<and> orpError p = [])
   | Message (IcqAck p c n a) \<Rightarrow> aConsumer A \<noteq> None \<and> icqPending s (pendingKey c n) \<noteq> None
   | _ \<Rightarrow> False)"

lemma price_step:
  assumes A: "wired A" and r: "runEvent A e s = (Inr (), t)" and c: "csvPrice t \<noteq> csvPrice s"
  shows "price_source A s e \<and> (\<exists>d. csvPrice t = (csvPrice s)(''CSV_USD'' \<mapsto> dString (aSdk A) d))"
proof -
  let ?Q = "\<lambda>t. csvPrice t = csvPrice s \<or> (\<exists>d. csvPrice t = (csvPrice s)(''CSV_USD'' \<mapsto> dString (aSdk A) d))"
  have cl: "price_closed (aSdk A) ?Q" by (auto simp: price_closed_def)
  note Q = price_handlers [OF cl]
  from part_frames(3) [OF A] keepsD r c have "PriceP \<in> writes A e" by metis
  then consider m where "e = Message (SetPriceMsg m)" | bz where "e = Message (FeedRecv bz)"
    | p ch n a f where "e = Message (IcqAck p ch n a)" "aConsumer A = Some f"
    by (cases e) (auto dest: msgWritesD(11))
  then show ?thesis
  proof cases
    case (1 m)
    with r obtain x where "SetPrice (aSdk A) m s = (Inr x, t)" by (auto simp: void_def act_splits)
    from SetPrice_change [OF this c] 1 show ?thesis by (auto simp: price_source_def)
  next
    case (2 bz)
    with r obtain x where x: "feedOnRecvPacket (aSdk A) (aIbc A) (oracleKeeper (aSdk A)) bz s = (Inr x, t)"
      by (auto simp: act_splits needResult_Inr)
    from feedRecv_change [OF x c] preservesD [OF Q(4) x] c 2 show ?thesis by (auto simp: price_source_def)
  next
    case (3 p ch n a f)
    with A have f: "aConsumer A = Some (OnKVResult (aSdk A) (oracleKeeper (aSdk A)))" by (auto simp: wired_def)
    from 3 r have x: "icqOnAcknowledgementPacket (aIbc A) (appExtract A) (aConsumer A) p ch n a s = (Inr (), t)" by simp
    have "icqPending s (pendingKey ch n) \<noteq> None"
    proof
      assume "icqPending s (pendingKey ch n) = None"
      from icqAck_idle [OF this] x c show False by simp
    qed
    moreover have "preserves ?Q (icqOnAcknowledgementPacket (aIbc A) (appExtract A) (aConsumer A) p ch n a)"
      by (rule price_icqAck [OF cl]) (auto simp: f)
    from preservesD [OF this x] c have "\<exists>d. csvPrice t = (csvPrice s)(''CSV_USD'' \<mapsto> dString (aSdk A) d)" by simp
    ultimately show ?thesis using 3 by (simp add: price_source_def)
  qed
qed

text \<open>
  C13. Whatever happens on the chain, a price that differs from what it was was stored last by
  one of three events: a SetPrice with a positive price (whose value then stands), a received
  oracle response without an error, or the acknowledgement of a query still in flight, the last
  only when a consumer is wired. No transaction fee, token, channel or parameter event and no
  block moves it.
\<close>

theorem only_price_sources_move_the_price:
  assumes "wired A" "csvPrice (runEvents A s es) \<noteq> csvPrice s"
  shows "\<exists>es1 e es2. es = es1 @ e # es2 \<and> price_source A (runEvents A s es1) e \<and>
    (\<exists>d. csvPrice (runEvents A s es) = (csvPrice (runEvents A s es1))(''CSV_USD'' \<mapsto> dString (aSdk A) d) \<and>
       (\<forall>m. e = Message (SetPriceMsg m) \<longrightarrow> dFromStr (aSdk A) (spPrice m) = Some d))"
proof -
  obtain es1 e es2 where e: "es = es1 @ e # es2"
    "runEvent A e (runEvents A s es1) = (Inr (), applyEvent A (runEvents A s es1) e)"
    "csvPrice (applyEvent A (runEvents A s es1) e) \<noteq> csvPrice (runEvents A s es1)"
    "csvPrice (runEvents A s es) = csvPrice (applyEvent A (runEvents A s es1) e)"
    using last_change [of csvPrice, OF assms(2)] by blast
  from price_step [OF assms(1) e(2,3)] obtain d where
    d: "price_source A (runEvents A s es1) e"
      "csvPrice (applyEvent A (runEvents A s es1) e) = (csvPrice (runEvents A s es1))(''CSV_USD'' \<mapsto> dString (aSdk A) d)"
    by blast
  have "\<exists>d. csvPrice (runEvents A s es) = (csvPrice (runEvents A s es1))(''CSV_USD'' \<mapsto> dString (aSdk A) d) \<and>
      (\<forall>m. e = Message (SetPriceMsg m) \<longrightarrow> dFromStr (aSdk A) (spPrice m) = Some d)"
  proof (cases "\<exists>m. e = Message (SetPriceMsg m)")
    case True
    then obtain m where m: "e = Message (SetPriceMsg m)" by blast
    with e(2) obtain x where "SetPrice (aSdk A) m (runEvents A s es1) = (Inr x, applyEvent A (runEvents A s es1) e)"
      by (auto simp: void_def act_splits)
    from SetPrice_change [OF this e(3)] e(4) m show ?thesis by auto
  next
    case False
    with d(2) e(4) show ?thesis by auto
  qed
  with e(1) d(1) show ?thesis by blast
qed

definition halfDollar :: MsgSetPrice where
  "halfDollar = \<lparr>spCreator = ''mallory'', spDenom = ''CSV'', spPrice = ''0.5''\<rparr>"

theorem only_price_sources_move_the_price_witness:
  "\<exists>es1 e es2. [Block 0, Message (SetPriceMsg halfDollar), Block 1] = es1 @ e # es2 \<and>
     price_source ref_app (runEvents ref_app (initChain emptyLedger) es1) e"
proof -
  have "csvPrice (runEvents ref_app (initChain emptyLedger) [Block 0, Message (SetPriceMsg halfDollar), Block 1]) ''CSV_USD'' = Some ''0.500000000000000000''"
    by code_simp
  then have "csvPrice (runEvents ref_app (initChain emptyLedger) [Block 0, Message (SetPriceMsg halfDollar), Block 1]) \<noteq>
      csvPrice (initChain emptyLedger)"
    by (auto simp: initChain_def)
  from only_price_sources_move_the_price [OF ref_wired this] show ?thesis by blast
qed

section \<open>Queries without the IBC keeper\<close>

text \<open>
  \<open>app.New\<close> gives the two interchain modules no \<open>IBCKeeperFn\<close>, their inputs declare it optional, so
  every use of it panics. The scheduler's \<open>BeginBlock\<close> drops errors, not panics.
\<close>

lemma beginBlock_eval: "beginBlock A s = osmoBeginBlock (appClient A) True s"
  by (cases "osmoBeginBlock (appClient A) True s"; cases "fst (osmoBeginBlock (appClient A) True s)")
    (simp_all add: beginBlock_def BeginBlockers_def moduleBeginBlock_def andThen_def bnd_def return_def)

lemma query_panics:
  assumes "\<not> ibcKeeperFn E" "icqActive s conn = Some c" "c \<noteq> []" "SerializeQuery I (''/store/'' @ store @ ''/key'') key \<noteq> None" "key \<noteq> []"
  shows "registerQuery (icqRegisterKVQuery E I True) conn name (store, key) s = (Inl Panic, s)"
  using assms
  by (auto simp: registerQuery_def icqRegisterKVQuery_def SendKVQuery_def GetChannelForConnection_def viaIBC_def bnd_def gets_def
    lift_def raise_def ofOption_def catchA_def split: option.splits)

text \<open>The recorded channel, the parameters and the schedule that make a block panic when it is due.\<close>

definition stuck :: "OsmoParams \<Rightarrow> int option \<times> int option \<Rightarrow> 'b chain \<Rightarrow> bool" where
  "stuck p sch s \<longleftrightarrow> osmoParams s = Some p \<and> (osmoLastUpdate s, osmoNextUpdate s) = sch \<and>
     (\<exists>c. icqActive s (ConnectionId p) = Some c \<and> c \<noteq> [])"

definition dueAt :: "OsmoParams \<Rightarrow> int option \<times> int option \<Rightarrow> int \<Rightarrow> bool" where
  "dueAt p sch time \<longleftrightarrow> (case sch of
     (_, Some n) \<Rightarrow> n \<le> time div 10 ^ 9
   | (Some l, None) \<Rightarrow> addInt64 l (int64 (UpdateIntervalSeconds p)) \<le> time div 10 ^ 9
   | (None, None) \<Rightarrow> True)"

lemma due_block_panics:
  assumes E: "\<not> ibcKeeperFn (aSdk A)" "\<forall>path key. SerializeQuery (aIbc A) path key \<noteq> None"
    and p: "ConnectionId p \<noteq> []" "UpdateIntervalSeconds p \<noteq> 0" and s: "stuck p sch s" "dueAt p sch time"
  shows "fst (runEvent A (Block time) s) = Inl Panic"
proof -
  let ?u = "s\<lparr>blockTime := time, blockHeight := blockHeight s + 1, events := []\<rparr>"
  obtain c where c: "osmoParams ?u = Some p" "icqActive ?u (ConnectionId p) = Some c" "c \<noteq> []"
    using s(1) by (auto simp: stuck_def)
  have n: "\<not> notDue ?u (UpdateIntervalSeconds p)"
    using s by (auto simp: stuck_def dueAt_def notDue_def unixTime_def split: option.splits)
  have "registerQuery (icqRegisterKVQuery (aSdk A) (aIbc A) True) (ConnectionId p) name (store, key) ?u = (Inl Panic, ?u)"
    if "key \<noteq> []" for name store key
    by (rule query_panics [OF E(1) c(2,3) _ that]) (use E(2) in blast)
  then have "registerQueries (icqRegisterKVQuery (aSdk A) (aIbc A) True) p ?u = (Inl Panic, ?u)"
    by (simp add: registerQueries_def stubTwapKey_def stubGammPoolKey_def BuildTwapToNowKey_def BuildGammPoolKey_def Let_def bnd_def)
  with c(1) n p have "ScheduleQueriesIfDue (appClient A) ?u = (Inl Panic, ?u)"
    by (simp add: ScheduleQueriesIfDue_def getOsmoParams_def appClient_def whenA_def bnd_def gets_def lift_def ofOption_def Let_def)
  then have "osmoBeginBlock (appClient A) True ?u = (Inl Panic, ?u)"
    by (simp add: osmoBeginBlock_def whenA_def ignoreA_def catchA_def bnd_def)
  then show ?thesis by (simp add: andThen_def bnd_def modify_def beginBlock_eval)
qed

lemma early_block:
  assumes "stuck p sch s" "\<not> dueAt p sch time"
  shows "stuck p sch (snd (runEvent A (Block time) s))"
proof -
  let ?u = "s\<lparr>blockTime := time, blockHeight := blockHeight s + 1, events := []\<rparr>"
  have n: "notDue ?u (UpdateIntervalSeconds p)"
    using assms by (auto simp: stuck_def dueAt_def notDue_def unixTime_def split: option.splits)
  moreover have "osmoParams ?u = Some p" using assms(1) by (simp add: stuck_def)
  ultimately have "ScheduleQueriesIfDue (appClient A) ?u = (Inr (), ?u)"
    by (simp add: ScheduleQueriesIfDue_def getOsmoParams_def bnd_def gets_def lift_def ofOption_def Let_def return_def)
  then have "osmoBeginBlock (appClient A) True ?u = (Inr (), ?u)"
    by (simp add: osmoBeginBlock_def whenA_def ignoreA_def catchA_def bnd_def return_def)
  then show ?thesis using assms(1) by (simp add: andThen_def bnd_def modify_def beginBlock_eval stuck_def)
qed

text \<open>Events other than the authority's update of these parameters; IBC gives every channel an identifier.\<close>

definition ordinary :: "'b chain_event \<Rightarrow> bool" where
  "ordinary e \<longleftrightarrow> (case e of
     Message (OsmoParamsMsg x p) \<Rightarrow> False
   | Message (IcqOpenInit hops c v) \<Rightarrow> c \<noteq> []
   | Message (IcqOpenTry hops c v) \<Rightarrow> c \<noteq> []
   | _ \<Rightarrow> True)"

lemma stuck_frame:
  assumes "wired A" "{OsmoP, ScheduleP, ActiveP} \<inter> writes A e = {}" "stuck p sch s"
  shows "stuck p sch (applyEvent A s e)"
proof -
  have "keeps (\<lambda>s. (osmoParams s, osmoLastUpdate s, osmoNextUpdate s, icqActive s)) (runEvent A e)"
    by (rule event_frame [OF assms(1)]) (use assms(2) in auto)
  from applyEvent_keeps [OF this, of s] assms(3) show ?thesis by (simp add: stuck_def)
qed

lemma stuck_recordChannel:
  "stuck p sch s \<Longrightarrow> c \<noteq> [] \<Longrightarrow> recordChannel hops c s = (Inr u, t) \<Longrightarrow> stuck p sch t"
  by (cases hops) (auto simp: recordChannel_def SetActiveChannel_def act_eval stuck_def)

lemma ActiveP_writes: "ActiveP \<in> msgWrites A m \<Longrightarrow>
  (\<exists>hops c v. m = IcqOpenInit hops c v) \<or> (\<exists>hops c v. m = IcqOpenTry hops c v) \<or> (\<exists>q c. m = IcqCloseConfirm q c)"
  by (cases m) (simp_all add: msgWrites_def in_tokenWrites split: if_splits)

lemma stuck_event:
  assumes A: "wired A" and E: "\<not> ibcKeeperFn (aSdk A)" "\<forall>path key. SerializeQuery (aIbc A) path key \<noteq> None"
    and p: "ConnectionId p \<noteq> []" "UpdateIntervalSeconds p \<noteq> 0" and s: "stuck p sch s" "ordinary e"
  shows "stuck p sch (applyEvent A s e)"
proof (cases rule: applyEvent_cases [of A s e])
  case ran
  show ?thesis
  proof (cases "{OsmoP, ScheduleP, ActiveP} \<inter> writes A e = {}")
    case True
    then show ?thesis by (rule stuck_frame [OF A _ s(1)])
  next
    case False
    then consider time where "e = Block time" | m where "e = Message m" "OsmoP \<in> msgWrites A m \<or> ActiveP \<in> msgWrites A m"
      by (cases e) (auto simp: msgWritesD(10))
    then show ?thesis
    proof cases
      case (1 time)
      with ran due_block_panics [OF E p s(1), of time] have "\<not> dueAt p sch time" by auto
      from early_block [OF s(1) this, of A] ran 1 show ?thesis by simp
    next
      case (2 m)
      with s(2) have "OsmoP \<notin> msgWrites A m" by (auto simp: ordinary_def dest: msgWritesD(6))
      with 2 show ?thesis using ran s E(1)
        by (auto dest!: ActiveP_writes simp: ordinary_def void_def act_splits icqOnChanOpenInit_def icqOnChanOpenTry_def
          icqOnChanCloseConfirm_def split: if_splits intro: stuck_recordChannel)
    qed
  qed
qed (use s(1) in simp)

text \<open>
  C15. The keepers of the interchain modules have no IBC keeper in this application. Once anyone
  has started a channel handshake on the connection the price queries are configured for, every
  block whose time reaches the next scheduled query panics in BeginBlock, and so does every
  later one: the panic undoes the rescheduling, and no event short of a parameter update by the
  authority, which needs a block of its own, gets the chain out of this state.
\<close>

theorem a_handshake_halts_the_chain:
  assumes "wired A" "\<not> ibcKeeperFn (aSdk A)" "\<forall>path key. SerializeQuery (aIbc A) path key \<noteq> None"
    and "osmoParams s = Some p" "ConnectionId p \<noteq> []" "UpdateIntervalSeconds p \<noteq> 0" "c \<noteq> []" "list_all ordinary es"
    and "dueAt p (osmoLastUpdate s, osmoNextUpdate s) time"
  shows "fst (runEvent A (Block time)
    (runEvents A s (Message (IcqOpenInit (ConnectionId p # hops) c ''icq-1'') # es))) = Inl Panic"
proof -
  let ?sch = "(osmoLastUpdate s, osmoNextUpdate s)"
  let ?s1 = "applyEvent A s (Message (IcqOpenInit (ConnectionId p # hops) c ''icq-1''))"
  have s1: "stuck p ?sch ?s1"
    using assms(4,7) by (simp add: applyEvent_def void_def icqOnChanOpenInit_def recordChannel_def SetActiveChannel_def icqVersion_def
      bnd_def modify_def return_def stuck_def)
  have step: "stuck p ?sch (applyEvent A t e)" if "stuck p ?sch t" "e \<in> set es" for t e
    using that assms(8) by (intro stuck_event [OF assms(1-3,5,6)]) (auto simp: list_all_iff)
  have "stuck p ?sch (runEvents A ?s1 es)" by (rule runEvents_invariant [where Q = "stuck p ?sch", OF step s1])
  from due_block_panics [OF assms(2,3,5,6) this assms(9)] show ?thesis by (simp add: runEvents_def)
qed

definition nil_app :: "ledger app" where
  "nil_app = ref_app\<lparr>aSdk := ref_sdk\<lparr>ibcKeeperFn := False\<rparr>\<rparr>"

theorem a_handshake_halts_the_chain_witness:
  "fst (runEvent nil_app (Block (10 ^ 18)) (runEvents nil_app ((initChain emptyLedger)\<lparr>osmoParams := Some osmoNewParams\<rparr>)
     (Message (IcqOpenInit [''connection-0''] ''channel-9'' ''icq-1'') # [Message (SetPriceMsg halfDollar)]))) = Inl Panic"
proof -
  have w: "wired nil_app" using ref_wired by (simp add: wired_def nil_app_def)
  have n: "\<not> ibcKeeperFn (aSdk nil_app)" by (simp add: nil_app_def)
  have q: "\<forall>path key. SerializeQuery (aIbc nil_app) path key \<noteq> None" by (simp add: nil_app_def ref_ibc_def)
  have p: "osmoParams ((initChain emptyLedger)\<lparr>osmoParams := Some osmoNewParams\<rparr>) = Some osmoNewParams"
    "ConnectionId osmoNewParams \<noteq> []" "UpdateIntervalSeconds osmoNewParams \<noteq> 0"
    by (simp_all add: osmoNewParams_def)
  have o: "list_all ordinary [Message (SetPriceMsg halfDollar)]" by (simp add: ordinary_def)
  have d: "dueAt osmoNewParams (osmoLastUpdate ((initChain emptyLedger)\<lparr>osmoParams := Some osmoNewParams\<rparr>),
      osmoNextUpdate ((initChain emptyLedger)\<lparr>osmoParams := Some osmoNewParams\<rparr>)) (10 ^ 18)"
    by (simp add: dueAt_def initChain_def)
  have c: "''channel-9'' \<noteq> []" "ConnectionId osmoNewParams = ''connection-0''" by (simp_all add: osmoNewParams_def)
  show ?thesis using a_handshake_halts_the_chain [OF w n q p c(1) o d, of "[]"] by (simp only: c(2))
qed

end
