(* ===== verification/ChainSupply.thy ===== *)
theory ChainSupply
  imports ChainHistory FeesCorrect
begin

text \<open>
  The supply of the native coin over every sequence of events. Most handlers move coins between
  accounts; here they keep a quantity that such calls do not change, so the lemmas on the calls of
  other keepers replace the ones that let them change anything.
\<close>

declare keeps_extern [keeps_intros del] keeps_externV [keeps_intros del] keeps_payShares [keeps_intros del]
  keeps_DistributeFee [keeps_intros del] keeps_DistributeFeeFromModule [keeps_intros del] keeps_deductFees [keeps_intros del]
  keeps_distributeFees [keeps_intros del] keeps_ChargeFee [keeps_intros del] keeps_SendOracle [keeps_intros del]

text \<open>
  Sending coins, consuming gas and sending a packet leave the supply of a denomination alone,
  whether they succeed or not.
\<close>

definition supply_frames :: "'b sdk \<Rightarrow> string \<Rightarrow> bool" where
  "supply_frames E d \<longleftrightarrow>
     (\<forall>b f t cs. GetSupply E (snd (SendCoins E b f t cs)) d = GetSupply E b d) \<and>
     (\<forall>b f m cs. GetSupply E (snd (SendCoinsFromAccountToModule E b f m cs)) d = GetSupply E b d) \<and>
     (\<forall>b m n cs. GetSupply E (snd (SendCoinsFromModuleToModule E b m n cs)) d = GetSupply E b d) \<and>
     (\<forall>b m t cs. GetSupply E (snd (SendCoinsFromModuleToAccount E b m t cs)) d = GetSupply E b d) \<and>
     (\<forall>b n w. GetSupply E (snd (ConsumeGas E b n w)) d = GetSupply E b d) \<and>
     (\<forall>b p c t bz. GetSupply E (snd (SendPacket E b p c t bz)) d = GetSupply E b d)"

lemma keeps_of_ext:
  "(\<And>b. h (snd (f b)) = h b) \<Longrightarrow> keeps (\<lambda>s. h (ext s)) (extern f)"
  "(\<And>b. h (snd (v b)) = h b) \<Longrightarrow> keeps (\<lambda>s. h (ext s)) (externV v)"
  by (auto simp: keeps_def extern_def externV_def split: prod.splits option.splits) (metis snd_conv)+

lemma supply_distribution:
  assumes "supply_frames E d"
  shows "keeps (\<lambda>s. GetSupply E (ext s) d) (DistributeFee E sender ty c md)"
    and "keeps (\<lambda>s. GetSupply E (ext s) d) (DistributeFeeFromModule E m ty c md)"
    and "keeps (\<lambda>s. GetSupply E (ext s) d) (deductFees E tx fee)"
  using assms unfolding DistributeFee_def DistributeFeeFromModule_def payShares_def payTreasury_def payAccount_def deductFees_def Let_def
  by (auto intro!: keeps_intros keeps_of_ext simp: supply_frames_def split: option.splits)

lemma supply_ChargeFee:
  assumes "supply_frames E d"
  shows "keeps (\<lambda>s. GetSupply E (ext s) d) (ChargeFee rate E msg)"
  unfolding ChargeFee_def Let_def case_prod_unfold
  using assms by (intro keeps_intros supply_distribution keeps_of_ext) (auto simp: supply_frames_def)

lemma supply_packets:
  assumes "supply_frames E d"
  shows "keeps (\<lambda>s. GetSupply E (ext s) d) (SendOracleRequest E I m)"
    and "keeps (\<lambda>s. GetSupply E (ext s) d) (SendOracleResponse E I n)"
    and "keeps (\<lambda>s. GetSupply E (ext s) d) (icqRegisterKVQuery E I w conn store key)"
  using assms unfolding SendOracleRequest_def SendOracleResponse_def TransmitOracleRequestPacket_def TransmitOracleResponsePacket_def
    icqRegisterKVQuery_def SendKVQuery_def SetPending_def RemovePending_def
  by (auto intro!: keeps_intros keeps_of_ext simp: supply_frames_def split: prod.splits)

lemma supply_ante:
  assumes "supply_frames (aSdk A) d" "\<And>ctx. keeps (\<lambda>s. GetSupply (aSdk A) (ext s) d) (aBase A ctx tx sim)"
  shows "keeps (\<lambda>s. GetSupply (aSdk A) (ext s) d) (appAnte A ctx tx sim)"
proof -
  have "keeps (\<lambda>s. GetSupply (aSdk A) (ext s) d) (distributeFees (aSdk A) c fee)" for c fee
    unfolding distributeFees_def Let_def by (intro keeps_intros supply_distribution [OF assms(1)])
  then have "keeps (\<lambda>s. GetSupply (aSdk A) (ext s) d) (DeductFeeHandle (aSdk A) c tx sim (aBase A))" for c
    unfolding DeductFeeHandle_def by (intro keeps_intros supply_distribution [OF assms(1)] assms(2))
  then show ?thesis unfolding appAnte_def customAnte_def by (intro keeps_FeeAnteHandle) simp_all
qed

lemma supply_event:
  assumes A: "wired A" "supply_frames (aSdk A) d" "\<And>ctx tx sim. keeps (\<lambda>s. GetSupply (aSdk A) (ext s) d) (aBase A ctx tx sim)"
    and e: "\<And>m. e \<noteq> Message (TokenMsg m)" "\<And>f. e \<noteq> Elsewhere f"
  shows "keeps (\<lambda>s. GetSupply (aSdk A) (ext s) d) (runEvent A e)"
proof (cases e)
  case (Message m)
  show ?thesis
    by (cases m) (use Message e(1) A in \<open>auto intro!: supply_ChargeFee supply_packets keeps_UpdateParams keeps_icqChannel keeps_feedRecv keeps_appAck
      keeps_intros keeps_trivial\<close>)
next
  case (Ante tx)
  with A show ?thesis by (auto intro!: supply_ante keeps_intros)
next
  case (Block t)
  with A(2) show ?thesis
    by (auto simp: beginBlock_def moduleBeginBlock_def appClient_def intro!: keeps_intros keeps_osmoBeginBlock supply_packets)
qed (use e(2) in simp)

text \<open>
  Events of the program itself, with parameter updates that keep the symbol csv reserved; other
  modules, such as the one that mints block rewards, change the supply as they please.
\<close>

definition native_event :: "'b chain_event \<Rightarrow> bool" where
  "native_event e \<longleftrightarrow> (case e of
     Elsewhere f \<Rightarrow> False
   | Message (TokenParamsMsg x p) \<Rightarrow> isReserved (ReservedSymbols p) ''csv''
   | _ \<Rightarrow> True)"

definition csv_safe :: "'b sdk \<Rightarrow> int \<Rightarrow> 'b chain \<Rightarrow> bool" where
  "csv_safe E n s \<longleftrightarrow> reserves_csv s \<and> no_csv (tokenKV s) \<and> GetSupply E (ext s) ''ucsv'' = n"

lemma csv_safe_event:
  assumes E: "coin_laws (aSdk A)" "bank_laws (aSdk A)" "supply_frames (aSdk A) ''ucsv''" "wired A"
    and b: "\<And>ctx tx sim. keeps (\<lambda>s. GetSupply (aSdk A) (ext s) ''ucsv'') (aBase A ctx tx sim)"
    and e: "native_event e" "csv_safe (aSdk A) n s"
  shows "csv_safe (aSdk A) n (applyEvent A s e)"
proof (cases "\<exists>m. e = Message (TokenMsg m)")
  case True
  then obtain m where m: "e = Message (TokenMsg m)" by blast
  have "applyEvent A s e = TokenCorrect.deliver (aSdk A) s m" by (simp add: applyEvent_def TokenCorrect.deliver_def m)
  with deliver_no_csv [OF E(1,2), of s m] e(2) show ?thesis
    by (simp add: csv_safe_def reserves_csv_def)
next
  case False
  have sup: "GetSupply (aSdk A) (ext (applyEvent A s e)) ''ucsv'' = GetSupply (aSdk A) (ext s) ''ucsv''"
    by (rule applyEvent_keeps, rule supply_event [OF E(4,3) b]) (use False e(1) in \<open>auto simp: native_event_def\<close>)
  have "TokensP \<notin> writes A e" using False by (cases e) (auto dest: msgWritesD(9))
  note kv = applyEvent_keeps [OF part_frames(5) [OF E(4) this], of s]
  have "reserves_csv (applyEvent A s e)"
  proof (cases "TokenP \<in> writes A e")
    case True
    then obtain x p where m: "e = Message (TokenParamsMsg x p)" by (cases e) (auto dest: msgWritesD(3))
    with e have p: "isReserved (ReservedSymbols p) ''csv''" "reserves_csv s" by (simp_all add: native_event_def csv_safe_def)
    show ?thesis
      by (cases rule: applyEvent_cases [of A s e])
        (use m p in \<open>auto simp: tokenUpdateParams_def act_splits reserves_csv_def wireTokenParams_def split: if_splits\<close>)
  next
    case False
    from applyEvent_keeps [OF part_frames(4) [OF E(4) False], of s] e(2) show ?thesis
      by (simp add: csv_safe_def reserves_csv_def)
  qed
  with sup kv e(2) show ?thesis by (simp add: csv_safe_def)
qed



text \<open>The supply in the concrete ledger.\<close>

lemma ref_supply_frames: "supply_frames ref_sdk d"
  by (auto simp: supply_frames_def ref_sdk_def refSend_def refGas_def refPacket_def supplyOf_def credit_def split: option.splits)

definition readyState :: "ledger chain" where
  "readyState = payerState\<lparr>tokenParams := Some tokenNewParams\<rparr>"


end
