(* ===== verification/ZeroHeight.thy ===== *)
theory ZeroHeight
  imports Prelude
begin

text \<open>
  Exporting the application for a genesis file (\<open>app/export.go\<close>): with \<open>forZeroHeight\<close>, rewards are
  withdrawn, the distribution records are started over at height zero, the heights kept by the
  staking and slashing modules are reset, and validators that are not on the allow list are jailed.
  The staking, distribution and slashing keepers, the codecs and the export of the modules are a
  record of parameters over their state \<^typ>\<open>'b\<close>; an iteration with a callback is the list it visits
  and the callback run on each element. The first argument of a keeper's method is the height of the
  context it is called with. Records of the SDK have the fields the code touches and the rest of
  their encoding.
\<close>

section \<open>Records of the SDK\<close>

record delegation =
  DelegatorAddress :: string
  ValidatorAddress :: string

record unbondingEntry =
  CreationHeight :: int
  entryRest :: bytes

record unbonding =
  Entries :: "unbondingEntry list"
  unbondingRest :: bytes

record validatorRec =
  UnbondingHeight :: int
  Jailed :: bool
  validatorRest :: bytes

record signingInfo =
  StartHeight :: int
  signingRest :: bytes

type_synonym dec_coins = "(string \<times> int) list"

record feePool =
  CommunityPool :: dec_coins

record exportedApp =
  AppState :: bytes
  Validators :: bytes
  Height :: int
  ConsensusParams :: bytes

record 'b zero_keepers =
  ValidatorCodec :: "string \<Rightarrow> bytes option"
  StakingValidatorCodec :: "string \<Rightarrow> bytes option"
  StakingValidatorText :: "bytes \<Rightarrow> string option"
  AddressCodec :: "string \<Rightarrow> bytes option"
  IterateValidators :: "'b \<Rightarrow> string list res"
  WithdrawValidatorCommission :: "int \<Rightarrow> bytes \<Rightarrow> ('b, unit) act"
  GetAllDelegations :: "'b \<Rightarrow> delegation list res"
  WithdrawDelegationRewards :: "int \<Rightarrow> bytes \<Rightarrow> bytes \<Rightarrow> ('b, unit) act"
  DeleteAllValidatorSlashEvents :: "'b \<Rightarrow> 'b"
  DeleteAllValidatorHistoricalRewards :: "'b \<Rightarrow> 'b"
  GetValidatorOutstandingRewardsCoins :: "'b \<Rightarrow> bytes \<Rightarrow> dec_coins res"
  FeePoolGet :: "'b \<Rightarrow> feePool res"
  DecCoinsAdd :: "dec_coins \<Rightarrow> dec_coins \<Rightarrow> dec_coins"
  FeePoolSet :: "int \<Rightarrow> feePool \<Rightarrow> ('b, unit) act"
  AfterValidatorCreated :: "int \<Rightarrow> bytes \<Rightarrow> ('b, unit) act"
  BeforeDelegationCreated :: "int \<Rightarrow> bytes \<Rightarrow> bytes \<Rightarrow> ('b, unit) act"
  AfterDelegationModified :: "int \<Rightarrow> bytes \<Rightarrow> bytes \<Rightarrow> ('b, unit) act"
  IterateRedelegations :: "'b \<Rightarrow> unbonding list res"
  SetRedelegation :: "int \<Rightarrow> unbonding \<Rightarrow> ('b, unit) act"
  IterateUnbondingDelegations :: "'b \<Rightarrow> unbonding list res"
  SetUnbondingDelegation :: "int \<Rightarrow> unbonding \<Rightarrow> ('b, unit) act"
  ValidatorKeys :: "'b \<Rightarrow> bytes list"
  GetValidator :: "'b \<Rightarrow> bytes \<Rightarrow> validatorRec option"
  SetValidator :: "int \<Rightarrow> bytes \<Rightarrow> validatorRec \<Rightarrow> ('b, unit) act"
  IteratorClose :: "'b \<Rightarrow> unit res"
  ApplyValidatorSetUpdates :: "int \<Rightarrow> ('b, unit) act"
  IterateSigningInfos :: "'b \<Rightarrow> (bytes \<times> signingInfo) list res"
  SetSigningInfo :: "int \<Rightarrow> bytes \<Rightarrow> signingInfo \<Rightarrow> ('b, unit) act"
  ExportGenesisForModules :: "string list \<Rightarrow> ('b, bytes) act"
  MarshalIndent :: "bytes \<Rightarrow> bytes option"
  WriteValidators :: "'b \<Rightarrow> go_error option \<times> bytes"
  GetConsensusParams :: "'b \<Rightarrow> bytes"

section \<open>Preparing the state\<close>

text \<open>\<open>if err != nil { panic(err) }\<close>\<close>

definition must :: "('s, 'a) act \<Rightarrow> ('s, 'a) act" where
  "must m = failWith Panic m"

definition mustHave :: "'a option \<Rightarrow> ('s, 'a) act" where
  "mustHave x = lift (ofOption Panic x)"

definition checkAllowed :: "'b zero_keepers \<Rightarrow> string list \<Rightarrow> ('b, unit) act" where
  "checkAllowed K jailAllowedAddrs = forA jailAllowedAddrs (\<lambda>a. bnd (mustHave (ValidatorCodec K a)) (\<lambda>_. return ()))"

definition withdrawCommissions :: "'b zero_keepers \<Rightarrow> int \<Rightarrow> ('b, unit) act" where
  "withdrawCommissions K h =
     bnd (must (bnd (gets (IterateValidators K)) lift)) (\<lambda>vals.
     forA vals (\<lambda>op. bnd (mustHave (StakingValidatorCodec K op)) (\<lambda>valBz.
       ignoreA (WithdrawValidatorCommission K h valBz))))"

definition withdrawRewards :: "'b zero_keepers \<Rightarrow> int \<Rightarrow> delegation list \<Rightarrow> ('b, unit) act" where
  "withdrawRewards K h dels = forA dels (\<lambda>d.
     bnd (mustHave (ValidatorCodec K (ValidatorAddress d))) (\<lambda>valAddr.
     bnd (mustHave (AddressCodec K (DelegatorAddress d))) (\<lambda>delAddr.
     ignoreA (WithdrawDelegationRewards K h delAddr valAddr))))"

definition reinitValidators :: "'b zero_keepers \<Rightarrow> int \<Rightarrow> ('b, unit) act" where
  "reinitValidators K h =
     bnd (must (bnd (gets (IterateValidators K)) lift)) (\<lambda>vals.
     forA vals (\<lambda>op. bnd (mustHave (StakingValidatorCodec K op)) (\<lambda>valBz.
       bnd (must (bnd (gets (\<lambda>b. GetValidatorOutstandingRewardsCoins K b valBz)) lift)) (\<lambda>rewards.
       bnd (must (bnd (gets (FeePoolGet K)) lift)) (\<lambda>pool.
       bnd (must (FeePoolSet K h (pool\<lparr>CommunityPool := DecCoinsAdd K (CommunityPool pool) rewards\<rparr>))) (\<lambda>_.
       must (AfterValidatorCreated K h valBz)))))))"

definition reinitDelegations :: "'b zero_keepers \<Rightarrow> int \<Rightarrow> delegation list \<Rightarrow> ('b, unit) act" where
  "reinitDelegations K h dels = forA dels (\<lambda>d.
     bnd (mustHave (ValidatorCodec K (ValidatorAddress d))) (\<lambda>valAddr.
     bnd (mustHave (AddressCodec K (DelegatorAddress d))) (\<lambda>delAddr.
     bnd (must (BeforeDelegationCreated K h delAddr valAddr)) (\<lambda>_.
     must (AfterDelegationModified K h delAddr valAddr)))))"

definition atHeightZero :: "unbonding \<Rightarrow> unbonding" where
  "atHeightZero u = u\<lparr>Entries := map (\<lambda>e. e\<lparr>CreationHeight := 0\<rparr>) (Entries u)\<rparr>"

definition resetRedelegations :: "'b zero_keepers \<Rightarrow> int \<Rightarrow> ('b, unit) act" where
  "resetRedelegations K h =
     bnd (must (bnd (gets (IterateRedelegations K)) lift)) (\<lambda>reds.
     forA reds (\<lambda>red. must (SetRedelegation K h (atHeightZero red))))"

definition resetUnbondings :: "'b zero_keepers \<Rightarrow> int \<Rightarrow> ('b, unit) act" where
  "resetUnbondings K h =
     bnd (must (bnd (gets (IterateUnbondingDelegations K)) lift)) (\<lambda>ubds.
     forA ubds (\<lambda>ubd. must (SetUnbondingDelegation K h (atHeightZero ubd))))"

definition resetValidator :: "string list \<Rightarrow> string \<Rightarrow> validatorRec \<Rightarrow> validatorRec" where
  "resetValidator allowed valAddr v =
     (let v0 = v\<lparr>UnbondingHeight := 0\<rparr> in
      if allowed \<noteq> [] \<and> valAddr \<notin> set allowed then v0\<lparr>Jailed := True\<rparr> else v0)"

definition resetValidators :: "'b zero_keepers \<Rightarrow> int \<Rightarrow> string list \<Rightarrow> ('b, unit) act" where
  "resetValidators K h allowed =
     bnd (gets (ValidatorKeys K)) (\<lambda>keys.
     forA keys (\<lambda>addr.
       bnd (gets (\<lambda>b. GetValidator K b addr)) (\<lambda>found.
       bnd (mustHave found) (\<lambda>validator.
       bnd (mustHave (StakingValidatorText K addr)) (\<lambda>valAddr.
       must (SetValidator K h addr (resetValidator allowed valAddr validator)))))))"

definition resetSigningInfos :: "'b zero_keepers \<Rightarrow> int \<Rightarrow> ('b, unit) act" where
  "resetSigningInfos K h =
     bnd (must (bnd (gets (IterateSigningInfos K)) lift)) (\<lambda>infos.
     forA infos (\<lambda>(addr, info). ignoreA (SetSigningInfo K h addr (info\<lparr>StartHeight := 0\<rparr>))))"

text \<open>
  The whole preparation. When the iterator over the validators does not close, the error is logged
  and the rest is skipped.
\<close>

definition prepForZeroHeightGenesis :: "'b zero_keepers \<Rightarrow> int \<Rightarrow> string list \<Rightarrow> ('b, unit) act" where
  "prepForZeroHeightGenesis K height jailAllowedAddrs =
     andThen (checkAllowed K jailAllowedAddrs)
    (andThen (withdrawCommissions K height)
    (bnd (must (bnd (gets (GetAllDelegations K)) lift)) (\<lambda>dels.
     andThen (withdrawRewards K height dels)
    (andThen (modify (DeleteAllValidatorSlashEvents K))
    (andThen (modify (DeleteAllValidatorHistoricalRewards K))
    (andThen (reinitValidators K 0)
    (andThen (reinitDelegations K 0 dels)
    (andThen (resetRedelegations K height)
    (andThen (resetUnbondings K height)
    (andThen (resetValidators K height jailAllowedAddrs)
    (catchA (bnd (gets (IteratorClose K)) lift) (\<lambda>_. return ()) (\<lambda>_.
     andThen (must (ApplyValidatorSetUpdates K height))
    (resetSigningInfos K height)))))))))))))"

text \<open>The exported application, and the error of writing the validators, which is returned beside it.\<close>

definition ExportAppStateAndValidators ::
  "'b zero_keepers \<Rightarrow> int \<Rightarrow> bool \<Rightarrow> string list \<Rightarrow> string list \<Rightarrow> ('b, exportedApp \<times> go_error option) act" where
  "ExportAppStateAndValidators K lastBlockHeight forZeroHeight jailAllowedAddrs modulesToExport =
     andThen (whenA forZeroHeight (prepForZeroHeightGenesis K lastBlockHeight jailAllowedAddrs))
    (bnd (ExportGenesisForModules K modulesToExport) (\<lambda>genState.
     bnd (lift (ofOption (LibErr ''json.MarshalIndent'') (MarshalIndent K genState))) (\<lambda>appState.
     bnd (gets (\<lambda>b. (WriteValidators K b, GetConsensusParams K b))) (\<lambda>((err, validators), cons).
     return (\<lparr>AppState = appState, Validators = validators,
       Height = (if forZeroHeight then 0 else lastBlockHeight + 1), ConsensusParams = cons\<rparr>, err)))))"

section \<open>What the preparation writes\<close>

lemma preserves_must [preserves_intros]: "preserves Q m \<Longrightarrow> preserves Q (must m)"
  unfolding must_def failWith_def by (auto intro!: preserves_intros)

lemma preserves_mustHave [preserves_intros]: "preserves Q (mustHave x)"
  unfolding mustHave_def by (rule preserves_basic)

text \<open>
  A condition on the state that the calls of the preparation keep, when what they write is what the
  preparation may write: records of the distribution module at height zero, entries created at
  height zero, validators with unbonding height zero that are jailed unless they are allowed, signing
  infos that start at zero.
\<close>

definition reset_closed :: "'b zero_keepers \<Rightarrow> int \<Rightarrow> string list \<Rightarrow> ('b \<Rightarrow> bool) \<Rightarrow> bool" where
  "reset_closed K h allowed Q \<longleftrightarrow>
     (\<forall>v. preserves Q (WithdrawValidatorCommission K h v)) \<and> (\<forall>d v. preserves Q (WithdrawDelegationRewards K h d v)) \<and>
     (\<forall>b. Q b \<longrightarrow> Q (DeleteAllValidatorSlashEvents K b)) \<and> (\<forall>b. Q b \<longrightarrow> Q (DeleteAllValidatorHistoricalRewards K b)) \<and>
     (\<forall>p. preserves Q (FeePoolSet K 0 p)) \<and> (\<forall>v. preserves Q (AfterValidatorCreated K 0 v)) \<and>
     (\<forall>d v. preserves Q (BeforeDelegationCreated K 0 d v)) \<and> (\<forall>d v. preserves Q (AfterDelegationModified K 0 d v)) \<and>
     (\<forall>r. list_all (\<lambda>e. CreationHeight e = 0) (Entries r) \<longrightarrow>
        preserves Q (SetRedelegation K h r) \<and> preserves Q (SetUnbondingDelegation K h r)) \<and>
     (\<forall>a t v. StakingValidatorText K a = Some t \<longrightarrow> UnbondingHeight v = 0 \<longrightarrow>
        (allowed \<noteq> [] \<and> t \<notin> set allowed \<longrightarrow> Jailed v) \<longrightarrow> preserves Q (SetValidator K h a v)) \<and>
     preserves Q (ApplyValidatorSetUpdates K h) \<and>
     (\<forall>a i. StartHeight i = 0 \<longrightarrow> preserves Q (SetSigningInfo K h a i))"

lemma atHeightZero_entries: "list_all (\<lambda>e. CreationHeight e = 0) (Entries (atHeightZero u))"
  by (simp add: atHeightZero_def list_all_iff)

lemma preserves_found:
  "(\<And>y. x = Some y \<Longrightarrow> preserves Q (k y)) \<Longrightarrow> preserves Q (bnd (mustHave x) k)"
  by (cases x) (auto simp: mustHave_def preserves_def bnd_def lift_def)

lemma phases_preserve:
  assumes "reset_closed K h allowed Q"
  shows "preserves Q (checkAllowed K allowed)" and "preserves Q (withdrawCommissions K h)" and "preserves Q (withdrawRewards K h dels)"
    and "preserves Q (reinitValidators K 0)" and "preserves Q (reinitDelegations K 0 dels)"
    and "preserves Q (resetRedelegations K h)" and "preserves Q (resetUnbondings K h)"
    and "preserves Q (resetValidators K h allowed)" and "preserves Q (resetSigningInfos K h)"
proof -
  note c = assms [unfolded reset_closed_def]
  show "preserves Q (resetValidators K h allowed)"
    unfolding resetValidators_def using c
    by (auto intro!: preserves_intros preserves_found simp: resetValidator_def Let_def)
  show "preserves Q (resetRedelegations K h)" "preserves Q (resetUnbondings K h)"
    unfolding resetRedelegations_def resetUnbondings_def using c by (auto intro!: preserves_intros simp: atHeightZero_entries)
  show "preserves Q (resetSigningInfos K h)"
    unfolding resetSigningInfos_def using c by (auto intro!: preserves_intros split: prod.splits)
  show "preserves Q (checkAllowed K allowed)" "preserves Q (withdrawCommissions K h)" "preserves Q (withdrawRewards K h dels)"
    "preserves Q (reinitValidators K 0)" "preserves Q (reinitDelegations K 0 dels)"
    unfolding checkAllowed_def withdrawCommissions_def withdrawRewards_def reinitValidators_def reinitDelegations_def
    using c by (auto intro!: preserves_intros)
qed


section \<open>The allow list\<close>

text \<open>Every error of the preparation is a panic.\<close>

definition only_panics :: "('s, 'a) act \<Rightarrow> bool" where
  "only_panics m \<longleftrightarrow> (\<forall>s e t. m s = (Inl e, t) \<longrightarrow> e = Panic)"

lemma only_panics_rules:
  "only_panics (must m)"
  "only_panics (mustHave x)"
  "only_panics (ignoreA n)"
  "only_panics (modify f)"
  "only_panics (gets g)"
  "only_panics (return y)"
  by (auto simp: only_panics_def must_def mustHave_def failWith_def ignoreA_def catchA_def raise_def return_def lift_def modify_def
    gets_def ofOption_def split: prod.splits sum.splits go_error.splits option.splits)

lemma only_panics_seq:
  "only_panics m \<Longrightarrow> (\<And>x. only_panics (k x)) \<Longrightarrow> only_panics (bnd m k)"
  "only_panics m1 \<Longrightarrow> only_panics n \<Longrightarrow> only_panics (andThen m1 n)"
  "(\<And>e. only_panics (h e)) \<Longrightarrow> (\<And>x. only_panics (f x)) \<Longrightarrow> only_panics (catchA c h f)"
  by (auto simp: only_panics_def andThen_def bnd_def catchA_def split: prod.splits sum.splits go_error.splits)

lemma only_panics_forA: "(\<And>x. only_panics (f x)) \<Longrightarrow> only_panics (forA xs f)"
  by (induction xs) (auto intro: only_panics_rules only_panics_seq)

lemma prep_only_panics: "only_panics (prepForZeroHeightGenesis K height allowed)"
  unfolding prepForZeroHeightGenesis_def checkAllowed_def withdrawCommissions_def withdrawRewards_def reinitValidators_def
    reinitDelegations_def resetRedelegations_def resetUnbondings_def resetValidators_def resetSigningInfos_def
  by (intro only_panics_seq only_panics_rules only_panics_forA) (auto split: prod.splits intro: only_panics_rules)

text \<open>
  What the staking module documents: validators and the power index are its own, so the other calls
  leave them alone; \<open>SetValidator\<close> stores the record and nothing else; and the update of the
  validator set panics when a validator among the entries of the power index it visits, here \<open>pwr\<close>,
  is jailed.
\<close>

definition staking_view :: "'b zero_keepers \<Rightarrow> ('b \<Rightarrow> bytes list) \<Rightarrow> 'b \<Rightarrow> bytes list \<times> (bytes \<Rightarrow> validatorRec option) \<times> bytes list" where
  "staking_view K pwr b = (ValidatorKeys K b, GetValidator K b, pwr b)"

definition staking_laws :: "'b zero_keepers \<Rightarrow> ('b \<Rightarrow> bytes list) \<Rightarrow> bool" where
  "staking_laws K pwr \<longleftrightarrow>
     (\<forall>h v. keeps (staking_view K pwr) (WithdrawValidatorCommission K h v)) \<and>
     (\<forall>h d v. keeps (staking_view K pwr) (WithdrawDelegationRewards K h d v)) \<and>
     (\<forall>b. staking_view K pwr (DeleteAllValidatorSlashEvents K b) = staking_view K pwr b) \<and>
     (\<forall>b. staking_view K pwr (DeleteAllValidatorHistoricalRewards K b) = staking_view K pwr b) \<and>
     (\<forall>h p. keeps (staking_view K pwr) (FeePoolSet K h p)) \<and> (\<forall>h v. keeps (staking_view K pwr) (AfterValidatorCreated K h v)) \<and>
     (\<forall>h d v. keeps (staking_view K pwr) (BeforeDelegationCreated K h d v)) \<and>
     (\<forall>h d v. keeps (staking_view K pwr) (AfterDelegationModified K h d v)) \<and>
     (\<forall>h r. keeps (staking_view K pwr) (SetRedelegation K h r)) \<and>
     (\<forall>h r. keeps (staking_view K pwr) (SetUnbondingDelegation K h r)) \<and>
     (\<forall>h a v b c. SetValidator K h a v b = (Inr (), c) \<longrightarrow>
        GetValidator K c = (GetValidator K b)(a \<mapsto> v) \<and> pwr c = pwr b) \<and>
     (\<forall>h b a v. a \<in> set (pwr b) \<longrightarrow> GetValidator K b a = Some v \<longrightarrow> Jailed v \<longrightarrow>
        fst (ApplyValidatorSetUpdates K h b) = Inl Panic)"

lemma keeps_must [keeps_intros]: "keeps g m \<Longrightarrow> keeps g (must m)"
  unfolding must_def by (intro keeps_intros)

lemma keeps_mustHave [keeps_intros]: "keeps g (mustHave x)"
  unfolding mustHave_def by (rule keeps_basic)

lemma early_phases_view:
  assumes "staking_laws K pwr"
  shows "keeps (staking_view K pwr) (checkAllowed K allowed)" and "keeps (staking_view K pwr) (withdrawCommissions K h)"
    and "keeps (staking_view K pwr) (withdrawRewards K h dels)" and "keeps (staking_view K pwr) (reinitValidators K i)"
    and "keeps (staking_view K pwr) (reinitDelegations K i dels)" and "keeps (staking_view K pwr) (resetRedelegations K h)"
    and "keeps (staking_view K pwr) (resetUnbondings K h)"
  using assms unfolding checkAllowed_def withdrawCommissions_def withdrawRewards_def reinitValidators_def reinitDelegations_def
    resetRedelegations_def resetUnbondings_def staking_laws_def
  by (auto intro!: keeps_intros)

lemma must_Inr [act_splits]: "must m s = (Inr y, t) \<longleftrightarrow> m s = (Inr y, t)"
  by (simp add: must_def failWith_Inr_iff)

lemma mustHave_Inr [act_splits]: "mustHave x s = (Inr y, t) \<longleftrightarrow> x = Some y \<and> t = s"
  by (auto simp: mustHave_def act_splits)

text \<open>After the validators are written, one that is not allowed is jailed.\<close>

lemma resetValidators_jails:
  assumes K: "staking_laws K pwr" and t: "StakingValidatorText K a = Some t" "t \<notin> set allowed" "allowed \<noteq> []"
    and r: "resetValidators K h allowed b = (Inr (), c)" and a: "a \<in> set (ValidatorKeys K b)"
  shows "pwr c = pwr b \<and> (\<exists>v. GetValidator K c a = Some v \<and> Jailed v)"
proof -
  define step where "step addr = bnd (gets (\<lambda>b. GetValidator K b addr)) (\<lambda>found.
       bnd (mustHave found) (\<lambda>validator.
       bnd (mustHave (StakingValidatorText K addr)) (\<lambda>valAddr.
       must (SetValidator K h addr (resetValidator allowed valAddr validator)))))" for addr
  have one: "pwr c = pwr b \<and> (\<forall>x. x \<noteq> addr \<longrightarrow> GetValidator K c x = GetValidator K b x) \<and>
      (addr = a \<longrightarrow> (\<exists>v. GetValidator K c a = Some v \<and> Jailed v))"
    if "step addr b = (Inr (), c)" for addr b c
  proof -
    from that obtain v u where v: "GetValidator K b addr = Some v" "StakingValidatorText K addr = Some u"
      "SetValidator K h addr (resetValidator allowed u v) b = (Inr (), c)"
      by (auto simp: step_def act_splits)
    with K have "GetValidator K c = (GetValidator K b)(addr \<mapsto> resetValidator allowed u v)" "pwr c = pwr b"
      unfolding staking_laws_def by blast+
    with v(2) t show ?thesis by (auto simp: resetValidator_def Let_def)
  qed
  have all: "pwr c = pwr b \<and> (\<forall>x. x \<notin> set ks \<longrightarrow> GetValidator K c x = GetValidator K b x) \<and>
      (a \<in> set ks \<longrightarrow> (\<exists>v. GetValidator K c a = Some v \<and> Jailed v))"
    if "forA ks step b = (Inr (), c)" for ks b c
    using that
  proof (induction ks arbitrary: b)
    case (Cons k ks)
    then obtain m where m: "step k b = (Inr (), m)" "forA ks step m = (Inr (), c)" by (auto simp: act_splits)
    from one [OF m(1)] Cons.IH [OF m(2)] show ?case by (cases "a \<in> set ks") auto
  qed (simp add: act_splits)
  from r have "forA (ValidatorKeys K b) step b = (Inr (), c)"
    by (simp add: resetValidators_def act_simps step_def [abs_def])
  from all [OF this] a show ?thesis by blast
qed


section \<open>Concrete keepers\<close>

text \<open>Validators, the power index, redelegations, signing infos and the order of the validators written.\<close>

record refStaking =
  rsValidators :: "(bytes \<times> validatorRec) list"
  rsPower :: "bytes list"
  rsReds :: "unbonding list"
  rsWritten :: "(bytes \<times> validatorRec) list"
  rsInfos :: "(bytes \<times> signingInfo) list"

definition refSetValidator :: "int \<Rightarrow> bytes \<Rightarrow> validatorRec \<Rightarrow> (refStaking, unit) act" where
  "refSetValidator h a v = modify (\<lambda>b. b\<lparr>rsValidators := (a, v) # filter (\<lambda>(x, _). x \<noteq> a) (rsValidators b),
     rsWritten := rsWritten b @ [(a, v)]\<rparr>)"

lemma map_of_filter_other: "x \<noteq> a \<Longrightarrow> map_of (filter (\<lambda>(y, _). y \<noteq> a) xs) x = map_of xs x"
  by (induction xs) auto

definition refApply :: "int \<Rightarrow> (refStaking, unit) act" where
  "refApply h b = (if list_ex (\<lambda>a. case map_of (rsValidators b) a of None \<Rightarrow> False | Some v \<Rightarrow> Jailed v) (rsPower b)
     then (Inl Panic, b) else (Inr (), b))"

definition ref_keepers :: "refStaking zero_keepers" where
  "ref_keepers = \<lparr>
     ValidatorCodec = Some, StakingValidatorCodec = Some, StakingValidatorText = Some, AddressCodec = Some,
     IterateValidators = (\<lambda>b. Inr (map fst (rsValidators b))),
     WithdrawValidatorCommission = (\<lambda>h v. raise (LibErr ''no commission'')),
     GetAllDelegations = (\<lambda>b. Inr [\<lparr>DelegatorAddress = ''dave'', ValidatorAddress = ''alice''\<rparr>]),
     WithdrawDelegationRewards = (\<lambda>h d v. return ()),
     DeleteAllValidatorSlashEvents = (\<lambda>b. b), DeleteAllValidatorHistoricalRewards = (\<lambda>b. b),
     GetValidatorOutstandingRewardsCoins = (\<lambda>b v. Inr []),
     FeePoolGet = (\<lambda>b. Inr \<lparr>CommunityPool = []\<rparr>), DecCoinsAdd = (@), FeePoolSet = (\<lambda>h p. return ()),
     AfterValidatorCreated = (\<lambda>h v. return ()), BeforeDelegationCreated = (\<lambda>h d v. return ()),
     AfterDelegationModified = (\<lambda>h d v. return ()),
     IterateRedelegations = (\<lambda>b. Inr (rsReds b)), SetRedelegation = (\<lambda>h r. modify (\<lambda>b. b\<lparr>rsReds := [r]\<rparr>)),
     IterateUnbondingDelegations = (\<lambda>b. Inr []), SetUnbondingDelegation = (\<lambda>h r. return ()),
     ValidatorKeys = (\<lambda>b. map fst (rsValidators b)), GetValidator = (\<lambda>b a. map_of (rsValidators b) a),
     SetValidator = refSetValidator, IteratorClose = (\<lambda>b. Inr ()), ApplyValidatorSetUpdates = refApply,
     IterateSigningInfos = (\<lambda>b. Inr (rsInfos b)),
     SetSigningInfo = (\<lambda>h a i. modify (\<lambda>b. b\<lparr>rsInfos := map (\<lambda>(x, j). if x = a then (x, i) else (x, j)) (rsInfos b)\<rparr>)),
     ExportGenesisForModules = (\<lambda>ms. return []), MarshalIndent = Some, WriteValidators = (\<lambda>b. (None, [])),
     GetConsensusParams = (\<lambda>b. [])\<rparr>"

definition twoValidators :: refStaking where
  "twoValidators = \<lparr>
     rsValidators = [(''alice'', \<lparr>UnbondingHeight = 9, Jailed = False, validatorRest = []\<rparr>),
       (''bob'', \<lparr>UnbondingHeight = 7, Jailed = False, validatorRest = []\<rparr>)],
     rsPower = [''alice'', ''bob''],
     rsReds = [\<lparr>Entries = [\<lparr>CreationHeight = 5, entryRest = []\<rparr>], unbondingRest = []\<rparr>],
     rsWritten = [], rsInfos = [(''cons'', \<lparr>StartHeight = 4, signingRest = []\<rparr>)]\<rparr>"

definition writtenOk :: "string list \<Rightarrow> refStaking \<Rightarrow> bool" where
  "writtenOk allowed b \<longleftrightarrow> list_all (\<lambda>(a, v). UnbondingHeight v = 0 \<and> (a \<in> set allowed \<or> Jailed v)) (rsWritten b)"

lemma ref_keepers_fields [simp]:
  "ValidatorCodec ref_keepers = Some"
  "StakingValidatorCodec ref_keepers = Some"
  "StakingValidatorText ref_keepers = Some"
  "AddressCodec ref_keepers = Some"
  "IterateValidators ref_keepers = (\<lambda>b. Inr (map fst (rsValidators b)))"
  "WithdrawValidatorCommission ref_keepers = (\<lambda>h v. raise (LibErr ''no commission''))"
  "GetAllDelegations ref_keepers = (\<lambda>b. Inr [\<lparr>DelegatorAddress = ''dave'', ValidatorAddress = ''alice''\<rparr>])"
  "WithdrawDelegationRewards ref_keepers = (\<lambda>h d v. return ())"
  "DeleteAllValidatorSlashEvents ref_keepers = (\<lambda>b. b)"
  "DeleteAllValidatorHistoricalRewards ref_keepers = (\<lambda>b. b)"
  "GetValidatorOutstandingRewardsCoins ref_keepers = (\<lambda>b v. Inr [])"
  "FeePoolGet ref_keepers = (\<lambda>b. Inr \<lparr>CommunityPool = []\<rparr>)"
  "DecCoinsAdd ref_keepers = (@)"
  "FeePoolSet ref_keepers = (\<lambda>h p. return ())"
  "AfterValidatorCreated ref_keepers = (\<lambda>h v. return ())"
  "BeforeDelegationCreated ref_keepers = (\<lambda>h d v. return ())"
  "AfterDelegationModified ref_keepers = (\<lambda>h d v. return ())"
  "IterateRedelegations ref_keepers = (\<lambda>b. Inr (rsReds b))"
  "SetRedelegation ref_keepers = (\<lambda>h r. modify (\<lambda>b. b\<lparr>rsReds := [r]\<rparr>))"
  "IterateUnbondingDelegations ref_keepers = (\<lambda>b. Inr [])"
  "SetUnbondingDelegation ref_keepers = (\<lambda>h r. return ())"
  "ValidatorKeys ref_keepers = (\<lambda>b. map fst (rsValidators b))"
  "GetValidator ref_keepers = (\<lambda>b a. map_of (rsValidators b) a)"
  "SetValidator ref_keepers = refSetValidator"
  "IteratorClose ref_keepers = (\<lambda>b. Inr ())"
  "ApplyValidatorSetUpdates ref_keepers = refApply"
  "IterateSigningInfos ref_keepers = (\<lambda>b. Inr (rsInfos b))"
  "SetSigningInfo ref_keepers = (\<lambda>h a i. modify (\<lambda>b. b\<lparr>rsInfos := map (\<lambda>(x, j). if x = a then (x, i) else (x, j)) (rsInfos b)\<rparr>))"
  "ExportGenesisForModules ref_keepers = (\<lambda>ms. return [])"
  "MarshalIndent ref_keepers = Some"
  "WriteValidators ref_keepers = (\<lambda>b. (None, []))"
  "GetConsensusParams ref_keepers = (\<lambda>b. [])"
  by (simp_all only: ref_keepers_def zero_keepers.simps)

text \<open>The phases that find nothing to do in these keepers.\<close>

lemma bnd_return: "bnd (return x) k = k x"
  by (rule ext) (simp add: act_simps)

lemma ref_idle:
  "checkAllowed ref_keepers allowed = return ()"
  "withdrawRewards ref_keepers h dels = return ()"
  "reinitDelegations ref_keepers i dels = return ()"
  "withdrawCommissions ref_keepers h = return ()"
  "reinitValidators ref_keepers i = return ()"
  "resetUnbondings ref_keepers h = return ()"
proof -
  have loop: "forA xs f = return ()" if "\<And>x. f x = return ()" for xs and f :: "'a \<Rightarrow> (refStaking, unit) act"
    by (induction xs) (simp_all only: forA.simps that andThen_def bnd_return)
  show "checkAllowed ref_keepers allowed = return ()"
    unfolding checkAllowed_def by (rule loop) (simp add: mustHave_def fun_eq_iff act_simps)
  show "withdrawRewards ref_keepers h dels = return ()"
    unfolding withdrawRewards_def by (rule loop) (simp add: mustHave_def fun_eq_iff act_simps ignoreA_def catchA_def)
  show "reinitDelegations ref_keepers i dels = return ()"
    unfolding reinitDelegations_def by (rule loop) (simp add: mustHave_def fun_eq_iff act_simps must_def failWith_def catchA_def bnd_def)
  show "withdrawCommissions ref_keepers h = return ()"
    unfolding withdrawCommissions_def
    by (subst loop) (simp_all add: fun_eq_iff must_def failWith_def mustHave_def ignoreA_def catchA_def bnd_def act_eval)
  show "reinitValidators ref_keepers i = return ()"
    unfolding reinitValidators_def
    by (subst loop) (simp_all add: fun_eq_iff must_def failWith_def mustHave_def catchA_def bnd_def act_eval)
  show "resetUnbondings ref_keepers h = return ()"
    unfolding resetUnbondings_def by (rule ext) (simp add: must_def failWith_def catchA_def bnd_def act_eval)
qed

lemmas ref_prep = prepForZeroHeightGenesis_def ref_idle resetRedelegations_def resetValidators_def resetSigningInfos_def
  must_def mustHave_def failWith_def ignoreA_def catchA_def andThen_def bnd_def act_eval resetValidator_def Let_def
  refSetValidator_def refApply_def twoValidators_def

lemma two_written: "rsWritten (snd (prepForZeroHeightGenesis ref_keepers 100 [''alice''] twoValidators)) \<noteq> []"
  by (simp add: ref_prep)



end
