(* ===== verification/AppAccounts.thy ===== *)
theory AppAccounts
  imports ZeroHeight ModuleTypes
begin

text \<open>
  The accounts of the application and the export command: the module accounts and their permissions,
  the accounts that may not receive coins (\<open>app/app_config.go\<close>, \<open>app/app.go\<close>), the check of a
  simulation account of a genesis (\<open>app/genesis_account.go\<close>), and the command that opens the
  application to export it (\<open>cmd/cosviand/cmd/commands.go\<close>).
\<close>

section \<open>Module accounts\<close>

definition moduleAccPerms :: "(string \<times> string list) list" where
  "moduleAccPerms =
    [(''fee_collector'', []), (''distribution'', []), (''mint'', [''minter'']),
     (''bonded_tokens_pool'', [''burner'', ''staking'']), (''not_bonded_tokens_pool'', [''burner'', ''staking'']),
     (''gov'', [''burner'']), (''nft'', []), (''transfer'', [''minter'', ''burner'']), (''interchainaccounts'', []),
     (''token'', [''minter'', ''burner'']), (''fees'', []), (''treasury'', []), (''infrastructure'', []),
     (''wasm'', [''burner'']), (''retail_rewards'', [''minter'']), (''token_creators'', [''minter'']),
     (''validator_rewards'', [''minter'']), (''pos_rewards'', [''minter'']),
     (''locked_rewards'', [''minter'', ''burner'']), (''registry'', [''minter'', ''burner'', ''staking''])]"

definition blockAccAddrs :: "string list" where
  "blockAccAddrs = [''fee_collector'', ''distribution'', ''mint'', ''bonded_tokens_pool'',
    ''not_bonded_tokens_pool'', ''nft'', ''fees'']"

definition GetMaccPerms :: "string \<rightharpoonup> string list" where
  "GetMaccPerms = foldl (\<lambda>dup (account, perms). dup(account \<mapsto> perms)) Map.empty moduleAccPerms"

definition BlockedAddresses :: "string \<rightharpoonup> bool" where
  "BlockedAddresses =
     (if blockAccAddrs \<noteq> [] then foldl (\<lambda>result addr. result(addr \<mapsto> True)) Map.empty blockAccAddrs
      else (\<lambda>addr. map_option (\<lambda>_. True) (GetMaccPerms addr)))"

lemma foldl_puts: "distinct (map fst xs) \<Longrightarrow> foldl (\<lambda>m (k, v). m(k \<mapsto> v)) m xs = m ++ map_of xs"
proof (induction xs arbitrary: m)
  case (Cons p xs)
  then have "map_of xs (fst p) = None" by (auto simp: map_of_eq_None_iff)
  with Cons show ?case by (auto simp: map_add_def fun_eq_iff split: option.splits prod.splits)
qed simp

text \<open>No account is declared twice, so the map is the list.\<close>

lemma GetMaccPerms_eq: "GetMaccPerms = map_of moduleAccPerms"
proof -
  have "distinct (map fst moduleAccPerms)" by code_simp
  then show ?thesis by (simp add: GetMaccPerms_def foldl_puts)
qed

lemma blocked_foldl: "foldl (\<lambda>m a. m(a \<mapsto> True)) m xs a = Some True \<longleftrightarrow> m a = Some True \<or> a \<in> set xs"
  by (induction xs arbitrary: m) auto

lemma blocked_iff: "BlockedAddresses a = Some True \<longleftrightarrow> a \<in> set blockAccAddrs"
  by (auto simp: BlockedAddresses_def blocked_foldl) (simp_all add: blockAccAddrs_def)

text \<open>
  The token module may mint and burn, the module accounts that distributions pay exist and may
  receive, and coins sent to the fees account directly are refused.
\<close>

lemma accounts_suffice:
  "GetMaccPerms ''token'' = Some [''minter'', ''burner'']"
  "a \<in> {''treasury'', ''infrastructure'', ''locked_rewards''} \<Longrightarrow> a \<in> dom GetMaccPerms \<and> BlockedAddresses a \<noteq> Some True"
  "BlockedAddresses ''fees'' = Some True"
proof -
  have "map_of moduleAccPerms ''token'' = Some [''minter'', ''burner'']"
    "{''treasury'', ''infrastructure'', ''locked_rewards''} \<subseteq> fst ` set moduleAccPerms"
    "{''treasury'', ''infrastructure'', ''locked_rewards''} \<inter> set blockAccAddrs = {}" "''fees'' \<in> set blockAccAddrs"
    by code_simp+
  then show "GetMaccPerms ''token'' = Some [''minter'', ''burner'']"
    "a \<in> {''treasury'', ''infrastructure'', ''locked_rewards''} \<Longrightarrow> a \<in> dom GetMaccPerms \<and> BlockedAddresses a \<noteq> Some True"
    "BlockedAddresses ''fees'' = Some True"
    by (auto simp: GetMaccPerms_eq blocked_iff dom_map_of_conv_image_fst)
qed

section \<open>Simulation accounts\<close>

record GenesisAccount =
  BaseAccount :: bytes
  OriginalVesting :: "coin list"
  DelegatedFree :: "coin list"
  DelegatedVesting :: "coin list"
  StartTime :: int
  EndTime :: int
  ModuleName :: string
  ModulePermissions :: "string list"

text \<open>The checks of the accounts of the SDK are parameters.\<close>

definition genesisAccountValidate ::
  "'b sdk \<Rightarrow> (bytes \<Rightarrow> string \<Rightarrow> string list \<Rightarrow> unit res) \<Rightarrow> (bytes \<Rightarrow> unit res) \<Rightarrow> GenesisAccount \<Rightarrow> unit res" where
  "genesisAccountValidate E moduleAccountValidate baseAccountValidate sga =
     (if \<not> CoinsIsZero E (OriginalVesting sga) \<and> StartTime sga \<ge> EndTime sga
      then Inl (ErrMsg ''vesting start-time cannot be before end-time'')
      else rbind (if ModuleName sga \<noteq> [] then moduleAccountValidate (BaseAccount sga) (ModuleName sga) (ModulePermissions sga)
                  else Inr ()) (\<lambda>_.
      baseAccountValidate (BaseAccount sga)))"

lemma valid_vesting_starts_first:
  "genesisAccountValidate E mv bv sga = Inr () \<longleftrightarrow>
   (CoinsIsZero E (OriginalVesting sga) \<or> StartTime sga < EndTime sga) \<and>
   (ModuleName sga \<noteq> [] \<longrightarrow> mv (BaseAccount sga) (ModuleName sga) (ModulePermissions sga) = Inr ()) \<and>
   bv (BaseAccount sga) = Inr ()"
  by (auto simp: genesisAccountValidate_def rbind_def split: sum.splits)

section \<open>The export command\<close>

text \<open>
  The home option is \<^term>\<open>None\<close> when it is not a string. \<open>openLatest\<close> and \<open>openAt\<close> stand for
  \<open>app.New\<close> at the latest height and for \<open>app.New\<close> with \<open>LoadHeight\<close>: the height and state of the
  application, or the error (\<open>app.New\<close> panics).
\<close>

definition appExport ::
  "'b zero_keepers \<Rightarrow> (int \<times> 'b) res \<Rightarrow> (int \<Rightarrow> (int \<times> 'b) res) \<Rightarrow> string option \<Rightarrow> bool \<Rightarrow> int \<Rightarrow> bool \<Rightarrow> string list
    \<Rightarrow> string list \<Rightarrow> (exportedApp \<times> go_error option) res" where
  "appExport K openLatest openAt homePath isViper height forZeroHeight jailAllowedAddrs modulesToExport =
     (if homePath = None \<or> homePath = Some [] then Inl (ErrMsg ''application home not set'')
      else if \<not> isViper then Inl (ErrMsg ''appOpts is not viper.Viper'')
      else rbind (if height \<noteq> -1 then openAt height else openLatest) (\<lambda>(lastBlockHeight, b).
        fst (ExportAppStateAndValidators K lastBlockHeight forZeroHeight jailAllowedAddrs modulesToExport b)))"

end
