(* ===== verification/Testnet.thy ===== *)
theory Testnet
  imports PriceFeed KV
begin

text \<open>
  The commands that set up test networks (\<open>cmd/cosviand/cmd/testnet.go\<close> and
  \<open>testnet_multi_node.go\<close>): replacing the validator set of a running chain's state by one validator
  and funding accounts, and the arguments and per-node settings of a network of local processes. The
  keepers of the SDK are a record of parameters over their state; what they keep of the staking
  module's store is a list of keys and values, which the command edits itself.
\<close>

section \<open>Arguments of the in-place testnet\<close>

text \<open>An option that is absent or has another type than the code asks for is \<^term>\<open>None\<close>.\<close>

record app_options =
  optNewValAddr :: "bytes option"
  optUserPubKey :: "bytes option"
  optNewOpAddr :: "string option"
  optTriggerUpgrade :: "string option"
  optAccountsToFund :: string
  optHome :: string

record valArgs =
  newValAddr :: bytes
  newOperatorAddress :: string
  newValPubKey :: bytes
  accountsToFund :: "string list"
  upgradeToTrigger :: string
  homeDir :: string

definition getCommandArgs :: "app_options \<Rightarrow> valArgs res" where
  "getCommandArgs opts =
     rbind (ofOption (ErrMsg ''newValAddr is not of type bytes.HexBytes'') (optNewValAddr opts)) (\<lambda>addr.
     rbind (ofOption (ErrMsg ''newValPubKey is not of type crypto.PubKey'') (optUserPubKey opts)) (\<lambda>pubKey.
     rbind (ofOption (ErrMsg ''newOperatorAddress is not of type string'') (optNewOpAddr opts)) (\<lambda>operator.
     rbind (ofOption (ErrMsg ''upgradeToTrigger is not of type string'') (optTriggerUpgrade opts)) (\<lambda>upgrade.
     if optHome opts = [] then Inl (ErrMsg ''invalid home dir'')
     else Inr \<lparr>newValAddr = addr, newOperatorAddress = operator, newValPubKey = pubKey,
       accountsToFund = SplitOn CHR '','' (optAccountsToFund opts), upgradeToTrigger = upgrade,
       homeDir = optHome opts\<rparr>))))"

section \<open>The new validator set\<close>

record testnetValidator =
  tvOperatorAddress :: string
  tvConsensusPubkey :: bytes
  tvJailed :: bool
  tvStatus :: string
  tvTokens :: int
  tvDelegatorShares :: dec
  tvMoniker :: string
  tvRate :: dec
  tvMaxRate :: dec
  tvMaxChangeRate :: dec
  tvMinSelfDelegation :: int

definition valVotingPower :: int where
  "valVotingPower = 900000000000000"

record 'b testnet_keepers =
  NewAnyWithValue :: "bytes \<Rightarrow> bytes option"
  ValidatorAddress :: "string \<Rightarrow> bytes option"
  StakingStore :: "'b \<Rightarrow> (bytes \<times> bytes) list"
  StakingStoreSet :: "(bytes \<times> bytes) list \<Rightarrow> 'b \<Rightarrow> 'b"
  ValidatorsPowerStoreIterator :: "'b \<Rightarrow> bytes list res"
  LastValidatorsIterator :: "'b \<Rightarrow> bytes list res"
  ValidatorsKey :: bytes
  ValidatorQueueKey :: bytes
  SetTestnetValidator :: "testnetValidator \<Rightarrow> ('b, unit) act"
  SetValidatorByConsAddr :: "testnetValidator \<Rightarrow> ('b, unit) act"
  SetValidatorByPowerIndex :: "testnetValidator \<Rightarrow> ('b, unit) act"
  SetLastValidatorPower :: "bytes \<Rightarrow> int \<Rightarrow> ('b, unit) act"
  AfterTestnetValidatorCreated :: "bytes \<Rightarrow> ('b, unit) act"
  SetValidatorHistoricalRewards :: "bytes \<Rightarrow> ('b, unit) act"
  SetValidatorCurrentRewards :: "bytes \<Rightarrow> ('b, unit) act"
  SetValidatorAccumulatedCommission :: "bytes \<Rightarrow> ('b, unit) act"
  SetValidatorOutstandingRewards :: "bytes \<Rightarrow> ('b, unit) act"
  SetTestnetSigningInfo :: "bytes \<Rightarrow> int \<Rightarrow> ('b, unit) act"
  BondDenom :: "'b \<Rightarrow> string res"

text \<open>\<open>handleErr\<close>: an error ends the process.\<close>

definition exitE :: go_error where
  "exitE = LibErr ''os.Exit(1)''"

definition handleErr :: "('s, 'a) act \<Rightarrow> ('s, 'a) act" where
  "handleErr m = failWith exitE m"

definition externB :: "('b \<Rightarrow> go_error option \<times> 'b) \<Rightarrow> ('b, unit) act" where
  "externB f b = (case f b of (None, c) \<Rightarrow> (Inr (), c) | (Some e, c) \<Rightarrow> (Inl e, c))"

definition deleteKeys :: "'b testnet_keepers \<Rightarrow> bytes list \<Rightarrow> ('b, unit) act" where
  "deleteKeys K keys = forA keys (\<lambda>k. modify (\<lambda>b. StakingStoreSet K (filter (\<lambda>(x, _). x \<noteq> k) (StakingStore K b)) b))"

text \<open>The keys of a prefix, as \<open>Iterator(prefix, PrefixEndBytes(prefix))\<close> visits them.\<close>

definition prefixKeys :: "'b testnet_keepers \<Rightarrow> bytes \<Rightarrow> 'b \<Rightarrow> bytes list" where
  "prefixKeys K p b = map fst (kvRange (StakingStore K b) (fst (prefixRange p)) (snd (prefixRange p)))"

definition removeValidators :: "'b testnet_keepers \<Rightarrow> ('b, unit) act" where
  "removeValidators K =
     bnd (handleErr (bnd (gets (ValidatorsPowerStoreIterator K)) lift)) (\<lambda>keys.
     andThen (deleteKeys K keys)
    (bnd (handleErr (bnd (gets (LastValidatorsIterator K)) lift)) (\<lambda>keys.
     andThen (deleteKeys K keys)
    (bnd (gets (prefixKeys K (ValidatorsKey K))) (\<lambda>keys.
     andThen (deleteKeys K keys)
    (bnd (gets (prefixKeys K (ValidatorQueueKey K))) (deleteKeys K)))))))"

definition testnetValidatorOf :: "valArgs \<Rightarrow> bytes \<Rightarrow> testnetValidator" where
  "testnetValidatorOf args pubkeyAny = \<lparr>tvOperatorAddress = newOperatorAddress args, tvConsensusPubkey = pubkeyAny,
     tvJailed = False, tvStatus = ''Bonded'', tvTokens = valVotingPower, tvDelegatorShares = decFromInt 10000000,
     tvMoniker = ''Testnet Validator'', tvRate = decWithPrec 5 2, tvMaxRate = decWithPrec 1 1,
     tvMaxChangeRate = decWithPrec 5 2, tvMinSelfDelegation = 1\<rparr>"

definition addValidator :: "'b testnet_keepers \<Rightarrow> testnetValidator \<Rightarrow> bytes \<Rightarrow> ('b, unit) act" where
  "addValidator K newVal validator =
     andThen (handleErr (SetTestnetValidator K newVal))
    (andThen (handleErr (SetValidatorByConsAddr K newVal))
    (andThen (handleErr (SetValidatorByPowerIndex K newVal))
    (andThen (handleErr (SetLastValidatorPower K validator 0))
    (andThen (handleErr (AfterTestnetValidatorCreated K validator))
    (andThen (handleErr (SetValidatorHistoricalRewards K validator))
    (andThen (handleErr (SetValidatorCurrentRewards K validator))
    (andThen (handleErr (SetValidatorAccumulatedCommission K validator))
    (handleErr (SetValidatorOutstandingRewards K validator)))))))))"

definition fundAccounts :: "'b sdk \<Rightarrow> coin list \<Rightarrow> string list \<Rightarrow> ('b, unit) act" where
  "fundAccounts E defaultCoins accts = forA accts (\<lambda>accountStr.
     andThen (handleErr (externB (\<lambda>b. MintCoins E b ''mint'' defaultCoins)))
    (bnd (handleErr (lift (ofOption (LibErr ''StringToBytes'') (StringToBytes E accountStr)))) (\<lambda>account.
     handleErr (externB (\<lambda>b. SendCoinsFromModuleToAccount E b ''mint'' account defaultCoins)))))"

definition initAppForTestnet :: "'b sdk \<Rightarrow> 'b testnet_keepers \<Rightarrow> int \<Rightarrow> valArgs \<Rightarrow> ('b, unit) act" where
  "initAppForTestnet E K lastBlockHeight args =
     bnd (handleErr (lift (ofOption (LibErr ''NewAnyWithValue'') (NewAnyWithValue K (newValPubKey args))))) (\<lambda>pubkeyAny.
     let newVal = testnetValidatorOf args pubkeyAny in
     bnd (handleErr (lift (ofOption (LibErr ''StringToBytes'') (ValidatorAddress K (tvOperatorAddress newVal))))) (\<lambda>validator.
     andThen (removeValidators K)
    (andThen (addValidator K newVal validator)
    (andThen (ignoreA (SetTestnetSigningInfo K (newValAddr args) (lastBlockHeight - 1)))
    (bnd (handleErr (bnd (gets (BondDenom K)) lift)) (\<lambda>bondDenom.
     bnd (lift (ofOption Panic (NewCoin E bondDenom 1000000000))) (\<lambda>c.
     bnd (lift (ofOption Panic (NewCoins E [c]))) (\<lambda>defaultCoins.
     fundAccounts E defaultCoins (accountsToFund args)))))))))"

text \<open>The command opens the application, reads its arguments, and panics when they are not as expected.\<close>

definition newTestnetApp :: "'b sdk \<Rightarrow> 'b testnet_keepers \<Rightarrow> int \<Rightarrow> app_options \<Rightarrow> ('b, unit) act" where
  "newTestnetApp E K lastBlockHeight appOpts =
     bnd (failWith Panic (lift (getCommandArgs appOpts))) (initAppForTestnet E K lastBlockHeight)"

section \<open>What is removed\<close>

text \<open>
  The staking store can be read back after it was written, and the two iterators of the staking
  module visit the keys of their prefixes.
\<close>

definition store_laws :: "'b testnet_keepers \<Rightarrow> bytes \<Rightarrow> bytes \<Rightarrow> bool" where
  "store_laws K powerKey lastKey \<longleftrightarrow>
     (\<forall>kv b. StakingStore K (StakingStoreSet K kv b) = kv) \<and>
     (\<forall>b. ValidatorsPowerStoreIterator K b = Inr (filter (\<lambda>k. HasPrefix k powerKey) (map fst (StakingStore K b)))) \<and>
     (\<forall>b. LastValidatorsIterator K b = Inr (filter (\<lambda>k. HasPrefix k lastKey) (map fst (StakingStore K b))))"

lemma keys_filter: "map fst (filter (\<lambda>(k, _). P k) kv) = filter P (map fst kv)"
  by (induction kv) auto

lemma prefixKeys_eq: "prefixKeys K p b = filter (\<lambda>k. HasPrefix k p) (map fst (StakingStore K b))"
  unfolding prefixKeys_def kvRange_prefix by (rule keys_filter)

lemma deleteKeys_store:
  assumes "\<And>kv b. StakingStore K (StakingStoreSet K kv b) = kv"
  shows "\<exists>c. deleteKeys K keys b = (Inr (), c) \<and> StakingStore K c = filter (\<lambda>(k, _). k \<notin> set keys) (StakingStore K b)"
proof (induction keys arbitrary: b)
  case Nil
  have "filter (\<lambda>(k, _). True) xs = xs" for xs :: "(bytes \<times> bytes) list" by (induction xs) auto
  then show ?case by (simp add: deleteKeys_def return_def)
next
  case (Cons k keys)
  let ?b = "StakingStoreSet K (filter (\<lambda>(x, _). x \<noteq> k) (StakingStore K b)) b"
  have one: "deleteKeys K (k # keys) b = deleteKeys K keys ?b"
    by (simp add: deleteKeys_def act_simps)
  obtain c where "deleteKeys K keys ?b = (Inr (), c)" "StakingStore K c = filter (\<lambda>(x, _). x \<notin> set keys) (StakingStore K ?b)"
    using Cons.IH by blast
  then show ?case unfolding one
    by (auto simp: assms intro!: filter_cong)
qed

lemma delete_prefix:
  assumes "\<And>kv b. StakingStore K (StakingStoreSet K kv b) = kv"
  shows "\<exists>c. deleteKeys K (filter (\<lambda>k. HasPrefix k p) (map fst (StakingStore K b))) b = (Inr (), c) \<and>
    StakingStore K c = filter (\<lambda>(k, _). \<not> HasPrefix k p) (StakingStore K b)"
proof -
  obtain c where "deleteKeys K (filter (\<lambda>k. HasPrefix k p) (map fst (StakingStore K b))) b = (Inr (), c)"
    "StakingStore K c = filter (\<lambda>(k, _). k \<notin> set (filter (\<lambda>k. HasPrefix k p) (map fst (StakingStore K b)))) (StakingStore K b)"
    using deleteKeys_store [OF assms] by blast
  moreover have "filter (\<lambda>(k, _). k \<notin> set (filter (\<lambda>k. HasPrefix k p) (map fst xs))) xs = filter (\<lambda>(k, _). \<not> HasPrefix k p) xs"
    for xs :: "(bytes \<times> bytes) list"
    by (rule filter_cong) force+
  ultimately show ?thesis by auto
qed

text \<open>
  C29. The in-place testnet removes exactly the entries under the four prefixes of the validator
  set: the power index, the last validators, the validators and the queue of unbonding ones. The
  rest of the staking store is left as it was, and the removal does not fail.
\<close>

theorem old_validators_are_removed:
  assumes "store_laws K powerKey lastKey"
  shows "\<exists>c. removeValidators K b = (Inr (), c) \<and>
    StakingStore K c = filter (\<lambda>(k, _). \<not> list_ex (HasPrefix k) [powerKey, lastKey, ValidatorsKey K, ValidatorQueueKey K])
      (StakingStore K b)"
proof -
  have S: "\<And>kv b. StakingStore K (StakingStoreSet K kv b) = kv" using assms by (simp add: store_laws_def)
  have it: "handleErr (bnd (gets (ValidatorsPowerStoreIterator K)) lift) b =
      (Inr (filter (\<lambda>k. HasPrefix k powerKey) (map fst (StakingStore K b))), b)"
    "handleErr (bnd (gets (LastValidatorsIterator K)) lift) b =
      (Inr (filter (\<lambda>k. HasPrefix k lastKey) (map fst (StakingStore K b))), b)" for b
    using assms by (simp_all add: store_laws_def handleErr_def failWith_def catchA_def bnd_def act_eval)
  obtain b1 where 1: "deleteKeys K (filter (\<lambda>k. HasPrefix k powerKey) (map fst (StakingStore K b))) b = (Inr (), b1)"
    "StakingStore K b1 = filter (\<lambda>(k, _). \<not> HasPrefix k powerKey) (StakingStore K b)"
    using delete_prefix [OF S] by blast
  obtain b2 where 2: "deleteKeys K (filter (\<lambda>k. HasPrefix k lastKey) (map fst (StakingStore K b1))) b1 = (Inr (), b2)"
    "StakingStore K b2 = filter (\<lambda>(k, _). \<not> HasPrefix k lastKey) (StakingStore K b1)"
    using delete_prefix [OF S] by blast
  obtain b3 where 3: "deleteKeys K (filter (\<lambda>k. HasPrefix k (ValidatorsKey K)) (map fst (StakingStore K b2))) b2 = (Inr (), b3)"
    "StakingStore K b3 = filter (\<lambda>(k, _). \<not> HasPrefix k (ValidatorsKey K)) (StakingStore K b2)"
    using delete_prefix [OF S] by blast
  obtain c where 4: "deleteKeys K (filter (\<lambda>k. HasPrefix k (ValidatorQueueKey K)) (map fst (StakingStore K b3))) b3 = (Inr (), c)"
    "StakingStore K c = filter (\<lambda>(k, _). \<not> HasPrefix k (ValidatorQueueKey K)) (StakingStore K b3)"
    using delete_prefix [OF S] by blast
  have "removeValidators K b = (Inr (), c)"
    by (simp add: removeValidators_def bnd_def andThen_def it 1(1) 2(1) 3(1) 4(1) gets_def prefixKeys_eq)
  moreover have "StakingStore K c = filter (\<lambda>(k, _). \<not> list_ex (HasPrefix k) [powerKey, lastKey, ValidatorsKey K, ValidatorQueueKey K])
      (StakingStore K b)"
    unfolding 4(2) 3(2) 2(2) 1(2) filter_filter by (rule filter_cong) auto
  ultimately show ?thesis by blast
qed

section \<open>Accounts to fund\<close>

text \<open>
  The option that names accounts to fund is not optional: left out, the list of accounts is
  the one empty address, which no codec accepts, so setting up the testnet ends with an error
  after the coins for it were minted.
\<close>

theorem funding_without_accounts_fails:
  assumes "optAccountsToFund opts = []" "getCommandArgs opts = Inr args" "StringToBytes E [] = None"
  shows "accountsToFund args = [[]] \<and> isl (fst (initAppForTestnet E K h args b))"
proof -
  have a: "accountsToFund args = [[]]"
    using assms(1,2) by (auto simp: getCommandArgs_def rbind_Inr_iff split: if_splits)
  have "\<not> (\<exists>u t. fundAccounts E cs [[]] s = (Inr u, t))" for cs s
    using assms(3) by (auto simp: fundAccounts_def handleErr_def act_splits)
  then have "\<not> (\<exists>t. initAppForTestnet E K h args b = (Inr (), t))"
    unfolding initAppForTestnet_def Let_def by (auto simp: act_splits a)
  then have "isl (fst (initAppForTestnet E K h args b))"
    by (cases "initAppForTestnet E K h args b"; cases "fst (initAppForTestnet E K h args b)") auto
  with a show ?thesis ..
qed

section \<open>Concrete keepers\<close>

definition ref_testnet :: "('b \<Rightarrow> (bytes \<times> bytes) list) \<Rightarrow> ((bytes \<times> bytes) list \<Rightarrow> 'b \<Rightarrow> 'b) \<Rightarrow> 'b testnet_keepers" where
  "ref_testnet store set_store = \<lparr>NewAnyWithValue = Some, ValidatorAddress = Some, StakingStore = store, StakingStoreSet = set_store,
     ValidatorsPowerStoreIterator = (\<lambda>b. Inr (filter (\<lambda>k. HasPrefix k ''p/'') (map fst (store b)))),
     LastValidatorsIterator = (\<lambda>b. Inr (filter (\<lambda>k. HasPrefix k ''l/'') (map fst (store b)))),
     ValidatorsKey = ''v/'', ValidatorQueueKey = ''q/'',
     SetTestnetValidator = (\<lambda>v. return ()), SetValidatorByConsAddr = (\<lambda>v. return ()), SetValidatorByPowerIndex = (\<lambda>v. return ()),
     SetLastValidatorPower = (\<lambda>v n. return ()), AfterTestnetValidatorCreated = (\<lambda>v. return ()),
     SetValidatorHistoricalRewards = (\<lambda>v. return ()), SetValidatorCurrentRewards = (\<lambda>v. return ()),
     SetValidatorAccumulatedCommission = (\<lambda>v. return ()), SetValidatorOutstandingRewards = (\<lambda>v. return ()),
     SetTestnetSigningInfo = (\<lambda>v h. return ()), BondDenom = (\<lambda>b. Inr ''ucsv'')\<rparr>"

theorem old_validators_are_removed_witness:
  "\<exists>c. removeValidators (ref_testnet (\<lambda>kv. kv) (\<lambda>kv b. kv)) [(''l/a'', ''1''), (''p/a'', ''2''), (''u/a'', ''3''), (''v/a'', ''4'')] = (Inr (), c) \<and>
     c = [(''u/a'', ''3'')]"
proof -
  have K: "store_laws (ref_testnet (\<lambda>kv. kv) (\<lambda>kv b. kv)) ''p/'' ''l/''"
    by (simp add: store_laws_def ref_testnet_def)
  show ?thesis
    using old_validators_are_removed [OF K, of "[(''l/a'', ''1''), (''p/a'', ''2''), (''u/a'', ''3''), (''v/a'', ''4'')]"]
    by (simp add: ref_testnet_def HasPrefix_def)
qed

definition bareOptions :: app_options where
  "bareOptions = \<lparr>optNewValAddr = Some ''cons'', optUserPubKey = Some ''key'', optNewOpAddr = Some ''op'',
     optTriggerUpgrade = Some [], optAccountsToFund = [], optHome = ''/root/.cosvian''\<rparr>"

theorem funding_without_accounts_fails_witness:
  "isl (fst (initAppForTestnet ref_sdk (ref_testnet (\<lambda>b. []) (\<lambda>kv b. b)) 7 (projr (getCommandArgs bareOptions)) emptyLedger))"
proof -
  have o: "optAccountsToFund bareOptions = []" "getCommandArgs bareOptions = Inr (projr (getCommandArgs bareOptions))"
    by (simp_all add: bareOptions_def getCommandArgs_def)
  have s: "StringToBytes ref_sdk [] = None" by (simp add: ref_sdk_def)
  from funding_without_accounts_fails [OF o s] show ?thesis by blast
qed

end
