(* ===== verification/FeedCli.thy ===== *)
theory FeedCli
  imports PriceFeed
begin

text \<open>
  The two commands of the price feed that send packets (\<open>x/pricefeed/client/cli\<close>): from the
  positional arguments and the timeout flag to the message that is signed and broadcast. What the
  client context, \<open>spf13/cast\<close> and the channel queries of ibc-go return is a record of parameters.
\<close>

definition DefaultRelativePacketTimeoutTimestamp :: u64 where
  "DefaultRelativePacketTimeoutTimestamp = of_nat (10 * 60 * 10 ^ 9)"

record cli_env =
  FromAddress :: "string res"
  ToUint64E :: "string \<Rightarrow> u64 res"
  QueryChannelClientState :: "string \<Rightarrow> string \<Rightarrow> bytes res"
  UnpackClientState :: "bytes \<Rightarrow> unit res"
  QueryChannelConsensusState :: "string \<Rightarrow> string \<Rightarrow> bytes res"
  UnpackConsensusTimestamp :: "bytes \<Rightarrow> u64 res"

text \<open>The timeout of the packet: relative to the counterparty's clock, or none when the flag is zero.\<close>

definition absoluteTimeout :: "cli_env \<Rightarrow> string \<Rightarrow> string \<Rightarrow> u64 \<Rightarrow> u64 res" where
  "absoluteTimeout C srcPort srcChannel timeoutTimestamp =
     rbind (QueryChannelClientState C srcPort srcChannel) (\<lambda>clientRes.
     rbind (UnpackClientState C clientRes) (\<lambda>_.
     rbind (QueryChannelConsensusState C srcPort srcChannel) (\<lambda>consensusAny.
     rbind (UnpackConsensusTimestamp C consensusAny) (\<lambda>ts.
     Inr (if timeoutTimestamp \<noteq> 0 then ts + timeoutTimestamp else timeoutTimestamp)))))"

definition CmdSendOracleRequest :: "cli_env \<Rightarrow> u64 res \<Rightarrow> string list \<Rightarrow> MsgSendOracleRequest res" where
  "CmdSendOracleRequest C timeoutFlag args =
     (if length args \<noteq> 11 then Inl (ErrMsg ''accepts 11 arg(s)'')
      else
        rbind (FromAddress C) (\<lambda>creator.
        rbind (ToUint64E C (args ! 2)) (\<lambda>oracleScriptId.
        rbind (ToUint64E C (args ! 5)) (\<lambda>askCount.
        rbind (ToUint64E C (args ! 6)) (\<lambda>minCount.
        rbind (ToUint64E C (args ! 8)) (\<lambda>prepareGas.
        rbind (ToUint64E C (args ! 9)) (\<lambda>executeGas.
        rbind timeoutFlag (\<lambda>timeoutTimestamp.
        rbind (absoluteTimeout C (args ! 0) (args ! 1) timeoutTimestamp) (\<lambda>timeout.
        Inr (NewMsgSendOracleRequest creator (args ! 0) (args ! 1) timeout oracleScriptId (args ! 3) (args ! 4)
          askCount minCount (args ! 7) prepareGas executeGas (args ! 10)))))))))))"

definition CmdSendOracleResponse :: "cli_env \<Rightarrow> u64 res \<Rightarrow> string list \<Rightarrow> MsgSendOracleResponse res" where
  "CmdSendOracleResponse C timeoutFlag args =
     (if length args \<noteq> 6 then Inl (ErrMsg ''accepts 6 arg(s)'')
      else
        rbind (FromAddress C) (\<lambda>creator.
        rbind (ToUint64E C (args ! 2)) (\<lambda>requestId.
        rbind timeoutFlag (\<lambda>timeoutTimestamp.
        rbind (absoluteTimeout C (args ! 0) (args ! 1) timeoutTimestamp) (\<lambda>timeout.
        Inr (NewMsgSendOracleResponse creator (args ! 0) (args ! 1) timeout requestId (args ! 3) (args ! 4) (args ! 5)))))))"

section \<open>What the chain does with the messages\<close>

lemma absoluteTimeout_zero:
  "absoluteTimeout C p c flag = Inr t \<Longrightarrow> t = 0 \<longleftrightarrow> flag = 0 \<or>
     (\<exists>bz ts. QueryChannelConsensusState C p c = Inr bz \<and> UnpackConsensusTimestamp C bz = Inr ts \<and> ts + flag = 0)"
  by (auto simp: absoluteTimeout_def rbind_Inr_iff split: if_splits)

text \<open>
  A request the command builds carries the arguments in their places, and with the timeout
  flag at zero the handler refuses it: the command offers a packet without timeout that the
  chain never sends.
\<close>

theorem request_without_timeout_is_refused:
  assumes "CmdSendOracleRequest C flag args = Inr msg"
  shows "sorPort msg = args ! 0 \<and> sorChannelID msg = args ! 1 \<and> sorCalldata msg = args ! 3 \<and> sorClientId msg = args ! 10 \<and>
    (flag = Inr 0 \<longrightarrow> isl (fst (SendOracleRequest E I msg s)) \<and> ext (snd (SendOracleRequest E I msg s)) = ext s)"
proof -
  from assms obtain creator osi ask minc prep exec f t where
    t: "flag = Inr f" "absoluteTimeout C (args ! 0) (args ! 1) f = Inr t" and
    m: "msg = NewMsgSendOracleRequest creator (args ! 0) (args ! 1) t osi (args ! 3) (args ! 4) ask minc (args ! 7) prep exec (args ! 10)"
    by (auto simp: CmdSendOracleRequest_def rbind_Inr_iff split: if_splits)
  have "checkRoute E (sorCreator msg) (sorPort msg) (sorChannelID msg) (sorTimeoutTimestamp msg) \<noteq> Inr ()" if "flag = Inr 0"
    using that t absoluteTimeout_zero [OF t(2)] by (auto simp: m NewMsgSendOracleRequest_def checkRoute_def)
  then have "isl (fst (SendOracleRequest E I msg s)) \<and> ext (snd (SendOracleRequest E I msg s)) = ext s" if "flag = Inr 0"
    using that by (auto simp: SendOracleRequest_def bnd_def lift_def split: sum.splits)
  then show ?thesis by (simp add: m NewMsgSendOracleRequest_def)
qed

definition plainCli :: cli_env where
  "plainCli = \<lparr>FromAddress = Inr ''alice'', ToUint64E = (\<lambda>s. if s = ''4'' then Inr 4 else Inl (LibErr ''cast'')),
     QueryChannelClientState = (\<lambda>p c. Inr []), UnpackClientState = (\<lambda>b. Inr ()),
     QueryChannelConsensusState = (\<lambda>p c. Inr []), UnpackConsensusTimestamp = (\<lambda>b. Inr 1000)\<rparr>"

theorem request_without_timeout_is_refused_witness:
  "\<exists>msg. CmdSendOracleRequest plainCli (Inr 0)
      [''pricefeed'', ''channel-0'', ''4'', ''data'', ''CSV'', ''4'', ''4'', ''1uband'', ''4'', ''4'', ''me''] = Inr msg \<and>
     sorClientId msg = ''me'' \<and> isl (fst (SendOracleRequest ref_sdk ref_ibc msg (initChain emptyLedger)))"
proof -
  obtain msg where m: "CmdSendOracleRequest plainCli (Inr 0)
      [''pricefeed'', ''channel-0'', ''4'', ''data'', ''CSV'', ''4'', ''4'', ''1uband'', ''4'', ''4'', ''me''] = Inr msg"
    by (simp add: CmdSendOracleRequest_def plainCli_def absoluteTimeout_def)
  from request_without_timeout_is_refused [OF m, of ref_sdk ref_ibc "initChain emptyLedger"] m show ?thesis by simp
qed

end
