(* ===== verification/AutoCli.thy ===== *)
theory AutoCli
  imports TokenCorrect ChargeFee Oracle
begin

text \<open>
  The command line of the modules: the tables of \<open>x/*/module/autocli.go\<close>, from which the SDK builds a
  command for every service method, and the fallback of \<open>cmd/cosviand/cmd/root.go\<close> for the queries of
  \<open>osmosisicq\<close>. The names of the services are generated and left out. Putting the arguments of a command into a message is the SDK's part: a positional
  argument is the text of the field it names, every other field is a flag or keeps its default, and the
  signer is the account of \<open>--from\<close>.
\<close>

section \<open>Tables\<close>

record rpc_options =
  RpcMethod :: string
  RpcUse :: string
  RpcShort :: string
  RpcSkip :: bool
  PositionalArgs :: "string list"

record module_options =
  QueryCommands :: "rpc_options list"
  TxCommands :: "rpc_options list"
  EnhanceCustomCommand :: bool

definition rpc :: "string \<Rightarrow> string \<Rightarrow> string \<Rightarrow> string list \<Rightarrow> rpc_options" where
  "rpc method usage short args =
     \<lparr>RpcMethod = method, RpcUse = usage, RpcShort = short, RpcSkip = False, PositionalArgs = args\<rparr>"

definition skipped :: "string \<Rightarrow> rpc_options" where
  "skipped method = \<lparr>RpcMethod = method, RpcUse = [], RpcShort = [], RpcSkip = True, PositionalArgs = []\<rparr>"

definition paramsQuery :: rpc_options where
  "paramsQuery = rpc ''Params'' ''params'' ''Shows the parameters of the module'' []"

text \<open>The update of the parameters belongs to the authority, so no command is made for it.\<close>

definition cosvianAutoCLIOptions :: module_options where
  "cosvianAutoCLIOptions = \<lparr>QueryCommands = [paramsQuery], TxCommands = [skipped ''UpdateParams''], EnhanceCustomCommand = True\<rparr>"

definition pricefeedAutoCLIOptions :: module_options where
  "pricefeedAutoCLIOptions = \<lparr>QueryCommands = [paramsQuery], TxCommands = [skipped ''UpdateParams''], EnhanceCustomCommand = True\<rparr>"

definition registryAutoCLIOptions :: module_options where
  "registryAutoCLIOptions = \<lparr>QueryCommands = [paramsQuery], TxCommands = [skipped ''UpdateParams''], EnhanceCustomCommand = True\<rparr>"

definition icqcontrollerAutoCLIOptions :: module_options where
  "icqcontrollerAutoCLIOptions = \<lparr>QueryCommands = [paramsQuery], TxCommands = [skipped ''UpdateParams''], EnhanceCustomCommand = True\<rparr>"

definition treasuryAutoCLIOptions :: module_options where
  "treasuryAutoCLIOptions = \<lparr>QueryCommands = [paramsQuery], TxCommands = [skipped ''UpdateParams''], EnhanceCustomCommand = True\<rparr>"

definition conversionpoolAutoCLIOptions :: module_options where
  "conversionpoolAutoCLIOptions = \<lparr>QueryCommands = [paramsQuery], TxCommands = [skipped ''UpdateParams''], EnhanceCustomCommand = True\<rparr>"

definition osmosisicqAutoCLIOptions :: module_options where
  "osmosisicqAutoCLIOptions =
     \<lparr>QueryCommands = [paramsQuery, rpc ''Status'' ''status'' ''Shows scheduler times and ICQ query IDs'' []],
      TxCommands = [skipped ''UpdateParams''], EnhanceCustomCommand = True\<rparr>"

definition oracleAutoCLIOptions :: module_options where
  "oracleAutoCLIOptions =
     \<lparr>QueryCommands = [paramsQuery],
      TxCommands = [skipped ''UpdateParams'',
        rpc ''SetPrice'' ''set-price [denom] [price]'' ''Send a set-price tx'' [''denom'', ''price'']], EnhanceCustomCommand = True\<rparr>"

definition feesAutoCLIOptions :: module_options where
  "feesAutoCLIOptions =
     \<lparr>QueryCommands = [paramsQuery, rpc ''OraclePrice'' ''oracle-price '' ''Query oracle-price'' []],
      TxCommands = [skipped ''UpdateParams'',
        rpc ''ChargeFee'' ''charge-fee [category] [amount] [metadata]'' ''Send a charge-fee tx''
          [''category'', ''amount'', ''metadata'']], EnhanceCustomCommand = True\<rparr>"

definition tokenAutoCLIOptions :: module_options where
  "tokenAutoCLIOptions =
     \<lparr>QueryCommands = [paramsQuery],
      TxCommands = [skipped ''UpdateParams'',
        rpc ''Mint'' ''mint [to] [amount]'' ''Send a mint tx'' [''to'', ''amount''],
        rpc ''Burn'' ''burn [to] [amount]'' ''Send a burn tx'' [''to'', ''amount''],
        rpc ''CreateToken''
          ''create-token [name] [symbol] [decimals] [initial-supply] [max-supply] [mintable] [pos-compatible] [icon-uri] [description]''
          ''Send a create-token tx''
          [''name'', ''symbol'', ''decimals'', ''initial_supply'', ''max_supply'', ''mintable'', ''pos_compatible'',
           ''icon_uri'', ''description'']], EnhanceCustomCommand = True\<rparr>"

definition moduleOptions :: "module_options list" where
  "moduleOptions = [cosvianAutoCLIOptions, tokenAutoCLIOptions, oracleAutoCLIOptions, pricefeedAutoCLIOptions,
     registryAutoCLIOptions, feesAutoCLIOptions, osmosisicqAutoCLIOptions, icqcontrollerAutoCLIOptions,
     treasuryAutoCLIOptions, conversionpoolAutoCLIOptions]"

lemmas option_defs = moduleOptions_def cosvianAutoCLIOptions_def tokenAutoCLIOptions_def oracleAutoCLIOptions_def
  pricefeedAutoCLIOptions_def registryAutoCLIOptions_def feesAutoCLIOptions_def osmosisicqAutoCLIOptions_def
  icqcontrollerAutoCLIOptions_def treasuryAutoCLIOptions_def conversionpoolAutoCLIOptions_def
  paramsQuery_def rpc_def skipped_def

section \<open>Commands\<close>

text \<open>The words of a usage line after the first, and how a field is written there.\<close>

definition usageWords :: "rpc_options \<Rightarrow> string list" where
  "usageWords r = tl (filter (\<lambda>w. w \<noteq> []) (SplitOn (CHR '' '') (RpcUse r)))"

definition usageOf :: "string \<Rightarrow> string" where
  "usageOf field = ''['' @ map (\<lambda>c. if c = CHR ''_'' then CHR ''-'' else c) field @ '']''"

lemma usage_names_the_arguments:
  "list_all (\<lambda>m. list_all (\<lambda>r. RpcSkip r \<or> usageWords r = map usageOf (PositionalArgs r)) (QueryCommands m @ TxCommands m)) moduleOptions"
  by (simp add: option_defs usageWords_def usageOf_def)

lemma only_parameter_updates_are_skipped:
  "list_all (\<lambda>m. list_all (\<lambda>r. RpcSkip r \<longleftrightarrow> RpcMethod r = ''UpdateParams'') (QueryCommands m @ TxCommands m)) moduleOptions"
  by (simp add: option_defs)

definition commandOf :: "rpc_options list \<Rightarrow> string \<Rightarrow> rpc_options option" where
  "commandOf rs method = find (\<lambda>r. RpcMethod r = method \<and> \<not> RpcSkip r) rs"

text \<open>Reading the text of a field is left to the SDK, as is the account that signs.\<close>

record autocli_env =
  acFrom :: "string res"
  acUint :: "nat \<Rightarrow> string \<Rightarrow> int res"
  acBool :: "string \<Rightarrow> bool res"

definition cliFields :: "rpc_options option \<Rightarrow> (string \<rightharpoonup> string) \<Rightarrow> string list \<Rightarrow> (string \<rightharpoonup> string) res" where
  "cliFields r flags args = (case r of
     None \<Rightarrow> Inl (ErrMsg ''unknown command'')
   | Some r \<Rightarrow> if length args \<noteq> length (PositionalArgs r) then Inl (ErrMsg ''accepts arg(s)'')
       else Inr (\<lambda>f. if f \<in> set (PositionalArgs r) then map_of (zip (PositionalArgs r) args) f else flags f))"

definition textField :: "(string \<rightharpoonup> string) \<Rightarrow> string \<Rightarrow> string" where
  "textField given f = (case given f of None \<Rightarrow> [] | Some v \<Rightarrow> v)"

definition uintField :: "autocli_env \<Rightarrow> (string \<rightharpoonup> string) \<Rightarrow> nat \<Rightarrow> string \<Rightarrow> int res" where
  "uintField C given bits f = (case given f of None \<Rightarrow> Inr 0 | Some v \<Rightarrow> acUint C bits v)"

definition boolField :: "autocli_env \<Rightarrow> (string \<rightharpoonup> string) \<Rightarrow> string \<Rightarrow> bool res" where
  "boolField C given f = (case given f of None \<Rightarrow> Inr False | Some v \<Rightarrow> acBool C v)"

definition mintCommand :: "autocli_env \<Rightarrow> (string \<rightharpoonup> string) \<Rightarrow> string list \<Rightarrow> MsgMint res" where
  "mintCommand C flags args =
     rbind (cliFields (commandOf (TxCommands tokenAutoCLIOptions) ''Mint'') flags args) (\<lambda>fs.
     rbind (acFrom C) (\<lambda>from.
     rbind (uintField C fs 64 ''amount'') (\<lambda>amount.
     Inr \<lparr>mintCreator = from, mintTo = textField fs ''to'', mintAmount = of_int amount, mintTokenId = textField fs ''token_id''\<rparr>)))"

definition burnCommand :: "autocli_env \<Rightarrow> (string \<rightharpoonup> string) \<Rightarrow> string list \<Rightarrow> MsgBurn res" where
  "burnCommand C flags args =
     rbind (cliFields (commandOf (TxCommands tokenAutoCLIOptions) ''Burn'') flags args) (\<lambda>fs.
     rbind (acFrom C) (\<lambda>from.
     rbind (uintField C fs 64 ''amount'') (\<lambda>amount.
     Inr \<lparr>burnCreator = from, burnTo = textField fs ''to'', burnAmount = of_int amount, burnTokenId = textField fs ''token_id''\<rparr>)))"

definition createTokenCommand :: "autocli_env \<Rightarrow> (string \<rightharpoonup> string) \<Rightarrow> string list \<Rightarrow> MsgCreateToken res" where
  "createTokenCommand C flags args =
     rbind (cliFields (commandOf (TxCommands tokenAutoCLIOptions) ''CreateToken'') flags args) (\<lambda>fs.
     rbind (acFrom C) (\<lambda>from.
     rbind (uintField C fs 32 ''decimals'') (\<lambda>decimals.
     rbind (uintField C fs 64 ''initial_supply'') (\<lambda>initial.
     rbind (uintField C fs 64 ''max_supply'') (\<lambda>maximum.
     rbind (boolField C fs ''mintable'') (\<lambda>mintable.
     rbind (boolField C fs ''pos_compatible'') (\<lambda>pos.
     Inr (NewMsgCreateToken from (textField fs ''name'') (textField fs ''symbol'') (of_int decimals) (of_int initial)
       (of_int maximum) mintable pos (textField fs ''icon_uri'') (textField fs ''description'')))))))))"

definition setPriceCommand :: "autocli_env \<Rightarrow> (string \<rightharpoonup> string) \<Rightarrow> string list \<Rightarrow> MsgSetPrice res" where
  "setPriceCommand C flags args =
     rbind (cliFields (commandOf (TxCommands oracleAutoCLIOptions) ''SetPrice'') flags args) (\<lambda>fs.
     rbind (acFrom C) (\<lambda>from.
     Inr \<lparr>spCreator = from, spDenom = textField fs ''denom'', spPrice = textField fs ''price''\<rparr>))"

definition chargeFeeCommand :: "autocli_env \<Rightarrow> (string \<rightharpoonup> string) \<Rightarrow> string list \<Rightarrow> MsgChargeFee res" where
  "chargeFeeCommand C flags args =
     rbind (cliFields (commandOf (TxCommands feesAutoCLIOptions) ''ChargeFee'') flags args) (\<lambda>fs.
     rbind (acFrom C) (\<lambda>from.
     Inr \<lparr>cfCreator = from, cfCategory = textField fs ''category'', cfAmount = textField fs ''amount'',
       cfMetadata = textField fs ''metadata''\<rparr>))"

section \<open>What the commands do\<close>

lemma cliFields_Inr:
  "cliFields (Some r) flags args = Inr fs \<longleftrightarrow> length args = length (PositionalArgs r) \<and>
     fs = (\<lambda>f. if f \<in> set (PositionalArgs r) then map_of (zip (PositionalArgs r) args) f else flags f)"
  by (auto simp: cliFields_def)

lemma command_tables:
  "commandOf (TxCommands tokenAutoCLIOptions) ''Mint'' = Some (rpc ''Mint'' ''mint [to] [amount]'' ''Send a mint tx'' [''to'', ''amount''])"
  "commandOf (TxCommands tokenAutoCLIOptions) ''Burn'' = Some (rpc ''Burn'' ''burn [to] [amount]'' ''Send a burn tx'' [''to'', ''amount''])"
  "commandOf (TxCommands oracleAutoCLIOptions) ''SetPrice'' =
     Some (rpc ''SetPrice'' ''set-price [denom] [price]'' ''Send a set-price tx'' [''denom'', ''price''])"
  "commandOf (TxCommands feesAutoCLIOptions) ''ChargeFee'' = Some (rpc ''ChargeFee''
     ''charge-fee [category] [amount] [metadata]'' ''Send a charge-fee tx'' [''category'', ''amount'', ''metadata''])"
  by (simp_all add: commandOf_def tokenAutoCLIOptions_def oracleAutoCLIOptions_def feesAutoCLIOptions_def rpc_def skipped_def)

text \<open>Prices and fees arrive as typed: the table names every field of these messages.\<close>

lemma setPriceCommand_arrives:
  "setPriceCommand C flags args = Inr msg \<Longrightarrow> [spDenom msg, spPrice msg] = args"
  by (auto simp: setPriceCommand_def command_tables rbind_Inr_iff cliFields_Inr rpc_def textField_def length_Suc_conv)

lemma chargeFeeCommand_arrives:
  "chargeFeeCommand C flags args = Inr msg \<Longrightarrow> [cfCategory msg, cfAmount msg, cfMetadata msg] = args"
  by (auto simp: chargeFeeCommand_def command_tables rbind_Inr_iff cliFields_Inr rpc_def textField_def length_Suc_conv)

text \<open>No token has the empty identifier.\<close>

lemma no_token_without_id: "token_inv (tokenKV s) \<Longrightarrow> isl (GetTokenMetadata s [])"
  by (auto simp: GetTokenMetadata_def loadMeta_def token_inv_def metas_ok_def indexed_def tokenIDOf_def
      split: option.splits kvval.splits)

lemma token_message_without_id:
  assumes "isl (GetTokenMetadata s [])"
  shows "mintTokenId m = [] \<Longrightarrow> isl (fst (Mint E m s)) \<and> snd (Mint E m s) = s"
    and "burnTokenId b = [] \<Longrightarrow> isl (fst (Burn E b s)) \<and> snd (Burn E b s) = s"
proof -
  from assms obtain e where "GetTokenMetadata s [] = Inl e" by (cases "GetTokenMetadata s []") auto
  then show "mintTokenId m = [] \<Longrightarrow> isl (fst (Mint E m s)) \<and> snd (Mint E m s) = s"
    and "burnTokenId b = [] \<Longrightarrow> isl (fst (Burn E b s)) \<and> snd (Burn E b s) = s"
    by (auto simp: Mint_def Burn_def bnd_def act_eval wrapA_def ofOption_def rwrap_def split: option.splits go_error.splits)
qed

text \<open>
  C40. After any sequence of token messages on an empty store, the mint and burn commands with
  just the arguments their usage names are refused and change nothing: the table of the module
  leaves out the token identifier, which then is empty, and no token has the empty identifier.
\<close>

theorem mint_and_burn_as_documented_are_refused:
  assumes "tokenKV s0 = []" "length ms < 2 ^ 64" "s = foldl (deliver E) s0 ms" "flags ''token_id'' = None"
  shows "(mintCommand C flags args = Inr m \<longrightarrow> isl (fst (Mint E m s)) \<and> snd (Mint E m s) = s) \<and>
    (burnCommand C flags args = Inr b \<longrightarrow> isl (fst (Burn E b s)) \<and> snd (Burn E b s) = s)"
proof -
  have "unat (seqOf (tokenKV s0)) = 0" by (simp add: assms(1) seqOf_def counterAt_def)
  then have "token_inv (tokenKV s)" unfolding assms(3) using assms(1,2) token_inv_Nil by (intro deliver_all_inv) simp_all
  note refused = token_message_without_id [OF no_token_without_id [OF this]]
  have "mintTokenId m = []" if "mintCommand C flags args = Inr m"
    using that assms(4) by (auto simp: mintCommand_def command_tables rbind_Inr_iff cliFields_Inr rpc_def textField_def)
  moreover have "burnTokenId b = []" if "burnCommand C flags args = Inr b"
    using that assms(4) by (auto simp: burnCommand_def command_tables rbind_Inr_iff cliFields_Inr rpc_def textField_def)
  ultimately show ?thesis using refused by blast
qed

definition aliceCli :: autocli_env where
  "aliceCli = \<lparr>acFrom = Inr ''alice'', acUint = (\<lambda>bits t. Inr (int (readNat t))), acBool = (\<lambda>t. Inr (t = ''true''))\<rparr>"

theorem mint_and_burn_as_documented_are_refused_witness:
  "\<exists>m. mintCommand aliceCli Map.empty [''alice'', ''5''] = Inr m \<and> mintAmount m = 5 \<and> isl (fst (Mint ref_sdk m minedState))"
proof -
  have kv: "tokenKV tokenState = []" by (simp add: tokenState_def initChain_def)
  obtain m where m: "mintCommand aliceCli Map.empty [''alice'', ''5''] = Inr m" "mintAmount m = 5"
    by (simp add: mintCommand_def command_tables cliFields_def rpc_def uintField_def aliceCli_def readNat_def digitVal_def)
  from mint_and_burn_as_documented_are_refused [OF kv _ minedState_def, of Map.empty aliceCli "[''alice'', ''5'']" m] m
  show ?thesis by simp
qed

text \<open>With the flag, and a token that can be minted, the same command succeeds.\<close>

lemma mint_with_the_flag:
  "\<exists>m. mintCommand aliceCli [''token_id'' \<mapsto> ''token_002''] [''alice'', ''5''] = Inr m \<and> fst (Mint ref_sdk m minedState) = Inr ()"
proof -
  have "mintCommand aliceCli [''token_id'' \<mapsto> ''token_002''] [''alice'', ''5''] =
      Inr \<lparr>mintCreator = ''alice'', mintTo = ''alice'', mintAmount = 5, mintTokenId = ''token_002''\<rparr>"
    by (simp add: mintCommand_def command_tables cliFields_def rpc_def uintField_def textField_def aliceCli_def readNat_def digitVal_def)
  moreover have "fst (Mint ref_sdk \<lparr>mintCreator = ''alice'', mintTo = ''alice'', mintAmount = 5, mintTokenId = ''token_002''\<rparr> minedState) = Inr ()"
    by code_simp
  ultimately show ?thesis by blast
qed

section \<open>The fallback for the queries of osmosisicq\<close>

text \<open>A command of \<open>cobra\<close>: its name and its subcommands, in the order they were added.\<close>

datatype command = Command (cmdName: string) (subcommands: "command list")

definition findCommand :: "string \<Rightarrow> command \<Rightarrow> command option" where
  "findCommand name root = find (\<lambda>c. cmdName c = name) (subcommands root)"

text \<open>\<open>AddCommand\<close> on the first subcommand of a name.\<close>

fun addUnder :: "string \<Rightarrow> command \<Rightarrow> command list \<Rightarrow> command list" where
  "addUnder name sub [] = []"
| "addUnder name sub (c # cs) =
     (if cmdName c = name then Command (cmdName c) (subcommands c @ [sub]) # cs else c # addUnder name sub cs)"

definition addOsmosisICQManualQueries :: "command \<Rightarrow> command" where
  "addOsmosisICQManualQueries root = (case findCommand ''query'' root of
     None \<Rightarrow> root
   | Some _ \<Rightarrow>
       let osmoCmd = Command ''osmosisicq'' [Command ''params'' [], Command ''status'' []]
       in Command (cmdName root) (addUnder ''query'' osmoCmd (subcommands root)))"

definition ensureOsmosisICQQueryFallback :: "command \<Rightarrow> bool \<times> command" where
  "ensureOsmosisICQQueryFallback root = (case findCommand ''query'' root of
     None \<Rightarrow> (False, root)
   | Some queryCmd \<Rightarrow>
       if list_ex (\<lambda>c. cmdName c = ''osmosisicq'') (subcommands queryCmd) then (False, root)
       else (True, addOsmosisICQManualQueries root))"

lemma find_addUnder:
  "find (\<lambda>c. cmdName c = name) (addUnder name sub cs) =
     map_option (\<lambda>c. Command (cmdName c) (subcommands c @ [sub])) (find (\<lambda>c. cmdName c = name) cs)"
  by (induction cs) simp_all

text \<open>Afterwards a root with queries has the group, once, and a second call changes nothing.\<close>

lemma fallback_ensures_the_group:
  assumes "findCommand ''query'' root = Some q" "ensureOsmosisICQQueryFallback root = (added, root')"
  shows "\<exists>q'. findCommand ''query'' root' = Some q' \<and> list_ex (\<lambda>c. cmdName c = ''osmosisicq'') (subcommands q')"
    and "added \<longleftrightarrow> \<not> list_ex (\<lambda>c. cmdName c = ''osmosisicq'') (subcommands q)"
    and "ensureOsmosisICQQueryFallback root' = (False, root')"
  using assms by (auto simp: ensureOsmosisICQQueryFallback_def addOsmosisICQManualQueries_def findCommand_def Let_def
      find_addUnder split: if_splits)

end
