(* ===== verification/AppModules.thy ===== *)
theory AppModules
  imports ChainCorrect Treasury FeesCorrect
begin

text \<open>
  The modules as the application sees them: the methods of \<open>x/*/module/module.go\<close>, one record per
  module, and \<open>ProvideModule\<close> of \<open>x/*/module/depinject.go\<close>, which builds the keeper for an authority and
  the module around it. A module manager that runs the genesis and block methods of these records in
  the order of \<open>app/app_config.go\<close> is the same as the functions of \<open>Genesis\<close> and \<open>Application\<close>.
\<close>

section \<open>Modules\<close>

record 'b app_module =
  amName :: string
  amDefault :: "bytes res"
  amValidate :: "bytes \<Rightarrow> unit res"
  amInit :: "bytes \<Rightarrow> ('b chain, unit) act"
  amExport :: "'b chain \<Rightarrow> bytes res"
  amConsensusVersion :: nat
  amBeginBlock :: "('b chain, unit) act"
  amEndBlock :: "('b chain, unit) act"

text \<open>The methods around a keeper's genesis are the same in every module; most have no block hook.\<close>

definition newModule :: "string \<Rightarrow> 'g codec \<Rightarrow> 'g \<Rightarrow> ('g \<Rightarrow> unit res) \<Rightarrow> ('g \<Rightarrow> ('b chain, unit) act) \<Rightarrow>
    ('b chain \<Rightarrow> 'g res) \<Rightarrow> 'b app_module" where
  "newModule name c dflt validate init export =
     \<lparr>amName = name, amDefault = amDefaultGenesis c dflt, amValidate = amValidateGenesis c validate,
      amInit = amInitGenesis c init, amExport = amExportGenesis c export, amConsensusVersion = 1,
      amBeginBlock = return (), amEndBlock = return ()\<rparr>"

definition cosvianModule :: "codecs \<Rightarrow> 'b app_module" where
  "cosvianModule C = newModule ''cosvian'' (cCosvian C) cosvianDefaultGenesis cosvianGenesisValidate
     cosvianInitGenesis cosvianExportGenesis"

definition tokenModule :: "'b sdk \<Rightarrow> codecs \<Rightarrow> 'b app_module" where
  "tokenModule E C = newModule ''token'' (cToken C) tokenDefaultGenesis tokenGenesisValidate
     (tokenInitGenesis E) tokenExportGenesis"

definition oracleModule :: "codecs \<Rightarrow> 'b app_module" where
  "oracleModule C = newModule ''oracle'' (cOracle C) oracleDefaultGenesis oracleValidate
     oracleInitGenesis oracleExportGenesis"

definition pricefeedModule :: "'b ibc \<Rightarrow> codecs \<Rightarrow> bool \<Rightarrow> 'b app_module" where
  "pricefeedModule I C scoped = newModule ''pricefeed'' (cPricefeed C) feedDefaultGenesis (feedGenesisValidate I)
     (feedInitGenesis I scoped) feedExportGenesis"

definition registryModule :: "codecs \<Rightarrow> 'b app_module" where
  "registryModule C = newModule ''registry'' (cRegistry C) registryDefaultGenesis registryGenesisValidate
     registryInitGenesis registryExportGenesis"

definition feesModule :: "'b sdk \<Rightarrow> codecs \<Rightarrow> 'b app_module" where
  "feesModule E C = newModule ''fees'' (cFees C) feesDefaultGenesis feesGenesisValidate
     (feesInitGenesis E) feesExportGenesis"

text \<open>The one block hook: the price queries are scheduled when the context is the SDK's, which it is.\<close>

definition osmosisicqModule :: "'b sdk \<Rightarrow> codecs \<Rightarrow> 'b icq_client option \<Rightarrow> 'b app_module" where
  "osmosisicqModule E C client = (newModule ''osmosisicq'' (cOsmosisicq C) osmoDefaultGenesis (osmoGenesisValidate E)
     osmoInitGenesis osmoExportGenesis)\<lparr>amBeginBlock := osmoBeginBlock client True\<rparr>"

definition icqcontrollerModule :: "'b ibc \<Rightarrow> codecs \<Rightarrow> bool \<Rightarrow> 'b app_module" where
  "icqcontrollerModule I C scoped = newModule ''icqcontroller'' (cIcqcontroller C) icqDefaultGenesis (icqGenesisValidate I)
     (icqInitGenesis I scoped) icqExportGenesis"

definition treasuryDefaultGenesis :: TreasuryParams where
  "treasuryDefaultGenesis = treasuryDefaultParams"

definition conversionDefaultGenesis :: ConversionParams where
  "conversionDefaultGenesis = conversionDefaultParams"

definition treasuryModule :: "TreasuryParams codec \<Rightarrow> 'b app_module" where
  "treasuryModule c = newModule ''treasury'' c treasuryDefaultGenesis treasuryGenesisValidate
     treasuryInitGenesis treasuryExportGenesis"

definition conversionpoolModule :: "ConversionParams codec \<Rightarrow> 'b app_module" where
  "conversionpoolModule c = newModule ''conversionpool'' c conversionDefaultGenesis conversionGenesisValidate
     conversionInitGenesis conversionExportGenesis"

section \<open>Providing them\<close>

text \<open>
  The configuration of a module names its authority, or leaves it to governance. The SDK reads a name
  as an address when it is one, and as the name of a module account otherwise.
\<close>

definition NewModuleAddressOrBech32Address :: "'b sdk \<Rightarrow> string \<Rightarrow> addr" where
  "NewModuleAddressOrBech32Address E s = (case AccAddressFromBech32 E s of Some a \<Rightarrow> a | None \<Rightarrow> GetModuleAddress E s)"

definition authorityOf :: "'b sdk \<Rightarrow> string \<Rightarrow> addr" where
  "authorityOf E configured =
     (if configured \<noteq> [] then NewModuleAddressOrBech32Address E configured else GetModuleAddress E ''gov'')"

text \<open>The authority a keeper was built with, and its module; building a keeper may panic.\<close>

definition provided :: "('b sdk \<Rightarrow> addr \<Rightarrow> unit res) \<Rightarrow> 'b sdk \<Rightarrow> string \<Rightarrow> 'b app_module \<Rightarrow> (addr \<times> 'b app_module) res" where
  "provided newKeeper E configured m =
     (let authority = authorityOf E configured in rbind (newKeeper E authority) (\<lambda>_. Inr (authority, m)))"

definition cosvianProvide :: "'b sdk \<Rightarrow> codecs \<Rightarrow> string \<Rightarrow> (addr \<times> 'b app_module) res" where
  "cosvianProvide E C configured = provided cosvianNewKeeper E configured (cosvianModule C)"

definition tokenProvide :: "'b sdk \<Rightarrow> codecs \<Rightarrow> string \<Rightarrow> (addr \<times> 'b app_module) res" where
  "tokenProvide E C configured = provided tokenNewKeeper E configured (tokenModule E C)"

definition oracleProvide :: "'b sdk \<Rightarrow> codecs \<Rightarrow> string \<Rightarrow> (addr \<times> 'b app_module) res" where
  "oracleProvide E C configured = provided oracleNewKeeper E configured (oracleModule C)"

definition pricefeedProvide :: "'b sdk \<Rightarrow> 'b ibc \<Rightarrow> codecs \<Rightarrow> bool \<Rightarrow> string \<Rightarrow> (addr \<times> 'b app_module) res" where
  "pricefeedProvide E I C scoped configured = provided feedNewKeeper E configured (pricefeedModule I C scoped)"

definition registryProvide :: "'b sdk \<Rightarrow> codecs \<Rightarrow> string \<Rightarrow> (addr \<times> 'b app_module) res" where
  "registryProvide E C configured = provided registryNewKeeper E configured (registryModule C)"

definition feesProvide :: "'b sdk \<Rightarrow> codecs \<Rightarrow> string \<Rightarrow> (addr \<times> 'b app_module) res" where
  "feesProvide E C configured = provided feesNewKeeper E configured (feesModule E C)"

text \<open>Without a client the module falls back to the one that only counts registrations, in its own memory.\<close>

definition osmosisicqProvide :: "'b sdk \<Rightarrow> codecs \<Rightarrow> 'b icq_client \<Rightarrow> 'b icq_client option \<Rightarrow> string \<Rightarrow> (addr \<times> 'b app_module) res" where
  "osmosisicqProvide E C regOnly client configured = provided osmoNewKeeper E configured
     (osmosisicqModule E C (case client of None \<Rightarrow> Some regOnly | Some c \<Rightarrow> Some c))"

definition icqcontrollerProvide :: "'b sdk \<Rightarrow> 'b ibc \<Rightarrow> codecs \<Rightarrow> bool \<Rightarrow> string \<Rightarrow> (addr \<times> 'b app_module) res" where
  "icqcontrollerProvide E I C scoped configured = provided icqNewKeeper E configured (icqcontrollerModule I C scoped)"

definition treasuryProvide :: "'b sdk \<Rightarrow> TreasuryParams codec \<Rightarrow> string \<Rightarrow> (addr \<times> 'b app_module) res" where
  "treasuryProvide E c configured = provided treasuryNewKeeper E configured (treasuryModule c)"

definition conversionpoolProvide :: "'b sdk \<Rightarrow> ConversionParams codec \<Rightarrow> string \<Rightarrow> (addr \<times> 'b app_module) res" where
  "conversionpoolProvide E c configured = provided conversionNewKeeper E configured (conversionpoolModule c)"

section \<open>The module manager\<close>

text \<open>The genesis of the chain modules is run in this order.\<close>

definition InitGenesisOrder :: "string list" where
  "InitGenesisOrder = [''cosvian'', ''token'', ''oracle'', ''pricefeed'', ''registry'', ''fees'', ''osmosisicq'', ''icqcontroller'']"

text \<open>The modules the application is built from, in the order they are listed; the two that are commented out are not.\<close>

definition chainModules :: "'b app \<Rightarrow> codecs \<Rightarrow> bool \<Rightarrow> 'b icq_client \<Rightarrow> (addr \<times> 'b app_module) list res" where
  "chainModules A C scoped regOnly =
     rbind (cosvianProvide (aSdk A) C []) (\<lambda>cosvian.
     rbind (tokenProvide (aSdk A) C []) (\<lambda>token.
     rbind (oracleProvide (aSdk A) C []) (\<lambda>orcl.
     rbind (pricefeedProvide (aSdk A) (aIbc A) C scoped []) (\<lambda>feed.
     rbind (registryProvide (aSdk A) C []) (\<lambda>registry.
     rbind (feesProvide (aSdk A) C []) (\<lambda>fees.
     rbind (osmosisicqProvide (aSdk A) C regOnly (appClient A) []) (\<lambda>osmo.
     rbind (icqcontrollerProvide (aSdk A) (aIbc A) C scoped []) (\<lambda>icq.
     Inr [cosvian, token, orcl, feed, registry, fees, osmo, icq]))))))))"

text \<open>
  The manager of the SDK as it documents itself: a module named in the order is found by its name, and
  one that the genesis has no document for is skipped.
\<close>

definition moduleNamed :: "'b app_module list \<Rightarrow> string \<Rightarrow> 'b app_module option" where
  "moduleNamed ms name = find (\<lambda>m. amName m = name) ms"

definition managerInit :: "'b app_module list \<Rightarrow> string list \<Rightarrow> (string \<rightharpoonup> bytes) \<Rightarrow> ('b chain, unit) act" where
  "managerInit ms order docs = forA order (\<lambda>name. case (moduleNamed ms name, docs name) of
     (Some m, Some bz) \<Rightarrow> amInit m bz | _ \<Rightarrow> return ())"

definition managerValidate :: "'b app_module list \<Rightarrow> (string \<rightharpoonup> bytes) \<Rightarrow> unit res" where
  "managerValidate ms docs = foldr (\<lambda>m rest. case docs (amName m) of
     None \<Rightarrow> rest | Some bz \<Rightarrow> rbind (amValidate m bz) (\<lambda>_. rest)) ms (Inr ())"

definition managerBegin :: "'b app_module list \<Rightarrow> string list \<Rightarrow> ('b chain, unit) act" where
  "managerBegin ms order = forA order (\<lambda>name. case moduleNamed ms name of Some m \<Rightarrow> amBeginBlock m | None \<Rightarrow> return ())"

definition genesisDocs :: "app_genesis \<Rightarrow> string \<rightharpoonup> bytes" where
  "genesisDocs G = [''cosvian'' \<mapsto> gCosvian G, ''token'' \<mapsto> gToken G, ''oracle'' \<mapsto> gOracle G,
     ''pricefeed'' \<mapsto> gPricefeed G, ''registry'' \<mapsto> gRegistry G, ''fees'' \<mapsto> gFees G,
     ''osmosisicq'' \<mapsto> gOsmosisicq G, ''icqcontroller'' \<mapsto> gIcqcontroller G]"

definition manager :: "'b app \<Rightarrow> codecs \<Rightarrow> bool \<Rightarrow> 'b app_module list" where
  "manager A C scoped = [cosvianModule C, tokenModule (aSdk A) C, oracleModule C, pricefeedModule (aIbc A) C scoped,
     registryModule C, feesModule (aSdk A) C, osmosisicqModule (aSdk A) C (appClient A), icqcontrollerModule (aIbc A) C scoped]"

lemmas module_defs = cosvianModule_def tokenModule_def oracleModule_def pricefeedModule_def registryModule_def
  feesModule_def osmosisicqModule_def icqcontrollerModule_def newModule_def

lemmas provide_defs = cosvianProvide_def tokenProvide_def oracleProvide_def pricefeedProvide_def registryProvide_def
  feesProvide_def osmosisicqProvide_def icqcontrollerProvide_def provided_def
  cosvianNewKeeper_def tokenNewKeeper_def oracleNewKeeper_def feedNewKeeper_def registryNewKeeper_def
  feesNewKeeper_def osmoNewKeeper_def icqNewKeeper_def

lemma authority_default: "authorityOf E [] = moduleAuthority E"
  by (simp add: authorityOf_def moduleAuthority_def)

lemma chainModules_eval:
  "chainModules A C scoped regOnly = (if BytesToString (aSdk A) (moduleAuthority (aSdk A)) = None then Inl Panic
     else Inr (map (Pair (moduleAuthority (aSdk A))) (manager A C scoped)))"
  by (simp add: chainModules_def provide_defs authority_default requireAuthority_def manager_def appClient_def Let_def)

lemma managed_names: "map amName (manager A C scoped) = InitGenesisOrder"
  by (simp add: manager_def module_defs InitGenesisOrder_def)

lemma moduleNamed_manager:
  "moduleNamed (manager A C scoped) ''cosvian'' = Some (cosvianModule C)"
  "moduleNamed (manager A C scoped) ''token'' = Some (tokenModule (aSdk A) C)"
  "moduleNamed (manager A C scoped) ''oracle'' = Some (oracleModule C)"
  "moduleNamed (manager A C scoped) ''pricefeed'' = Some (pricefeedModule (aIbc A) C scoped)"
  "moduleNamed (manager A C scoped) ''registry'' = Some (registryModule C)"
  "moduleNamed (manager A C scoped) ''fees'' = Some (feesModule (aSdk A) C)"
  "moduleNamed (manager A C scoped) ''osmosisicq'' = Some (osmosisicqModule (aSdk A) C (appClient A))"
  "moduleNamed (manager A C scoped) ''icqcontroller'' = Some (icqcontrollerModule (aIbc A) C scoped)"
  by (simp_all add: moduleNamed_def manager_def module_defs)

section \<open>The manager and the chain\<close>

lemma andThen_return: "andThen m (return ()) = m"
proof
  fix s
  show "andThen m (return ()) s = m s"
    by (cases "m s"; cases "fst (m s)") (auto simp: andThen_def bnd_def return_def)
qed

lemma genesisDocs_simps:
  "genesisDocs G ''cosvian'' = Some (gCosvian G)" "genesisDocs G ''token'' = Some (gToken G)"
  "genesisDocs G ''oracle'' = Some (gOracle G)" "genesisDocs G ''pricefeed'' = Some (gPricefeed G)"
  "genesisDocs G ''registry'' = Some (gRegistry G)" "genesisDocs G ''fees'' = Some (gFees G)"
  "genesisDocs G ''osmosisicq'' = Some (gOsmosisicq G)" "genesisDocs G ''icqcontroller'' = Some (gIcqcontroller G)"
  by (simp_all add: genesisDocs_def)

lemma managerInit_initModules:
  "managerInit (manager A C scoped) InitGenesisOrder (genesisDocs G) = initModules (aSdk A) (aIbc A) C scoped G"
  by (simp add: managerInit_def InitGenesisOrder_def moduleNamed_manager genesisDocs_simps initModules_def
      module_defs andThen_return)

lemma managerValidate_validateModules:
  "managerValidate (manager A C scoped) (genesisDocs G) = validateModules (aSdk A) (aIbc A) C G"
proof -
  have r: "rbind m Inr = m" for m :: "unit res" by (cases m) simp_all
  show ?thesis
    by (simp add: managerValidate_def manager_def module_defs genesisDocs_simps validateModules_def r)
qed

lemma managerBegin_beginBlock: "managerBegin (manager A C scoped) BeginBlockers = beginBlock A"
  by (simp add: managerBegin_def BeginBlockers_def beginBlock_def moduleBeginBlock_def moduleNamed_manager module_defs)



section \<open>IBC routes\<close>

text \<open>
  Packets reach a module through the router of the IBC keeper. Adding a route for a port that has one
  already panics; \<open>registerICQAsync\<close>, the hook of the build tag, adds none in either build.
\<close>

datatype ibc_app = TransferStack | IcaControllerStack | IcaHostStack | WasmStack | PricefeedIBCModule | IcqcontrollerIBCModule

definition AddRoute :: "string \<Rightarrow> ibc_app \<Rightarrow> (string \<rightharpoonup> ibc_app) \<Rightarrow> (string \<rightharpoonup> ibc_app) res" where
  "AddRoute port stack router = (if router port \<noteq> None then Inl Panic else Inr (router(port \<mapsto> stack)))"

definition registerICQAsync :: "(string \<rightharpoonup> ibc_app) \<Rightarrow> (string \<rightharpoonup> ibc_app) res" where
  "registerICQAsync router = Inr router"

definition ibcRouter :: "(string \<rightharpoonup> ibc_app) res" where
  "ibcRouter =
     rbind (AddRoute ''transfer'' TransferStack Map.empty) (\<lambda>router.
     rbind (AddRoute ''icacontroller'' IcaControllerStack router) (\<lambda>router.
     rbind (AddRoute ''icahost'' IcaHostStack router) (\<lambda>router.
     rbind (AddRoute ''wasm'' WasmStack router) (\<lambda>router.
     rbind (AddRoute ''pricefeed'' PricefeedIBCModule router) (\<lambda>router.
     rbind (AddRoute ''icqcontroller'' IcqcontrollerIBCModule router) (\<lambda>router.
     registerICQAsync router))))))"

lemma ibcRouter_routes:
  "\<exists>router. ibcRouter = Inr router \<and> router (snd feedDefaultGenesis) = Some PricefeedIBCModule \<and>
     router (snd icqDefaultGenesis) = Some IcqcontrollerIBCModule"
  by (simp add: ibcRouter_def AddRoute_def registerICQAsync_def feedDefaultGenesis_def icqDefaultGenesis_def)

section \<open>A genesis without a section\<close>

lemma keeps_amInit: "(\<And>g. keeps f (init g)) \<Longrightarrow> keeps f (amInitGenesis c init bz)"
  unfolding amInitGenesis_def failWith_def by (auto split: option.splits intro!: keeps_intros)

lemma keeps_feesParams_init:
  "keeps feesParams (cosvianInitGenesis pc)" "keeps feesParams (tokenInitGenesis E pt)" "keeps feesParams (oracleInitGenesis po)"
  "keeps feesParams (feedInitGenesis I scoped pf)" "keeps feesParams (registryInitGenesis pr)"
  "keeps feesParams (osmoInitGenesis pm)" "keeps feesParams (icqInitGenesis I scoped pq)"
  by (auto simp: cosvianInitGenesis_def tokenInitGenesis_def oracleInitGenesis_def feedInitGenesis_def registryInitGenesis_def
    osmoInitGenesis_def icqInitGenesis_def ensureCapability_def case_prod_unfold Let_def intro!: keeps_intros)

lemma keeps_feesParams_manager:
  assumes "docs ''fees'' = None"
  shows "keeps feesParams (managerInit (manager A C scoped) InitGenesisOrder docs)"
  unfolding managerInit_def InitGenesisOrder_def forA.simps moduleNamed_manager
  by (intro keeps_intros) (auto simp: assms module_defs split: option.splits intro!: keeps_intros keeps_amInit keeps_feesParams_init)

lemma DistributeFeeFromModule_unset:
  "feesParams s = None \<Longrightarrow> \<exists>e. DistributeFeeFromModule E m ty c md s = (Inl e, s)"
  by (simp add: DistributeFeeFromModule_def bnd_def act_eval)

lemma customAnte_unset:
  assumes "feesParams s = None" "isFeeTx tx"
  shows "CoinsIsZero E (txFee tx) \<Longrightarrow> customAnte rate E next_ante ctx tx False s = next_ante ctx tx False s"
    and "\<not> CoinsIsZero E (txFee tx) \<Longrightarrow> txFee tx \<noteq> [] \<Longrightarrow> isl (fst (customAnte rate E next_ante ctx tx False s))"
proof -
  have c: "customAnte rate E next_ante ctx tx False s = DeductFeeHandle E ctx tx False next_ante s"
    using assms(1) by (simp add: customAnte_def FeeAnteHandle_def bnd_def act_eval)
  show "CoinsIsZero E (txFee tx) \<Longrightarrow> customAnte rate E next_ante ctx tx False s = next_ante ctx tx False s"
    using assms(2) by (simp add: c DeductFeeHandle_def bnd_def act_eval)
  assume fee: "\<not> CoinsIsZero E (txFee tx)" "txFee tx \<noteq> []"
  then obtain f fs where f: "txFee tx = f # fs" by (cases "txFee tx") auto
  have k: "keeps feesParams (deductFees E tx (txFee tx))"
    by (simp add: deductFees_def Let_def) (auto intro!: keeps_intros)
  have u: "feesParams u = None" if d: "deductFees E tx (txFee tx) s = (r, u)" for r u
    using keepsD [where f = feesParams, OF k d] assms(1) by simp
  obtain r u where d: "deductFees E tx (txFee tx) s = (r, u)" by fastforce
  obtain e where "DistributeFeeFromModule E ''fees'' ty f Map.empty u = (Inl e, u)" for ty
    using DistributeFeeFromModule_unset [OF u [OF d]] by (simp add: DistributeFeeFromModule_def bnd_def act_eval u [OF d])
  then show "isl (fst (customAnte rate E next_ante ctx tx False s))"
    using assms(2) fee(1) d by (cases r) (simp_all add: c DeductFeeHandle_def distributeFees_def f andThen_def bnd_def Let_def act_eval)
qed


definition noFees :: "string \<rightharpoonup> bytes" where
  "noFees = (genesisDocs emptyDocs)(''fees'' := None)"


end
