(* ===== verification/Simulation.thy ===== *)
theory Simulation
  imports AppModules
begin

text \<open>
  The simulation support of the modules (\<open>x/*/module/simulation.go\<close>, \<open>x/*/simulation\<close>): the genesis a
  simulation starts from, and the weighted operations, which are placeholders that deliver nothing.
  The accounts a genesis generator lists are not used by any of them.
\<close>

section \<open>Simulated genesis\<close>

text \<open>\<open>MustMarshalJSON\<close> of a genesis state into the documents of the simulation.\<close>

definition putGenesis :: "string \<Rightarrow> 'g codec \<Rightarrow> 'g \<Rightarrow> (string \<rightharpoonup> bytes) \<Rightarrow> (string \<rightharpoonup> bytes) res" where
  "putGenesis name c g docs = rbind (ofOption Panic (toJSON c g)) (\<lambda>bz. Inr (docs(name \<mapsto> bz)))"

definition cosvianGenerateGenesisState :: "codecs \<Rightarrow> (string \<rightharpoonup> bytes) \<Rightarrow> (string \<rightharpoonup> bytes) res" where
  "cosvianGenerateGenesisState C = putGenesis ''cosvian'' (cCosvian C) ()"

definition tokenGenerateGenesisState :: "codecs \<Rightarrow> (string \<rightharpoonup> bytes) \<Rightarrow> (string \<rightharpoonup> bytes) res" where
  "tokenGenerateGenesisState C = putGenesis ''token'' (cToken C) tokenNewParams"

definition oracleGenerateGenesisState :: "codecs \<Rightarrow> (string \<rightharpoonup> bytes) \<Rightarrow> (string \<rightharpoonup> bytes) res" where
  "oracleGenerateGenesisState C = putGenesis ''oracle'' (cOracle C) ()"

definition pricefeedGenerateGenesisState :: "codecs \<Rightarrow> (string \<rightharpoonup> bytes) \<Rightarrow> (string \<rightharpoonup> bytes) res" where
  "pricefeedGenerateGenesisState C = putGenesis ''pricefeed'' (cPricefeed C) ((), ''pricefeed'')"

definition registryGenerateGenesisState :: "codecs \<Rightarrow> (string \<rightharpoonup> bytes) \<Rightarrow> (string \<rightharpoonup> bytes) res" where
  "registryGenerateGenesisState C = putGenesis ''registry'' (cRegistry C) registryDefaultParams"

definition feesGenerateGenesisState :: "codecs \<Rightarrow> (string \<rightharpoonup> bytes) \<Rightarrow> (string \<rightharpoonup> bytes) res" where
  "feesGenerateGenesisState C = putGenesis ''fees'' (cFees C) DefaultParams"

definition osmosisicqGenerateGenesisState :: "codecs \<Rightarrow> (string \<rightharpoonup> bytes) \<Rightarrow> (string \<rightharpoonup> bytes) res" where
  "osmosisicqGenerateGenesisState C = putGenesis ''osmosisicq'' (cOsmosisicq C) osmoNewParams"

definition icqcontrollerGenerateGenesisState :: "codecs \<Rightarrow> (string \<rightharpoonup> bytes) \<Rightarrow> (string \<rightharpoonup> bytes) res" where
  "icqcontrollerGenerateGenesisState C = putGenesis ''icqcontroller'' (cIcqcontroller C) ((), ''icqcontroller'')"

definition treasuryGenerateGenesisState :: "TreasuryParams codec \<Rightarrow> (string \<rightharpoonup> bytes) \<Rightarrow> (string \<rightharpoonup> bytes) res" where
  "treasuryGenerateGenesisState c = putGenesis ''treasury'' c treasuryDefaultParams"

definition conversionpoolGenerateGenesisState :: "ConversionParams codec \<Rightarrow> (string \<rightharpoonup> bytes) \<Rightarrow> (string \<rightharpoonup> bytes) res" where
  "conversionpoolGenerateGenesisState c = putGenesis ''conversionpool'' c conversionDefaultParams"

text \<open>The simulation manager asks every module.\<close>

definition simulatedGenesis :: "codecs \<Rightarrow> (string \<rightharpoonup> bytes) \<Rightarrow> (string \<rightharpoonup> bytes) res" where
  "simulatedGenesis C docs =
     rbind (cosvianGenerateGenesisState C docs) (\<lambda>docs.
     rbind (tokenGenerateGenesisState C docs) (\<lambda>docs.
     rbind (oracleGenerateGenesisState C docs) (\<lambda>docs.
     rbind (pricefeedGenerateGenesisState C docs) (\<lambda>docs.
     rbind (registryGenerateGenesisState C docs) (\<lambda>docs.
     rbind (feesGenerateGenesisState C docs) (\<lambda>docs.
     rbind (osmosisicqGenerateGenesisState C docs) (\<lambda>docs.
     icqcontrollerGenerateGenesisState C docs)))))))"

lemma simulatedGenesis_default:
  assumes "defaultModules C = Inr G"
  shows "simulatedGenesis C docs = Inr (docs ++ genesisDocs G)"
proof -
  note gens = cosvianGenerateGenesisState_def tokenGenerateGenesisState_def oracleGenerateGenesisState_def
    pricefeedGenerateGenesisState_def registryGenerateGenesisState_def feesGenerateGenesisState_def
    osmosisicqGenerateGenesisState_def icqcontrollerGenerateGenesisState_def putGenesis_def
  from assms obtain
    "toJSON (cCosvian C) () = Some (gCosvian G)" "toJSON (cToken C) tokenNewParams = Some (gToken G)"
    "toJSON (cOracle C) () = Some (gOracle G)" "toJSON (cPricefeed C) ((), ''pricefeed'') = Some (gPricefeed G)"
    "toJSON (cRegistry C) registryDefaultParams = Some (gRegistry G)" "toJSON (cFees C) DefaultParams = Some (gFees G)"
    "toJSON (cOsmosisicq C) osmoNewParams = Some (gOsmosisicq G)"
    "toJSON (cIcqcontroller C) ((), ''icqcontroller'') = Some (gIcqcontroller G)"
    by (auto simp: defaultModules_def amDefaultGenesis_def rbind_Inr_iff ofOption_Inr_iff feesDefaultGenesis_def
      tokenDefaultGenesis_def oracleDefaultGenesis_def cosvianDefaultGenesis_def registryDefaultGenesis_def
      osmoDefaultGenesis_def feedDefaultGenesis_def icqDefaultGenesis_def)
  then show ?thesis by (simp add: simulatedGenesis_def gens ofOption_def genesisDocs_def map_add_upd)
qed

section \<open>Operations\<close>

text \<open>An operation of the simulation framework: the message it reports, and whether it was delivered.\<close>

record op_msg =
  opModule :: string
  opTypeURL :: string
  opComment :: string
  opDelivered :: bool

definition NoOpMsg :: "string \<Rightarrow> string \<Rightarrow> string \<Rightarrow> op_msg" where
  "NoOpMsg module url comment = \<lparr>opModule = module, opTypeURL = url, opComment = comment, opDelivered = False\<rparr>"

text \<open>
  An operation picks one of the accounts, which panics when there is none, and builds a message for it
  that is then dropped. \<open>pick\<close> is the random index, \<open>url\<close> the type of the message.
\<close>

definition RandomAcc :: "(nat \<Rightarrow> nat) \<Rightarrow> addr list \<Rightarrow> addr res" where
  "RandomAcc pick accs = (if accs = [] then Inl Panic else Inr (accs ! (pick (length accs) mod length accs)))"

type_synonym 'b sim_op = "(nat \<Rightarrow> nat) \<Rightarrow> addr list \<Rightarrow> ('b chain, op_msg) act"

definition SimulateMsgMint :: "string \<Rightarrow> 'b sim_op" where
  "SimulateMsgMint url pick accs = bnd (lift (RandomAcc pick accs)) (\<lambda>simAccount.
     return (NoOpMsg ''token'' url ''Mint simulation not implemented''))"

definition SimulateMsgBurn :: "string \<Rightarrow> 'b sim_op" where
  "SimulateMsgBurn url pick accs = bnd (lift (RandomAcc pick accs)) (\<lambda>simAccount.
     return (NoOpMsg ''token'' url ''Burn simulation not implemented''))"

definition SimulateMsgCreateToken :: "string \<Rightarrow> 'b sim_op" where
  "SimulateMsgCreateToken url pick accs = bnd (lift (RandomAcc pick accs)) (\<lambda>simAccount.
     return (NoOpMsg ''token'' url ''CreateToken simulation not implemented''))"

definition SimulateMsgSetPrice :: "string \<Rightarrow> 'b sim_op" where
  "SimulateMsgSetPrice url pick accs = bnd (lift (RandomAcc pick accs)) (\<lambda>simAccount.
     return (NoOpMsg ''oracle'' url ''SetPrice simulation not implemented''))"

definition SimulateMsgChargeFee :: "string \<Rightarrow> 'b sim_op" where
  "SimulateMsgChargeFee url pick accs = bnd (lift (RandomAcc pick accs)) (\<lambda>simAccount.
     return (NoOpMsg ''fees'' url ''ChargeFee simulation not implemented''))"

text \<open>The weight that the parameters of the simulation set under a key, or the default.\<close>

definition GetOrGenerate :: "(string \<rightharpoonup> int) \<Rightarrow> string \<Rightarrow> int \<Rightarrow> int" where
  "GetOrGenerate appParams key dflt = (case appParams key of Some w \<Rightarrow> w | None \<Rightarrow> dflt)"

definition tokenWeightedOperations :: "(string \<Rightarrow> string) \<Rightarrow> (string \<rightharpoonup> int) \<Rightarrow> (int \<times> 'b sim_op) list" where
  "tokenWeightedOperations url appParams =
     [(GetOrGenerate appParams ''op_weight_msg_token'' 100, SimulateMsgMint (url ''MsgMint'')),
      (GetOrGenerate appParams ''op_weight_msg_token'' 100, SimulateMsgBurn (url ''MsgBurn'')),
      (GetOrGenerate appParams ''op_weight_msg_token'' 100, SimulateMsgCreateToken (url ''MsgCreateToken''))]"

definition oracleWeightedOperations :: "(string \<Rightarrow> string) \<Rightarrow> (string \<rightharpoonup> int) \<Rightarrow> (int \<times> 'b sim_op) list" where
  "oracleWeightedOperations url appParams =
     [(GetOrGenerate appParams ''op_weight_msg_oracle'' 100, SimulateMsgSetPrice (url ''MsgSetPrice''))]"

definition feesWeightedOperations :: "(string \<Rightarrow> string) \<Rightarrow> (string \<rightharpoonup> int) \<Rightarrow> (int \<times> 'b sim_op) list" where
  "feesWeightedOperations url appParams =
     [(GetOrGenerate appParams ''op_weight_msg_fees'' 100, SimulateMsgChargeFee (url ''MsgChargeFee''))]"

text \<open>The other modules have no operations.\<close>

definition noWeightedOperations :: "(int \<times> 'b sim_op) list" where
  "noWeightedOperations = []"

definition weightedOperations :: "(string \<Rightarrow> string) \<Rightarrow> (string \<rightharpoonup> int) \<Rightarrow> (int \<times> 'b sim_op) list" where
  "weightedOperations url appParams = tokenWeightedOperations url appParams @ oracleWeightedOperations url appParams @
     feesWeightedOperations url appParams @ noWeightedOperations"

text \<open>A run of the simulation: a sequence of operations it chose, with the accounts it has.\<close>

definition simulate :: "('b sim_op \<times> (nat \<Rightarrow> nat)) list \<Rightarrow> addr list \<Rightarrow> ('b chain, unit) act" where
  "simulate run accs = forA run (\<lambda>(operation, pick). bnd (operation pick accs) (\<lambda>_. return ()))"

lemma operation_does_nothing:
  assumes "(w, operation) \<in> set (weightedOperations url appParams)" "accs \<noteq> []"
  obtains m where "operation pick accs s = (Inr m, s)" "\<not> opDelivered m"
  using assms by (auto simp: weightedOperations_def tokenWeightedOperations_def oracleWeightedOperations_def
    feesWeightedOperations_def noWeightedOperations_def SimulateMsgMint_def SimulateMsgBurn_def SimulateMsgCreateToken_def
    SimulateMsgSetPrice_def SimulateMsgChargeFee_def RandomAcc_def NoOpMsg_def bnd_def act_eval)

text \<open>
  A simulation starts from the default genesis of every module, and no sequence of its operations
  changes the state.
\<close>

theorem simulation_stays_at_the_default_genesis:
  assumes "defaultModules C = Inr G" "accs \<noteq> []"
    and "\<And>operation pick. (operation, pick) \<in> set run \<Longrightarrow> operation \<in> snd ` set (weightedOperations url appParams)"
  shows "simulatedGenesis C Map.empty = Inr (genesisDocs G) \<and> simulate run accs s = (Inr (), s)"
proof
  show "simulatedGenesis C Map.empty = Inr (genesisDocs G)" using simulatedGenesis_default [OF assms(1), of Map.empty] by simp
  show "simulate run accs s = (Inr (), s)" using assms(3)
  proof (induction run)
    case (Cons r run)
    obtain operation pick where r: "r = (operation, pick)" by (cases r)
    with Cons.prems obtain w where "(w, operation) \<in> set (weightedOperations url appParams)" by force
    then obtain m where "operation pick accs s = (Inr m, s)" using operation_does_nothing [OF _ assms(2)] by metis
    moreover have "simulate run accs s = (Inr (), s)" using Cons by auto
    ultimately show ?case by (simp add: simulate_def r andThen_def bnd_def act_eval)
  qed (simp add: simulate_def act_eval)
qed

theorem simulation_stays_at_the_default_genesis_witness:
  "simulatedGenesis defaultCodecs Map.empty = Inr (genesisDocs emptyDocs) \<and>
   simulate [(SimulateMsgMint ''MsgMint'', \<lambda>n. 3), (SimulateMsgChargeFee ''MsgChargeFee'', \<lambda>n. 0)] [''alice''] (initChain emptyLedger)
     = (Inr (), initChain emptyLedger)"
proof (rule simulation_stays_at_the_default_genesis [OF default_docs, where url = "\<lambda>u. u" and appParams = Map.empty])
  fix operation and pick :: "nat \<Rightarrow> nat"
  assume "(operation, pick) \<in> set [(SimulateMsgMint ''MsgMint'', \<lambda>n. 3), (SimulateMsgChargeFee ''MsgChargeFee'', \<lambda>n. 0)]"
  then have "operation = SimulateMsgMint ''MsgMint'' \<or> operation = SimulateMsgChargeFee ''MsgChargeFee''" by auto
  then show "operation \<in> snd ` set (weightedOperations (\<lambda>u. u) Map.empty)"
    by (auto simp: weightedOperations_def tokenWeightedOperations_def feesWeightedOperations_def)
qed simp

end
