(* ===== verification/Files.thy ===== *)
theory Files
  imports Prelude "HOL-Library.Sublist"
begin

text \<open>
  The files of the commands that write them: a path is the list of its components, the file system a
  set of directories and the contents of files. The operations are those of Go's \<open>os\<close>, \<open>io\<close> and
  \<open>filepath\<close> that the program calls, with the errors it can run into; what the operating system
  refuses on other grounds is the predicate \<open>refused\<close>, and a refused operation changes nothing. The
  last section is the helpers of \<open>cmd/cosviand/cmd/testnet_multi_node.go\<close>.
\<close>

type_synonym path = "string list"

record file_system =
  fsDirs :: "path set"
  fsFiles :: "path \<rightharpoonup> bytes"

section \<open>Operations of the standard library\<close>

definition MkdirAll :: "(path \<Rightarrow> bool) \<Rightarrow> path \<Rightarrow> (file_system, unit) act" where
  "MkdirAll refused p fs =
     (if refused p \<or> list_ex (\<lambda>q. fsFiles fs q \<noteq> None) (prefixes p) then (Inl (LibErr ''MkdirAll''), fs)
      else (Inr (), fs\<lparr>fsDirs := fsDirs fs \<union> set (prefixes p)\<rparr>))"

definition WriteFile :: "(path \<Rightarrow> bool) \<Rightarrow> path \<Rightarrow> bytes \<Rightarrow> (file_system, unit) act" where
  "WriteFile refused p contents fs =
     (if refused p \<or> p \<in> fsDirs fs \<or> butlast p \<notin> fsDirs fs then (Inl (LibErr ''WriteFile''), fs)
      else (Inr (), fs\<lparr>fsFiles := (fsFiles fs)(p \<mapsto> contents)\<rparr>))"

definition ReadFile :: "path \<Rightarrow> (file_system, bytes) act" where
  "ReadFile p = bnd (gets (\<lambda>fs. fsFiles fs p)) (\<lambda>c. lift (ofOption (LibErr ''Open'') c))"

definition RemoveAll :: "(path \<Rightarrow> bool) \<Rightarrow> path \<Rightarrow> (file_system, unit) act" where
  "RemoveAll refused p fs =
     (if refused p then (Inl (LibErr ''RemoveAll''), fs)
      else (Inr (), fs\<lparr>fsDirs := {q \<in> fsDirs fs. \<not> prefix p q}, fsFiles := (\<lambda>q. if prefix p q then None else fsFiles fs q)\<rparr>))"

text \<open>\<open>filepath.Rel\<close> of two absolute paths: up to what they share, then down.\<close>

fun relComponents :: "path \<Rightarrow> path \<Rightarrow> path" where
  "relComponents [] targ = targ"
| "relComponents (b # base) [] = replicate (Suc (length base)) ''..''"
| "relComponents (b # base) (t # targ) =
     (if b = t then relComponents base targ else replicate (Suc (length base)) ''..'' @ (t # targ))"

fun joinPath :: "path \<Rightarrow> string" where
  "joinPath [] = ''.''"
| "joinPath [c] = c"
| "joinPath (c # cs) = c @ ''/'' @ joinPath cs"

definition Rel :: "path \<Rightarrow> path \<Rightarrow> string" where
  "Rel base targ = joinPath (relComponents base targ)"

section \<open>Helpers of the command\<close>

definition writeFile :: "(path \<Rightarrow> bool) \<Rightarrow> path \<Rightarrow> path \<Rightarrow> bytes \<Rightarrow> (file_system, unit) act" where
  "writeFile refused file dir contents =
     andThen (wrapA ''could not create directory'' (MkdirAll refused dir)) (WriteFile refused file contents)"

text \<open>Creating the destination empties it before the source is read.\<close>

definition copyFile :: "(path \<Rightarrow> bool) \<Rightarrow> path \<Rightarrow> path \<Rightarrow> (file_system, nat) act" where
  "copyFile refused src dstDir =
     (let dst = dstDir @ [last src] in
      bnd (ReadFile src) (\<lambda>_.
      andThen (WriteFile refused dst [])
     (bnd (ReadFile src) (\<lambda>contents.
      andThen (WriteFile refused dst contents)
     (return (length contents))))))"

definition isSubDir :: "path \<Rightarrow> path \<Rightarrow> bool" where
  "isSubDir src dstDir = (\<not> HasPrefix (Rel dstDir src) ''..'')"

definition generateRandomString :: "(nat \<Rightarrow> nat) \<Rightarrow> nat \<Rightarrow> string" where
  "generateRandomString Intn n =
     (let charset = ''abcdefghijklmnopqrstuvwxyz0123456789'' in map (\<lambda>i. charset ! (Intn i mod length charset)) [0..<n])"

section \<open>Lemmas\<close>

lemma relComponents_inside: "relComponents base (base @ rest) = rest"
  by (induction base) simp_all

lemma relComponents_outside:
  "\<not> prefix base targ \<Longrightarrow> \<exists>rest. relComponents base targ = ''..'' # rest"
  by (induction base targ rule: relComponents.induct) (auto split: if_splits)

lemma HasPrefix_joinPath: "HasPrefix (joinPath (''..'' # rest)) ''..''"
  by (cases rest) (simp_all add: HasPrefix_def)

text \<open>A file directly in a directory counts as inside unless its name starts with two dots.\<close>

lemma isSubDir_own: "isSubDir (dir @ [name]) dir \<longleftrightarrow> \<not> HasPrefix name ''..''"
  by (simp add: isSubDir_def Rel_def relComponents_inside)

lemma isSubDir_other: "\<not> prefix dir src \<Longrightarrow> \<not> isSubDir src dir"
  using relComponents_outside [of dir src] by (auto simp: isSubDir_def Rel_def HasPrefix_joinPath)

lemma WriteFile_Inr:
  "WriteFile refused p c fs = (Inr u, t) \<longleftrightarrow> \<not> refused p \<and> p \<notin> fsDirs fs \<and> butlast p \<in> fsDirs fs \<and>
     t = fs\<lparr>fsFiles := (fsFiles fs)(p \<mapsto> c)\<rparr>"
  by (auto simp: WriteFile_def)

lemma ReadFile_Inr: "ReadFile p fs = (Inr c, t) \<longleftrightarrow> fsFiles fs p = Some c \<and> t = fs"
  by (auto simp: ReadFile_def act_splits)

lemma copyFile_Inr:
  assumes "copyFile refused src dir fs = (Inr n, t)" "dir @ [last src] \<noteq> src"
  obtains c where "fsFiles fs src = Some c" "n = length c" "t = fs\<lparr>fsFiles := (fsFiles fs)(dir @ [last src] \<mapsto> c)\<rparr>"
  using assms by (auto simp: copyFile_def Let_def act_splits WriteFile_Inr ReadFile_Inr)

text \<open>A file copied onto itself would be left empty.\<close>

lemma copyFile_self:
  "copyFile refused (dir @ [name]) dir fs = (Inr n, t) \<Longrightarrow> fsFiles t (dir @ [name]) = Some []"
  by (auto simp: copyFile_def Let_def act_splits WriteFile_Inr ReadFile_Inr)

text \<open>Removing a directory leaves nothing under it, whoever wrote it.\<close>

lemma RemoveAll_Inr:
  "\<not> refused p \<Longrightarrow> RemoveAll refused p fs = (Inr (), t) \<Longrightarrow> prefix p q \<Longrightarrow> fsFiles t q = None \<and> q \<notin> fsDirs t"
  by (auto simp: RemoveAll_def)

end
