(* ===== verification/MultiNode.thy ===== *)
theory MultiNode
  imports PriceFeed RefSdk Files
begin

text \<open>
  The network of local processes (\<open>cmd/cosviand/cmd/testnet_multi_node.go\<close>): how the flags become
  stakes and ports, and the settings each node gets; \<open>NetworkFiles\<close> has the files it writes. \<open>IntFromString\<close> is
  \<open>math.NewIntFromString\<close>, \<open>powerReduction\<close> the SDK's \<open>DefaultPowerReduction\<close>.
\<close>

section \<open>Flags\<close>

record initArgs =
  algo :: string
  chainID :: string
  keyringBackend :: string
  minGasPrices :: string
  outputDir :: path
  nodeDirPrefix :: string
  numValidators :: nat
  startingIPAddress :: string
  validatorsStakesAmount :: "nat \<rightharpoonup> coin"
  nodePorts :: "nat \<rightharpoonup> string"

text \<open>The amounts in order; one that is not a number is skipped, and a coin that cannot be built panics.\<close>

fun stakesFrom :: "'b sdk \<Rightarrow> (string \<Rightarrow> int option) \<Rightarrow> nat \<Rightarrow> (nat \<rightharpoonup> coin) \<Rightarrow> string list \<Rightarrow> (nat \<rightharpoonup> coin) res" where
  "stakesFrom E IntFromString pos stakes [] = Inr stakes"
| "stakesFrom E IntFromString pos stakes (amount # rest) = (case IntFromString amount of
     None \<Rightarrow> stakesFrom E IntFromString pos stakes rest
   | Some a \<Rightarrow> rbind (ofOption Panic (NewCoin E ''ucsv'' a)) (\<lambda>c.
       stakesFrom E IntFromString (pos + 1) (stakes(pos \<mapsto> c)) rest))"

definition parseStakes :: "'b sdk \<Rightarrow> (string \<Rightarrow> int option) \<Rightarrow> string \<Rightarrow> (nat \<rightharpoonup> coin) res" where
  "parseStakes E IntFromString s = stakesFrom E IntFromString 0 Map.empty (SplitOn CHR '','' s)"

definition parsePorts :: "nat \<Rightarrow> string \<Rightarrow> nat \<rightharpoonup> string" where
  "parsePorts n s i =
     (if s = [] then (if i < n then Some (fmtInt (26657 - 3 * int i)) else None)
      else let ports = SplitOn CHR '','' s in if i < length ports then Some (ports ! i) else None)"

section \<open>Settings of a node\<close>

record nodeSettings =
  nsMoniker :: string
  nsMemo :: string
  nsRPC :: string
  nsP2P :: string
  nsProxyApp :: string
  nsPrometheus :: string
  nsGRPC :: string
  nsAPI :: string
  nsCoins :: "coin list"
  nsStake :: coin

text \<open>The numbers of the ports the settings are made of; the RPC port is the flag's.\<close>

definition p2pPort :: "nat \<Rightarrow> int" where
  "p2pPort i = 26656 - 3 * int i"

definition proxyPort :: "nat \<Rightarrow> int" where
  "proxyPort i = 26658 - 3 * int i"

definition prometheusPort :: "nat \<Rightarrow> int" where
  "prometheusPort i = 26660 + int i"

definition grpcPort :: "nat \<Rightarrow> int" where
  "grpcPort i = 9090 - 2 * int i"

definition apiPort :: "nat \<Rightarrow> int" where
  "apiPort i = 1317 - int i"

definition nodeMemo :: "initArgs \<Rightarrow> string \<Rightarrow> nat \<Rightarrow> string" where
  "nodeMemo args nodeID i = nodeID @ ''@'' @ startingIPAddress args @ '':'' @ fmtInt (p2pPort i)"

definition portOf :: "initArgs \<Rightarrow> nat \<Rightarrow> string" where
  "portOf args i = (case nodePorts args i of None \<Rightarrow> [] | Some p \<Rightarrow> p)"

definition validatorStake :: "'b sdk \<Rightarrow> int \<Rightarrow> initArgs \<Rightarrow> nat \<Rightarrow> coin res" where
  "validatorStake E powerReduction args i = (case validatorsStakesAmount args i of
     Some c \<Rightarrow> Inr c
   | None \<Rightarrow> ofOption Panic (NewCoin E ''ucsv'' (100 * powerReduction)))"

text \<open>\<open>coins.Sort()\<close> orders by denomination.\<close>

definition accountCoins :: "'b sdk \<Rightarrow> int \<Rightarrow> coin list res" where
  "accountCoins E powerReduction =
     rbind (ofOption Panic (NewCoin E ''testtoken'' (1000 * powerReduction))) (\<lambda>t.
     rbind (ofOption Panic (NewCoin E ''ucsv'' (500 * powerReduction))) (\<lambda>u.
     Inr [t, u]))"

definition nodeSettingsOf :: "'b sdk \<Rightarrow> int \<Rightarrow> initArgs \<Rightarrow> string \<Rightarrow> nat \<Rightarrow> nodeSettings res" where
  "nodeSettingsOf E powerReduction args nodeID i =
     rbind (accountCoins E powerReduction) (\<lambda>coins.
     rbind (validatorStake E powerReduction args i) (\<lambda>stake.
     Inr \<lparr>nsMoniker = nodeDirPrefix args @ fmtInt (int i), nsMemo = nodeMemo args nodeID i,
       nsRPC = ''tcp://127.0.0.1:'' @ portOf args i, nsP2P = ''tcp://0.0.0.0:'' @ fmtInt (p2pPort i),
       nsProxyApp = ''tcp://127.0.0.1:'' @ fmtInt (proxyPort i), nsPrometheus = '':'' @ fmtInt (prometheusPort i),
       nsGRPC = startingIPAddress args @ '':'' @ fmtInt (grpcPort i), nsAPI = ''tcp://localhost:'' @ fmtInt (apiPort i),
       nsCoins = coins, nsStake = stake\<rparr>))"

definition persistentPeers :: "initArgs \<Rightarrow> string list \<Rightarrow> string" where
  "persistentPeers args nodeIDs = foldl (\<lambda>peers (i, nodeID).
     if peers = [] then nodeMemo args nodeID i else peers @ '','' @ nodeMemo args nodeID i) [] (enumerate 0 nodeIDs)"

text \<open>The supply of the genesis file: the coins of all balances, added up.\<close>

definition genesisSupply :: "(coin list \<Rightarrow> coin list \<Rightarrow> coin list) \<Rightarrow> coin list \<Rightarrow> coin list list \<Rightarrow> coin list" where
  "genesisSupply CoinsAdd supply bals = foldl CoinsAdd supply bals"

section \<open>Ports do not clash\<close>

text \<open>The ports of a node with the default flags, one for each service.\<close>

definition nodePortNumbers :: "nat \<Rightarrow> int list" where
  "nodePortNumbers i = [26657 - 3 * int i, p2pPort i, proxyPort i, prometheusPort i, grpcPort i, apiPort i]"

text \<open>
  Without a list of ports, the RPC, P2P, proxy, metrics, gRPC and API ports of up to 1317
  nodes are all different and valid port numbers, so the processes can share one machine.
\<close>

theorem default_ports_do_not_clash:
  assumes "i < 1317" "j < 1317" "a < 6" "b < 6"
  shows "0 < nodePortNumbers i ! a \<and> nodePortNumbers i ! a < 65536 \<and>
    (nodePortNumbers i ! a = nodePortNumbers j ! b \<longleftrightarrow> i = j \<and> a = b) \<and>
    parsePorts 1317 [] i = Some (fmtInt (nodePortNumbers i ! 0))"
proof -
  note ports = nodePortNumbers_def p2pPort_def proxyPort_def prometheusPort_def grpcPort_def apiPort_def
  from assms(3,4) have ab: "a \<in> {0, 1, 2, 3, 4, 5}" "b \<in> {0, 1, 2, 3, 4, 5}" by auto
  have "0 < nodePortNumbers i ! a \<and> nodePortNumbers i ! a < 65536"
    using ab(1) assms(1) by (elim insertE emptyE) (simp_all add: ports)
  moreover have "nodePortNumbers i ! a = nodePortNumbers j ! b \<longleftrightarrow> i = j \<and> a = b"
    using ab by (elim insertE emptyE; use assms(1,2) in \<open>simp add: ports, presburger?\<close>)
  ultimately show ?thesis using assms(1) by (simp add: parsePorts_def nodePortNumbers_def)
qed

theorem default_ports_do_not_clash_witness:
  "nodePortNumbers 3 ! 4 \<noteq> nodePortNumbers 2 ! 4 \<and> parsePorts 1317 [] 3 = Some (fmtInt 26648)"
  using default_ports_do_not_clash [of 3 2 4 4] by (simp add: nodePortNumbers_def)

text \<open>An amount that is not a number does not fall back to the default: the amounts after it move to earlier validators.\<close>

lemma bad_amounts_are_skipped:
  "IntFromString x = None \<Longrightarrow> stakesFrom E IntFromString pos stakes (x # rest) = stakesFrom E IntFromString pos stakes rest"
  by simp

end
