(* ===== verification/NetworkFiles.thy ===== *)
theory NetworkFiles
  imports MultiNode
begin

text \<open>
  The files of a network of local processes: the rest of \<open>cmd/cosviand/cmd/testnet_multi_node.go\<close>. Each
  node gets a directory, keys, a signed transaction that creates its validator and its application
  settings; then the common genesis is written, the transactions are copied to every node, and each
  node's genesis and settings are completed. The calls into the SDK, CometBFT and the keyring are a
  record of parameters over the file system.
\<close>

section \<open>Calls into libraries\<close>

record node_env =
  Refused :: "path \<Rightarrow> bool"
  RandomInt :: "nat \<Rightarrow> nat"
  InitializeNodeValidatorFiles :: "path \<Rightarrow> (file_system, string \<times> bytes) act"
  NewKeyring :: "string \<Rightarrow> path \<Rightarrow> (file_system, unit) act"
  NewSigningAlgoFromString :: "string \<Rightarrow> unit res"
  GenerateSaveCoinKey :: "path \<Rightarrow> string \<Rightarrow> (file_system, string \<times> string) act"
  NewMsgCreateValidator :: "string \<Rightarrow> bytes \<Rightarrow> coin \<Rightarrow> string \<Rightarrow> bytes res"
  SetMsgs :: "bytes \<Rightarrow> unit res"
  SignTx :: "string \<Rightarrow> string \<Rightarrow> string \<Rightarrow> bytes \<Rightarrow> (file_system, bytes) act"
  TxJSONEncoder :: "bytes \<Rightarrow> bytes res"
  AppToml :: "string \<Rightarrow> string \<Rightarrow> string \<Rightarrow> bytes"
  PackAccounts :: "string list \<Rightarrow> bytes res"
  SanitizeGenesisBalances :: "(string \<times> coin list) list \<Rightarrow> (string \<times> coin list) list"
  CoinsAdd :: "coin list \<Rightarrow> coin list \<Rightarrow> coin list"
  AppGenesisJSON :: "bytes \<Rightarrow> (string \<times> coin list) list \<Rightarrow> coin list \<Rightarrow> bytes res"
  GenesisDocJSON :: "string \<Rightarrow> bytes \<Rightarrow> bytes"
  AppGenesisFromJSON :: "bytes \<Rightarrow> bytes res"
  GenAppStateFromConfig :: "path \<Rightarrow> string \<Rightarrow> string \<Rightarrow> bytes \<Rightarrow> bytes \<Rightarrow> (file_system, bytes) act"
  ConfigToml :: "nodeSettings \<Rightarrow> string \<Rightarrow> bytes"
  ExportGenesisFileWithTime :: "path \<Rightarrow> string \<Rightarrow> bytes \<Rightarrow> (file_system, unit) act"

section \<open>One node\<close>

definition nodeDirName :: "initArgs \<Rightarrow> nat \<Rightarrow> string" where
  "nodeDirName args i = nodeDirPrefix args @ fmtInt (int i)"

definition nodeDir :: "initArgs \<Rightarrow> nat \<Rightarrow> path" where
  "nodeDir args i = outputDir args @ [nodeDirName args i]"

definition gentxsDir :: "initArgs \<Rightarrow> nat \<Rightarrow> path" where
  "gentxsDir args i = outputDir args @ [nodeDirName args i, ''config'', ''gentx'']"

definition genesisFile :: "initArgs \<Rightarrow> nat \<Rightarrow> path" where
  "genesisFile args i = nodeDir args i @ [''config'', ''genesis.json'']"

text \<open>What the command remembers of a node that is set up.\<close>

record nodeInit =
  niNodeID :: string
  niPubKey :: bytes
  niAddress :: string
  niCoins :: "coin list"
  niGentx :: path
  niTx :: bytes

text \<open>\<open>_ = os.RemoveAll(args.outputDir)\<close> before an error is returned.\<close>

definition cleaning :: "node_env \<Rightarrow> initArgs \<Rightarrow> (file_system, 'a) act \<Rightarrow> (file_system, 'a) act" where
  "cleaning N args m = catchA m (\<lambda>e. andThen (ignoreA (RemoveAll (Refused N) (outputDir args))) (raise e)) return"

text \<open>The gas price of the flag is set first and overwritten by a fixed one in the same field.\<close>

definition appMinGasPrices :: "initArgs \<Rightarrow> string" where
  "appMinGasPrices args = (let MinGasPrices = minGasPrices args; MinGasPrices = ''0.0001'' @ ''ucsv'' in MinGasPrices)"

text \<open>The template writers of the settings panic when they cannot write.\<close>

definition WriteConfigFile :: "node_env \<Rightarrow> path \<Rightarrow> bytes \<Rightarrow> (file_system, unit) act" where
  "WriteConfigFile N p contents = failWith Panic (WriteFile (Refused N) p contents)"

definition initNode :: "'b sdk \<Rightarrow> int \<Rightarrow> node_env \<Rightarrow> initArgs \<Rightarrow> string \<Rightarrow> nat \<Rightarrow> (file_system, nodeInit) act" where
  "initNode E powerReduction N args chain i =
     (let dir = nodeDir args i; gentxs = gentxsDir args i in
      andThen (cleaning N args (MkdirAll (Refused N) (dir @ [''config''])))
     (bnd (cleaning N args (InitializeNodeValidatorFiles N dir)) (\<lambda>(nodeID, pubKey).
      let memo = nodeMemo args nodeID i in
      andThen (NewKeyring N (keyringBackend args) dir)
     (andThen (lift (NewSigningAlgoFromString N (algo args)))
     (bnd (cleaning N args (GenerateSaveCoinKey N dir (nodeDirName args i))) (\<lambda>(addr, secret).
      let cliPrint = ''{'' @ jsonString ''secret'' @ '':'' @ jsonString secret @ ''}'' in
      andThen (writeFile (Refused N) (dir @ [''key_seed.json'']) dir cliPrint)
     (bnd (lift (accountCoins E powerReduction)) (\<lambda>coins.
      bnd (lift (validatorStake E powerReduction args i)) (\<lambda>valTokens.
      bnd (lift (NewMsgCreateValidator N addr pubKey valTokens (nodeDirName args i))) (\<lambda>createValMsg.
      andThen (lift (SetMsgs N createValMsg))
     (bnd (SignTx N chain memo (nodeDirName args i) createValMsg) (\<lambda>tx.
      bnd (lift (TxJSONEncoder N tx)) (\<lambda>txBz.
      let file = gentxs @ [''gentx-'' @ nodeID @ ''.json''] in
      andThen (writeFile (Refused N) file gentxs txBz)
     (andThen (WriteConfigFile N (dir @ [''config'', ''app.toml''])
        (AppToml N (appMinGasPrices args) (startingIPAddress args @ '':'' @ fmtInt (grpcPort i))
          (''tcp://localhost:'' @ fmtInt (apiPort i))))
     (return \<lparr>niNodeID = nodeID, niPubKey = pubKey, niAddress = addr, niCoins = coins, niGentx = file,
        niTx = txBz\<rparr>)))))))))))))))"

text \<open>A loop that collects the results of its body.\<close>

primrec collectA :: "'x list \<Rightarrow> ('x \<Rightarrow> ('s, 'a) act) \<Rightarrow> ('s, 'a list) act" where
  "collectA [] f = return []"
| "collectA (x # xs) f = bnd (f x) (\<lambda>y. bnd (collectA xs f) (\<lambda>ys. return (y # ys)))"

section \<open>All nodes\<close>

definition initGenFiles :: "node_env \<Rightarrow> initArgs \<Rightarrow> string \<Rightarrow> nodeInit list \<Rightarrow> (file_system, unit) act" where
  "initGenFiles N args chain nodes =
     bnd (lift (PackAccounts N (map niAddress nodes))) (\<lambda>accounts.
     let balances = SanitizeGenesisBalances N (map (\<lambda>n. (niAddress n, niCoins n)) nodes);
         supply = genesisSupply (CoinsAdd N) [] (map snd balances) in
     bnd (lift (AppGenesisJSON N accounts balances supply)) (\<lambda>appState.
     forA [0..<numValidators args] (\<lambda>i. WriteFile (Refused N) (genesisFile args i) (GenesisDocJSON N chain appState))))"

definition copyGentx :: "node_env \<Rightarrow> initArgs \<Rightarrow> nat \<Rightarrow> path \<Rightarrow> (file_system, unit) act" where
  "copyGentx N args i file =
     (if isSubDir file (gentxsDir args i) then return ()
      else bnd (copyFile (Refused N) file (gentxsDir args i)) (\<lambda>_. return ()))"

definition copyGentxs :: "node_env \<Rightarrow> initArgs \<Rightarrow> nodeInit list \<Rightarrow> (file_system, unit) act" where
  "copyGentxs N args nodes = forA [0..<numValidators args] (\<lambda>i. forA (map niGentx nodes) (copyGentx N args i))"

text \<open>The application state of the first node is written to the genesis of all of them.\<close>

fun collectFrom :: "'b sdk \<Rightarrow> int \<Rightarrow> node_env \<Rightarrow> initArgs \<Rightarrow> string \<Rightarrow> string \<Rightarrow> bytes option \<Rightarrow> (nat \<times> nodeInit) list
    \<Rightarrow> (file_system, unit) act" where
  "collectFrom E powerReduction N args chain peers appState [] = return ()"
| "collectFrom E powerReduction N args chain peers appState ((i, n) # rest) =
     bnd (ReadFile (genesisFile args i)) (\<lambda>doc.
     bnd (lift (AppGenesisFromJSON N doc)) (\<lambda>appGenesis.
     bnd (GenAppStateFromConfig N (nodeDir args i) chain (niNodeID n) (niPubKey n) appGenesis) (\<lambda>nodeAppState.
     bnd (lift (nodeSettingsOf E powerReduction args (niNodeID n) i)) (\<lambda>settings.
     andThen (WriteConfigFile N (nodeDir args i @ [''config'', ''config.toml'']) (ConfigToml N settings peers))
    (let state = (case appState of None \<Rightarrow> nodeAppState | Some a \<Rightarrow> a) in
     andThen (ExportGenesisFileWithTime N (genesisFile args i) chain state)
    (collectFrom E powerReduction N args chain peers (Some state) rest))))))"

definition collectGenFiles :: "'b sdk \<Rightarrow> int \<Rightarrow> node_env \<Rightarrow> initArgs \<Rightarrow> string \<Rightarrow> nodeInit list \<Rightarrow> (file_system, unit) act" where
  "collectGenFiles E powerReduction N args chain nodes = collectFrom E powerReduction N args chain
     (persistentPeers args (map niNodeID nodes)) None (enumerate 0 nodes)"

definition initTestnetFiles :: "'b sdk \<Rightarrow> int \<Rightarrow> node_env \<Rightarrow> initArgs \<Rightarrow> (file_system, unit) act" where
  "initTestnetFiles E powerReduction N args =
     (let chain = (if chainID args = [] then ''chain-'' @ generateRandomString (RandomInt N) 6 else chainID args) in
      bnd (collectA [0..<numValidators args] (initNode E powerReduction N args chain)) (\<lambda>nodes.
      andThen (initGenFiles N args chain nodes)
     (andThen (copyGentxs N args nodes)
     (collectGenFiles E powerReduction N args chain nodes))))"

end
