(* ===== verification/NetworkCorrect.thy ===== *)
theory NetworkCorrect
  imports NetworkFiles
begin

text \<open>
  What a network of local processes has on disk: when the command succeeds, every node holds the
  transaction of every node, so all of them compute the same genesis; and when setting up a node fails
  early, the output directory is gone with everything that was in it.
\<close>

section \<open>Transactions in the nodes' directories\<close>

definition gentxAt :: "initArgs \<Rightarrow> file_system \<Rightarrow> nat \<times> string \<Rightarrow> bytes option" where
  "gentxAt args fs = (\<lambda>(i, name). fsFiles fs (gentxsDir args i @ [name]))"

definition gentxName :: "nodeInit \<Rightarrow> string" where
  "gentxName n = ''gentx-'' @ niNodeID n @ ''.json''"

text \<open>The libraries write keys, settings and genesis files, but no transactions.\<close>

definition writes_no_gentx :: "node_env \<Rightarrow> initArgs \<Rightarrow> bool" where
  "writes_no_gentx N args \<longleftrightarrow>
     (\<forall>p. keeps (gentxAt args) (InitializeNodeValidatorFiles N p)) \<and>
     (\<forall>k p. keeps (gentxAt args) (NewKeyring N k p)) \<and>
     (\<forall>p n. keeps (gentxAt args) (GenerateSaveCoinKey N p n)) \<and>
     (\<forall>c m k b. keeps (gentxAt args) (SignTx N c m k b)) \<and>
     (\<forall>p c i k g. keeps (gentxAt args) (GenAppStateFromConfig N p c i k g)) \<and>
     (\<forall>p c a. keeps (gentxAt args) (ExportGenesisFileWithTime N p c a))"

lemma writes_no_gentxD:
  assumes "writes_no_gentx N args"
  shows "keeps (gentxAt args) (InitializeNodeValidatorFiles N p)" "keeps (gentxAt args) (NewKeyring N k p)"
    "keeps (gentxAt args) (GenerateSaveCoinKey N p x)" "keeps (gentxAt args) (SignTx N c m k b)"
    "keeps (gentxAt args) (GenAppStateFromConfig N p c x k b)" "keeps (gentxAt args) (ExportGenesisFileWithTime N p c b)"
  using assms by (simp_all add: writes_no_gentx_def)

lemma fmtInt_nat: "fmtInt (int i) = fmtNat i"
  by (simp add: fmtInt_def)

lemma nodeDirName_inject [simp]: "nodeDirName args i = nodeDirName args j \<longleftrightarrow> i = j"
  by (simp add: nodeDirName_def fmtInt_nat)

lemma keeps_MkdirAll [keeps_intros]: "keeps (gentxAt args) (MkdirAll refused p)"
  by (simp add: keeps_def MkdirAll_def gentxAt_def)

lemma keeps_ReadFile [keeps_intros]: "keeps g (ReadFile p)"
  unfolding ReadFile_def by (intro keeps_intros)

lemma keeps_WriteFile:
  "\<forall>i name. p \<noteq> gentxsDir args i @ [name] \<Longrightarrow> keeps (gentxAt args) (WriteFile refused p c)"
  by (auto simp: keeps_def WriteFile_def gentxAt_def fun_eq_iff)

lemma not_gentx:
  "nodeDir args j @ [a] \<noteq> gentxsDir args i @ [name]"
  "nodeDir args j @ [a, b] \<noteq> gentxsDir args i @ [name]"
  "genesisFile args j \<noteq> gentxsDir args i @ [name]"
  by (simp_all add: nodeDir_def gentxsDir_def genesisFile_def)

lemma keeps_WriteConfigFile [keeps_intros]: "keeps (gentxAt args) (WriteConfigFile N (nodeDir args j @ [a, b]) c)"
  unfolding WriteConfigFile_def by (intro keeps_intros keeps_WriteFile allI not_gentx)

lemma keeps_seed: "keeps (gentxAt args) (writeFile refused (nodeDir args j @ [a]) d c)"
  unfolding writeFile_def by (intro keeps_intros keeps_WriteFile allI not_gentx)

lemma cleaning_Inr_iff: "cleaning N args m s = (Inr x, t) \<longleftrightarrow> m s = (Inr x, t)"
  by (auto simp: cleaning_def catchA_Inr_iff act_splits)

lemma writeFile_gentx:
  assumes "writeFile refused (gentxsDir args j @ [name]) (gentxsDir args j) c s = (Inr (), t)"
  shows "gentxAt args t = (gentxAt args s)((j, name) \<mapsto> c)"
  using assms
  by (auto simp: writeFile_def act_splits WriteFile_Inr gentxAt_def fun_eq_iff gentxsDir_def MkdirAll_def split: if_splits)

lemma initNode_gentx:
  assumes "writes_no_gentx N args" "initNode E pr N args chain j s = (Inr n, t)"
  shows "niGentx n = gentxsDir args j @ [gentxName n]"
    and "gentxAt args t = (gentxAt args s)((j, gentxName n) \<mapsto> niTx n)"
proof -
  from assms(2) obtain nodeID pubKey addr secret coins msg tx s1 s2 s3 s4 s5 s6 s7 where run:
    "MkdirAll (Refused N) (nodeDir args j @ [''config'']) s = (Inr (), s1)"
    "InitializeNodeValidatorFiles N (nodeDir args j) s1 = (Inr (nodeID, pubKey), s2)"
    "NewKeyring N (keyringBackend args) (nodeDir args j) s2 = (Inr (), s3)"
    "GenerateSaveCoinKey N (nodeDir args j) (nodeDirName args j) s3 = (Inr (addr, secret), s4)"
    "writeFile (Refused N) (nodeDir args j @ [''key_seed.json'']) (nodeDir args j)
       (''{'' @ jsonString ''secret'' @ '':'' @ jsonString secret @ ''}'') s4 = (Inr (), s5)"
    "SignTx N chain (nodeMemo args nodeID j) (nodeDirName args j) msg s5 = (Inr tx, s6)"
    "writeFile (Refused N) (gentxsDir args j @ [''gentx-'' @ nodeID @ ''.json'']) (gentxsDir args j) (niTx n) s6 = (Inr (), s7)"
    "WriteConfigFile N (nodeDir args j @ [''config'', ''app.toml''])
        (AppToml N (appMinGasPrices args) (startingIPAddress args @ '':'' @ fmtInt (grpcPort j))
          (''tcp://localhost:'' @ fmtInt (apiPort j))) s7 = (Inr (), t)"
    and n: "niNodeID n = nodeID" "niGentx n = gentxsDir args j @ [''gentx-'' @ nodeID @ ''.json'']"
    unfolding initNode_def Let_def case_prod_unfold
    by (auto simp: act_splits cleaning_Inr_iff)
  show "niGentx n = gentxsDir args j @ [gentxName n]" by (simp add: n gentxName_def)
  note ext = writes_no_gentxD [OF assms(1)] and D = keepsD [where f = "gentxAt args"]
  have "gentxAt args s6 = gentxAt args s"
    using D [OF keeps_MkdirAll run(1)] D [OF ext(1) run(2)] D [OF ext(2) run(3)] D [OF ext(3) run(4)]
      D [OF keeps_seed run(5)] D [OF ext(4) run(6)] by simp
  with writeFile_gentx [OF run(7)] D [OF keeps_WriteConfigFile run(8)]
  show "gentxAt args t = (gentxAt args s)((j, gentxName n) \<mapsto> niTx n)" by (simp add: n gentxName_def)
qed


lemma collectA_Inr_Cons:
  "collectA (x # xs) f s = (Inr ys, t) \<longleftrightarrow>
     (\<exists>y s' zs. f x s = (Inr y, s') \<and> collectA xs f s' = (Inr zs, t) \<and> ys = y # zs)"
  by (auto simp: act_splits)

lemma initNodes_other:
  assumes "writes_no_gentx N args" "collectA js (initNode E pr N args chain) s = (Inr nodes, t)" "j \<notin> set js"
  shows "gentxAt args t (j, name) = gentxAt args s (j, name)"
  using assms(2,3)
proof (induction js arbitrary: s nodes)
  case (Cons i js)
  then obtain n s' ns where n: "initNode E pr N args chain i s = (Inr n, s')"
    and ns: "collectA js (initNode E pr N args chain) s' = (Inr ns, t)"
    by (auto simp only: collectA_Inr_Cons)
  with Cons.IH [OF ns] initNode_gentx(2) [OF assms(1) n] Cons.prems(2) show ?case by simp
qed (simp add: act_splits)

lemma initNodes_gentx:
  assumes "writes_no_gentx N args" "collectA js (initNode E pr N args chain) s = (Inr nodes, t)" "distinct js"
  shows "list_all2 (\<lambda>j n. niGentx n = gentxsDir args j @ [gentxName n] \<and> gentxAt args t (j, gentxName n) = Some (niTx n)) js nodes"
  using assms(2,3)
proof (induction js arbitrary: s nodes)
  case (Cons i js)
  then obtain n s' ns where n: "initNode E pr N args chain i s = (Inr n, s')"
    and ns: "collectA js (initNode E pr N args chain) s' = (Inr ns, t)" "nodes = n # ns"
    by (auto simp only: collectA_Inr_Cons)
  from initNodes_other [OF assms(1) ns(1), of i "gentxName n"] Cons.prems(2) initNode_gentx [OF assms(1) n]
  show ?case using Cons.IH [OF ns(1)] Cons.prems(2) by (simp add: ns(2))
qed (simp add: act_splits)

section \<open>Copying them\<close>

text \<open>
  A loop whose steps each establish something about their element, in states that only grow along a
  preorder, has established it for all of them at the end.
\<close>

lemma forA_establishes:
  assumes "\<And>x s t. x \<in> set xs \<Longrightarrow> I s \<Longrightarrow> f x s = (Inr (), t) \<Longrightarrow> I t \<and> P x t \<and> R s t"
    and R: "\<And>s. R s s" "\<And>s t u. R s t \<Longrightarrow> R t u \<Longrightarrow> R s u" "\<And>x s t. P x s \<Longrightarrow> R s t \<Longrightarrow> P x t"
    and "forA xs f s = (Inr (), t)" "I s"
  shows "I t \<and> (\<forall>x \<in> set xs. P x t) \<and> R s t"
  using assms(1,5,6)
proof (induction xs arbitrary: s)
  case (Cons x xs)
  from Cons.prems(2) obtain s' where s': "f x s = (Inr (), s')" "forA xs f s' = (Inr (), t)" by (auto simp: act_splits)
  from Cons.prems(1) [of x s s'] Cons.prems(3) s'(1) have step: "I s'" "P x s'" "R s s'" by auto
  have "I t \<and> (\<forall>x \<in> set xs. P x t) \<and> R s' t"
    by (rule Cons.IH [OF _ s'(2) step(1)]) (use Cons.prems(1) in auto)
  with step show ?case using R by auto
qed (auto simp: act_splits R(1))

definition holds_gentx :: "initArgs \<Rightarrow> nodeInit list \<Rightarrow> nat \<times> nat \<Rightarrow> file_system \<Rightarrow> bool" where
  "holds_gentx args nodes ij fs \<longleftrightarrow> gentxAt args fs (fst ij, gentxName (nodes ! snd ij)) = Some (niTx (nodes ! snd ij))"

definition own_gentx :: "initArgs \<Rightarrow> nodeInit list \<Rightarrow> file_system \<Rightarrow> bool" where
  "own_gentx args nodes fs \<longleftrightarrow> (\<forall>j < length nodes. holds_gentx args nodes (j, j) fs)"

text \<open>One file is copied, or skipped because it is the node's own.\<close>

lemma copy_one:
  assumes "distinct (map niNodeID nodes)" "\<forall>j < length nodes. niGentx (nodes ! j) = gentxsDir args j @ [gentxName (nodes ! j)]"
    and "j < length nodes" "own_gentx args nodes s"
    and "copyGentx N args i (niGentx (nodes ! j)) s = (Inr (), t)"
  shows "own_gentx args nodes t \<and> holds_gentx args nodes (i, j) t \<and>
    (\<forall>k l. l < length nodes \<longrightarrow> holds_gentx args nodes (k, l) s \<longrightarrow> holds_gentx args nodes (k, l) t)"
proof (cases "i = j")
  case True
  have "isSubDir (niGentx (nodes ! j)) (gentxsDir args i)"
    using assms(2,3) by (simp add: True isSubDir_own gentxName_def HasPrefix_def)
  with assms(3-5) show ?thesis by (auto simp: copyGentx_def act_splits own_gentx_def True)
next
  case False
  let ?file = "niGentx (nodes ! j)"
  have f: "?file = gentxsDir args j @ [gentxName (nodes ! j)]" using assms(2,3) by simp
  have "\<not> prefix (gentxsDir args i) ?file" using False by (auto simp: f gentxsDir_def prefix_def)
  then have "\<not> isSubDir ?file (gentxsDir args i)" by (rule isSubDir_other)
  with assms(5) obtain m where c: "copyFile (Refused N) ?file (gentxsDir args i) s = (Inr m, t)" by (auto simp: copyGentx_def act_splits)
  have "gentxsDir args i @ [last ?file] \<noteq> ?file" using False by (simp add: f gentxsDir_def)
  from copyFile_Inr [OF c this] obtain x where x: "fsFiles s ?file = Some x"
    "t = s\<lparr>fsFiles := (fsFiles s)(gentxsDir args i @ [last ?file] \<mapsto> x)\<rparr>" by blast
  have own: "x = niTx (nodes ! j)" using assms(3,4) x(1) by (simp add: own_gentx_def holds_gentx_def gentxAt_def f)
  have t: "gentxAt args t = (gentxAt args s)((i, gentxName (nodes ! j)) \<mapsto> niTx (nodes ! j))"
    by (auto simp: x(2) gentxAt_def fun_eq_iff f gentxsDir_def own)
  have name: "gentxName (nodes ! l) = gentxName (nodes ! j) \<longleftrightarrow> l = j" if "l < length nodes" for l
    using assms(1,3) that by (auto simp: gentxName_def distinct_conv_nth)
  have "holds_gentx args nodes (k, l) t" if "l < length nodes" "holds_gentx args nodes (k, l) s" for k l
    using that name [OF that(1)] by (auto simp: holds_gentx_def t)
  moreover have "holds_gentx args nodes (i, j) t" by (simp add: holds_gentx_def t)
  ultimately show ?thesis using assms(4) by (auto simp: own_gentx_def)
qed

text \<open>Nothing that was copied is lost.\<close>

definition more_gentx :: "initArgs \<Rightarrow> nodeInit list \<Rightarrow> file_system \<Rightarrow> file_system \<Rightarrow> bool" where
  "more_gentx args nodes s t \<longleftrightarrow>
     (\<forall>k l. l < length nodes \<longrightarrow> holds_gentx args nodes (k, l) s \<longrightarrow> holds_gentx args nodes (k, l) t)"

lemma more_gentx_pre: "more_gentx args nodes s s"
  "more_gentx args nodes s t \<Longrightarrow> more_gentx args nodes t u \<Longrightarrow> more_gentx args nodes s u"
  by (simp_all add: more_gentx_def)

lemma copy_to_one:
  assumes "distinct (map niNodeID nodes)" "\<forall>j < length nodes. niGentx (nodes ! j) = gentxsDir args j @ [gentxName (nodes ! j)]"
    and "own_gentx args nodes s" "forA (map niGentx nodes) (copyGentx N args i) s = (Inr (), t)"
  shows "own_gentx args nodes t \<and> (\<forall>j < length nodes. holds_gentx args nodes (i, j) t) \<and> more_gentx args nodes s t"
proof -
  have nodes: "map niGentx nodes = map (\<lambda>j. niGentx (nodes ! j)) [0..<length nodes]" by (rule nth_equalityI) simp_all
  have forA_map: "forA (map g xs) f = forA xs (\<lambda>x. f (g x))" for g :: "nat \<Rightarrow> path" and xs and f :: "path \<Rightarrow> (file_system, unit) act"
    by (induction xs) simp_all
  let ?P = "\<lambda>j fs. j < length nodes \<and> holds_gentx args nodes (i, j) fs"
  have "own_gentx args nodes t \<and> (\<forall>j \<in> set [0..<length nodes]. ?P j t) \<and> more_gentx args nodes s t"
  proof (rule forA_establishes [where I = "own_gentx args nodes" and R = "more_gentx args nodes" and P = ?P])
    fix j u v
    assume j: "j \<in> set [0..<length nodes]" "own_gentx args nodes u" "copyGentx N args i (niGentx (nodes ! j)) u = (Inr (), v)"
    then have "j < length nodes" by simp
    from copy_one [OF assms(1,2) this j(2,3)] this
    show "own_gentx args nodes v \<and> ?P j v \<and> more_gentx args nodes u v" by (simp add: more_gentx_def)
  next
    show "forA [0..<length nodes] (\<lambda>j. copyGentx N args i (niGentx (nodes ! j))) s = (Inr (), t)"
      using assms(4) by (simp only: nodes forA_map)
  next
    show "?P j v" if "?P j u" "more_gentx args nodes u v" for j u v using that by (simp add: more_gentx_def)
  qed (fact more_gentx_pre assms(3))+
  then show ?thesis by simp
qed

lemma copyGentxs_holds:
  assumes "distinct (map niNodeID nodes)" "\<forall>j < length nodes. niGentx (nodes ! j) = gentxsDir args j @ [gentxName (nodes ! j)]"
    and "own_gentx args nodes s" "copyGentxs N args nodes s = (Inr (), t)" "i < numValidators args" "j < length nodes"
  shows "holds_gentx args nodes (i, j) t"
proof -
  let ?P = "\<lambda>i fs. \<forall>j < length nodes. holds_gentx args nodes (i, j) fs"
  have "own_gentx args nodes t \<and> (\<forall>i \<in> set [0..<numValidators args]. ?P i t) \<and> more_gentx args nodes s t"
  proof (rule forA_establishes [where I = "own_gentx args nodes" and R = "more_gentx args nodes" and P = ?P])
    fix i u v
    assume "own_gentx args nodes u" "forA (map niGentx nodes) (copyGentx N args i) u = (Inr (), v)"
    from copy_to_one [OF assms(1,2) this]
    show "own_gentx args nodes v \<and> ?P i v \<and> more_gentx args nodes u v" by blast
  next
    show "?P i v" if "?P i u" "more_gentx args nodes u v" for i u v using that by (simp add: more_gentx_def)
  qed (fact more_gentx_pre assms(3) assms(4) [unfolded copyGentxs_def])+
  with assms(5,6) show ?thesis by simp
qed

lemma keeps_initGenFiles: "keeps (gentxAt args) (initGenFiles N args chain nodes)"
  unfolding initGenFiles_def Let_def by (intro keeps_intros keeps_WriteFile allI not_gentx)

lemma keeps_collectFrom:
  "writes_no_gentx N args \<Longrightarrow> keeps (gentxAt args) (collectFrom E pr N args chain peers state ns)"
  by (induction E pr N args chain peers state ns rule: collectFrom.induct)
    (auto simp: Let_def genesisFile_def intro!: keeps_intros dest: writes_no_gentxD)


text \<open>Libraries that succeed and write nothing; a node is known by its directory.\<close>

definition quietNode :: node_env where
  "quietNode = \<lparr>Refused = (\<lambda>p. False), RandomInt = (\<lambda>i. i), InitializeNodeValidatorFiles = (\<lambda>p. return (last p, ''key'')),
     NewKeyring = (\<lambda>k p. return ()), NewSigningAlgoFromString = (\<lambda>a. Inr ()),
     GenerateSaveCoinKey = (\<lambda>p n. return (n, ''seed'')), NewMsgCreateValidator = (\<lambda>a k c n. Inr (''create '' @ n)),
     SetMsgs = (\<lambda>m. Inr ()), SignTx = (\<lambda>c m k b. return b), TxJSONEncoder = (\<lambda>b. Inr b), AppToml = (\<lambda>m g a. m),
     PackAccounts = (\<lambda>as. Inr []), SanitizeGenesisBalances = (\<lambda>b. b), CoinsAdd = (\<lambda>a b. a @ b),
     AppGenesisJSON = (\<lambda>a b c. Inr ''state''), GenesisDocJSON = (\<lambda>c s. s), AppGenesisFromJSON = (\<lambda>b. Inr b),
     GenAppStateFromConfig = (\<lambda>p c i k g. return g), ConfigToml = (\<lambda>s p. p), ExportGenesisFileWithTime = (\<lambda>p c a. return ())\<rparr>"

definition twoNodes :: initArgs where
  "twoNodes = \<lparr>algo = ''secp256k1'', chainID = ''local'', keyringBackend = ''test'', minGasPrices = ''1ucsv'',
     outputDir = [''testnets''], nodeDirPrefix = ''node'', numValidators = 2, startingIPAddress = ''localhost'',
     validatorsStakesAmount = Map.empty, nodePorts = parsePorts 2 []\<rparr>"

definition emptyDisk :: file_system where
  "emptyDisk = \<lparr>fsDirs = {}, fsFiles = Map.empty\<rparr>"

lemma small_numbers: "fmtInt 0 = ''0''" "fmtInt 1 = ''1''" "[0..<2] = [0, 1]"
  by (simp_all add: fmtInt_def fmtNat.simps digitChar_def upt_rec)

lemma two_nodes_coins:
  "NewCoin ref_sdk ''testtoken'' 1000000000 = Some \<lparr>Denom = ''testtoken'', Amount = 1000000000\<rparr>"
  "NewCoin ref_sdk ''ucsv'' 500000000 = Some \<lparr>Denom = ''ucsv'', Amount = 500000000\<rparr>"
  "NewCoin ref_sdk ''ucsv'' 100000000 = Some \<lparr>Denom = ''ucsv'', Amount = 100000000\<rparr>"
  by code_simp+

lemmas run_defs = initTestnetFiles_def initNode_def writeFile_def WriteFile_def MkdirAll_def WriteConfigFile_def cleaning_def
  nodeDir_def nodeDirName_def gentxsDir_def genesisFile_def copyGentxs_def copyGentx_def copyFile_def ReadFile_def
  isSubDir_def Rel_def HasPrefix_def initGenFiles_def genesisSupply_def collectGenFiles_def nodeSettingsOf_def
  accountCoins_def validatorStake_def bnd_def andThen_def act_eval wrapA_def failWith_def catchA_def rwrap_def Let_def
  quietNode_def twoNodes_def emptyDisk_def

lemma two_nodes_run:
  "\<exists>t. initTestnetFiles ref_sdk 1000000 quietNode twoNodes emptyDisk = (Inr (), t)"
  by (simp add: run_defs small_numbers two_nodes_coins)


section \<open>A failed start\<close>

text \<open>
  When the keys of the first node cannot be written, the command fails with that error and has
  removed the output directory with everything in it, also what was there before.
\<close>

theorem failed_start_wipes_the_output_directory:
  assumes "0 < numValidators args" "\<not> Refused N (outputDir args)" "e \<noteq> Panic"
    and "MkdirAll (Refused N) (nodeDir args 0 @ [''config'']) s = (Inr (), u)"
    and "InitializeNodeValidatorFiles N (nodeDir args 0) u = (Inl e, v)"
  shows "\<exists>t. initTestnetFiles E pr N args s = (Inl e, t) \<and>
    (\<forall>p. prefix (outputDir args) p \<longrightarrow> fsFiles t p = None \<and> p \<notin> fsDirs t)"
proof -
  obtain js where js: "[0..<numValidators args] = 0 # js" using assms(1) by (auto simp: upt_rec)
  obtain t where t: "RemoveAll (Refused N) (outputDir args) v = (Inr (), t)" using assms(2) by (simp add: RemoveAll_def)
  have c: "cleaning N args (InitializeNodeValidatorFiles N (nodeDir args 0)) u = (Inl e, t)"
    using assms(3,5) t by (cases e) (simp_all add: cleaning_def catchA_def andThen_def bnd_def ignoreA_def act_eval)
  have "initNode E pr N args chain 0 s = (Inl e, t)" for chain
    using assms(4) c by (simp add: initNode_def Let_def andThen_def bnd_def cleaning_def catchA_def act_eval)
  then have "initTestnetFiles E pr N args s = (Inl e, t)"
    by (simp add: initTestnetFiles_def Let_def js bnd_def)
  with RemoveAll_Inr [OF assms(2) t] show ?thesis by blast
qed

definition usedDisk :: file_system where
  "usedDisk = \<lparr>fsDirs = {[], [''testnets'']}, fsFiles = [[''testnets'', ''notes.txt''] \<mapsto> ''keep'']\<rparr>"

theorem failed_start_wipes_the_output_directory_witness:
  "fsFiles usedDisk [''testnets'', ''notes.txt''] = Some ''keep'' \<and>
   (\<exists>t. initTestnetFiles ref_sdk 1000000 (quietNode\<lparr>InitializeNodeValidatorFiles := \<lambda>p. raise (LibErr ''no entropy'')\<rparr>)
      twoNodes usedDisk = (Inl (LibErr ''no entropy''), t) \<and> fsFiles t [''testnets'', ''notes.txt''] = None)"
proof -
  let ?N = "quietNode\<lparr>InitializeNodeValidatorFiles := \<lambda>p. raise (LibErr ''no entropy'')\<rparr>"
  have "\<exists>u. MkdirAll (Refused ?N) (nodeDir twoNodes 0 @ [''config'']) usedDisk = (Inr (), u)"
    by (simp add: MkdirAll_def quietNode_def usedDisk_def nodeDir_def twoNodes_def nodeDirName_def small_numbers)
  then obtain u where u: "MkdirAll (Refused ?N) (nodeDir twoNodes 0 @ [''config'']) usedDisk = (Inr (), u)" by blast
  have "0 < numValidators twoNodes" "\<not> Refused ?N (outputDir twoNodes)" "outputDir twoNodes = [''testnets'']"
    by (simp_all add: twoNodes_def quietNode_def)
  with failed_start_wipes_the_output_directory [OF this(1,2) _ u, of "LibErr ''no entropy''" u ref_sdk 1000000]
  show ?thesis by (auto simp: usedDisk_def act_eval)
qed

end
