(* ===== verification/Spec2Isabelle.thy ===== *)
theory Spec2Isabelle
  imports Treasury ParamModules OsmosisSchedule TokenPaging AppFees ChainSupply AppAccounts Testnet FeedCli AutoCli Simulation NetworkCorrect
begin

text \<open>
  The Cosvian chain: its modules and their correctness.

  \<^bold>\<open>The program.\<close> Cosvian is a Cosmos SDK application. Its own code is ten modules under \<open>x/\<close> and the
  ante handler in \<open>app/\<close>. The fees module prices a transaction in USD, converts the price to CSV with
  the oracle module's exchange rate, checks the offered fee, collects it and splits it. The token
  module creates, mints and burns tokens. Two modules feed the oracle: \<open>osmosisicq\<close> asks Osmosis for
  pool prices through the interchain query controller \<open>icqcontroller\<close>, and \<open>pricefeed\<close> talks to Band
  over IBC. The treasury holds locked rewards. \<open>conversionpool\<close>, \<open>registry\<close> and \<open>cosvian\<close> only have
  parameters.

  \<^bold>\<open>The model.\<close> A handler is a function from a state to a result and a state (\<open>act\<close> in \<open>Prelude\<close>): an
  error of Go is a \<open>go_error\<close> on the left, a panic the error \<open>Panic\<close>, which no \<open>if err != nil\<close>
  catches. The state after an error is the one the code leaves; that the SDK then discards it is not
  part of the model. All modules share the record \<open>chain\<close> of \<open>Chain\<close>, with the store of each module,
  the block's time and height, and the events. What is not in the repository is a parameter: the
  decimals, coins, addresses, bank, gas meter and channels of the SDK and ibc-go are the fields of
  \<open>sdk\<close> (\<open>Sdk\<close>), the packet codecs and capabilities those of \<open>ibc\<close> (\<open>Ibc\<close>), the library decorators those
  of \<open>ante_env\<close> (\<open>AppAnte\<close>). What the proofs use of them are named laws: \<open>dec_rounding\<close> and \<open>dec_text\<close>
  (results are the nearest decimals, text reads back), \<open>coin_laws\<close>, \<open>bank_laws\<close> (a transfer moves the
  coins and nothing else), \<open>channel_laws\<close>, \<open>wire_laws\<close>, \<open>feed_codec\<close>. \<open>RefSdk\<close> gives a computable
  instance, a ledger, proves the laws for it, and every witness evaluates on it.

  \<^bold>\<open>The theories\<close>, with the code they model.

  \<^item> \<open>Prelude\<close>: errors, the handler monad, Go strings, decimal text, 64-bit integers, events. \<open>KV\<close>: the
    ordered store and its prefix ranges. \<open>Json\<close>, \<open>Base64\<close>: the parts of the Go packages of these names
    the program calls.
  \<^item> \<open>FeesTypes\<close> (\<open>x/fees/types\<close>), \<open>OracleAdapter\<close> (\<open>oracle_adapter.go\<close>), \<open>FeeCalculator\<close>
    (\<open>fee_calculator.go\<close>), \<open>FeeDistribution\<close> (\<open>keeper.go\<close>), \<open>FeeAnte\<close> (\<open>ante_handler.go\<close>), \<open>ChargeFee\<close>
    (messages, queries, genesis), all of \<open>x/fees/keeper\<close>; \<open>FeesCorrect\<close> has the properties: what a
    distribution pays, what the check lets through, classification, guard rails, parameters.
  \<^item> \<open>Oracle\<close> (\<open>x/oracle\<close>): the price store and its messages.
  \<^item> \<open>TokenTypes\<close>, \<open>Token\<close>, \<open>TokenQuery\<close> (\<open>x/token\<close>); \<open>TokenCorrect\<close>: the store invariant over any sequence
    of messages, the books of mint and burn, the limits, the windows of a listing; \<open>TokenPaging\<close>: clients
    that page through a listing, as loops that may not end.
  \<^item> \<open>ModuleTypes\<close>, \<open>ParamModules\<close>, \<open>Treasury\<close> (\<open>x/treasury\<close>, \<open>x/conversionpool\<close>, \<open>x/registry\<close>,
    \<open>x/cosvian\<close>): parameters, and the locked rewards as a step relation.
  \<^item> \<open>Osmosis\<close> (\<open>x/osmosisicq/keeper\<close>): scheduler, decoding, guards; \<open>OsmosisCorrect\<close>: bounds on price
    moves and the invariant of the feed; \<open>OsmosisSchedule\<close>: the interval, and the clients
    that register queries.
  \<^item> \<open>IcqController\<close> (\<open>x/icqcontroller\<close>): channels, queries in flight, acknowledgements, the handshake;
    \<open>IcqCorrect\<close>: a query is answered at most once, and reaches its consumer.
  \<^item> \<open>PriceFeed\<close>, \<open>FeedModule\<close> (\<open>x/pricefeed\<close>), \<open>FeedCorrect\<close>: requests, responses and their prices.
  \<^item> \<open>FeedCli\<close> (\<open>x/pricefeed/client/cli\<close>): the commands that build the messages of the price feed.
  \<^item> \<open>AutoCli\<close> (\<open>x/*/module/autocli.go\<close>, the query fallback of \<open>root.go\<close>): the tables of the command line, and
    what the commands made from them send.
  \<^item> \<open>AppAnte\<close> (\<open>app/ante.go\<close>, \<open>app/wasm.go\<close>, and the composition in \<open>app/app.go\<close>): the signature check and
    the chain; \<open>AppFees\<close>: what a transaction that comes out of the fee handlers has paid.
  \<^item> \<open>Genesis\<close> (\<open>x/*/types/genesis.go\<close>, \<open>x/*/module/module.go\<close>, \<open>app/app_config.go\<close>): the default genesis,
    its validation, starting from a genesis and exporting one; what a restart keeps and what it loses.
  \<^item> \<open>Application\<close> (\<open>app/app.go\<close>, \<open>app/app_config.go\<close>, \<open>depinject.go\<close>): every entry point of the chain as
    one step function. \<open>AppFrames\<close>: which part of the state each entry point writes.
    \<open>ChainCorrect\<close>: an accepted genesis leads to a well-formed state, which every event keeps.
    \<open>ChainHistory\<close>: who changed the parameters, what moved the price, and how the chain stops.
    \<open>ChainSupply\<close>: the native supply.
  \<^item> \<open>ZeroHeight\<close> (\<open>app/export.go\<close>): the export for a genesis at height zero, what it writes, when it
    panics. \<open>AppAccounts\<close>: module accounts, blocked accounts, simulation accounts, the export command.
  \<^item> \<open>AppModules\<close> (\<open>x/*/module/module.go\<close>, \<open>depinject.go\<close>, \<open>app/app_config.go\<close>, \<open>app/ibc.go\<close>): the modules as
    records of their methods, how they are built, and a manager that runs them, which is shown equal to
    the functions of \<open>Genesis\<close> and \<open>Application\<close>; the IBC routes; a genesis without a section.
    \<open>Simulation\<close> (\<open>x/*/module/simulation.go\<close>, \<open>x/*/simulation\<close>): the simulated genesis and the operations.
  \<^item> \<open>Testnet\<close> (\<open>cmd/cosviand/cmd/testnet.go\<close>): the validator set of an in-place testnet.
  \<^item> \<open>MultiNode\<close>, \<open>NetworkFiles\<close> (\<open>testnet_multi_node.go\<close>): the settings of a network of local processes, and
    the files the command writes, over the file system of \<open>Files\<close>; \<open>NetworkCorrect\<close>: which files each
    node has in the end, and what a failure leaves.

  \<^bold>\<open>The chain as a whole.\<close> \<open>runEvent\<close> runs one event: a transaction through the ante handler, a message
  or IBC callback, the begin of a block, or a change another module makes to its own state. \<open>applyEvent\<close>
  undoes an event that fails. That is what the SDK does with a transaction; a block that fails stops
  the real chain, so in the model it leaves the state as it was, and \<open>a_handshake_halts_the_chain\<close> says
  that from then on no such block gets through. Whether the keepers can reach the IBC keeper is the
  field \<open>ibcKeeperFn\<close> of \<open>sdk\<close>: the application does not supply the function, and the properties of the
  query controller that need it say so.

  \<^bold>\<open>Interfaces.\<close> The locales state what one component relies on in another, and are interpreted on the
  code's own definitions: \<open>oracle_keeper\<close> and \<open>price_store\<close> (the oracle, as the fees module and the
  price feeds see it), \<open>governed_params\<close> (every \<open>UpdateParams\<close>) and its extension
  \<open>genesis_params\<close> (a genesis of parameters only), ten interpretations in all, \<open>query_client\<close>
  (what the scheduler expects of a client; the controller), \<open>kv_consumer\<close> (what the controller expects
  of the consumer of a value; \<open>OnKVResult\<close>).

  \<^bold>\<open>Bounds and fuel.\<close> Integers keep their width: \<open>u64\<close> wraps, \<open>int64\<close> of a \<open>u64\<close> is the signed reading,
  and the properties name the range where it matters. Decimals are integers in units of 10 to the
  minus 18, and an operation that overflows panics. The recursion of the classifier has the depth
  limit of the code. The JSON parser starts with fuel of one more than twice the length
  of its input; \<open>parseJson_fuel\<close> proves that more fuel never changes its result.

  \<^bold>\<open>Limits.\<close> The store does not fail; an item that was never set is \<open>None\<close>. Metadata of a token and
  a query in flight are kept as records, not as their JSON. \<open>ToLower\<close> and the folding of JSON keys
  are on ASCII, \<open>TrimSpace\<close> on ASCII blanks. The text of a JSON number as Go prints its float is the
  parameter \<open>floatText\<close>. \<open>jsonString\<close> is for valid UTF-8. A build tag is modelled by both variants
  (\<open>extractValueStub\<close>, \<open>extractValueAsync\<close>). Log output and the messages of errors beyond their first
  text are left out.

  The export at height zero and the in-place testnet run on records of the staking, distribution and
  slashing keepers (\<open>zero_keepers\<close>, \<open>testnet_keepers\<close>); an iteration with a callback is the list it visits.
  The network of local processes runs on a record of library calls over the file system (\<open>node_env\<close>):
  keys, signing, and the text of genesis and configuration files. A path is the list of its components,
  and an operation the system refuses changes nothing. \<open>app_module\<close> has the methods of a module that
  compute; a manager finds a module by name and skips one without a genesis document, as the SDK says.

  The SDK puts command arguments into messages: a positional argument is the text of the field the table
  names, the rest are flags; reading numbers and the signing account are \<open>autocli_env\<close>.

  \<^bold>\<open>Not modelled.\<close> The registration of codecs, services and gateways with the SDK (the rest of \<open>module.go\<close>),
  the construction of the SDK, IBC and wasm keepers (\<open>app.go\<close>, \<open>ibc.go\<close>, \<open>wasm.go\<close>: calls into libraries
  with the application's own fields), the assembly of library commands (\<open>root.go\<close>, \<open>commands.go\<close>,
  \<open>config.go\<close>), keys that no code uses (\<open>x/fees/types/keys.go\<close>), and generated protobuf code.
\<close>

end
